(* ===== verification/Prelude.thy ===== *)
theory Prelude
  imports Complex_Main "HOL-Library.Word" "HOL-Library.AList"
begin

text \<open>
  Shared vocabulary of the development: the machine-integer types of the Rust code, the
  action type every stateful function is written in (explicit state passing with an error
  result), the inversion rules that turn a successful run into facts about the states it
  went through, and the lemmas on key-value tables the component theories use.
\<close>

unbundle bit_operations_syntax

section \<open>Machine integers\<close>

type_synonym u8 = "8 word"
type_synonym u16 = "16 word"
type_synonym u32 = "32 word"
type_synonym u64 = "64 word"
type_synonym bytes = "8 word list"

section \<open>Collections of facts\<close>

named_theorems act_inv \<open>inversion of successful runs\<close>
named_theorems readonly_intros \<open>actions that leave the database alone\<close>

section \<open>Actions: state passing with an error result\<close>

text \<open>
  An action takes the state and returns either an error or a value, together with the new
  state. A Rust \<open>match r { Ok(x) => k, Err(e) => return .. }\<close> is \<open>bind\<close> over an action whose
  error was translated with \<open>map_err\<close>; \<open>attempt\<close> hands the whole result to the continuation,
  for the places where the code looks at \<open>is_ok()\<close> and goes on.
\<close>

type_synonym ('s, 'e, 'a) act = "'s \<Rightarrow> ('e + 'a) \<times> 's"

definition ret :: "'a \<Rightarrow> ('s, 'e, 'a) act" where
  "ret a = (\<lambda>s. (Inr a, s))"

definition throw :: "'e \<Rightarrow> ('s, 'e, 'a) act" where
  "throw e = (\<lambda>s. (Inl e, s))"

definition of_sum :: "'e + 'a \<Rightarrow> ('s, 'e, 'a) act" where
  "of_sum r = (\<lambda>s. (r, s))"

definition bind :: "('s, 'e, 'a) act \<Rightarrow> ('a \<Rightarrow> ('s, 'e, 'b) act) \<Rightarrow> ('s, 'e, 'b) act" where
  "bind m k = (\<lambda>s. case m s of (Inl e, s') \<Rightarrow> (Inl e, s') | (Inr a, s') \<Rightarrow> k a s')"

definition map_err :: "('e \<Rightarrow> 'f) \<Rightarrow> ('s, 'e, 'a) act \<Rightarrow> ('s, 'f, 'a) act" where
  "map_err f m = (\<lambda>s. case m s of (Inl e, s') \<Rightarrow> (Inl (f e), s') | (Inr a, s') \<Rightarrow> (Inr a, s'))"

definition attempt :: "('s, 'e, 'a) act \<Rightarrow> ('s, 'f, 'e + 'a) act" where
  "attempt m = (\<lambda>s. case m s of (r, s') \<Rightarrow> (Inr r, s'))"

lemma ret_inv [act_inv]: "(ret a s = (r, s')) = (r = Inr a \<and> s' = s)"
  by (auto simp: ret_def)

lemma throw_inv [act_inv]: "(throw e s = (r, s')) = (r = Inl e \<and> s' = s)"
  by (auto simp: throw_def)

lemma of_sum_inv [act_inv]: "(of_sum x s = (r, s')) = (r = x \<and> s' = s)"
  by (auto simp: of_sum_def)

lemma bind_Inr [act_inv]:
  "(bind m k s = (Inr b, s')) = (\<exists>a s1. m s = (Inr a, s1) \<and> k a s1 = (Inr b, s'))"
  by (auto simp: bind_def split: prod.splits sum.splits)

lemma bind_Inl [act_inv]:
  "(bind m k s = (Inl e, s')) =
     (m s = (Inl e, s') \<or> (\<exists>a s1. m s = (Inr a, s1) \<and> k a s1 = (Inl e, s')))"
  by (auto simp: bind_def split: prod.splits sum.splits)

lemma map_err_Inr [act_inv]: "(map_err f m s = (Inr a, s')) = (m s = (Inr a, s'))"
  by (auto simp: map_err_def split: prod.splits sum.splits)

lemma map_err_Inl [act_inv]:
  "(map_err f m s = (Inl e, s')) = (\<exists>e0. m s = (Inl e0, s') \<and> e = f e0)"
  by (auto simp: map_err_def split: prod.splits sum.splits)

lemma attempt_Inr [act_inv]: "(attempt m s = (Inr r, s')) = (m s = (r, s'))"
  by (auto simp: attempt_def split: prod.splits)

lemma attempt_Inl [act_inv]: "(attempt m s = (Inl e, s')) = False"
  by (auto simp: attempt_def split: prod.splits)

lemma bind_run: "m s = (Inr a, s1) \<Longrightarrow> bind m k s = k a s1"
  by (simp add: bind_def)

lemma bind_run_err: "m s = (Inl e, s1) \<Longrightarrow> bind m k s = (Inl e, s1)"
  by (simp add: bind_def)

section \<open>Key-value tables\<close>

text \<open>
  A SQL table with a primary key is the list of its rows, a key with the remaining columns;
  \<open>unique_keys\<close> is the primary-key constraint.
\<close>

abbreviation unique_keys :: "('k \<times> 'v) list \<Rightarrow> bool" where
  "unique_keys t \<equiv> distinct (map fst t)"

definition delete_where :: "('k \<Rightarrow> bool) \<Rightarrow> ('k \<times> 'v) list \<Rightarrow> ('k \<times> 'v) list" where
  "delete_where P t = filter (\<lambda>e. \<not> P (fst e)) t"

definition update_where :: "('k \<Rightarrow> bool) \<Rightarrow> ('v \<Rightarrow> 'v) \<Rightarrow> ('k \<times> 'v) list \<Rightarrow> ('k \<times> 'v) list" where
  "update_where P f t = map (\<lambda>(k, v). (k, if P k then f v else v)) t"

lemma map_of_delete_where [simp]:
  "map_of (delete_where P t) k = (if P k then None else map_of t k)"
  by (induction t) (auto simp: delete_where_def)

lemma set_delete_where [simp]: "set (delete_where P t) = {(k, v) \<in> set t. \<not> P k}"
  by (auto simp: delete_where_def)

lemma unique_keys_delete_where [simp]: "unique_keys t \<Longrightarrow> unique_keys (delete_where P t)"
  by (simp add: delete_where_def distinct_map_filter)

lemma delete_where_idem [simp]: "delete_where P (delete_where P t) = delete_where P t"
  by (auto simp: delete_where_def)

lemma map_of_update_where [simp]:
  "map_of (update_where P f t) k = (if P k then map_option f (map_of t k) else map_of t k)"
  by (induction t) (auto simp: update_where_def)

lemma fst_update_where [simp]: "map fst (update_where P f t) = map fst t"
  by (simp add: update_where_def comp_def case_prod_beta)

lemma fst_set_update_where [simp]: "fst ` set (update_where P f t) = fst ` set t"
  by (metis fst_update_where list.set_map)

lemma set_update_where:
  "set (update_where P f t) = (\<lambda>(k, v). (k, if P k then f v else v)) ` set t"
  by (simp add: update_where_def)

lemma update_where_id: "(\<And>k v. (k, v) \<in> set t \<Longrightarrow> P k \<Longrightarrow> f v = v) \<Longrightarrow> update_where P f t = t"
  unfolding update_where_def by (rule map_idI) auto

lemma in_set_iff_map_of: "unique_keys t \<Longrightarrow> ((k, v) \<in> set t) = (map_of t k = Some v)"
  by simp

lemma key_in_iff_map_of: "(k \<in> fst ` set t) = (map_of t k \<noteq> None)"
  by (simp add: map_of_eq_None_iff)

lemma unique_keys_snoc [simp]:
  "unique_keys (t @ [(k, v)]) = (unique_keys t \<and> map_of t k = None)"
  by (auto simp: map_of_eq_None_iff)

lemma map_of_snoc [simp]:
  "map_of (t @ [(k, v)]) = (\<lambda>x. case map_of t x of None \<Rightarrow> if x = k then Some v else None | Some w \<Rightarrow> Some w)"
  by (auto simp: fun_eq_iff map_add_def split: option.splits)

end
