(* ===== verification/Rust_Std.thy ===== *)
theory Rust_Std
  imports Prelude
begin

text \<open>
  The parts of Rust's standard library the program computes with: finite \<open>f64\<close> values as
  rationals with IEEE rounding to 53 significant bits, \<open>Duration\<close> and \<open>SystemTime\<close> counted in
  nanoseconds, their conversions to and from \<open>f64\<close> seconds with the panics the library
  documents, and the validity test behind \<open>OsStr::to_str\<close>.
\<close>

section \<open>f64\<close>

text \<open>
  Every \<open>f64\<close> of the modelled code is finite, so a value is the rational it denotes. The
  result of an operation is the exact result rounded to nearest, ties to even.
\<close>

type_synonym f64 = rat

fun floor_log2 :: "nat \<Rightarrow> nat" where
  "floor_log2 n = (if n < 2 then 0 else Suc (floor_log2 (n div 2)))"

declare floor_log2.simps [simp del]

definition pow2 :: "int \<Rightarrow> rat" where
  "pow2 e = (if 0 \<le> e then 2 ^ nat e else 1 / 2 ^ nat (- e))"

text \<open>The exponent \<open>e\<close> with \<open>2 ^ e \<le> x < 2 ^ (e + 1)\<close>, for positive \<open>x\<close>.\<close>

definition binade :: "rat \<Rightarrow> int" where
  "binade x = (case quotient_of x of (p, q) \<Rightarrow>
     let k = int (floor_log2 (nat p)) - int (floor_log2 (nat q))
     in if pow2 k \<le> x then k else k - 1)"

definition round_half_even :: "rat \<Rightarrow> int" where
  "round_half_even x =
     (let f = \<lfloor>x\<rfloor>; r = x - of_int f
      in if r < 1 / 2 then f else if 1 / 2 < r then f + 1 else if even f then f else f + 1)"

definition f64_round :: "rat \<Rightarrow> f64" where
  "f64_round x =
     (if x = 0 then 0
      else let u = pow2 (max (binade \<bar>x\<bar> - 52) (- 1074)) in of_int (round_half_even (x / u)) * u)"

definition f64_of_nat :: "nat \<Rightarrow> f64" where
  "f64_of_nat n = f64_round (of_nat n)"

definition f64_add :: "f64 \<Rightarrow> f64 \<Rightarrow> f64" where
  "f64_add a b = f64_round (a + b)"

definition f64_div :: "f64 \<Rightarrow> f64 \<Rightarrow> f64" where
  "f64_div a b = f64_round (a / b)"

text \<open>The saturating cast \<open>as u64\<close>: towards zero, clamped to the type's range.\<close>

definition f64_as_u64 :: "f64 \<Rightarrow> u64" where
  "f64_as_u64 x = word_of_int (max 0 (min (2 ^ 64 - 1) \<lfloor>x\<rfloor>))"

section \<open>Duration and SystemTime\<close>

type_synonym duration = nat
  \<comment> \<open>nanoseconds\<close>

type_synonym systime = int
  \<comment> \<open>nanoseconds since \<open>UNIX_EPOCH\<close>, negative before it\<close>

abbreviation nanos_per_sec :: nat where
  "nanos_per_sec \<equiv> 1000000000"

definition UNIX_EPOCH :: systime where
  "UNIX_EPOCH = 0"

definition as_secs_f64 :: "duration \<Rightarrow> f64" where
  "as_secs_f64 d =
     f64_add (f64_of_nat (d div nanos_per_sec))
             (f64_div (f64_of_nat (d mod nanos_per_sec)) (f64_of_nat nanos_per_sec))"

text \<open>\<open>SystemTime::duration_since\<close>: the error case (an earlier time) is \<open>None\<close>.\<close>

definition duration_since :: "systime \<Rightarrow> systime \<Rightarrow> duration option" where
  "duration_since t t0 = (if t0 \<le> t then Some (nat (t - t0)) else None)"

text \<open>\<open>Duration::from_secs_f64\<close> panics (\<open>None\<close>) on a negative value and from \<open>2 ^ 64\<close> seconds on.\<close>

definition from_secs_f64 :: "f64 \<Rightarrow> duration option" where
  "from_secs_f64 s =
     (if s < 0 then None
      else let n = nat (round_half_even (s * of_nat nanos_per_sec))
           in if n div nanos_per_sec < 2 ^ 64 then Some n else None)"

text \<open>\<open>SystemTime + Duration\<close> panics (\<open>None\<close>) when the signed 64-bit second count overflows.\<close>

definition systime_plus :: "systime \<Rightarrow> duration \<Rightarrow> systime option" where
  "systime_plus t d = (if (t + int d) div int nanos_per_sec < 2 ^ 63 then Some (t + int d) else None)"

section \<open>UTF-8\<close>

text \<open>
  A \<open>&str\<close> is its UTF-8 byte sequence, here a \<open>string\<close>; an \<open>OsStr\<close> is any byte sequence.
  \<open>utf8_valid\<close> is the well-formedness table of the Unicode standard that \<open>str::from_utf8\<close>
  checks, so \<open>to_str\<close> answers \<open>None\<close> exactly where Rust's does.
\<close>

definition code :: "char \<Rightarrow> nat" where
  "code c = of_char c"

definition cont :: "char \<Rightarrow> bool" where
  "cont c \<longleftrightarrow> 0x80 \<le> code c \<and> code c \<le> 0xBF"

definition lead2 :: "char \<Rightarrow> bool" where
  "lead2 c \<longleftrightarrow> 0xC2 \<le> code c \<and> code c \<le> 0xDF"

definition lead3 :: "char \<Rightarrow> char \<Rightarrow> bool" where
  "lead3 c d \<longleftrightarrow> cont d \<and> 0xE0 \<le> code c \<and> code c \<le> 0xEF \<and>
     (code c = 0xE0 \<longrightarrow> 0xA0 \<le> code d) \<and> (code c = 0xED \<longrightarrow> code d \<le> 0x9F)"

definition lead4 :: "char \<Rightarrow> char \<Rightarrow> bool" where
  "lead4 c d \<longleftrightarrow> cont d \<and> 0xF0 \<le> code c \<and> code c \<le> 0xF4 \<and>
     (code c = 0xF0 \<longrightarrow> 0x90 \<le> code d) \<and> (code c = 0xF4 \<longrightarrow> code d \<le> 0x8F)"

fun utf8_valid :: "string \<Rightarrow> bool" where
  "utf8_valid [] = True"
| "utf8_valid (c # cs) =
     (if code c < 0x80 then utf8_valid cs
      else case cs of
        [] \<Rightarrow> False
      | d # ds \<Rightarrow>
          if lead2 c \<and> cont d then utf8_valid ds
          else case ds of
            [] \<Rightarrow> False
          | e # es \<Rightarrow>
              if lead3 c d \<and> cont e then utf8_valid es
              else case es of
                [] \<Rightarrow> False
              | f # fs \<Rightarrow> lead4 c d \<and> cont e \<and> cont f \<and> utf8_valid fs)"

definition to_str :: "string \<Rightarrow> string option" where
  "to_str os = (if utf8_valid os then Some os else None)"

lemma to_str_Some [simp]: "(to_str os = Some s) = (utf8_valid os \<and> s = os)"
  by (auto simp: to_str_def)

lemma to_str_None [simp]: "(to_str os = None) = (\<not> utf8_valid os)"
  by (simp add: to_str_def)

section \<open>Facts about the conversions\<close>

lemma pow2_pos: "0 < pow2 e"
  by (simp add: pow2_def)

lemma round_half_even_mono0: "0 \<le> x \<Longrightarrow> 0 \<le> round_half_even x"
  by (auto simp: round_half_even_def Let_def)

lemma f64_round_nonneg: "0 \<le> x \<Longrightarrow> 0 \<le> f64_round x"
  using pow2_pos
  by (auto simp: f64_round_def Let_def round_half_even_mono0 less_imp_le intro!: mult_nonneg_nonneg)

lemma as_secs_f64_nonneg: "0 \<le> as_secs_f64 d"
  by (auto simp: as_secs_f64_def f64_add_def f64_div_def f64_of_nat_def
      intro!: f64_round_nonneg add_nonneg_nonneg divide_nonneg_nonneg)

end
