(* ===== verification/Sqlite.thy ===== *)
theory Sqlite
  imports Rust_Std
begin

text \<open>
  The container's tables (\<open>SCHEMA\<close> and \<open>XATTRS_SCHEMA\<close> of src/src/db.rs) and the connection
  the filesystem works on. The SQL text of a statement is code of the repository and is
  translated by the definitions that use it; the engine underneath is not, so whether a
  statement fails is a parameter: \<open>fault c i\<close> says what the \<open>i\<close>-th statement or clock
  reading of connection \<open>c\<close> answers, for every \<open>i\<close>. What is relied on is SQLite's documented
  atomicity: a statement that fails changes nothing, and a transaction that is not
  committed (or whose COMMIT fails) is rolled back as a whole.
\<close>

section \<open>Errors\<close>

datatype sql_error =
    DiskFull | ConstraintViolation | IntegerOverflow | NoSuchTable | DatabaseBusy
  | DatabaseCorrupt | NotADatabase | OtherError

datatype errno =
    EINVAL | EIO | ENOENT | EROFS | EFBIG | ENOSPC | EEXIST | EBUSY | ENOTEMPTY | EPERM
  | ENOTSUP | ERANGE | E2BIG | ENODATA

text \<open>How a FUSE call can end other than well: an error reply, or a panic, which aborts the daemon.\<close>

datatype stop = Errno errno | Panic

section \<open>Rows and tables\<close>

text \<open>
  SQLite's INTEGER is a signed 64-bit integer, here an \<open>int\<close>. Inode numbers are \<open>u64\<close> in
  the code and INTEGER in the tables; the two casts are inverse to each other, so a key is
  the \<open>u64\<close> itself.
\<close>

type_synonym i64 = int

abbreviation ROOT_INO :: u64 where "ROOT_INO \<equiv> 1"
abbreviation KIND_DIR :: i64 where "KIND_DIR \<equiv> 0"
abbreviation KIND_FILE :: i64 where "KIND_FILE \<equiv> 1"
abbreviation KIND_SYMLINK :: i64 where "KIND_SYMLINK \<equiv> 2"

definition BLOCK_SIZE :: nat where
  "BLOCK_SIZE = 128 * 1024"

record inode =
  i_kind :: i64
  i_mode :: i64
  i_uid :: i64
  i_gid :: i64
  i_size :: i64
  i_atime :: f64
  i_mtime :: f64
  i_ctime :: f64
  i_target :: "string option"

record db =
  t_meta :: "(string \<times> string) list"
  t_inodes :: "(u64 \<times> inode) list"
  t_dentries :: "((u64 \<times> string) \<times> u64) list"
  t_data :: "((u64 \<times> i64) \<times> bytes) list"
  t_xattrs :: "((u64 \<times> string) \<times> bytes) list option"
  xattrs_gc :: bool
  inode_seq :: nat

section \<open>The connection\<close>

record conn =
  cdb :: db
  tick :: nat
  fault :: "nat \<Rightarrow> sql_error option"
  clock :: "nat \<Rightarrow> systime"

type_synonym 'a sql = "(conn, sql_error, 'a) act"
type_synonym 'a io = "(conn, stop, 'a) act"

text \<open>One \<open>prepare_cached(..)\<close> followed by \<open>execute\<close> or \<open>query_row\<close>.\<close>

definition exec_sql :: "(db \<Rightarrow> sql_error + 'a \<times> db) \<Rightarrow> 'a sql" where
  "exec_sql f = (\<lambda>c. let c' = c\<lparr>tick := Suc (tick c)\<rparr> in
     case fault c (tick c) of
       Some e \<Rightarrow> (Inl e, c')
     | None \<Rightarrow> (case f (cdb c) of
                  Inl e \<Rightarrow> (Inl e, c')
                | Inr (a, d) \<Rightarrow> (Inr a, c'\<lparr>cdb := d\<rparr>)))"

definition query :: "(db \<Rightarrow> 'a) \<Rightarrow> 'a sql" where
  "query f = exec_sql (\<lambda>d. Inr (f d, d))"

definition execute :: "(db \<Rightarrow> db) \<Rightarrow> unit sql" where
  "execute f = exec_sql (\<lambda>d. Inr ((), f d))"

text \<open>\<open>db::now_secs\<close>: a clock before 1970 reads as 0.\<close>

definition secs_since_epoch :: "systime \<Rightarrow> f64" where
  "secs_since_epoch t =
     (case duration_since t UNIX_EPOCH of Some d \<Rightarrow> as_secs_f64 d | None \<Rightarrow> 0)"

definition now_secs :: "(conn, 'e, f64) act" where
  "now_secs = (\<lambda>c. (Inr (secs_since_epoch (clock c (tick c))), c\<lparr>tick := Suc (tick c)\<rparr>))"

text \<open>
  \<open>let tx = con.transaction()\<close>, a body, and the implicit rollback of every way out of it
  that did not pass through \<open>commit\<close>. A body ends in \<open>commit\<close>, whose own failure is
  translated by the handler.
\<close>

definition begin_tx :: "unit sql" where
  "begin_tx = execute (\<lambda>d. d)"

definition commit :: "unit sql" where
  "commit = execute (\<lambda>d. d)"

definition in_tx :: "'a io \<Rightarrow> 'a io" where
  "in_tx body = (\<lambda>c.
     case begin_tx c of
       (Inl _, c1) \<Rightarrow> (Inl (Errno EIO), c1)
     | (Inr _, c1) \<Rightarrow>
         (case body c1 of
            (Inl e, c2) \<Rightarrow> (Inl e, c2\<lparr>cdb := cdb c1\<rparr>)
          | (Inr a, c2) \<Rightarrow> (Inr a, c2)))"

text \<open>The ways the handlers answer a failed statement.\<close>

definition or_eio :: "'a sql \<Rightarrow> 'a io" where
  "or_eio m = map_err (\<lambda>_. Errno EIO) m"

definition fail :: "errno \<Rightarrow> 'a io" where
  "fail e = throw (Errno e)"

section \<open>Statements on the tables\<close>

abbreviation inode_at :: "db \<Rightarrow> u64 \<Rightarrow> inode option" where
  "inode_at d \<equiv> map_of (t_inodes d)"

abbreviation child_at :: "db \<Rightarrow> u64 \<Rightarrow> string \<Rightarrow> u64 option" where
  "child_at d p n \<equiv> map_of (t_dentries d) (p, n)"

definition name_count :: "db \<Rightarrow> u64 \<Rightarrow> nat" where
  "name_count d ino = length (filter (\<lambda>e. snd e = ino) (t_dentries d))"

definition has_entries :: "db \<Rightarrow> u64 \<Rightarrow> bool" where
  "has_entries d ino = list_ex (\<lambda>((p, n), i). p = ino) (t_dentries d)"

text \<open>
  \<open>INTEGER PRIMARY KEY AUTOINCREMENT\<close>: one more than the largest number the table has ever
  held, and "database or disk is full" once that is the largest INTEGER.
\<close>

definition rowid :: "u64 \<Rightarrow> nat" where
  "rowid ino = nat (sint ino)"

definition next_rowid :: "db \<Rightarrow> nat" where
  "next_rowid d = Suc (foldr (\<lambda>(k, r). max (rowid k)) (t_inodes d) (inode_seq d))"

definition insert_inode :: "inode \<Rightarrow> db \<Rightarrow> sql_error + u64 \<times> db" where
  "insert_inode r d =
     (let n = next_rowid d in
      if 2 ^ 63 \<le> n then Inl DiskFull
      else Inr (word_of_nat n, d\<lparr>t_inodes := t_inodes d @ [(word_of_nat n, r)], inode_seq := n\<rparr>))"

definition update_inode :: "u64 \<Rightarrow> (inode \<Rightarrow> inode) \<Rightarrow> db \<Rightarrow> db" where
  "update_inode ino f d = d\<lparr>t_inodes := update_where (\<lambda>k. k = ino) f (t_inodes d)\<rparr>"

definition insert_dentry :: "u64 \<Rightarrow> string \<Rightarrow> u64 \<Rightarrow> db \<Rightarrow> sql_error + unit \<times> db" where
  "insert_dentry p n ino d =
     (if child_at d p n \<noteq> None then Inl ConstraintViolation
      else Inr ((), d\<lparr>t_dentries := t_dentries d @ [((p, n), ino)]\<rparr>))"

definition delete_dentry :: "u64 \<Rightarrow> string \<Rightarrow> db \<Rightarrow> db" where
  "delete_dentry p n d = d\<lparr>t_dentries := delete_where (\<lambda>k. k = (p, n)) (t_dentries d)\<rparr>"

text \<open>
  \<open>UPDATE dentries SET parent, name WHERE parent, name\<close>: the primary key refuses a new key
  another row already has.
\<close>

definition move_dentry :: "u64 \<Rightarrow> string \<Rightarrow> u64 \<Rightarrow> string \<Rightarrow> db \<Rightarrow> sql_error + unit \<times> db" where
  "move_dentry p n p' n' d =
     (if child_at d p n \<noteq> None \<and> (p', n') \<noteq> (p, n) \<and> child_at d p' n' \<noteq> None
      then Inl ConstraintViolation
      else Inr ((), d\<lparr>t_dentries :=
        map (\<lambda>(k, i). (if k = (p, n) then (p', n') else k, i)) (t_dentries d)\<rparr>))"

definition block_at :: "db \<Rightarrow> u64 \<Rightarrow> i64 \<Rightarrow> bytes option" where
  "block_at d ino b = map_of (t_data d) (ino, b)"

definition upsert_block :: "u64 \<Rightarrow> i64 \<Rightarrow> bytes \<Rightarrow> db \<Rightarrow> db" where
  "upsert_block ino b x d = d\<lparr>t_data := AList.update (ino, b) x (t_data d)\<rparr>"

definition delete_blocks :: "(u64 \<Rightarrow> i64 \<Rightarrow> bool) \<Rightarrow> db \<Rightarrow> db" where
  "delete_blocks P d = d\<lparr>t_data := delete_where (\<lambda>(i, b). P i b) (t_data d)\<rparr>"

text \<open>Statements on \<open>xattrs\<close> fail to prepare when the table is not there.\<close>

definition on_xattrs ::
  "(((u64 \<times> string) \<times> bytes) list \<Rightarrow> 'a \<times> ((u64 \<times> string) \<times> bytes) list) \<Rightarrow> db \<Rightarrow> sql_error + 'a \<times> db" where
  "on_xattrs f d = (case t_xattrs d of
     None \<Rightarrow> Inl NoSuchTable
   | Some t \<Rightarrow> (case f t of (a, t') \<Rightarrow> Inr (a, d\<lparr>t_xattrs := Some t'\<rparr>)))"

text \<open>\<open>DELETE FROM inodes\<close>, with the \<open>xattrs_gc\<close> trigger when the container has it.\<close>

definition delete_inode_row :: "u64 \<Rightarrow> db \<Rightarrow> sql_error + unit \<times> db" where
  "delete_inode_row ino d =
     (let d' = d\<lparr>t_inodes := delete_where (\<lambda>k. k = ino) (t_inodes d)\<rparr>
      in if xattrs_gc d \<and> inode_at d ino \<noteq> None
         then on_xattrs (\<lambda>t. ((), delete_where (\<lambda>(i, n). i = ino) t)) d'
         else Inr ((), d'))"

text \<open>\<open>COALESCE(SUM(size), 0)\<close>: SQLite's integer SUM answers "integer overflow" past 64 bits.\<close>

definition sum_sizes :: "db \<Rightarrow> int" where
  "sum_sizes d = sum_list (map (\<lambda>(k, r). i_size r) (t_inodes d))"

definition select_sum :: "db \<Rightarrow> sql_error + i64 \<times> db" where
  "select_sum d =
     (if - (2 ^ 63) \<le> sum_sizes d \<and> sum_sizes d < 2 ^ 63 then Inr (sum_sizes d, d)
      else Inl IntegerOverflow)"

section \<open>Inversion and frame rules\<close>

lemma exec_sql_Inr:
  "(exec_sql f c = (Inr a, c')) =
     (fault c (tick c) = None \<and>
      (\<exists>d. f (cdb c) = Inr (a, d) \<and> c' = c\<lparr>tick := Suc (tick c), cdb := d\<rparr>))"
  by (auto simp: exec_sql_def Let_def split: option.splits sum.splits prod.splits)

lemma exec_sql_Inl:
  "(exec_sql f c = (Inl e, c')) =
     (c' = c\<lparr>tick := Suc (tick c)\<rparr> \<and>
      (fault c (tick c) = Some e \<or> (fault c (tick c) = None \<and> f (cdb c) = Inl e)))"
  by (auto simp: exec_sql_def Let_def split: option.splits sum.splits prod.splits)

lemma query_Inr [act_inv]:
  "(query f c = (Inr a, c')) =
     (fault c (tick c) = None \<and> a = f (cdb c) \<and> c' = c\<lparr>tick := Suc (tick c)\<rparr>)"
  by (auto simp: query_def exec_sql_Inr)

lemma execute_Inr [act_inv]:
  "(execute f c = (Inr a, c')) =
     (fault c (tick c) = None \<and> c' = c\<lparr>tick := Suc (tick c), cdb := f (cdb c)\<rparr>)"
  by (auto simp: execute_def exec_sql_Inr)

lemma commit_Inr [act_inv]:
  "(commit c = (Inr a, c')) = (fault c (tick c) = None \<and> c' = c\<lparr>tick := Suc (tick c)\<rparr>)"
  by (auto simp: commit_def execute_Inr)

lemma now_secs_inv [act_inv]:
  "(now_secs c = (r, c')) =
     (r = Inr (secs_since_epoch (clock c (tick c))) \<and> c' = c\<lparr>tick := Suc (tick c)\<rparr>)"
  by (auto simp: now_secs_def)

lemma or_eio_Inr [act_inv]: "(or_eio m c = (Inr a, c')) = (m c = (Inr a, c'))"
  by (simp add: or_eio_def map_err_Inr)

lemma fail_inv [act_inv]: "(fail e c = (r, c')) = (r = Inl (Errno e) \<and> c' = c)"
  by (simp add: fail_def throw_inv)

text \<open>Every way out of a transaction but the committed one leaves the tables as they were.\<close>

lemma in_tx_Inl: "in_tx body c = (Inl e, c') \<Longrightarrow> cdb c' = cdb c"
  by (auto simp: in_tx_def begin_tx_def execute_def exec_sql_def Let_def
      split: prod.splits sum.splits option.splits)

lemma in_tx_Inr:
  "in_tx body c = (Inr a, c') \<Longrightarrow> body (c\<lparr>tick := Suc (tick c)\<rparr>) = (Inr a, c')"
  by (auto simp: in_tx_def begin_tx_def execute_def exec_sql_def Let_def
      split: prod.splits sum.splits option.splits)

definition readonly :: "(conn, 'e, 'a) act \<Rightarrow> bool" where
  "readonly m \<longleftrightarrow> (\<forall>c. cdb (snd (m c)) = cdb c)"

lemma readonlyD: "readonly m \<Longrightarrow> m c = (r, c') \<Longrightarrow> cdb c' = cdb c"
  unfolding readonly_def by (metis snd_conv)

lemma readonly_ret [readonly_intros]: "readonly (ret a)"
  by (simp add: readonly_def ret_def)

lemma readonly_throw [readonly_intros]: "readonly (throw e)"
  by (simp add: readonly_def throw_def)

lemma readonly_fail [readonly_intros]: "readonly (fail e)"
  by (simp add: fail_def readonly_throw)

lemma readonly_of_sum [readonly_intros]: "readonly (of_sum r)"
  by (simp add: readonly_def of_sum_def)

lemma readonly_bind [readonly_intros]:
  "readonly m \<Longrightarrow> (\<And>a. readonly (k a)) \<Longrightarrow> readonly (bind m k)"
  by (auto simp: readonly_def bind_def split: prod.splits sum.splits)
     (metis snd_conv)+

lemma readonly_map_err [readonly_intros]: "readonly m \<Longrightarrow> readonly (map_err f m)"
  unfolding readonly_def map_err_def
  by (auto split: prod.splits sum.splits) (metis snd_conv)+

lemma readonly_or_eio [readonly_intros]: "readonly m \<Longrightarrow> readonly (or_eio m)"
  by (simp add: or_eio_def readonly_map_err)

lemma readonly_attempt [readonly_intros]: "readonly m \<Longrightarrow> readonly (attempt m)"
  unfolding readonly_def attempt_def by (auto split: prod.splits) (metis snd_conv)+

lemma readonly_query [readonly_intros]: "readonly (query f)"
  by (auto simp: readonly_def query_def exec_sql_def Let_def split: option.splits)

lemma readonly_now_secs [readonly_intros]: "readonly now_secs"
  by (simp add: readonly_def now_secs_def)

lemma readonly_exec_select: "(\<And>d a d'. f d = Inr (a, d') \<Longrightarrow> d' = d) \<Longrightarrow> readonly (exec_sql f)"
  by (auto simp: readonly_def exec_sql_def Let_def split: option.splits sum.splits)

section \<open>Without faults\<close>

text \<open>A connection on which no statement fails; the rules evaluate actions on it.\<close>

definition healthy :: "conn \<Rightarrow> bool" where
  "healthy c \<longleftrightarrow> (\<forall>i. fault c i = None)"

lemma exec_sql_healthy:
  "healthy c \<Longrightarrow> exec_sql f c =
     (case f (cdb c) of
        Inl e \<Rightarrow> (Inl e, c\<lparr>tick := Suc (tick c)\<rparr>)
      | Inr (a, d) \<Rightarrow> (Inr a, c\<lparr>tick := Suc (tick c), cdb := d\<rparr>))"
  by (auto simp: healthy_def exec_sql_def Let_def split: sum.splits)

lemma healthy_tick [simp]: "healthy (c\<lparr>tick := n\<rparr>) = healthy c"
  by (simp add: healthy_def)

lemma healthy_cdb [simp]: "healthy (c\<lparr>cdb := d\<rparr>) = healthy c"
  by (simp add: healthy_def)

end
