(* ===== verification/Block_Io.thy ===== *)
theory Block_Io
  imports Inode_Store
begin

text \<open>
  The two loops that move file content in and out of the \<open>data\<close> table: the \<open>while\<close> loops of
  \<open>read\<close> and \<open>write\<close> in src/src/fs.rs. A position never exceeds the end of the request, which
  the handlers keep below \<open>2 ^ 64\<close>, so inside the loops positions are \<open>nat\<close>.
\<close>

section \<open>Reading\<close>

definition read_chunk :: "bytes \<Rightarrow> nat \<Rightarrow> nat \<Rightarrow> bytes" where
  "read_chunk block block_off chunk_len =
     (if block_off < length block
      then let avail = min chunk_len (length block - block_off)
           in take avail (drop block_off block) @ replicate (chunk_len - avail) 0
      else replicate chunk_len 0)"

text \<open>A failed \<open>get_block\<close> is \<open>unwrap_or_default\<close>: an empty block.\<close>

function read_loop :: "u64 \<Rightarrow> nat \<Rightarrow> nat \<Rightarrow> bytes \<Rightarrow> bytes io" where
  "read_loop ino pos end_pos out =
     (if pos < end_pos
      then let block_off = pos mod BLOCK_SIZE;
               chunk_len = min (BLOCK_SIZE - block_off) (end_pos - pos)
           in bind (attempt (get_block ino (int (pos div BLOCK_SIZE)))) (\<lambda>r.
              let block = (case r of Inr b \<Rightarrow> b | Inl _ \<Rightarrow> [])
              in read_loop ino (pos + chunk_len) end_pos (out @ read_chunk block block_off chunk_len))
      else ret out)"
  by pat_completeness auto
termination
  by (relation "measure (\<lambda>(ino, pos, end_pos, out). end_pos - pos)") (auto simp: BLOCK_SIZE_def)

declare read_loop.simps [simp del]

section \<open>Writing\<close>

definition patch :: "bytes \<Rightarrow> nat \<Rightarrow> bytes \<Rightarrow> bytes" where
  "patch buf block_off chunk =
     (let need_len = block_off + length chunk;
          buf1 = (if length buf < need_len then buf @ replicate (need_len - length buf) 0 else buf)
      in take block_off buf1 @ chunk @ drop (block_off + length chunk) buf1)"

function write_loop :: "u64 \<Rightarrow> nat \<Rightarrow> bytes \<Rightarrow> unit io" where
  "write_loop ino pos remaining =
     (if remaining = [] then ret ()
      else let block_off = pos mod BLOCK_SIZE;
               block_no = int (pos div BLOCK_SIZE);
               n = min (BLOCK_SIZE - block_off) (length remaining);
               chunk = take n remaining
           in bind (or_eio (get_block ino block_no)) (\<lambda>buf.
              bind (or_errno (put_block ino block_no (patch buf block_off chunk))) (\<lambda>_.
              write_loop ino (pos + n) (drop n remaining))))"
  by pat_completeness auto
termination
  by (relation "measure (\<lambda>(ino, pos, remaining). length remaining)") (auto simp: BLOCK_SIZE_def)

declare write_loop.simps [simp del]

end
