(* ===== verification/Fuse_Ops.thy ===== *)
theory Fuse_Ops
  imports Block_Io "HOL-Library.Char_ord" "HOL-Library.List_Lexorder"
begin

text \<open>
  The FUSE callbacks of \<open>impl Filesystem for CofferFS\<close> (src/src/fs.rs), one definition each, in
  the order of the file. A callback takes the mounted filesystem and answers with a reply
  (a value, an errno or a panic) and the filesystem afterwards. Arguments the code ignores
  are left out; the TTL and generation that accompany an entry are constants.
\<close>

section \<open>The mounted filesystem\<close>

record coffer_fs =
  con :: conn
  max_size :: u64
  fs_uid :: u32
  fs_gid :: u32
  last_activity :: u64
  read_only :: bool
  has_xattrs :: bool

type_synonym 'a call = "(coffer_fs, stop, 'a) act"

abbreviation MAX_FILE_SIZE :: u64 where "MAX_FILE_SIZE \<equiv> 0x7FFFFFFFFFFFFFFF"
abbreviation XATTR_NAME_MAX :: nat where "XATTR_NAME_MAX \<equiv> 255"
abbreviation XATTR_SIZE_MAX :: nat where "XATTR_SIZE_MAX \<equiv> 65536"
abbreviation S_IFDIR :: u32 where "S_IFDIR \<equiv> 0x4000"
abbreviation S_IFREG :: u32 where "S_IFREG \<equiv> 0x8000"
abbreviation S_IFLNK :: u32 where "S_IFLNK \<equiv> 0xA000"

definition coffer_new :: "conn \<Rightarrow> u64 \<Rightarrow> u32 \<Rightarrow> u32 \<Rightarrow> bool \<Rightarrow> coffer_fs" where
  "coffer_new c msize uid gid ro =
     (let (r, c1) = exec_sql (\<lambda>d. Inr (t_xattrs d \<noteq> None, d)) c;
          now = secs_since_epoch (clock c1 (tick c1)) in
      \<lparr>con = c1\<lparr>tick := Suc (tick c1)\<rparr>, max_size = msize, fs_uid = uid, fs_gid = gid,
       last_activity = f64_as_u64 now, read_only = ro,
       has_xattrs = (case r of Inr b \<Rightarrow> b | Inl _ \<Rightarrow> False)\<rparr>)"

definition touch :: "coffer_fs \<Rightarrow> coffer_fs" where
  "touch self =
     self\<lparr>last_activity := f64_as_u64 (secs_since_epoch (clock (con self) (tick (con self)))),
          con := (con self)\<lparr>tick := Suc (tick (con self))\<rparr>\<rparr>"

text \<open>The body of a callback, run on the locked connection.\<close>

definition on_con :: "'a io \<Rightarrow> 'a call" where
  "on_con m = (\<lambda>self. case m (con self) of (r, c) \<Rightarrow> (r, self\<lparr>con := c\<rparr>))"

definition refuse :: "errno \<Rightarrow> 'a call" where
  "refuse e = throw (Errno e)"

text \<open>What every callback starts with, and what every writing callback does next.\<close>

definition touching :: "(coffer_fs \<Rightarrow> 'a call) \<Rightarrow> 'a call" where
  "touching k = (\<lambda>self. let self' = touch self in k self' self')"

definition writing :: "(coffer_fs \<Rightarrow> 'a call) \<Rightarrow> 'a call" where
  "writing k = touching (\<lambda>self. if read_only self then refuse EROFS else k self)"

definition with_str :: "string \<Rightarrow> (string \<Rightarrow> 'a call) \<Rightarrow> 'a call" where
  "with_str os k = (case to_str os of None \<Rightarrow> refuse EINVAL | Some s \<Rightarrow> k s)"

definition attr_of :: "errno \<Rightarrow> u64 \<Rightarrow> file_attr io" where
  "attr_of missing ino =
     bind (or_eio (row_by_ino ino)) (\<lambda>row.
     case row of Some r \<Rightarrow> of_sum (to_attr ino r) | None \<Rightarrow> fail missing)"

text \<open>\<open>if let Ok(used) = current_total_size(..) { if over { ENOSPC } }\<close>\<close>

definition ceiling_check :: "bool \<Rightarrow> (u64 \<Rightarrow> bool) \<Rightarrow> unit io" where
  "ceiling_check active over =
     (if active
      then bind (attempt current_total_size) (\<lambda>r.
           case r of Inr used \<Rightarrow> if over used then fail ENOSPC else ret ()
                   | Inl _ \<Rightarrow> ret ())
      else ret ())"

text \<open>The check that a name is free, as mkdir, create and link make it.\<close>

definition expect_absent :: "u64 \<Rightarrow> string \<Rightarrow> unit io" where
  "expect_absent parent name =
     bind (or_eio (child_ino parent name)) (\<lambda>found.
     case found of Some _ \<Rightarrow> fail EEXIST | None \<Rightarrow> ret ())"

section \<open>lookup, getattr\<close>

definition fs_lookup :: "u64 \<Rightarrow> string \<Rightarrow> file_attr call" where
  "fs_lookup parent os =
     touching (\<lambda>self. with_str os (\<lambda>name. on_con (
       bind (or_eio (child_ino parent name)) (\<lambda>found.
       case found of Some ino \<Rightarrow> attr_of EIO ino | None \<Rightarrow> fail ENOENT))))"

definition fs_getattr :: "u64 \<Rightarrow> file_attr call" where
  "fs_getattr ino = touching (\<lambda>self. on_con (attr_of ENOENT ino))"

section \<open>setattr\<close>

definition is_ok :: "'a sql \<Rightarrow> bool io" where
  "is_ok m = bind (attempt m) (\<lambda>r. ret (case r of Inr _ \<Rightarrow> True | Inl _ \<Rightarrow> False))"

definition setattr_mode :: "u64 \<Rightarrow> inode_row \<Rightarrow> f64 \<Rightarrow> u32 option \<Rightarrow> bool io" where
  "setattr_mode ino row now mode =
     (case mode of
        None \<Rightarrow> ret True
      | Some m \<Rightarrow>
          let kind_bits = r_mode row AND NOT PERM_BITS
          in is_ok (execute (update_inode ino (\<lambda>r.
               r\<lparr>i_mode := kind_bits OR (uint m AND PERM_BITS), i_ctime := now\<rparr>))))"

definition setattr_owner :: "u64 \<Rightarrow> inode_row \<Rightarrow> f64 \<Rightarrow> u32 option \<Rightarrow> u32 option \<Rightarrow> bool io" where
  "setattr_owner ino row now uid gid =
     (if uid \<noteq> None \<or> gid \<noteq> None
      then let new_uid = (case uid of Some u \<Rightarrow> u | None \<Rightarrow> r_uid row);
               new_gid = (case gid of Some g \<Rightarrow> g | None \<Rightarrow> r_gid row)
           in is_ok (execute (update_inode ino (\<lambda>r.
                r\<lparr>i_uid := uint new_uid, i_gid := uint new_gid, i_ctime := now\<rparr>)))
      else ret True)"

definition setattr_size :: "u64 \<Rightarrow> u64 \<Rightarrow> inode_row \<Rightarrow> u64 option \<Rightarrow> bool io" where
  "setattr_size msize ino row sz =
     (case sz of
        None \<Rightarrow> ret True
      | Some new_len \<Rightarrow>
          if MAX_FILE_SIZE < new_len then fail EFBIG
          else bind (ceiling_check (msize \<noteq> 0 \<and> r_size row < new_len)
                       (\<lambda>used. msize < used + (new_len - r_size row))) (\<lambda>_.
               is_ok (truncate_inode ino new_len)))"

definition setattr_times ::
  "u64 \<Rightarrow> inode_row \<Rightarrow> time_or_now option \<Rightarrow> time_or_now option \<Rightarrow> bool io" where
  "setattr_times ino row atime mtime =
     (if atime \<noteq> None \<or> mtime \<noteq> None
      then bind (time_or_now_to_secs atime) (\<lambda>a.
           bind (time_or_now_to_secs mtime) (\<lambda>m.
           let a' = (case a of Some x \<Rightarrow> x | None \<Rightarrow> r_atime row);
               m' = (case m of Some x \<Rightarrow> x | None \<Rightarrow> r_mtime row)
           in is_ok (execute (update_inode ino (\<lambda>r. r\<lparr>i_atime := a', i_mtime := m'\<rparr>)))))
      else ret True)"

definition setattr_kill ::
  "u32 \<Rightarrow> u64 \<Rightarrow> inode_row \<Rightarrow> u32 option \<Rightarrow> u32 option \<Rightarrow> u32 option \<Rightarrow> u64 option \<Rightarrow> bool io" where
  "setattr_kill req_uid ino row mode uid gid sz =
     (let truncating = sz \<noteq> None \<and> req_uid \<noteq> 0;
          chowning = (uid \<noteq> None \<or> gid \<noteq> None) \<and> r_kind row \<noteq> KIND_DIR
      in if mode = None \<and> (truncating \<or> chowning) then is_ok (kill_priv ino) else ret True)"

definition setattr_body ::
  "u64 \<Rightarrow> u32 \<Rightarrow> u64 \<Rightarrow> u32 option \<Rightarrow> u32 option \<Rightarrow> u32 option \<Rightarrow> u64 option \<Rightarrow>
   time_or_now option \<Rightarrow> time_or_now option \<Rightarrow> unit io" where
  "setattr_body msize req_uid ino mode uid gid sz atime mtime =
     bind (or_eio (row_by_ino ino)) (\<lambda>found. case found of None \<Rightarrow> fail ENOENT | Some row \<Rightarrow>
     bind now_secs (\<lambda>now.
     bind (setattr_mode ino row now mode) (\<lambda>ok1.
     bind (setattr_owner ino row now uid gid) (\<lambda>ok2.
     bind (setattr_size msize ino row sz) (\<lambda>ok3.
     bind (setattr_times ino row atime mtime) (\<lambda>ok4.
     bind (setattr_kill req_uid ino row mode uid gid sz) (\<lambda>ok5.
     if \<not> (ok1 \<and> ok2 \<and> ok3 \<and> ok4 \<and> ok5) then fail EIO else or_eio commit)))))))"

definition fs_setattr ::
  "u32 \<Rightarrow> u64 \<Rightarrow> u32 option \<Rightarrow> u32 option \<Rightarrow> u32 option \<Rightarrow> u64 option \<Rightarrow>
   time_or_now option \<Rightarrow> time_or_now option \<Rightarrow> file_attr call" where
  "fs_setattr req_uid ino mode uid gid sz atime mtime =
     writing (\<lambda>self. on_con (
       bind (in_tx (setattr_body (max_size self) req_uid ino mode uid gid sz atime mtime)) (\<lambda>_.
       attr_of EIO ino)))"

section \<open>readlink\<close>

definition bytes_of :: "string \<Rightarrow> bytes" where
  "bytes_of s = map of_char s"

definition fs_readlink :: "u64 \<Rightarrow> bytes call" where
  "fs_readlink ino = touching (\<lambda>self. on_con (
     bind (or_eio (row_by_ino ino)) (\<lambda>found.
     case found of
       Some row \<Rightarrow> ret (bytes_of (case r_target row of Some t \<Rightarrow> t | None \<Rightarrow> []))
     | None \<Rightarrow> fail ENOENT)))"

section \<open>mkdir, unlink, rmdir, symlink\<close>

definition mkdir_body :: "u32 \<Rightarrow> u32 \<Rightarrow> u64 \<Rightarrow> string \<Rightarrow> u32 \<Rightarrow> u64 io" where
  "mkdir_body uid gid parent name mode =
     bind (expect_absent parent name) (\<lambda>_.
     let file_mode = uint (S_IFDIR OR (mode AND 0xFFF)) in
     bind (or_eio (insert_child parent name KIND_DIR file_mode uid gid None)) (\<lambda>new_ino.
     bind (or_eio commit) (\<lambda>_. ret new_ino)))"

definition fs_mkdir :: "u64 \<Rightarrow> string \<Rightarrow> u32 \<Rightarrow> file_attr call" where
  "fs_mkdir parent os mode =
     writing (\<lambda>self. with_str os (\<lambda>name. on_con (
       bind (in_tx (mkdir_body (fs_uid self) (fs_gid self) parent name mode)) (attr_of EIO))))"

definition unlink_body :: "u64 \<Rightarrow> string \<Rightarrow> unit io" where
  "unlink_body parent name =
     bind (or_eio (child_ino parent name)) (\<lambda>found. case found of None \<Rightarrow> fail ENOENT | Some ino \<Rightarrow>
     bind now_secs (\<lambda>now.
     bind (or_eio (unlink_dentry parent name ino now)) (\<lambda>_.
     or_eio commit)))"

definition fs_unlink :: "u64 \<Rightarrow> string \<Rightarrow> unit call" where
  "fs_unlink parent os =
     writing (\<lambda>self. with_str os (\<lambda>name. on_con (in_tx (unlink_body parent name))))"

definition rmdir_body :: "u64 \<Rightarrow> string \<Rightarrow> unit io" where
  "rmdir_body parent name =
     bind (or_eio (child_ino parent name)) (\<lambda>found. case found of None \<Rightarrow> fail ENOENT | Some ino \<Rightarrow>
     if ino = ROOT_INO then fail EBUSY
     else bind (ensure_removable ino) (\<lambda>_.
          bind now_secs (\<lambda>now.
          bind (or_eio (unlink_dentry parent name ino now)) (\<lambda>_.
          or_eio commit))))"

definition fs_rmdir :: "u64 \<Rightarrow> string \<Rightarrow> unit call" where
  "fs_rmdir parent os =
     writing (\<lambda>self. with_str os (\<lambda>name. on_con (in_tx (rmdir_body parent name))))"

text \<open>symlink only looks for \<open>Ok(Some(_))\<close>: a failed lookup counts as "no such name".\<close>

definition symlink_body :: "u64 \<Rightarrow> u32 \<Rightarrow> u32 \<Rightarrow> u64 \<Rightarrow> string \<Rightarrow> string \<Rightarrow> u64 io" where
  "symlink_body msize uid gid parent name target =
     bind (attempt (child_ino parent name)) (\<lambda>r.
     if (case r of Inr (Some _) \<Rightarrow> True | _ \<Rightarrow> False) then fail EEXIST
     else
     bind (ceiling_check (msize \<noteq> 0) (\<lambda>used. msize < used + word_of_nat (length target))) (\<lambda>_.
     let mode = uint (S_IFLNK OR 0x1FF :: u32) in
     bind (or_eio (insert_child parent name KIND_SYMLINK mode uid gid (Some target))) (\<lambda>new_ino.
     bind (or_eio commit) (\<lambda>_. ret new_ino))))"

definition fs_symlink :: "u64 \<Rightarrow> string \<Rightarrow> string \<Rightarrow> file_attr call" where
  "fs_symlink parent os_name os_target =
     writing (\<lambda>self. with_str os_name (\<lambda>name. with_str os_target (\<lambda>target. on_con (
       bind (in_tx (symlink_body (max_size self) (fs_uid self) (fs_gid self) parent name target))
         (attr_of EIO)))))"

section \<open>rename\<close>

abbreviation RENAME_NOREPLACE :: u32 where "RENAME_NOREPLACE \<equiv> 1"
abbreviation RENAME_EXCHANGE :: u32 where "RENAME_EXCHANGE \<equiv> 2"
abbreviation RENAME_WHITEOUT :: u32 where "RENAME_WHITEOUT \<equiv> 4"

definition replace_target :: "u64 \<Rightarrow> u64 \<Rightarrow> string \<Rightarrow> u64 option \<Rightarrow> unit io" where
  "replace_target ino newparent newname target =
     (case target of
        None \<Rightarrow> ret ()
      | Some existing \<Rightarrow>
          if existing \<noteq> ino
          then bind (ensure_removable existing) (\<lambda>_.
               bind now_secs (\<lambda>now.
               or_eio (unlink_dentry newparent newname existing now)))
          else ret ())"

definition rename_body :: "u64 \<Rightarrow> string \<Rightarrow> u64 \<Rightarrow> string \<Rightarrow> u32 \<Rightarrow> unit io" where
  "rename_body parent name newparent newname flags =
     bind (or_eio (child_ino parent name)) (\<lambda>found. case found of None \<Rightarrow> fail ENOENT | Some ino \<Rightarrow>
     bind (or_eio (child_ino newparent newname)) (\<lambda>target.
     if flags AND (RENAME_EXCHANGE OR RENAME_WHITEOUT) \<noteq> 0 then fail EINVAL
     else if flags AND RENAME_NOREPLACE \<noteq> 0 \<and> target \<noteq> None then fail EEXIST
     else
     bind (replace_target ino newparent newname target) (\<lambda>_.
     bind now_secs (\<lambda>now.
     bind (or_eio (exec_sql (move_dentry parent name newparent newname))) (\<lambda>_.
     bind (or_eio (execute (\<lambda>d.
       d\<lparr>t_inodes := update_where (\<lambda>k. k = parent \<or> k = newparent) (set_mc now) (t_inodes d)\<rparr>))) (\<lambda>_.
     or_eio commit))))))"

definition fs_rename :: "u64 \<Rightarrow> string \<Rightarrow> u64 \<Rightarrow> string \<Rightarrow> u32 \<Rightarrow> unit call" where
  "fs_rename parent os newparent newos flags =
     writing (\<lambda>self. with_str os (\<lambda>name. with_str newos (\<lambda>newname. on_con (
       in_tx (rename_body parent name newparent newname flags)))))"

section \<open>open, create\<close>

text \<open>A file handle is the inode number. \<open>O_ACCMODE\<close> is 3, \<open>O_RDONLY\<close> is 0.\<close>

definition fs_open :: "u64 \<Rightarrow> u32 \<Rightarrow> u64 call" where
  "fs_open ino flags =
     touching (\<lambda>self. if read_only self \<and> flags AND 3 \<noteq> 0 then refuse EROFS else ret ino)"

definition create_body :: "u64 \<Rightarrow> u32 \<Rightarrow> u32 \<Rightarrow> u64 \<Rightarrow> string \<Rightarrow> u32 \<Rightarrow> u64 io" where
  "create_body msize uid gid parent name mode =
     bind (expect_absent parent name) (\<lambda>_.
     bind (ceiling_check (msize \<noteq> 0) (\<lambda>used. msize \<le> used)) (\<lambda>_.
     let file_mode = uint (S_IFREG OR (mode AND 0xFFF)) in
     bind (or_errno (insert_child parent name KIND_FILE file_mode uid gid None)) (\<lambda>new_ino.
     bind (or_errno commit) (\<lambda>_. ret new_ino))))"

definition fs_create :: "u64 \<Rightarrow> string \<Rightarrow> u32 \<Rightarrow> (file_attr \<times> u64) call" where
  "fs_create parent os mode =
     writing (\<lambda>self. with_str os (\<lambda>name. on_con (
       bind (in_tx (create_body (max_size self) (fs_uid self) (fs_gid self) parent name mode)) (\<lambda>new_ino.
       bind (attr_of EIO new_ino) (\<lambda>attr. ret (attr, new_ino))))))"

section \<open>read, write\<close>

definition fs_read :: "u64 \<Rightarrow> u64 \<Rightarrow> u32 \<Rightarrow> bytes call" where
  "fs_read fh offset sz =
     touching (\<lambda>self. on_con (
       bind (or_eio (row_by_ino fh)) (\<lambda>found. case found of None \<Rightarrow> fail ENOENT | Some row \<Rightarrow>
       let file_size = r_size row;
           end_pos = min (offset + ucast sz) file_size
       in if end_pos \<le> offset then ret []
          else read_loop fh (unat offset) (unat end_pos) [])))"

definition write_body :: "u64 \<Rightarrow> u64 \<Rightarrow> u64 \<Rightarrow> bytes \<Rightarrow> bool \<Rightarrow> unit io" where
  "write_body msize ino offset dat kill_flag =
     bind (or_eio (row_by_ino ino)) (\<lambda>found. case found of None \<Rightarrow> fail ENOENT | Some row \<Rightarrow>
     let old_size = r_size row;
         new_size_needed = offset + word_of_nat (length dat) in
     bind (ceiling_check (msize \<noteq> 0 \<and> old_size < new_size_needed)
             (\<lambda>used. msize < used + (new_size_needed - old_size))) (\<lambda>_.
     bind (write_loop ino (unat offset) dat) (\<lambda>_.
     let new_size = max old_size (offset + word_of_nat (length dat)) in
     bind now_secs (\<lambda>now.
     bind (or_errno (execute (update_inode ino (\<lambda>r.
       r\<lparr>i_size := sint new_size, i_mtime := now, i_ctime := now\<rparr>)))) (\<lambda>_.
     bind (if kill_flag then or_errno (kill_priv ino) else ret ()) (\<lambda>_.
     or_errno commit))))))"

definition fs_write :: "u64 \<Rightarrow> u64 \<Rightarrow> bytes \<Rightarrow> bool \<Rightarrow> u32 call" where
  "fs_write fh offset dat kill_flag =
     writing (\<lambda>self.
       if MAX_FILE_SIZE < offset \<or> unat (MAX_FILE_SIZE - offset) < length dat then refuse EFBIG
       else on_con (bind (in_tx (write_body (max_size self) fh offset dat kill_flag)) (\<lambda>_.
            ret (word_of_nat (length dat)))))"

section \<open>flush, fsync, release, opendir\<close>

definition fs_flush :: "unit call" where
  "fs_flush = touching (\<lambda>self. ret ())"

definition fs_fsync :: "unit call" where
  "fs_fsync = touching (\<lambda>self. ret ())"

definition fs_release :: "unit call" where
  "fs_release = touching (\<lambda>self. ret ())"

definition fs_opendir :: "u64 call" where
  "fs_opendir = touching (\<lambda>self. ret 0)"

section \<open>readdir\<close>

type_synonym dir_entry = "u64 \<times> file_type \<times> string"

definition parent_of :: "db \<Rightarrow> u64 \<Rightarrow> u64 option" where
  "parent_of d ino =
     (case filter (\<lambda>(k, i). i = ino) (t_dentries d) of ((p, n), i) # _ \<Rightarrow> Some p | [] \<Rightarrow> None)"

text \<open>\<open>SELECT d.ino, d.name, i.kind .. JOIN .. WHERE d.parent=?1 ORDER BY d.name\<close>\<close>

definition select_entries :: "db \<Rightarrow> u64 \<Rightarrow> dir_entry list" where
  "select_entries d parent =
     sort_key (\<lambda>(i, k, n). n)
       (List.map_filter (\<lambda>((p, n), i).
          if p = parent then map_option (\<lambda>r. (i, file_type_of (i_kind r), n)) (inode_at d i) else None)
        (t_dentries d))"

text \<open>\<open>iter.flatten()\<close>: a row that cannot be fetched ends the iteration, silently.\<close>

fun fetch_rows :: "'r list \<Rightarrow> 'r list io" where
  "fetch_rows [] = ret []"
| "fetch_rows (r # rs) =
     bind (attempt (query (\<lambda>_. ()))) (\<lambda>x.
     case x of Inl _ \<Rightarrow> ret []
             | Inr _ \<Rightarrow> bind (fetch_rows rs) (\<lambda>ys. ret (r # ys)))"

text \<open>
  \<open>reply.add\<close> is fuser's: it takes the entry into the reply buffer and answers False, or
  leaves the buffer as it is and answers True when the entry does not fit.
\<close>

type_synonym 'b adder = "'b \<Rightarrow> u64 \<Rightarrow> u64 \<Rightarrow> file_type \<Rightarrow> string \<Rightarrow> bool \<times> 'b"

fun fill :: "'b adder \<Rightarrow> nat \<Rightarrow> dir_entry list \<Rightarrow> 'b \<Rightarrow> 'b" where
  "fill add i [] buf = buf"
| "fill add i ((cino, kind, name) # es) buf =
     (case add buf cino (word_of_nat (i + 1)) kind name of
        (True, buf') \<Rightarrow> buf'
      | (False, buf') \<Rightarrow> fill add (i + 1) es buf')"

definition readdir_entries :: "u64 \<Rightarrow> dir_entry list io" where
  "readdir_entries ino =
     bind (if ino = ROOT_INO then ret ROOT_INO
           else bind (attempt (query (\<lambda>d. parent_of d ino))) (\<lambda>r.
                case r of Inr (Some p) \<Rightarrow> ret p | _ \<Rightarrow> fail ENOENT)) (\<lambda>parent_ino.
     bind (or_eio (query (\<lambda>d. select_entries d ino))) (\<lambda>rows.
     bind (fetch_rows rows) (\<lambda>rows.
     ret ([(ino, Directory, ''.''), (parent_ino, Directory, ''..'')] @ rows))))"

definition fs_readdir :: "'b adder \<Rightarrow> u64 \<Rightarrow> u64 \<Rightarrow> 'b \<Rightarrow> 'b call" where
  "fs_readdir add ino offset buf =
     touching (\<lambda>self. on_con (
       bind (readdir_entries ino) (\<lambda>entries.
       ret (fill add (unat offset) (drop (unat offset) entries) buf))))"

section \<open>statfs\<close>

text \<open>\<open>statvfs\<close> is the answer of the host filesystem the container lies on, if it answers.\<close>

record statfs_reply =
  s_blocks :: u64
  s_bfree :: u64
  s_bavail :: u64
  s_files :: u64
  s_ffree :: u64
  s_bsize :: u32
  s_namelen :: u32
  s_frsize :: u32

definition saturating_sub :: "u64 \<Rightarrow> u64 \<Rightarrow> u64" where
  "saturating_sub a b = (if a < b then 0 else a - b)"

definition fs_statfs :: "(u64 \<times> u64 \<times> u64) option \<Rightarrow> statfs_reply call" where
  "fs_statfs statvfs =
     touching (\<lambda>self. on_con (
       bind (attempt current_total_size) (\<lambda>r.
       let used = (case r of Inr u \<Rightarrow> u | Inl _ \<Rightarrow> 0);
           (blocks, bfree, bavail) =
             (if 0 < max_size self
              then let total = max_size self div 4096;
                       free = saturating_sub (max_size self) used div 4096
                   in (total, free, free)
              else case statvfs of Some vfs \<Rightarrow> vfs | None \<Rightarrow> (0, 0, 0))
       in ret \<lparr>s_blocks = blocks, s_bfree = bfree, s_bavail = bavail, s_files = 0,
               s_ffree = 1000000, s_bsize = 4096, s_namelen = 255, s_frsize = 4096\<rparr>)))"

section \<open>link\<close>

definition link_body :: "u64 \<Rightarrow> u64 \<Rightarrow> string \<Rightarrow> file_attr io" where
  "link_body ino newparent newname =
     bind (or_eio (row_by_ino ino)) (\<lambda>found. case found of None \<Rightarrow> fail ENOENT | Some row \<Rightarrow>
     if r_kind row = KIND_DIR then fail EPERM
     else
     bind (expect_absent newparent newname) (\<lambda>_.
     bind now_secs (\<lambda>now.
     bind (or_eio (link_dentry newparent newname ino now)) (\<lambda>_.
     bind (or_eio (execute (update_inode ino (set_c now)))) (\<lambda>_.
     bind (attr_of EIO ino) (\<lambda>attr.
     bind (or_eio commit) (\<lambda>_. ret attr)))))))"

definition fs_link :: "u64 \<Rightarrow> u64 \<Rightarrow> string \<Rightarrow> file_attr call" where
  "fs_link ino newparent newos =
     writing (\<lambda>self. with_str newos (\<lambda>newname. on_con (in_tx (link_body ino newparent newname))))"

section \<open>Extended attributes\<close>

abbreviation XATTR_CREATE :: u32 where "XATTR_CREATE \<equiv> 1"
abbreviation XATTR_REPLACE :: u32 where "XATTR_REPLACE \<equiv> 2"

definition setxattr_body :: "u64 \<Rightarrow> string \<Rightarrow> bytes \<Rightarrow> u32 \<Rightarrow> unit io" where
  "setxattr_body ino name value flags =
     bind (or_eio (row_by_ino ino)) (\<lambda>found. case found of None \<Rightarrow> fail ENOENT | Some _ \<Rightarrow>
     bind (or_eio (exec_sql (on_xattrs (\<lambda>t. (map_of t (ino, name) \<noteq> None, t))))) (\<lambda>exists.
     if exists \<and> flags AND XATTR_CREATE \<noteq> 0 then fail EEXIST
     else if \<not> exists \<and> flags AND XATTR_REPLACE \<noteq> 0 then fail ENODATA
     else
     bind now_secs (\<lambda>now.
     bind (or_eio (exec_sql (on_xattrs (\<lambda>t. ((), AList.update (ino, name) value t))))) (\<lambda>_.
     bind (or_eio (execute (update_inode ino (set_c now)))) (\<lambda>_.
     or_eio commit)))))"

definition fs_setxattr :: "u64 \<Rightarrow> string \<Rightarrow> bytes \<Rightarrow> u32 \<Rightarrow> unit call" where
  "fs_setxattr ino os value flags =
     writing (\<lambda>self. if \<not> has_xattrs self then refuse ENOTSUP else with_str os (\<lambda>name.
       if name = [] \<or> XATTR_NAME_MAX < length name then refuse ERANGE
       else if XATTR_SIZE_MAX < length value then refuse E2BIG
       else on_con (in_tx (setxattr_body ino name value flags))))"

definition fs_getxattr :: "u64 \<Rightarrow> string \<Rightarrow> u32 \<Rightarrow> xattr_reply call" where
  "fs_getxattr ino os sz =
     touching (\<lambda>self. with_str os (\<lambda>name.
       if \<not> has_xattrs self then refuse ENODATA
       else on_con (
         bind (or_eio (exec_sql (on_xattrs (\<lambda>t. (map_of t (ino, name), t))))) (\<lambda>found.
         case found of Some v \<Rightarrow> of_sum (reply_xattr sz v) | None \<Rightarrow> fail ENODATA))))"

definition xattr_names :: "((u64 \<times> string) \<times> bytes) list \<Rightarrow> u64 \<Rightarrow> string list" where
  "xattr_names t ino = sort (map (\<lambda>((i, n), v). n) (filter (\<lambda>((i, n), v). i = ino) t))"

definition fs_listxattr :: "u64 \<Rightarrow> u32 \<Rightarrow> xattr_reply call" where
  "fs_listxattr ino sz =
     touching (\<lambda>self.
       if \<not> has_xattrs self then on_con (of_sum (reply_xattr sz []))
       else on_con (
         bind (or_eio (exec_sql (on_xattrs (\<lambda>t. (xattr_names t ino, t))))) (\<lambda>names.
         of_sum (reply_xattr sz (concat (map (\<lambda>n. bytes_of n @ [0]) names))))))"

definition removexattr_body :: "u64 \<Rightarrow> string \<Rightarrow> unit io" where
  "removexattr_body ino name =
     bind (or_eio (exec_sql (on_xattrs (\<lambda>t.
       (length (filter (\<lambda>(k, v). k = (ino, name)) t), delete_where (\<lambda>k. k = (ino, name)) t))))) (\<lambda>removed.
     if removed = 0 then fail ENODATA
     else
     bind now_secs (\<lambda>now.
     bind (or_eio (execute (update_inode ino (set_c now)))) (\<lambda>_.
     or_eio commit)))"

definition fs_removexattr :: "u64 \<Rightarrow> string \<Rightarrow> unit call" where
  "fs_removexattr ino os =
     writing (\<lambda>self. with_str os (\<lambda>name.
       if \<not> has_xattrs self then refuse ENODATA
       else on_con (in_tx (removexattr_body ino name))))"

section \<open>access\<close>

definition fs_access :: "unit call" where
  "fs_access = touching (\<lambda>self. ret ())"

end
