(* ===== verification/Block_Store.thy ===== *)
theory Block_Store
  imports Block_Io
begin

text \<open>
  The contract between the byte level (a file is a sequence of bytes) and the block level
  (the \<open>data\<close> table holds blocks of at most \<open>BLOCK_SIZE\<close> bytes, short or missing blocks
  standing for zeros). The locale \<open>block_store\<close> names what the byte level needs of a block
  table; its lemmas say what the write loop and the truncation do to single bytes. It is
  interpreted on the \<open>data\<close> table at the end.
\<close>

section \<open>POSIX byte sequences\<close>

definition pread :: "bytes \<Rightarrow> nat \<Rightarrow> nat \<Rightarrow> bytes" where
  "pread xs off n = take n (drop off xs)"

definition pwrite :: "bytes \<Rightarrow> nat \<Rightarrow> bytes \<Rightarrow> bytes" where
  "pwrite xs off ys =
     take off (xs @ replicate (off - length xs) 0) @ ys @ drop (off + length ys) xs"

definition resize :: "bytes \<Rightarrow> nat \<Rightarrow> bytes" where
  "resize xs n = take n xs @ replicate (n - length xs) 0"

section \<open>Operations over any block table\<close>

function write_blocks ::
  "('s \<Rightarrow> i64 \<Rightarrow> bytes) \<Rightarrow> (i64 \<Rightarrow> bytes \<Rightarrow> 's \<Rightarrow> 's) \<Rightarrow> nat \<Rightarrow> bytes \<Rightarrow> 's \<Rightarrow> 's" where
  "write_blocks get put pos remaining s =
     (if remaining = [] then s
      else let block_off = pos mod BLOCK_SIZE;
               block_no = int (pos div BLOCK_SIZE);
               n = min (BLOCK_SIZE - block_off) (length remaining)
           in write_blocks get put (pos + n) (drop n remaining)
                (put block_no (patch (get s block_no) block_off (take n remaining)) s))"
  by pat_completeness auto
termination
  by (relation "measure (\<lambda>(get, put, pos, remaining, s). length remaining)") (auto simp: BLOCK_SIZE_def)

declare write_blocks.simps [simp del]

definition truncate_blocks ::
  "('s \<Rightarrow> i64 \<Rightarrow> bytes) \<Rightarrow> (i64 \<Rightarrow> bytes \<Rightarrow> 's \<Rightarrow> 's) \<Rightarrow> ((i64 \<Rightarrow> bool) \<Rightarrow> 's \<Rightarrow> 's) \<Rightarrow> nat \<Rightarrow> 's \<Rightarrow> 's" where
  "truncate_blocks get put clear n s =
     (let last_block = int (n div BLOCK_SIZE); last_off = n mod BLOCK_SIZE;
          s1 = clear (\<lambda>b. last_block < b) s
      in if 0 < last_off then put last_block (take last_off (get s1 last_block)) s1
         else clear (\<lambda>b. b = last_block) s1)"

definition byte_at :: "('s \<Rightarrow> i64 \<Rightarrow> bytes) \<Rightarrow> 's \<Rightarrow> nat \<Rightarrow> u8" where
  "byte_at get s pos =
     (let block = get s (int (pos div BLOCK_SIZE)); i = pos mod BLOCK_SIZE
      in if i < length block then block ! i else 0)"

definition file_bytes :: "('s \<Rightarrow> i64 \<Rightarrow> bytes) \<Rightarrow> 's \<Rightarrow> nat \<Rightarrow> bytes" where
  "file_bytes get s n = map (byte_at get s) [0..<n]"

definition zero_from :: "('s \<Rightarrow> i64 \<Rightarrow> bytes) \<Rightarrow> 's \<Rightarrow> nat \<Rightarrow> bool" where
  "zero_from get s n \<longleftrightarrow> (\<forall>p\<ge>n. byte_at get s p = 0)"

text \<open>Blocks are never longer than they may be and never reach beyond byte \<open>n\<close>.\<close>

definition fits :: "('s \<Rightarrow> i64 \<Rightarrow> bytes) \<Rightarrow> 's \<Rightarrow> nat \<Rightarrow> bool" where
  "fits get s n \<longleftrightarrow>
     (\<forall>b. get s b \<noteq> [] \<longrightarrow>
        0 \<le> b \<and> length (get s b) \<le> BLOCK_SIZE \<and> nat b * BLOCK_SIZE + length (get s b) \<le> n)"

section \<open>Chunks and patches\<close>

lemma BLOCK_SIZE_pos [simp]: "0 < BLOCK_SIZE"
  by (simp add: BLOCK_SIZE_def)

lemma mod_BLOCK_SIZE_less [simp]: "p mod BLOCK_SIZE < BLOCK_SIZE"
  by simp

lemma length_patch: "length (patch buf off chunk) = max (length buf) (off + length chunk)"
  by (auto simp: patch_def Let_def)

lemma nth_patch:
  "i < length (patch buf off chunk) \<Longrightarrow>
     patch buf off chunk ! i =
       (if off \<le> i \<and> i < off + length chunk then chunk ! (i - off)
        else if i < length buf then buf ! i else 0)"
  by (auto simp: length_patch) (auto simp: patch_def Let_def nth_append min_def split: if_splits)

lemma length_read_chunk [simp]: "length (read_chunk block off n) = n"
  by (auto simp: read_chunk_def Let_def)

lemma nth_read_chunk:
  "i < n \<Longrightarrow> read_chunk block off n ! i = (if off + i < length block then block ! (off + i) else 0)"
  by (auto simp: read_chunk_def Let_def nth_append)

text \<open>A position inside the chunk that starts at \<open>pos\<close> lies in the same block.\<close>

lemma div_mod_within:
  assumes "pos mod BLOCK_SIZE + k < BLOCK_SIZE"
  shows "(pos + k) div BLOCK_SIZE = pos div BLOCK_SIZE"
    and "(pos + k) mod BLOCK_SIZE = pos mod BLOCK_SIZE + k"
proof -
  from assms have k: "k < BLOCK_SIZE" by linarith
  show "(pos + k) div BLOCK_SIZE = pos div BLOCK_SIZE"
    using assms k by (simp add: div_add1_eq [of pos k])
  show "(pos + k) mod BLOCK_SIZE = pos mod BLOCK_SIZE + k"
    using assms by (metis mod_add_left_eq mod_less)
qed

lemma same_block:
  assumes "pos \<le> p" and "p < pos + min (BLOCK_SIZE - pos mod BLOCK_SIZE) n"
  shows "p div BLOCK_SIZE = pos div BLOCK_SIZE" and "p mod BLOCK_SIZE = pos mod BLOCK_SIZE + (p - pos)"
  using div_mod_within [of pos "p - pos"] assms by auto

text \<open>Two positions of one block differ as their offsets do.\<close>

lemma block_offsets:
  assumes "p div BLOCK_SIZE = pos div BLOCK_SIZE"
  shows "pos \<le> p \<longleftrightarrow> pos mod BLOCK_SIZE \<le> p mod BLOCK_SIZE"
    and "p < pos + n \<longleftrightarrow> p mod BLOCK_SIZE < pos mod BLOCK_SIZE + n"
    and "p mod BLOCK_SIZE - pos mod BLOCK_SIZE = p - pos"
proof -
  have p: "p = pos div BLOCK_SIZE * BLOCK_SIZE + p mod BLOCK_SIZE"
    using assms div_mult_mod_eq [of p BLOCK_SIZE] by metis
  have pos: "pos = pos div BLOCK_SIZE * BLOCK_SIZE + pos mod BLOCK_SIZE" by simp
  show "pos \<le> p \<longleftrightarrow> pos mod BLOCK_SIZE \<le> p mod BLOCK_SIZE" using p pos by linarith
  show "p < pos + n \<longleftrightarrow> p mod BLOCK_SIZE < pos mod BLOCK_SIZE + n" using p pos by linarith
  show "p mod BLOCK_SIZE - pos mod BLOCK_SIZE = p - pos" using p pos by linarith
qed

lemma read_chunk_bytes:
  assumes "n \<le> BLOCK_SIZE - pos mod BLOCK_SIZE"
  shows "read_chunk (get s (int (pos div BLOCK_SIZE))) (pos mod BLOCK_SIZE) n =
    map (byte_at get s) [pos..<pos + n]"
proof (rule nth_equalityI)
  fix i
  assume "i < length (read_chunk (get s (int (pos div BLOCK_SIZE))) (pos mod BLOCK_SIZE) n)"
  then have i: "i < n" by simp
  then have "pos + i < pos + min (BLOCK_SIZE - pos mod BLOCK_SIZE) n" using assms by simp
  from same_block [OF _ this] have
    "(pos + i) div BLOCK_SIZE = pos div BLOCK_SIZE" "(pos + i) mod BLOCK_SIZE = pos mod BLOCK_SIZE + i"
    by simp_all
  with i show "read_chunk (get s (int (pos div BLOCK_SIZE))) (pos mod BLOCK_SIZE) n ! i =
      map (byte_at get s) [pos..<pos + n] ! i"
    by (simp add: nth_read_chunk byte_at_def Let_def)
qed simp

section \<open>The contract and what follows from it\<close>

locale block_store =
  fixes get :: "'s \<Rightarrow> i64 \<Rightarrow> bytes"
    and put :: "i64 \<Rightarrow> bytes \<Rightarrow> 's \<Rightarrow> 's"
    and clear :: "(i64 \<Rightarrow> bool) \<Rightarrow> 's \<Rightarrow> 's"
  assumes get_put: "get (put b x s) b' = (if b' = b then x else get s b')"
    and get_clear: "get (clear P s) b = (if P b then [] else get s b)"
begin

lemma byte_at_put_patch:
  assumes "n = min (BLOCK_SIZE - pos mod BLOCK_SIZE) (length dat)"
  shows "byte_at get (put (int (pos div BLOCK_SIZE))
           (patch (get s (int (pos div BLOCK_SIZE))) (pos mod BLOCK_SIZE) (take n dat)) s) p =
    (if pos \<le> p \<and> p < pos + n then dat ! (p - pos) else byte_at get s p)"
proof (cases "p div BLOCK_SIZE = pos div BLOCK_SIZE")
  case False
  then have "\<not> (pos \<le> p \<and> p < pos + n)" using same_block(1) [of pos p "length dat"] assms by auto
  with False show ?thesis by (auto simp: byte_at_def get_put Let_def)
next
  case True
  have len: "length (take n dat) = n" using assms by simp
  from True show ?thesis
    unfolding block_offsets(1,2) [OF True]
    using len block_offsets(3) [OF True]
    by (auto simp: byte_at_def get_put Let_def nth_patch length_patch)
qed

lemma byte_at_write_blocks:
  "byte_at get (write_blocks get put pos dat s) p =
     (if pos \<le> p \<and> p < pos + length dat then dat ! (p - pos) else byte_at get s p)"
proof (induction "length dat" arbitrary: pos dat s rule: less_induct)
  case less
  show ?case
  proof (cases "dat = []")
    case True
    then show ?thesis by (auto simp: write_blocks.simps [of get put pos])
  next
    case False
    define n where "n = min (BLOCK_SIZE - pos mod BLOCK_SIZE) (length dat)"
    have n: "0 < n" "n \<le> length dat" using False by (auto simp: n_def)
    define s1 where "s1 = put (int (pos div BLOCK_SIZE))
      (patch (get s (int (pos div BLOCK_SIZE))) (pos mod BLOCK_SIZE) (take n dat)) s"
    have step: "write_blocks get put pos dat s = write_blocks get put (pos + n) (drop n dat) s1"
      using False by (subst write_blocks.simps) (simp add: Let_def n_def s1_def)
    have "byte_at get (write_blocks get put (pos + n) (drop n dat) s1) p =
        (if pos + n \<le> p \<and> p < pos + n + length (drop n dat) then drop n dat ! (p - (pos + n))
         else byte_at get s1 p)"
      using n by (intro less) auto
    moreover have "byte_at get s1 p =
        (if pos \<le> p \<and> p < pos + n then dat ! (p - pos) else byte_at get s p)"
      unfolding s1_def by (rule byte_at_put_patch) (rule n_def)
    ultimately show ?thesis
      unfolding step using n by auto
  qed
qed

lemma byte_at_truncate_blocks:
  "byte_at get (truncate_blocks get put clear n s) p = (if p < n then byte_at get s p else 0)"
proof -
  let ?q = "n div BLOCK_SIZE" and ?r = "n mod BLOCK_SIZE"
  have below: "p < n" if "p div BLOCK_SIZE < ?q"
    using that by (metis div_le_mono linorder_not_less)
  have above: "n \<le> p" if "?q < p div BLOCK_SIZE"
    using that by (metis div_le_mono leD linorder_linear)
  have at: "p < n \<longleftrightarrow> p mod BLOCK_SIZE < ?r" if "p div BLOCK_SIZE = ?q"
    using block_offsets(2) [OF that, of 0] by simp
  consider "p div BLOCK_SIZE < ?q" | "?q < p div BLOCK_SIZE" | "p div BLOCK_SIZE = ?q" by linarith
  then show ?thesis
    by cases (auto simp: truncate_blocks_def byte_at_def get_put get_clear Let_def at dest: below above)
qed

lemma zero_from_write_blocks:
  "zero_from get s n \<Longrightarrow> zero_from get (write_blocks get put pos dat s) (max n (pos + length dat))"
  by (auto simp: zero_from_def byte_at_write_blocks)

lemma zero_from_truncate_blocks: "zero_from get (truncate_blocks get put clear n s) n"
  by (simp add: zero_from_def byte_at_truncate_blocks)

lemma fits_zero_from:
  assumes "fits get s n"
  shows "zero_from get s n"
  unfolding zero_from_def
proof (intro allI impI)
  fix p assume p: "n \<le> p"
  show "byte_at get s p = 0"
  proof (rule ccontr)
    assume "byte_at get s p \<noteq> 0"
    then have i: "p mod BLOCK_SIZE < length (get s (int (p div BLOCK_SIZE)))"
      by (auto simp: byte_at_def Let_def split: if_splits)
    then have "get s (int (p div BLOCK_SIZE)) \<noteq> []" by auto
    then have "p div BLOCK_SIZE * BLOCK_SIZE + length (get s (int (p div BLOCK_SIZE))) \<le> n"
      using assms unfolding fits_def by (metis nat_int)
    with i p div_mult_mod_eq [of p BLOCK_SIZE] show False by linarith
  qed
qed

lemma fits_mono: "fits get s n \<Longrightarrow> n \<le> m \<Longrightarrow> fits get s m"
  unfolding fits_def by (meson le_trans)

lemma fits_put:
  assumes "fits get s n" and "length x \<le> BLOCK_SIZE" and "b * BLOCK_SIZE + length x \<le> n"
  shows "fits get (put (int b) x s) n"
  using assms by (auto simp: fits_def get_put)

lemma fits_write_blocks:
  "fits get s n \<Longrightarrow> pos + length dat \<le> n \<Longrightarrow> fits get (write_blocks get put pos dat s) n"
proof (induction "length dat" arbitrary: pos dat s rule: less_induct)
  case less
  show ?case
  proof (cases "dat = []")
    case True
    with less.prems show ?thesis by (simp add: write_blocks.simps [of get put pos])
  next
    case False
    define k where "k = min (BLOCK_SIZE - pos mod BLOCK_SIZE) (length dat)"
    have k: "0 < k" "k \<le> length dat" "pos mod BLOCK_SIZE + k \<le> BLOCK_SIZE"
      using False less_imp_le [OF mod_BLOCK_SIZE_less [of pos]] by (auto simp: k_def min_def)
    define x where "x = patch (get s (int (pos div BLOCK_SIZE))) (pos mod BLOCK_SIZE) (take k dat)"
    have len: "length x = max (length (get s (int (pos div BLOCK_SIZE)))) (pos mod BLOCK_SIZE + k)"
      using k by (simp add: x_def length_patch)
    have old: "length (get s (int (pos div BLOCK_SIZE))) \<le> BLOCK_SIZE"
      "get s (int (pos div BLOCK_SIZE)) \<noteq> [] \<Longrightarrow>
       pos div BLOCK_SIZE * BLOCK_SIZE + length (get s (int (pos div BLOCK_SIZE))) \<le> n"
      using less.prems(1) unfolding fits_def
      by (metis le0 list.size(3)) (metis less.prems(1) fits_def nat_int)
    have "pos div BLOCK_SIZE * BLOCK_SIZE + (pos mod BLOCK_SIZE + k) \<le> n"
      using less.prems(2) k div_mult_mod_eq [of pos BLOCK_SIZE] by linarith
    moreover have "pos div BLOCK_SIZE * BLOCK_SIZE + length (get s (int (pos div BLOCK_SIZE))) \<le> n"
      if "pos mod BLOCK_SIZE + k < length (get s (int (pos div BLOCK_SIZE)))"
      by (rule old(2)) (use that in auto)
    ultimately have "pos div BLOCK_SIZE * BLOCK_SIZE + length x \<le> n"
      unfolding len max_def by (auto simp del: add.assoc simp: not_le)
    then have s1: "fits get (put (int (pos div BLOCK_SIZE)) x s) n"
      using less.prems(1) len old(1) k(3) by (intro fits_put) auto
    have "fits get (write_blocks get put (pos + k) (drop k dat)
        (put (int (pos div BLOCK_SIZE)) x s)) n"
      by (rule less.hyps) (use s1 k less.prems(2) in auto)
    then show ?thesis
      using False by (subst write_blocks.simps) (simp add: Let_def k_def x_def)
  qed
qed

lemma fits_truncate_blocks:
  assumes "fits get s m"
  shows "fits get (truncate_blocks get put clear n s) n"
proof -
  have le: "nat b * BLOCK_SIZE + length (get s b) \<le> n"
    if "get s b \<noteq> []" "b < int (n div BLOCK_SIZE)" for b
  proof -
    have "0 \<le> b" using assms that(1) by (simp add: fits_def)
    then have "nat b + 1 \<le> n div BLOCK_SIZE" using that(2) by linarith
    then have "(nat b + 1) * BLOCK_SIZE \<le> n div BLOCK_SIZE * BLOCK_SIZE" by (rule mult_le_mono1)
    then have "nat b * BLOCK_SIZE + BLOCK_SIZE \<le> n div BLOCK_SIZE * BLOCK_SIZE"
      by (simp add: add_mult_distrib)
    moreover have "length (get s b) \<le> BLOCK_SIZE" using assms that(1) by (simp add: fits_def)
    ultimately show ?thesis using div_mult_mod_eq [of n BLOCK_SIZE] by linarith
  qed
  have at: "nat (int (n div BLOCK_SIZE)) * BLOCK_SIZE + length (take (n mod BLOCK_SIZE) x) \<le> n" for x :: bytes
  proof -
    have "length (take (n mod BLOCK_SIZE) x) \<le> n mod BLOCK_SIZE" by simp
    then show ?thesis unfolding nat_int using div_mult_mod_eq [of n BLOCK_SIZE] by linarith
  qed
  show ?thesis
    using assms le at
    by (auto simp: fits_def truncate_blocks_def get_put get_clear Let_def not_less min_def intro: le_trans)
qed

theorem file_bytes_write_blocks:
  assumes "zero_from get s n"
  shows "file_bytes get (write_blocks get put pos dat s) (max n (pos + length dat)) =
    pwrite (file_bytes get s n) pos dat"
proof (rule nth_equalityI)
  show "length (file_bytes get (write_blocks get put pos dat s) (max n (pos + length dat))) =
      length (pwrite (file_bytes get s n) pos dat)"
    by (auto simp: file_bytes_def pwrite_def)
  fix i
  assume "i < length (file_bytes get (write_blocks get put pos dat s) (max n (pos + length dat)))"
  then have "i < max n (pos + length dat)" by (simp add: file_bytes_def)
  then show "file_bytes get (write_blocks get put pos dat s) (max n (pos + length dat)) ! i =
      pwrite (file_bytes get s n) pos dat ! i"
    using assms
    by (auto simp: file_bytes_def pwrite_def byte_at_write_blocks nth_append zero_from_def min_def
        split: if_splits)
qed

theorem file_bytes_truncate_blocks:
  assumes "zero_from get s n"
  shows "file_bytes get (truncate_blocks get put clear m s) m = resize (file_bytes get s n) m"
proof (rule nth_equalityI)
  show "length (file_bytes get (truncate_blocks get put clear m s) m) =
      length (resize (file_bytes get s n) m)"
    by (auto simp: file_bytes_def resize_def)
  fix i
  assume "i < length (file_bytes get (truncate_blocks get put clear m s) m)"
  then show "file_bytes get (truncate_blocks get put clear m s) m ! i =
      resize (file_bytes get s n) m ! i"
    using assms
    by (auto simp: file_bytes_def resize_def byte_at_truncate_blocks nth_append zero_from_def)
qed

end

section \<open>The \<open>data\<close> table is a block store\<close>

interpretation data_blocks: block_store
  "\<lambda>d. block_content d ino" "store_block ino" "\<lambda>P. delete_blocks (\<lambda>i b. i = ino \<and> P b)"
  for ino
  by unfold_locales
     (auto simp: block_content_def block_at_def store_block_def delete_blocks_def upsert_block_def
       update_conv' split: option.splits)

text \<open>The blocks of one file are not touched by operations on another.\<close>

lemma block_content_store_other [simp]:
  "i \<noteq> ino \<Longrightarrow> block_content (store_block ino b x d) i = block_content d i"
  by (auto simp: fun_eq_iff block_content_def block_at_def store_block_def delete_blocks_def
      upsert_block_def update_conv' split: option.splits)

lemma block_content_delete_other [simp]:
  "i \<noteq> ino \<Longrightarrow> block_content (delete_blocks (\<lambda>i b. i = ino \<and> P b) d) i = block_content d i"
  by (auto simp: fun_eq_iff block_content_def block_at_def delete_blocks_def split: option.splits)

end
