(* ===== verification/Effects.thy ===== *)
theory Effects
  imports Fuse_Ops Block_Store
begin

text \<open>
  What a successful run of each shared helper has done to the tables, as a function of the
  tables, whatever faults were possible: the inversion lemmas that let the properties of
  the callbacks be proved on pure functions. The other half, on a connection without faults
  the helpers succeed exactly when their statements' constraints allow it.
\<close>

section \<open>The environment is never changed\<close>

definition keeps_env :: "(conn, 'e, 'a) act \<Rightarrow> bool" where
  "keeps_env m \<longleftrightarrow> (\<forall>c. fault (snd (m c)) = fault c \<and> clock (snd (m c)) = clock c)"

named_theorems env_intros \<open>actions that keep the environment\<close>

lemma keeps_envD: "keeps_env m \<Longrightarrow> m c = (r, c') \<Longrightarrow> healthy c \<Longrightarrow> healthy c'"
  unfolding keeps_env_def healthy_def by (metis snd_conv)

lemma keeps_env_exec_sql [env_intros]: "keeps_env (exec_sql f)"
  by (auto simp: keeps_env_def exec_sql_def Let_def split: option.splits sum.splits)

lemma keeps_env_query [env_intros]: "keeps_env (query f)"
  by (simp add: query_def keeps_env_exec_sql)

lemma keeps_env_execute [env_intros]: "keeps_env (execute f)"
  by (simp add: execute_def keeps_env_exec_sql)

lemma keeps_env_basic [env_intros]:
  "keeps_env (ret a)" "keeps_env (throw e)" "keeps_env (fail x)" "keeps_env (of_sum r)"
  "keeps_env now_secs"
  by (simp_all add: keeps_env_def ret_def throw_def fail_def of_sum_def now_secs_def)

lemma keeps_env_bind [env_intros]:
  "keeps_env m \<Longrightarrow> (\<And>a. keeps_env (k a)) \<Longrightarrow> keeps_env (bind m k)"
  unfolding keeps_env_def bind_def
  by (auto split: prod.splits sum.splits) (metis snd_conv)+

lemma keeps_env_map_err [env_intros]: "keeps_env m \<Longrightarrow> keeps_env (map_err f m)"
  unfolding keeps_env_def map_err_def
  by (auto split: prod.splits sum.splits) (metis snd_conv)+

lemma keeps_env_wrappers [env_intros]:
  "keeps_env m \<Longrightarrow> keeps_env (or_eio m)" "keeps_env m \<Longrightarrow> keeps_env (or_errno m)"
  by (simp_all add: or_eio_def or_errno_def keeps_env_map_err)

lemma keeps_env_attempt [env_intros]: "keeps_env m \<Longrightarrow> keeps_env (attempt m)"
  unfolding keeps_env_def attempt_def by (auto split: prod.splits) (metis snd_conv)+

lemma keeps_env_in_tx [env_intros]:
  assumes "keeps_env m"
  shows "keeps_env (in_tx m)"
  unfolding keeps_env_def
proof (intro allI)
  fix c
  obtain r1 c1 where b: "begin_tx c = (r1, c1)" by (cases "begin_tx c")
  obtain r2 c2 where m: "m c1 = (r2, c2)" by (cases "m c1")
  have "fault c1 = fault c \<and> clock c1 = clock c"
    using keeps_env_execute [of "\<lambda>d. d"] b unfolding keeps_env_def begin_tx_def by (metis snd_conv)
  moreover have "fault c2 = fault c1 \<and> clock c2 = clock c1"
    using assms m unfolding keeps_env_def by (metis snd_conv)
  ultimately show "fault (snd (in_tx m c)) = fault c \<and> clock (snd (in_tx m c)) = clock c"
    by (simp add: in_tx_def b m split: sum.split)
qed

section \<open>Names\<close>

definition db_link :: "u64 \<Rightarrow> string \<Rightarrow> u64 \<Rightarrow> f64 \<Rightarrow> db \<Rightarrow> db" where
  "db_link p n ino now d =
     update_inode p (set_mc now) (d\<lparr>t_dentries := t_dentries d @ [((p, n), ino)]\<rparr>)"

lemma link_dentry_Inr:
  "link_dentry p n ino now c = (Inr u, c') \<Longrightarrow>
     child_at (cdb c) p n = None \<and> cdb c' = db_link p n ino now (cdb c)"
  by (auto simp: link_dentry_def act_inv exec_sql_Inr insert_dentry_def db_link_def split: if_splits)

lemma link_dentry_healthy:
  "healthy c \<Longrightarrow> child_at (cdb c) p n = None \<Longrightarrow>
     \<exists>c'. link_dentry p n ino now c = (Inr (), c')"
  by (auto simp: link_dentry_def bind_def exec_sql_healthy execute_def insert_dentry_def)

definition db_delete_inode :: "u64 \<Rightarrow> db \<Rightarrow> db" where
  "db_delete_inode ino d =
     d\<lparr>t_inodes := delete_where (\<lambda>k. k = ino) (t_inodes d),
       t_data := delete_where (\<lambda>(i, b). i = ino) (t_data d),
       t_xattrs := map_option (delete_where (\<lambda>(i, n). i = ino)) (t_xattrs d)\<rparr>"

lemma delete_inode_Inr:
  "delete_inode ino c = (Inr u, c') \<Longrightarrow>
     t_xattrs (cdb c) \<noteq> None \<and> cdb c' = db_delete_inode ino (cdb c)"
  by (auto simp: delete_inode_def act_inv exec_sql_Inr on_xattrs_def delete_inode_row_def
      db_delete_inode_def delete_blocks_def Let_def split: option.splits if_splits)

lemma delete_inode_healthy:
  "healthy c \<Longrightarrow> t_xattrs (cdb c) \<noteq> None \<Longrightarrow> \<exists>c'. delete_inode ino c = (Inr (), c')"
  by (auto simp: delete_inode_def bind_def exec_sql_healthy execute_def on_xattrs_def
      delete_inode_row_def delete_blocks_def Let_def)

definition db_unlink :: "u64 \<Rightarrow> string \<Rightarrow> u64 \<Rightarrow> f64 \<Rightarrow> db \<Rightarrow> db" where
  "db_unlink p n ino now d =
     (let d1 = delete_dentry p n d;
          d2 = (if name_count d1 ino = 0 then db_delete_inode ino d1
                else update_inode ino (set_c now) d1)
      in update_inode p (set_mc now) d2)"

lemma unlink_dentry_Inr:
  "unlink_dentry p n ino now c = (Inr u, c') \<Longrightarrow> cdb c' = db_unlink p n ino now (cdb c)"
  by (auto simp: unlink_dentry_def act_inv db_unlink_def Let_def dest!: delete_inode_Inr
      split: if_splits)

lemma keeps_env_delete_inode [env_intros]: "keeps_env (delete_inode ino)"
  by (simp add: delete_inode_def env_intros)

lemma unlink_dentry_healthy:
  assumes "healthy c" and "t_xattrs (cdb c) \<noteq> None"
  shows "\<exists>c'. unlink_dentry p n ino now c = (Inr (), c')"
proof -
  let ?c1 = "c\<lparr>tick := Suc (Suc (tick c)), cdb := delete_dentry p n (cdb c)\<rparr>"
  have "\<exists>c2. delete_inode ino ?c1 = (Inr (), c2)"
    using assms by (intro delete_inode_healthy) (auto simp: delete_dentry_def)
  then obtain c2 where c2: "delete_inode ino ?c1 = (Inr (), c2)" by blast
  have "healthy c2"
    by (rule keeps_envD [OF keeps_env_delete_inode c2]) (use assms in simp)
  then show ?thesis
    using assms c2
    by (auto simp: unlink_dentry_def bind_def exec_sql_healthy execute_def query_def)
qed

definition db_insert_child ::
  "u64 \<Rightarrow> string \<Rightarrow> inode \<Rightarrow> f64 \<Rightarrow> db \<Rightarrow> db" where
  "db_insert_child p n r now d =
     db_link p n (word_of_nat (next_rowid d)) now
       (d\<lparr>t_inodes := t_inodes d @ [(word_of_nat (next_rowid d), r)], inode_seq := next_rowid d\<rparr>)"

lemma insert_child_Inr:
  "insert_child p n kind mode uid gid target c = (Inr ino, c') \<Longrightarrow>
     \<exists>now. next_rowid (cdb c) < 2 ^ 63 \<and> ino = word_of_nat (next_rowid (cdb c)) \<and>
       child_at (cdb c) p n = None \<and>
       cdb c' = db_insert_child p n (new_inode kind mode uid gid target now) now (cdb c)"
  by (auto simp: insert_child_def act_inv exec_sql_Inr insert_inode_def Let_def
      db_insert_child_def dest!: link_dentry_Inr split: if_splits)

lemma keeps_env_link_dentry [env_intros]: "keeps_env (link_dentry p n i now)"
  by (simp add: link_dentry_def env_intros)

lemma keeps_env_unlink_dentry [env_intros]: "keeps_env (unlink_dentry p n i now)"
  by (simp add: unlink_dentry_def env_intros)

lemma keeps_env_insert_child [env_intros]: "keeps_env (insert_child p n k m u g t)"
  by (simp add: insert_child_def env_intros)

lemma insert_child_healthy:
  assumes "healthy c" and "child_at (cdb c) p n = None" and "next_rowid (cdb c) < 2 ^ 63"
  shows "\<exists>c'. insert_child p n kind mode uid gid target c =
    (Inr (word_of_nat (next_rowid (cdb c))), c')"
  using assms
  by (auto simp: insert_child_def bind_def now_secs_def exec_sql_healthy insert_inode_def Let_def
      link_dentry_def insert_dentry_def execute_def ret_def next_rowid_def)

section \<open>Privileges\<close>

definition db_kill_priv :: "u64 \<Rightarrow> db \<Rightarrow> db" where
  "db_kill_priv ino d =
     (let d1 = update_inode ino (drop_sgid \<circ> drop_suid) d
      in d1\<lparr>t_xattrs := map_option (delete_where (\<lambda>k. k = (ino, ''security.capability''))) (t_xattrs d)\<rparr>)"

lemma update_where_comp:
  "update_where P g (update_where P f t) = update_where P (g \<circ> f) t"
  by (auto simp: update_where_def)

lemma kill_priv_Inr:
  "kill_priv ino c = (Inr u, c') \<Longrightarrow>
     t_xattrs (cdb c) \<noteq> None \<and> cdb c' = db_kill_priv ino (cdb c)"
  by (auto simp: kill_priv_def act_inv exec_sql_Inr on_xattrs_def db_kill_priv_def update_inode_def
      update_where_comp Let_def split: option.splits)

lemma keeps_env_kill_priv [env_intros]: "keeps_env (kill_priv ino)"
  by (simp add: kill_priv_def env_intros)

lemma kill_priv_healthy:
  "healthy c \<Longrightarrow> t_xattrs (cdb c) \<noteq> None \<Longrightarrow> \<exists>c'. kill_priv ino c = (Inr (), c')"
  by (auto simp: kill_priv_def bind_def exec_sql_healthy execute_def on_xattrs_def update_inode_def)

section \<open>Truncation\<close>

abbreviation db_truncate_blocks :: "u64 \<Rightarrow> nat \<Rightarrow> db \<Rightarrow> db" where
  "db_truncate_blocks ino \<equiv>
     truncate_blocks (\<lambda>d. block_content d ino) (store_block ino) (\<lambda>P. delete_blocks (\<lambda>i b. i = ino \<and> P b))"

definition db_truncate :: "u64 \<Rightarrow> u64 \<Rightarrow> f64 \<Rightarrow> db \<Rightarrow> db" where
  "db_truncate ino len now d =
     update_inode ino (\<lambda>r. r\<lparr>i_size := sint len, i_mtime := now, i_ctime := now\<rparr>)
       (db_truncate_blocks ino (unat len) d)"

lemma truncate_inode_Inr:
  "truncate_inode ino len c = (Inr u, c') \<Longrightarrow> \<exists>now. cdb c' = db_truncate ino len now (cdb c)"
  by (auto simp: truncate_inode_def act_inv Let_def db_truncate_def truncate_blocks_def
      get_block_def put_block_def split: if_splits)

lemma keeps_env_truncate_inode [env_intros]: "keeps_env (truncate_inode ino len)"
  by (simp add: truncate_inode_def get_block_def put_block_def env_intros Let_def)

lemma truncate_inode_healthy: "healthy c \<Longrightarrow> \<exists>c'. truncate_inode ino len c = (Inr (), c')"
  by (auto simp: truncate_inode_def bind_def exec_sql_healthy execute_def query_def
      get_block_def put_block_def now_secs_def Let_def)

section \<open>Writing blocks\<close>

abbreviation db_write_blocks :: "u64 \<Rightarrow> nat \<Rightarrow> bytes \<Rightarrow> db \<Rightarrow> db" where
  "db_write_blocks ino \<equiv> write_blocks (\<lambda>d. block_content d ino) (store_block ino)"

lemma or_errno_Inr [act_inv]: "(or_errno m c = (Inr a, c')) = (m c = (Inr a, c'))"
  by (simp add: or_errno_def map_err_Inr)

lemma write_loop_Inr:
  "write_loop ino pos dat c = (Inr (), c') \<Longrightarrow> cdb c' = db_write_blocks ino pos dat (cdb c)"
proof (induction ino pos dat arbitrary: c rule: write_loop.induct)
  case (1 ino pos remaining)
  show ?case
  proof (cases "remaining = []")
    case True
    with "1.prems" show ?thesis
      by (simp add: write_loop.simps [of ino pos] write_blocks.simps [of _ _ pos] ret_inv)
  next
    case False
    with "1.prems" show ?thesis
      by (subst write_blocks.simps, subst (asm) write_loop.simps)
         (auto simp: Let_def act_inv get_block_def put_block_def dest!: "1.IH" [OF False refl refl refl refl])
  qed
qed

lemma keeps_env_write_loop [env_intros]: "keeps_env (write_loop ino pos dat)"
proof (induction ino pos dat rule: write_loop.induct)
  case (1 ino pos remaining)
  show ?case
  proof (cases "remaining = []")
    case True
    then show ?thesis by (simp add: write_loop.simps [of ino pos] env_intros)
  next
    case False
    note IH = "1.IH" [OF False refl refl refl refl]
    from False show ?thesis
      by (subst write_loop.simps) (simp add: Let_def get_block_def put_block_def env_intros IH)
  qed
qed

lemma write_loop_healthy: "healthy c \<Longrightarrow> \<exists>c'. write_loop ino pos dat c = (Inr (), c')"
proof (induction ino pos dat arbitrary: c rule: write_loop.induct)
  case (1 ino pos remaining)
  show ?case
  proof (cases "remaining = []")
    case True
    then show ?thesis by (simp add: write_loop.simps [of ino pos] ret_def)
  next
    case False
    note IH = "1.IH" [OF False refl refl refl refl]
    from False "1.prems" show ?thesis
      by (subst write_loop.simps)
         (auto simp: Let_def bind_def or_eio_def or_errno_def map_err_def get_block_def put_block_def
           query_def execute_def exec_sql_healthy intro!: IH)
  qed
qed

end
