(* ===== verification/Wellformed.thy ===== *)
theory Wellformed
  imports Effects
begin

text \<open>
  The well-formedness invariant of a format-2 container, and that each effect of the shared
  helpers keeps it: primary keys are unique, every name resolves to an inode and lies in a
  directory, every inode but the root has a name, a directory has exactly one, no stored
  block reaches beyond its file, nothing is left over from a deleted inode, and inode
  numbers stay below the AUTOINCREMENT high-water mark.
\<close>

section \<open>The invariant\<close>

definition is_dir :: "db \<Rightarrow> u64 \<Rightarrow> bool" where
  "is_dir d i \<longleftrightarrow> (case inode_at d i of Some r \<Rightarrow> i_kind r = KIND_DIR | None \<Rightarrow> False)"

definition keys_ok :: "db \<Rightarrow> bool" where
  "keys_ok d \<longleftrightarrow> unique_keys (t_inodes d) \<and> unique_keys (t_dentries d) \<and> unique_keys (t_data d) \<and>
     (case t_xattrs d of None \<Rightarrow> False | Some t \<Rightarrow> unique_keys t)"

definition names_ok :: "db \<Rightarrow> bool" where
  "names_ok d \<longleftrightarrow> (\<forall>((p, n), i) \<in> set (t_dentries d).
     inode_at d i \<noteq> None \<and> i \<noteq> ROOT_INO \<and> is_dir d p)"

definition linked_ok :: "db \<Rightarrow> bool" where
  "linked_ok d \<longleftrightarrow> (\<forall>(i, r) \<in> set (t_inodes d).
     if i = ROOT_INO then i_kind r = KIND_DIR
     else 0 < name_count d i \<and> (i_kind r = KIND_DIR \<longrightarrow> name_count d i = 1))"

definition root_ok :: "db \<Rightarrow> bool" where
  "root_ok d \<longleftrightarrow> inode_at d ROOT_INO \<noteq> None"

definition size_at :: "db \<Rightarrow> u64 \<Rightarrow> i64 option" where
  "size_at d i = map_option i_size (inode_at d i)"

definition storage_ok :: "db \<Rightarrow> bool" where
  "storage_ok d \<longleftrightarrow> (\<forall>((i, b), x) \<in> set (t_data d).
     0 \<le> b \<and> x \<noteq> [] \<and> length x \<le> BLOCK_SIZE \<and>
     (case size_at d i of None \<Rightarrow> False | Some s \<Rightarrow> b * int BLOCK_SIZE + int (length x) \<le> s))"

definition sizes_ok :: "db \<Rightarrow> bool" where
  "sizes_ok d \<longleftrightarrow> (\<forall>(i, r) \<in> set (t_inodes d). 0 \<le> i_size r \<and> i_size r < 2 ^ 63)"

definition attrs_ok :: "db \<Rightarrow> bool" where
  "attrs_ok d \<longleftrightarrow> (\<forall>t. t_xattrs d = Some t \<longrightarrow> (\<forall>((i, n), v) \<in> set t. inode_at d i \<noteq> None))"

definition seq_ok :: "db \<Rightarrow> bool" where
  "seq_ok d \<longleftrightarrow> inode_seq d < 2 ^ 63 \<and> (\<forall>(i, r) \<in> set (t_inodes d). 0 < unat i \<and> unat i \<le> inode_seq d)"

definition wf_db :: "db \<Rightarrow> bool" where
  "wf_db d \<longleftrightarrow> keys_ok d \<and> names_ok d \<and> linked_ok d \<and> root_ok d \<and> storage_ok d \<and> sizes_ok d \<and>
     attrs_ok d \<and> seq_ok d"

lemmas wf_defs = wf_db_def keys_ok_def names_ok_def linked_ok_def root_ok_def storage_ok_def
  sizes_ok_def attrs_ok_def seq_ok_def

section \<open>What it says about lookups\<close>

lemma wf_keys:
  assumes "wf_db d"
  shows "unique_keys (t_inodes d)" "unique_keys (t_dentries d)" "unique_keys (t_data d)"
    "\<exists>t. t_xattrs d = Some t \<and> unique_keys t"
  using assms by (auto simp: wf_db_def keys_ok_def split: option.splits)

lemma wf_inode_iff: "wf_db d \<Longrightarrow> ((i, r) \<in> set (t_inodes d)) = (inode_at d i = Some r)"
  by (simp add: wf_keys)

lemma wf_child:
  assumes "wf_db d" and "child_at d p n = Some i"
  shows "inode_at d i \<noteq> None" and "i \<noteq> ROOT_INO" and "is_dir d p"
  using assms map_of_SomeD [OF assms(2)] by (auto simp: wf_db_def names_ok_def)

lemma name_count_pos:
  assumes "unique_keys (t_dentries d)"
  shows "(0 < name_count d i) = (\<exists>p n. child_at d p n = Some i)"
proof -
  have "(0 < name_count d i) = (\<exists>x \<in> set (t_dentries d). snd x = i)"
    by (auto simp: name_count_def filter_empty_conv)
  also have "\<dots> = (\<exists>p n. ((p, n), i) \<in> set (t_dentries d))"
    by (metis eq_snd_iff prod.collapse)
  finally show ?thesis using assms by simp
qed

lemma wf_seq: "wf_db d \<Longrightarrow> inode_at d i = Some r \<Longrightarrow> 0 < unat i \<and> unat i \<le> inode_seq d \<and> inode_seq d < 2 ^ 63"
  by (auto simp: wf_db_def seq_ok_def dest!: map_of_SomeD)

lemma wf_size: "wf_db d \<Longrightarrow> inode_at d i = Some r \<Longrightarrow> 0 \<le> i_size r \<and> i_size r < 2 ^ 63"
  by (auto simp: wf_db_def sizes_ok_def dest!: map_of_SomeD)

lemma wf_linked:
  assumes "wf_db d" and "inode_at d i = Some r" and "i \<noteq> ROOT_INO"
  shows "0 < name_count d i" and "i_kind r = KIND_DIR \<Longrightarrow> name_count d i = 1"
  using assms map_of_SomeD [OF assms(2)] by (auto simp: wf_db_def linked_ok_def split: if_splits)

section \<open>File content\<close>

abbreviation file_blocks :: "u64 \<Rightarrow> db \<Rightarrow> i64 \<Rightarrow> bytes" where
  "file_blocks ino \<equiv> \<lambda>d. block_content d ino"

definition file_size :: "db \<Rightarrow> u64 \<Rightarrow> nat" where
  "file_size d ino = (case inode_at d ino of Some r \<Rightarrow> nat (i_size r) | None \<Rightarrow> 0)"

definition content :: "db \<Rightarrow> u64 \<Rightarrow> bytes" where
  "content d ino = file_bytes (file_blocks ino) d (file_size d ino)"

lemma length_content [simp]: "length (content d ino) = file_size d ino"
  by (simp add: content_def file_bytes_def)

lemma wf_fits:
  assumes "wf_db d" and "inode_at d ino = Some r"
  shows "fits (file_blocks ino) d (nat (i_size r))"
  unfolding fits_def
proof (intro allI impI)
  fix b
  assume ne: "block_content d ino b \<noteq> []"
  then have "map_of (t_data d) (ino, b) = Some (block_content d ino b)"
    by (auto simp: block_content_def block_at_def split: option.splits)
  then have "((ino, b), block_content d ino b) \<in> set (t_data d)" by (rule map_of_SomeD)
  with assms have *: "0 \<le> b" "length (block_content d ino b) \<le> BLOCK_SIZE"
    "b * int BLOCK_SIZE + int (length (block_content d ino b)) \<le> i_size r"
    by (auto simp: wf_db_def storage_ok_def size_at_def)
  moreover from *(1) have "int (nat b * BLOCK_SIZE) = b * int BLOCK_SIZE" by simp
  ultimately show "0 \<le> b \<and> length (block_content d ino b) \<le> BLOCK_SIZE \<and>
      nat b * BLOCK_SIZE + length (block_content d ino b) \<le> nat (i_size r)"
    by linarith
qed

text \<open>Conversely, blocks that fit every file make the storage well-formed.\<close>

lemma storage_okI:
  assumes "unique_keys (t_data d)" and "\<And>k x. map_of (t_data d) k = Some x \<Longrightarrow> x \<noteq> []"
    and "\<And>i b x. map_of (t_data d) (i, b) = Some x \<Longrightarrow>
      \<exists>r. inode_at d i = Some r \<and> 0 \<le> i_size r \<and> fits (file_blocks i) d (nat (i_size r))"
  shows "storage_ok d"
  unfolding storage_ok_def
proof (clarify)
  fix i b x
  assume "((i, b), x) \<in> set (t_data d)"
  then have at: "map_of (t_data d) (i, b) = Some x" using assms(1) by simp
  then obtain r where r: "inode_at d i = Some r" "0 \<le> i_size r" "fits (file_blocks i) d (nat (i_size r))"
    using assms(3) by blast
  have x: "block_content d i b = x" using at by (simp add: block_content_def block_at_def)
  have ne: "x \<noteq> []" using assms(2) [OF at] .
  with r(3) x have *: "0 \<le> b" "length x \<le> BLOCK_SIZE" "nat b * BLOCK_SIZE + length x \<le> nat (i_size r)"
    unfolding fits_def by blast+
  moreover from *(1) have "int (nat b * BLOCK_SIZE) = b * int BLOCK_SIZE" by simp
  ultimately have "b * int BLOCK_SIZE + int (length x) \<le> i_size r" using r(2) by linarith
  with ne * r(1) show "0 \<le> b \<and> x \<noteq> [] \<and> length x \<le> BLOCK_SIZE \<and>
      (case size_at d i of None \<Rightarrow> False | Some s \<Rightarrow> b * int BLOCK_SIZE + int (length x) \<le> s)"
    by (simp add: size_at_def)
qed

section \<open>Counting names\<close>

lemma name_count_dentries: "t_dentries d' = t_dentries d \<Longrightarrow> name_count d' i = name_count d i"
  by (simp add: name_count_def)

lemma name_count_add:
  "t_dentries d' = t_dentries d @ [(k, j)] \<Longrightarrow>
     name_count d' i = name_count d i + (if i = j then 1 else 0)"
  by (auto simp: name_count_def)

lemma name_count_delete:
  assumes "unique_keys (t_dentries d)" and "child_at d p n = Some j"
  shows "name_count d i = name_count (delete_dentry p n d) i + (if i = j then 1 else 0)"
proof -
  from assms(2) have "((p, n), j) \<in> set (t_dentries d)" by (rule map_of_SomeD)
  then obtain xs ys where t: "t_dentries d = xs @ ((p, n), j) # ys"
    by (meson split_list)
  have "fst e \<noteq> (p, n)" if "e \<in> set xs \<or> e \<in> set ys" for e
    using assms(1) that unfolding t by (auto simp: image_iff)
  then have "filter (\<lambda>e. fst e \<noteq> (p, n)) xs = xs" "filter (\<lambda>e. fst e \<noteq> (p, n)) ys = ys"
    by (auto intro!: filter_True)
  then have del: "delete_where (\<lambda>k. k = (p, n)) (t_dentries d) = xs @ ys"
    unfolding t by (simp add: delete_where_def)
  show ?thesis
    unfolding name_count_def delete_dentry_def by (simp add: del) (simp add: t)
qed

lemma name_count_move:
  "t_dentries d' = map (\<lambda>(k, i). (f k, i)) (t_dentries d) \<Longrightarrow> name_count d' i = name_count d i"
  by (simp add: name_count_def filter_map comp_def case_prod_beta)

section \<open>Changes to inode rows\<close>

text \<open>Changing times, owners and modes of any rows.\<close>

lemma is_dir_update_rows:
  "(\<And>r. i_kind (f r) = i_kind r) \<Longrightarrow>
     is_dir (d\<lparr>t_inodes := update_where P f (t_inodes d)\<rparr>) = is_dir d"
  by (auto simp: fun_eq_iff is_dir_def split: option.splits)

lemma wf_update_rows:
  assumes "wf_db d" and kind: "\<And>r. i_kind (f r) = i_kind r" and size: "\<And>r. i_size (f r) = i_size r"
  shows "wf_db (d\<lparr>t_inodes := update_where P f (t_inodes d)\<rparr>)" (is "wf_db ?d")
proof -
  have nc: "name_count ?d i = name_count d i" for i by (simp add: name_count_def)
  have sz: "size_at ?d i = size_at d i" for i
    by (simp add: size_at_def size option.map_comp comp_def)
  have "keys_ok ?d" using assms(1) by (simp add: wf_db_def keys_ok_def)
  moreover have "names_ok ?d"
    using assms(1) by (auto simp: wf_db_def names_ok_def is_dir_update_rows [OF kind])
  moreover have "linked_ok ?d"
    using assms(1) by (auto simp: wf_db_def linked_ok_def nc set_update_where kind split: if_splits)
  moreover have "root_ok ?d" using assms(1) by (simp add: wf_db_def root_ok_def)
  moreover have "storage_ok ?d"
    using assms(1) by (simp add: wf_db_def storage_ok_def sz)
  moreover have "sizes_ok ?d"
    using assms(1) by (auto simp: wf_db_def sizes_ok_def set_update_where size)
  moreover have "attrs_ok ?d" using assms(1) by (auto simp: wf_db_def attrs_ok_def)
  moreover have "seq_ok ?d" using assms(1) by (auto simp: wf_db_def seq_ok_def set_update_where)
  ultimately show ?thesis by (simp add: wf_db_def)
qed

lemma wf_update_inode:
  assumes "wf_db d" and "\<And>r. i_kind (f r) = i_kind r" and "\<And>r. i_size (f r) = i_size r"
  shows "wf_db (update_inode ino f d)"
  unfolding update_inode_def using assms by (rule wf_update_rows)

lemma set_mc_frame [simp]:
  "i_kind (set_mc now r) = i_kind r" "i_size (set_mc now r) = i_size r" "i_mode (set_mc now r) = i_mode r"
  "i_kind (set_c now r) = i_kind r" "i_size (set_c now r) = i_size r" "i_mode (set_c now r) = i_mode r"
  by (simp_all add: set_mc_def set_c_def)

lemma drop_frame [simp]:
  "i_kind (drop_suid r) = i_kind r" "i_size (drop_suid r) = i_size r"
  "i_kind (drop_sgid r) = i_kind r" "i_size (drop_sgid r) = i_size r"
  by (simp_all add: drop_suid_def drop_sgid_def)

section \<open>Adding names\<close>

lemma wf_add_name:
  assumes "wf_db d" and "inode_at d ino = Some r" and "i_kind r \<noteq> KIND_DIR" and "is_dir d p"
    and "child_at d p n = None"
  shows "wf_db (d\<lparr>t_dentries := t_dentries d @ [((p, n), ino)]\<rparr>)" (is "wf_db ?d")
proof -
  have nc: "name_count ?d i = name_count d i + (if i = ino then 1 else 0)" for i
    by (rule name_count_add) simp
  have root: "ino \<noteq> ROOT_INO"
    using assms(1-3) map_of_SomeD [OF assms(2)] by (auto simp: wf_db_def linked_ok_def)
  have is_dir: "is_dir ?d = is_dir d" and sz: "size_at ?d = size_at d"
    by (auto simp: fun_eq_iff is_dir_def size_at_def)
  have "keys_ok ?d" using assms(1,5) by (auto simp: wf_db_def keys_ok_def split: option.splits)
  moreover have "names_ok ?d"
    using assms(1,2,4) root by (auto simp: wf_db_def names_ok_def is_dir)
  moreover have "linked_ok ?d"
    unfolding linked_ok_def
  proof (clarify)
    fix i b
    assume "(i, b) \<in> set (t_inodes ?d)"
    then have at: "inode_at d i = Some b" using wf_inode_iff [OF assms(1)] by simp
    then have "i = ino \<Longrightarrow> i_kind b \<noteq> KIND_DIR" using assms(2,3) by auto
    with assms(1) map_of_SomeD [OF at]
    show "if i = ROOT_INO then i_kind b = KIND_DIR
      else 0 < name_count ?d i \<and> (i_kind b = KIND_DIR \<longrightarrow> name_count ?d i = 1)"
      by (auto simp: wf_db_def linked_ok_def nc)
  qed
  moreover have "root_ok ?d" "sizes_ok ?d" "attrs_ok ?d" "seq_ok ?d"
    using assms(1) by (simp_all add: wf_db_def root_ok_def sizes_ok_def attrs_ok_def seq_ok_def)
  moreover have "storage_ok ?d" using assms(1) by (simp add: wf_db_def storage_ok_def sz)
  ultimately show ?thesis by (simp add: wf_db_def)
qed

lemma wf_db_link:
  "wf_db d \<Longrightarrow> inode_at d ino = Some r \<Longrightarrow> i_kind r \<noteq> KIND_DIR \<Longrightarrow> is_dir d p \<Longrightarrow> child_at d p n = None \<Longrightarrow>
     wf_db (db_link p n ino now d)"
  unfolding db_link_def by (intro wf_update_inode wf_add_name) simp_all

lemma sint_small: "unat (i :: u64) < 2 ^ 63 \<Longrightarrow> sint i = int (unat i)"
proof -
  assume "unat i < 2 ^ 63"
  then have "uint i < 2 ^ 63" by (metis nat_less_numeral_power_cancel_iff unat_eq_nat_uint uint_ge_0)
  moreover have "- (2 ^ 63) \<le> uint i" by (rule order_trans [OF _ uint_ge_0]) simp
  ultimately have "signed_take_bit 63 (uint i) = uint i"
    by (intro signed_take_bit_int_eq_self)
  then show ?thesis by (simp add: sint_uint)
qed

lemma unat_word_small: "n < 2 ^ 64 \<Longrightarrow> unat (word_of_nat n :: u64) = n"
  by (simp add: unat_of_nat)

lemma rowid_small: "unat i < 2 ^ 63 \<Longrightarrow> rowid i = unat i"
  by (simp add: rowid_def sint_small)

lemma foldr_max_bounded:
  "(\<And>k r. (k, r) \<in> set t \<Longrightarrow> rowid k \<le> m) \<Longrightarrow> foldr (\<lambda>(k, r). max (rowid k)) t m = m"
proof (induction t)
  case (Cons e t)
  obtain k r where e: "e = (k, r)" by (cases e)
  have "foldr (\<lambda>(k, r). max (rowid k)) t m = m" by (rule Cons.IH) (use Cons.prems in auto)
  moreover have "rowid k \<le> m" using Cons.prems e by auto
  ultimately show ?case by (simp add: e)
qed simp

lemma next_rowid_wf:
  assumes "wf_db d"
  shows "next_rowid d = Suc (inode_seq d)"
proof -
  have "rowid k \<le> inode_seq d" if "(k, r) \<in> set (t_inodes d)" for k r
    using assms that by (fastforce simp: wf_db_def seq_ok_def rowid_small)
  then show ?thesis unfolding next_rowid_def by (simp add: foldr_max_bounded)
qed

end
