(* ===== verification/Preserve.thy ===== *)
theory Preserve
  imports Wellformed
begin

text \<open>
  Every change the callbacks make to the tables keeps the container well-formed: a new
  inode under a free name, the removal of a name (with its inode when it was the last
  one), the move of a name, the write of blocks, the change of a size, dropped privileges
  and the changes to extended attributes.
\<close>

section \<open>A new inode\<close>

lemma wf_root_seq: "wf_db d \<Longrightarrow> 0 < inode_seq d"
  using wf_seq [of d ROOT_INO] by (auto simp: wf_db_def root_ok_def)

lemma wf_db_insert_child:
  assumes "wf_db d" and "is_dir d p" and "child_at d p n = None" and "next_rowid d < 2 ^ 63"
    and "0 \<le> i_size r" and "i_size r < 2 ^ 63"
  shows "wf_db (db_insert_child p n r now d)"
proof -
  define ino :: u64 where "ino = word_of_nat (next_rowid d)"
  have seq: "next_rowid d = Suc (inode_seq d)" by (rule next_rowid_wf [OF assms(1)])
  have unat: "unat ino = Suc (inode_seq d)"
    unfolding ino_def seq by (rule unat_word_small) (use assms(4) seq in simp)
  have fresh: "inode_at d ino = None"
    using wf_seq [OF assms(1), of ino] unat by (cases "inode_at d ino") auto
  have nonroot: "ino \<noteq> ROOT_INO"
    using wf_root_seq [OF assms(1)] unat by auto
  have none: "name_count d ino = 0"
    using name_count_pos [OF wf_keys(2) [OF assms(1)], of ino] wf_child(1) [OF assms(1)] fresh
    by (metis bot_nat_0.not_eq_extremum)
  define d2 where "d2 = d\<lparr>t_inodes := t_inodes d @ [(ino, r)], inode_seq := Suc (inode_seq d),
    t_dentries := t_dentries d @ [((p, n), ino)]\<rparr>"
  have at: "inode_at d2 i = (if i = ino then Some r else inode_at d i)" for i
    using fresh by (auto simp: d2_def map_add_def split: option.splits)
  have dir: "is_dir d i \<Longrightarrow> is_dir d2 i" for i
    using fresh by (auto simp: is_dir_def at split: option.splits)
  have nc: "name_count d2 i = name_count d i + (if i = ino then 1 else 0)" for i
    by (rule name_count_add) (simp add: d2_def)
  have "keys_ok d2"
    using assms(1,3) fresh by (auto simp: wf_db_def keys_ok_def d2_def split: option.splits)
  moreover have "names_ok d2"
    unfolding names_ok_def
  proof (clarify)
    fix q m i
    assume "((q, m), i) \<in> set (t_dentries d2)"
    then consider "q = p" "i = ino" | "((q, m), i) \<in> set (t_dentries d)" by (auto simp: d2_def)
    then show "inode_at d2 i \<noteq> None \<and> i \<noteq> ROOT_INO \<and> is_dir d2 q"
      by cases (use assms(1,2) nonroot dir at in \<open>auto simp: wf_db_def names_ok_def\<close>)
  qed
  moreover have "linked_ok d2"
    unfolding linked_ok_def
  proof (clarify)
    fix i b
    assume "(i, b) \<in> set (t_inodes d2)"
    then consider "i = ino" | "i \<noteq> ino" "(i, b) \<in> set (t_inodes d)" by (auto simp: d2_def)
    then show "if i = ROOT_INO then i_kind b = KIND_DIR
      else 0 < name_count d2 i \<and> (i_kind b = KIND_DIR \<longrightarrow> name_count d2 i = 1)"
      by cases (use assms(1) nonroot none in \<open>auto simp: nc wf_db_def linked_ok_def\<close>)
  qed
  moreover have "root_ok d2" using assms(1) by (simp add: wf_db_def root_ok_def at)
  moreover have "storage_ok d2"
    using assms(1) fresh
    by (fastforce simp: wf_db_def storage_ok_def d2_def size_at_def split: option.splits)
  moreover have "sizes_ok d2" using assms(1,5,6) by (auto simp: wf_db_def sizes_ok_def d2_def)
  moreover have "attrs_ok d2"
    using assms(1) at unfolding wf_db_def attrs_ok_def by (auto simp: d2_def split: option.splits)
  moreover have "seq_ok d2"
    using assms(1,4) seq unat unfolding wf_db_def seq_ok_def by (fastforce simp: d2_def)
  ultimately have "wf_db d2" by (simp add: wf_db_def)
  moreover have "db_insert_child p n r now d = update_inode p (set_mc now) d2"
    by (simp add: db_insert_child_def db_link_def d2_def ino_def seq)
  ultimately show ?thesis by (simp add: wf_update_inode)
qed

section \<open>A name less\<close>

lemma delete_dentry_frame [simp]:
  "t_inodes (delete_dentry p n d) = t_inodes d" "t_data (delete_dentry p n d) = t_data d"
  "t_xattrs (delete_dentry p n d) = t_xattrs d" "inode_seq (delete_dentry p n d) = inode_seq d"
  "t_dentries (delete_dentry p n d) = delete_where (\<lambda>k. k = (p, n)) (t_dentries d)"
  by (simp_all add: delete_dentry_def)

lemma wf_delete_dentry:
  assumes "wf_db d" and "child_at d p n = Some i" and "0 < name_count (delete_dentry p n d) i"
  shows "wf_db (delete_dentry p n d)" (is "wf_db ?d")
proof -
  have nc: "name_count d j = name_count ?d j + (if j = i then 1 else 0)" for j
    by (rule name_count_delete [OF wf_keys(2) [OF assms(1)] assms(2)])
  have dir: "is_dir ?d = is_dir d" and sz: "size_at ?d = size_at d"
    by (auto simp: fun_eq_iff is_dir_def size_at_def)
  have "keys_ok ?d" using assms(1) by (simp add: wf_db_def keys_ok_def)
  moreover have "names_ok ?d" using assms(1) by (auto simp: wf_db_def names_ok_def dir)
  moreover have "linked_ok ?d"
    unfolding linked_ok_def
  proof (clarify)
    fix j b
    assume "(j, b) \<in> set (t_inodes ?d)"
    then have "(j, b) \<in> set (t_inodes d)" by simp
    with assms(1) have "if j = ROOT_INO then i_kind b = KIND_DIR
      else 0 < name_count d j \<and> (i_kind b = KIND_DIR \<longrightarrow> name_count d j = 1)"
      by (auto simp: wf_db_def linked_ok_def)
    then show "if j = ROOT_INO then i_kind b = KIND_DIR
      else 0 < name_count ?d j \<and> (i_kind b = KIND_DIR \<longrightarrow> name_count ?d j = 1)"
      using assms(3) nc [of j] by (cases "j = i") (auto split: if_splits)
  qed
  moreover have "root_ok ?d" "sizes_ok ?d" "attrs_ok ?d" "seq_ok ?d"
    using assms(1) by (simp_all add: wf_db_def root_ok_def sizes_ok_def attrs_ok_def seq_ok_def)
  moreover have "storage_ok ?d" using assms(1) by (simp add: wf_db_def storage_ok_def sz)
  ultimately show ?thesis by (simp add: wf_db_def)
qed

lemma wf_delete_last:
  assumes "wf_db d" and "child_at d p n = Some i" and "name_count (delete_dentry p n d) i = 0"
    and "\<not> has_entries d i"
  shows "wf_db (db_delete_inode i (delete_dentry p n d))" (is "wf_db ?d")
proof -
  have nc: "name_count ?d j = name_count (delete_dentry p n d) j" for j
    by (rule name_count_dentries) (simp add: db_delete_inode_def)
  have old: "name_count d j = name_count (delete_dentry p n d) j" if "j \<noteq> i" for j
    using name_count_delete [OF wf_keys(2) [OF assms(1)] assms(2), of j] that by simp
  have root: "i \<noteq> ROOT_INO" using wf_child [OF assms(1,2)] by simp
  have at: "inode_at ?d j = (if j = i then None else inode_at d j)" for j
    by (simp add: db_delete_inode_def)
  have gone: "j \<noteq> i" if "((q, m), j) \<in> set (t_dentries ?d)" for q m j
    using assms(3) that by (auto simp: db_delete_inode_def name_count_def filter_empty_conv)
  have free: "q \<noteq> i" if "((q, m), j) \<in> set (t_dentries d)" for q m j
    using assms(4) that by (auto simp: has_entries_def list_ex_iff)
  have dir: "is_dir d j \<Longrightarrow> j \<noteq> i \<Longrightarrow> is_dir ?d j" for j by (simp add: is_dir_def at)
  have sz: "size_at ?d j = (if j = i then None else size_at d j)" for j by (simp add: size_at_def at)
  obtain t where t: "t_xattrs d = Some t" using wf_keys(4) [OF assms(1)] by blast
  have "keys_ok ?d" using assms(1) by (simp add: wf_db_def keys_ok_def db_delete_inode_def t)
  moreover have "names_ok ?d"
    unfolding names_ok_def
  proof (clarify)
    fix q m j
    assume e: "((q, m), j) \<in> set (t_dentries ?d)"
    then have e': "((q, m), j) \<in> set (t_dentries d)" by (simp add: db_delete_inode_def)
    show "inode_at ?d j \<noteq> None \<and> j \<noteq> ROOT_INO \<and> is_dir ?d q"
      using assms(1) e' gone [OF e] free [OF e'] dir by (auto simp: wf_db_def names_ok_def at)
  qed
  moreover have "linked_ok ?d"
    using assms(1) old unfolding wf_db_def linked_ok_def nc by (fastforce simp: db_delete_inode_def)
  moreover have "root_ok ?d" using assms(1) root by (simp add: wf_db_def root_ok_def at)
  moreover have "storage_ok ?d"
    using assms(1) unfolding wf_db_def storage_ok_def sz by (fastforce simp: db_delete_inode_def)
  moreover have "sizes_ok ?d" using assms(1) by (auto simp: wf_db_def sizes_ok_def db_delete_inode_def)
  moreover have "attrs_ok ?d"
    using assms(1) unfolding wf_db_def attrs_ok_def at by (fastforce simp: db_delete_inode_def t)
  moreover have "seq_ok ?d" using assms(1) by (auto simp: wf_db_def seq_ok_def db_delete_inode_def)
  ultimately show ?thesis by (simp add: wf_db_def)
qed

lemma wf_db_unlink:
  assumes "wf_db d" and "child_at d p n = Some i" and "is_dir d i \<Longrightarrow> \<not> has_entries d i"
  shows "wf_db (db_unlink p n i now d)"
proof -
  have empty: "\<not> has_entries d i"
    using assms by (fastforce simp: has_entries_def list_ex_iff wf_db_def names_ok_def)
  show ?thesis
    unfolding db_unlink_def Let_def
    using wf_delete_dentry [OF assms(1,2)] wf_delete_last [OF assms(1,2) _ empty]
    by (auto intro!: wf_update_inode)
qed

section \<open>A name elsewhere\<close>

lemma move_absent: "k \<notin> fst ` set t \<Longrightarrow> map (\<lambda>(x, i). (if x = k then k' else x, i)) t = t"
  by (rule map_idI) (force simp: image_iff split: if_splits)

lemma move_keys:
  assumes "unique_keys t" and "map_of t k = Some i" and "k' \<noteq> k \<Longrightarrow> map_of t k' = None"
  shows "map_of (map (\<lambda>(x, i). (if x = k then k' else x, i)) t) x =
      (if x = k' then Some i else if x = k then None else map_of t x)"
    and "unique_keys (map (\<lambda>(x, i). (if x = k then k' else x, i)) t)"
proof -
  from map_of_SomeD [OF assms(2)] obtain xs ys where t: "t = xs @ (k, i) # ys"
    by (meson split_list)
  have free: "k \<notin> fst ` set xs" "k \<notin> fst ` set ys" using assms(1) unfolding t by auto
  have free': "k' \<notin> fst ` set xs" "k' \<notin> fst ` set ys"
    using assms(3) free unfolding t by (auto simp: map_of_eq_None_iff)
  have moved: "map (\<lambda>(x, i). (if x = k then k' else x, i)) t = xs @ (k', i) # ys"
    unfolding t by (simp add: move_absent free)
  show "unique_keys (map (\<lambda>(x, i). (if x = k then k' else x, i)) t)"
    unfolding moved using assms(1) free' unfolding t by (auto simp: image_iff)
  have none: "map_of ys k = None" "map_of ys k' = None" "map_of xs k = None" "map_of xs k' = None"
    using free free' by (simp_all add: map_of_eq_None_iff)
  show "map_of (map (\<lambda>(x, i). (if x = k then k' else x, i)) t) x =
      (if x = k' then Some i else if x = k then None else map_of t x)"
    unfolding moved unfolding t using none by (auto simp: map_add_def split: option.splits)
qed

definition db_move :: "u64 \<Rightarrow> string \<Rightarrow> u64 \<Rightarrow> string \<Rightarrow> db \<Rightarrow> db" where
  "db_move p n p' n' d = d\<lparr>t_dentries :=
     map (\<lambda>(k, i). (if k = (p, n) then (p', n') else k, i)) (t_dentries d)\<rparr>"

lemma move_dentry_Inr:
  "move_dentry p n p' n' d = Inr (u, d') \<Longrightarrow> child_at d p n = Some i \<Longrightarrow>
     d' = db_move p n p' n' d \<and> ((p', n') \<noteq> (p, n) \<longrightarrow> child_at d p' n' = None)"
  by (auto simp: move_dentry_def db_move_def split: if_splits)

lemma wf_db_move:
  assumes "wf_db d" and "child_at d p n = Some i" and "is_dir d p'"
    and "(p', n') \<noteq> (p, n) \<Longrightarrow> child_at d p' n' = None"
  shows "wf_db (db_move p n p' n' d)" (is "wf_db ?d")
proof -
  have nc: "name_count ?d j = name_count d j" for j
    by (rule name_count_move [where f = "\<lambda>k. if k = (p, n) then (p', n') else k"]) (simp add: db_move_def)
  have dir: "is_dir ?d = is_dir d" and sz: "size_at ?d = size_at d"
    by (auto simp: fun_eq_iff is_dir_def size_at_def db_move_def)
  have "keys_ok ?d"
    using assms(1) move_keys(2) [OF wf_keys(2) [OF assms(1)] assms(2,4)]
    by (simp add: wf_db_def keys_ok_def db_move_def)
  moreover have "names_ok ?d"
    using assms(1,3) unfolding wf_db_def names_ok_def dir by (fastforce simp: db_move_def split: if_splits)
  moreover have "linked_ok ?d"
    using assms(1) unfolding wf_db_def linked_ok_def nc by (simp add: db_move_def)
  moreover have "root_ok ?d" "sizes_ok ?d" "attrs_ok ?d" "seq_ok ?d"
    using assms(1) by (simp_all add: wf_db_def root_ok_def sizes_ok_def attrs_ok_def seq_ok_def db_move_def)
  moreover have "storage_ok ?d"
    using assms(1) by (simp add: wf_db_def storage_ok_def sz) (simp add: db_move_def)
  ultimately show ?thesis by (simp add: wf_db_def)
qed

section \<open>Blocks and sizes\<close>

lemma write_blocks_keeps:
  "P s \<Longrightarrow> (\<And>b x s. P s \<Longrightarrow> P (put b x s)) \<Longrightarrow> P (write_blocks get put pos dat s)"
proof (induction "length dat" arbitrary: pos dat s rule: less_induct)
  case less
  show ?case
  proof (cases "dat = []")
    case True
    with less.prems show ?thesis by (simp add: write_blocks.simps [of get put pos])
  next
    case False
    then have "0 < min (BLOCK_SIZE - pos mod BLOCK_SIZE) (length dat)" by simp
    with False less.prems show ?thesis
      by (subst write_blocks.simps) (auto simp: Let_def intro!: less.hyps)
  qed
qed

lemma wf_stored: "wf_db d \<Longrightarrow> map_of (t_data d) (i, b) = Some x \<Longrightarrow> \<exists>r. inode_at d i = Some r"
  by (drule map_of_SomeD) (fastforce simp: wf_db_def storage_ok_def size_at_def split: option.splits)

text \<open>All that the block operations of one file do to the rest of the tables.\<close>

definition data_frame :: "u64 \<Rightarrow> db \<Rightarrow> db \<Rightarrow> bool" where
  "data_frame ino d s \<longleftrightarrow> s = d\<lparr>t_data := t_data s\<rparr> \<and> unique_keys (t_data s) \<and>
     (\<forall>k x. map_of (t_data s) k = Some x \<longrightarrow> x \<noteq> []) \<and>
     (\<forall>i b. i \<noteq> ino \<longrightarrow> map_of (t_data s) (i, b) = map_of (t_data d) (i, b))"

lemma wf_nonempty: "wf_db d \<Longrightarrow> map_of (t_data d) k = Some x \<Longrightarrow> x \<noteq> []"
  by (cases k) (auto simp: wf_db_def storage_ok_def dest!: map_of_SomeD)

lemma data_frameD:
  assumes "data_frame ino d s"
  shows "t_inodes s = t_inodes d" "t_dentries s = t_dentries d" "t_xattrs s = t_xattrs d"
    "inode_seq s = inode_seq d" "xattrs_gc s = xattrs_gc d" "t_meta s = t_meta d"
    "unique_keys (t_data s)"
    "\<And>k x. map_of (t_data s) k = Some x \<Longrightarrow> x \<noteq> []"
    "\<And>i b. i \<noteq> ino \<Longrightarrow> map_of (t_data s) (i, b) = map_of (t_data d) (i, b)"
proof -
  from assms have s: "s = d\<lparr>t_data := t_data s\<rparr>" unfolding data_frame_def by blast
  show "t_inodes s = t_inodes d" "t_dentries s = t_dentries d" "t_xattrs s = t_xattrs d"
    "inode_seq s = inode_seq d" "xattrs_gc s = xattrs_gc d" "t_meta s = t_meta d"
    by (subst s, simp)+
  show "unique_keys (t_data s)" using assms unfolding data_frame_def by blast
  show "\<And>k x. map_of (t_data s) k = Some x \<Longrightarrow> x \<noteq> []" using assms unfolding data_frame_def by blast
  show "\<And>i b. i \<noteq> ino \<Longrightarrow> map_of (t_data s) (i, b) = map_of (t_data d) (i, b)"
    using assms unfolding data_frame_def by blast
qed

lemma data_frame_update:
  assumes "data_frame ino d s" and "unique_keys t" and "\<And>k x. map_of t k = Some x \<Longrightarrow> x \<noteq> []"
    and "\<And>i b. i \<noteq> ino \<Longrightarrow> map_of t (i, b) = map_of (t_data s) (i, b)"
  shows "data_frame ino d (s\<lparr>t_data := t\<rparr>)"
proof -
  have "s = d\<lparr>t_data := t_data s\<rparr>" using assms(1) unfolding data_frame_def by blast
  then have "s\<lparr>t_data := t\<rparr> = d\<lparr>t_data := t\<rparr>" by (metis db.update_convs(4) db.cases)
  then show ?thesis
    unfolding data_frame_def using assms(2-) data_frameD(9) [OF assms(1)] by simp
qed

lemma data_frame_refl: "wf_db d \<Longrightarrow> data_frame ino d d"
  unfolding data_frame_def using wf_keys(3) wf_nonempty by simp

lemma data_frame_clear: "data_frame ino d s \<Longrightarrow> data_frame ino d (delete_blocks (\<lambda>i b. i = ino \<and> P b) s)"
  unfolding delete_blocks_def
  by (rule data_frame_update) (auto dest: data_frameD(8) simp del: map_of_eq_Some_iff
      simp: data_frameD(7) split: if_splits)

lemma data_frame_store: "data_frame ino d s \<Longrightarrow> data_frame ino d (store_block ino b x s)"
  unfolding store_block_def upsert_block_def
  by (auto intro!: data_frame_clear data_frame_update simp del: map_of_eq_Some_iff
      simp: update_conv' distinct_update data_frameD(7) dest: data_frameD(8) split: if_splits)

lemma data_frame_write: "wf_db d \<Longrightarrow> data_frame ino d (db_write_blocks ino pos dat d)"
  by (rule write_blocks_keeps [where P = "data_frame ino d"])
     (simp_all add: data_frame_refl data_frame_store)

lemma data_frame_truncate: "wf_db d \<Longrightarrow> data_frame ino d (db_truncate_blocks ino n d)"
  by (auto simp: truncate_blocks_def Let_def intro!: data_frame_store data_frame_clear data_frame_refl)

lemma data_frame_content: "data_frame ino d s \<Longrightarrow> i \<noteq> ino \<Longrightarrow> block_content s i = block_content d i"
  by (auto simp: fun_eq_iff block_content_def block_at_def data_frameD(9))

lemma wf_data_frame:
  assumes "wf_db d" and "data_frame ino d s" and "inode_at d ino = Some r" and "0 \<le> n" and "n < 2 ^ 63"
    and "fits (file_blocks ino) s (nat n)"
    and kind: "\<And>r. i_kind (f r) = i_kind r" and size: "\<And>r. i_size (f r) = n"
  shows "wf_db (update_inode ino f s)" (is "wf_db ?d")
proof -
  note fr = data_frameD [OF assms(2)]
  have at: "inode_at ?d i = (if i = ino then map_option f (inode_at d i) else inode_at d i)" for i
    by (simp add: update_inode_def fr)
  have inodes: "t_inodes ?d = update_where (\<lambda>k. k = ino) f (t_inodes d)"
    by (simp add: update_inode_def fr)
  have same: "t_dentries ?d = t_dentries d" "t_xattrs ?d = t_xattrs d" "inode_seq ?d = inode_seq d"
    "t_data ?d = t_data s" by (simp_all add: update_inode_def fr)
  have nc: "name_count ?d i = name_count d i" for i by (rule name_count_dentries) (rule same)
  have dir: "is_dir ?d = is_dir d"
    by (auto simp: fun_eq_iff is_dir_def at kind split: option.splits)
  have bc: "block_content ?d = block_content s"
    by (simp add: fun_eq_iff block_content_def block_at_def same)
  have "keys_ok ?d" using assms(1) fr(7) by (simp add: wf_db_def keys_ok_def same inodes)
  moreover have "names_ok ?d"
    using assms(1) by (auto simp: wf_db_def names_ok_def same dir at)
  moreover have "linked_ok ?d"
    using assms(1) unfolding wf_db_def linked_ok_def nc inodes
    by (auto simp: set_update_where kind split: if_splits)
  moreover have "root_ok ?d" using assms(1) by (simp add: wf_db_def root_ok_def at)
  moreover have "storage_ok ?d"
  proof (rule storage_okI)
    show "unique_keys (t_data ?d)" using fr(7) by (simp add: same)
    show "x \<noteq> []" if "map_of (t_data ?d) k = Some x" for k x
      using that by (simp add: same) (rule fr(8))
    fix i b x
    assume b: "map_of (t_data ?d) (i, b) = Some x"
    show "\<exists>r. inode_at ?d i = Some r \<and> 0 \<le> i_size r \<and> fits (file_blocks i) ?d (nat (i_size r))"
    proof (cases "i = ino")
      case True
      then show ?thesis using assms(3,4,6) by (simp add: at size fits_def bc)
    next
      case False
      then have "map_of (t_data d) (i, b) = Some x" using b fr(9) by (simp add: same)
      then obtain r' where r': "inode_at d i = Some r'"
        using wf_stored [OF assms(1)] by blast
      have "fits (file_blocks i) ?d (nat (i_size r'))"
        using wf_fits [OF assms(1) r'] by (simp add: fits_def bc data_frame_content [OF assms(2) False])
      then show ?thesis using r' False wf_size [OF assms(1) r'] by (simp add: at)
    qed
  qed
  moreover have "sizes_ok ?d"
    using assms(1,4,5) unfolding wf_db_def sizes_ok_def inodes by (auto simp: set_update_where size)
  moreover have "attrs_ok ?d" using assms(1) by (auto simp: wf_db_def attrs_ok_def same at)
  moreover have "seq_ok ?d"
    using assms(1) unfolding wf_db_def seq_ok_def inodes same by (auto simp: set_update_where)
  ultimately show ?thesis by (simp add: wf_db_def)
qed

section \<open>The effects on files\<close>

lemma update_inode_other: "inode_at (update_inode ino f d) i =
    (if i = ino then map_option f (inode_at d i) else inode_at d i)"
  by (simp add: update_inode_def)

lemma update_inode_frame [simp]:
  "t_dentries (update_inode ino f d) = t_dentries d" "t_data (update_inode ino f d) = t_data d"
  "t_xattrs (update_inode ino f d) = t_xattrs d" "inode_seq (update_inode ino f d) = inode_seq d"
  "xattrs_gc (update_inode ino f d) = xattrs_gc d" "t_meta (update_inode ino f d) = t_meta d"
  "block_content (update_inode ino f d) = block_content d"
  by (simp_all add: update_inode_def block_content_def block_at_def fun_eq_iff)

text \<open>Blocks are read through \<open>block_content\<close> only, so equal blocks are equal content.\<close>

lemma file_bytes_cong: "get s = get' s' \<Longrightarrow> file_bytes get s n = file_bytes get' s' n"
  by (simp add: file_bytes_def byte_at_def fun_eq_iff)

definition db_write :: "u64 \<Rightarrow> nat \<Rightarrow> bytes \<Rightarrow> f64 \<Rightarrow> db \<Rightarrow> db" where
  "db_write ino pos dat now d =
     update_inode ino
       (\<lambda>r. r\<lparr>i_size := int (max (file_size d ino) (pos + length dat)), i_mtime := now, i_ctime := now\<rparr>)
       (db_write_blocks ino pos dat d)"

lemma wf_db_write:
  assumes "wf_db d" and "inode_at d ino = Some r" and "pos + length dat < 2 ^ 63"
  shows "wf_db (db_write ino pos dat now d)"
proof -
  have sz: "file_size d ino = nat (i_size r)" by (simp add: file_size_def assms(2))
  have "fits (file_blocks ino) d (max (file_size d ino) (pos + length dat))"
    unfolding sz by (rule data_blocks.fits_mono [OF wf_fits [OF assms(1,2)]]) simp
  then have "fits (file_blocks ino) (db_write_blocks ino pos dat d) (max (file_size d ino) (pos + length dat))"
    by (rule data_blocks.fits_write_blocks) simp
  moreover have "file_size d ino < 2 ^ 63" using wf_size [OF assms(1,2)] unfolding sz by (simp add: nat_less_iff)
  ultimately show ?thesis
    unfolding db_write_def using assms(3)
    by (intro wf_data_frame [OF assms(1) data_frame_write [OF assms(1)] assms(2),
          where n = "int (max (file_size d ino) (pos + length dat))"]) auto
qed

lemma content_db_write:
  assumes "wf_db d" and "inode_at d ino = Some r"
  shows "content (db_write ino pos dat now d) ino = pwrite (content d ino) pos dat"
    and "i \<noteq> ino \<Longrightarrow> content (db_write ino pos dat now d) i = content d i"
proof -
  let ?d = "db_write ino pos dat now d"
  have fr: "data_frame ino d (db_write_blocks ino pos dat d)" by (rule data_frame_write [OF assms(1)])
  have at: "inode_at (db_write_blocks ino pos dat d) = inode_at d" by (simp add: data_frameD(1) [OF fr])
  have bc: "block_content ?d = block_content (db_write_blocks ino pos dat d)"
    by (simp add: db_write_def)
  have "zero_from (file_blocks ino) d (file_size d ino)"
    using data_blocks.fits_zero_from [OF wf_fits [OF assms]] by (simp add: file_size_def assms(2))
  moreover have "file_size ?d ino = max (file_size d ino) (pos + length dat)"
    by (simp add: db_write_def file_size_def [of _ ino] update_inode_other at assms(2))
  ultimately show "content ?d ino = pwrite (content d ino) pos dat"
    unfolding content_def
    by (simp add: data_blocks.file_bytes_write_blocks [symmetric]) (rule file_bytes_cong, simp add: bc)
  assume i: "i \<noteq> ino"
  then have "file_size ?d i = file_size d i"
    by (simp add: db_write_def file_size_def update_inode_other at)
  then show "content ?d i = content d i"
    unfolding content_def by simp (rule file_bytes_cong, simp add: bc data_frame_content [OF fr i])
qed

lemma sint_len: "len \<le> 0x7FFFFFFFFFFFFFFF \<Longrightarrow> sint (len :: u64) = int (unat len)"
  by (rule sint_small) (simp add: word_le_nat_alt)

lemma wf_db_truncate:
  assumes "wf_db d" and "inode_at d ino = Some r" and "len \<le> MAX_FILE_SIZE"
  shows "wf_db (db_truncate ino len now d)"
proof -
  have "unat len < 2 ^ 63" using assms(3) by (simp add: word_le_nat_alt)
  then have len: "sint len = int (unat len)" "int (unat len) < 2 ^ 63"
    by (rule sint_small) (metis \<open>unat len < 2 ^ 63\<close> of_nat_less_numeral_power_cancel_iff)
  have "fits (file_blocks ino) (db_truncate_blocks ino (unat len) d) (unat len)"
    by (rule data_blocks.fits_truncate_blocks [OF wf_fits [OF assms(1,2)]])
  then show ?thesis
    unfolding db_truncate_def using len
    by (intro wf_data_frame [OF assms(1) data_frame_truncate [OF assms(1)] assms(2),
          where n = "int (unat len)"]) auto
qed

lemma content_db_truncate:
  assumes "wf_db d" and "inode_at d ino = Some r" and "len \<le> MAX_FILE_SIZE"
  shows "content (db_truncate ino len now d) ino = resize (content d ino) (unat len)"
    and "i \<noteq> ino \<Longrightarrow> content (db_truncate ino len now d) i = content d i"
proof -
  let ?d = "db_truncate ino len now d" and ?b = "db_truncate_blocks ino (unat len) d"
  have fr: "data_frame ino d ?b" by (rule data_frame_truncate [OF assms(1)])
  have at: "inode_at ?b = inode_at d" by (simp add: data_frameD(1) [OF fr])
  have bc: "block_content ?d = block_content ?b" by (simp add: db_truncate_def)
  have "zero_from (file_blocks ino) d (file_size d ino)"
    using data_blocks.fits_zero_from [OF wf_fits [OF assms(1,2)]] by (simp add: file_size_def assms(2))
  moreover have "file_size ?d ino = unat len"
    by (simp add: db_truncate_def file_size_def update_inode_other at assms(2) sint_len [OF assms(3)])
  ultimately show "content ?d ino = resize (content d ino) (unat len)"
    unfolding content_def
    by (simp add: data_blocks.file_bytes_truncate_blocks [symmetric]) (rule file_bytes_cong, simp add: bc)
  assume i: "i \<noteq> ino"
  then have "file_size ?d i = file_size d i"
    by (simp add: db_truncate_def file_size_def update_inode_other at)
  then show "content ?d i = content d i"
    unfolding content_def by simp (rule file_bytes_cong, simp add: bc data_frame_content [OF fr i])
qed

section \<open>Privileges and extended attributes\<close>

lemma wf_xattrs:
  assumes "wf_db d" and "unique_keys t" and "\<And>i n v. ((i, n), v) \<in> set t \<Longrightarrow> inode_at d i \<noteq> None"
  shows "wf_db (d\<lparr>t_xattrs := Some t\<rparr>)" (is "wf_db ?d")
proof -
  have frames: "is_dir ?d = is_dir d" "size_at ?d = size_at d" "name_count ?d = name_count d"
    by (auto simp: fun_eq_iff is_dir_def size_at_def name_count_def)
  have "keys_ok ?d" "attrs_ok ?d" using assms by (auto simp: wf_db_def keys_ok_def attrs_ok_def)
  moreover have "names_ok ?d" using assms(1) by (simp add: wf_db_def names_ok_def frames)
  moreover have "linked_ok ?d" using assms(1) unfolding wf_db_def linked_ok_def frames by simp
  moreover have "storage_ok ?d" using assms(1) by (simp add: wf_db_def storage_ok_def frames)
  moreover have "root_ok ?d" "sizes_ok ?d" "seq_ok ?d"
    using assms(1) by (simp_all add: wf_db_def root_ok_def sizes_ok_def seq_ok_def)
  ultimately show ?thesis by (simp add: wf_db_def)
qed

lemma wf_attr_inode:
  "wf_db d \<Longrightarrow> t_xattrs d = Some t \<Longrightarrow> ((i, n), v) \<in> set t \<Longrightarrow> inode_at d i \<noteq> None"
  by (fastforce simp: wf_db_def attrs_ok_def)

lemma wf_set_xattr:
  assumes "wf_db d" and "t_xattrs d = Some t" and "inode_at d ino \<noteq> None"
  shows "wf_db (d\<lparr>t_xattrs := Some (AList.update (ino, n) v t)\<rparr>)"
proof (rule wf_xattrs [OF assms(1)])
  have u: "unique_keys t" using wf_keys(4) [OF assms(1)] assms(2) by auto
  then show "unique_keys (AList.update (ino, n) v t)" by (rule distinct_update)
  fix i m w
  assume "((i, m), w) \<in> set (AList.update (ino, n) v t)"
  then have "(i, m) \<in> fst ` set (AList.update (ino, n) v t)" by force
  then have "(i, m) = (ino, n) \<or> (i, m) \<in> fst ` set t" by (simp add: dom_update)
  then show "inode_at d i \<noteq> None" using wf_attr_inode [OF assms(1,2)] assms(3) by force
qed

lemma wf_delete_xattr:
  "wf_db d \<Longrightarrow> t_xattrs d = Some t \<Longrightarrow> wf_db (d\<lparr>t_xattrs := Some (delete_where P t)\<rparr>)"
  using wf_keys(4) wf_attr_inode by (intro wf_xattrs) fastforce+

lemma wf_db_kill_priv:
  assumes "wf_db d"
  shows "wf_db (db_kill_priv ino d)"
proof -
  obtain t where t: "t_xattrs d = Some t" using wf_keys(4) [OF assms] by blast
  have "wf_db (update_inode ino (drop_sgid \<circ> drop_suid) d)"
    by (rule wf_update_inode [OF assms]) simp_all
  from wf_delete_xattr [OF this] t show ?thesis by (simp add: db_kill_priv_def Let_def)
qed

end
