(* ===== verification/Callbacks.thy ===== *)
theory Callbacks
  imports Preserve
begin

text \<open>
  From a callback to its effect: what an \<open>Ok\<close> reply of each callback that writes says about
  the tables before and after, and that an error reply of a transaction leaves them alone.
  The properties of the filesystem are read off these lemmas.
\<close>

section \<open>Unwrapping a callback\<close>

abbreviation tables :: "coffer_fs \<Rightarrow> db" where
  "tables self \<equiv> cdb (con self)"

lemma tables_touch [simp]: "tables (touch self) = tables self"
  by (simp add: touch_def)

lemma touch_frame [simp]:
  "read_only (touch self) = read_only self" "has_xattrs (touch self) = has_xattrs self"
  "max_size (touch self) = max_size self" "fs_uid (touch self) = fs_uid self"
  "fs_gid (touch self) = fs_gid self" "healthy (con (touch self)) = healthy (con self)"
  by (simp_all add: touch_def)

lemma touching_run: "touching k self = k (touch self) (touch self)"
  by (simp add: touching_def Let_def)

lemma writing_run:
  "writing k self = (if read_only self then (Inl (Errno EROFS), touch self) else k (touch self) (touch self))"
  by (simp add: writing_def touching_run refuse_def throw_def)

lemma on_con_inv:
  "(on_con m self = (r, self')) = (\<exists>c. m (con self) = (r, c) \<and> self' = self\<lparr>con := c\<rparr>)"
  by (auto simp: on_con_def split: prod.splits)

lemma fst_on_con: "fst (on_con m self) = fst (m (con self))"
  by (simp add: on_con_def split: prod.split)

lemma refuse_inv: "(refuse e self = (r, self')) = (r = Inl (Errno e) \<and> self' = self)"
  by (auto simp: refuse_def throw_inv)

lemma with_str_run:
  "with_str os k self = (if utf8_valid os then k os self else (Inl (Errno EINVAL), self))"
  by (simp add: with_str_def to_str_def refuse_def throw_def)

text \<open>The early returns of a body, when it went through.\<close>

lemma case_option_fail [act_inv]:
  "((case x of None \<Rightarrow> fail e | Some a \<Rightarrow> k a) c = (Inr b, c')) =
     (\<exists>a. x = Some a \<and> k a c = (Inr b, c'))"
  by (auto simp: fail_inv split: option.splits)

lemma case_option_found [act_inv]:
  "((case x of None \<Rightarrow> m | Some a \<Rightarrow> fail e) c = (Inr b, c')) = (x = None \<and> m c = (Inr b, c'))"
  by (auto simp: fail_inv split: option.splits)

lemma if_fail [act_inv]:
  "((if P then fail e else m) c = (Inr b, c')) = (\<not> P \<and> m c = (Inr b, c'))"
  by (simp add: fail_inv)

lemmas call_inv = touching_run writing_run on_con_inv refuse_inv with_str_run

section \<open>Reading rows back\<close>

lemma readonly_row_by_ino [readonly_intros]: "readonly (row_by_ino ino)"
  by (simp add: row_by_ino_def readonly_query)

lemma readonly_child_ino [readonly_intros]: "readonly (child_ino p n)"
  by (simp add: child_ino_def readonly_query)

lemma readonly_attr_of [readonly_intros]: "readonly (attr_of e ino)"
  unfolding attr_of_def by (auto intro!: readonly_intros split: option.splits)

lemma readonly_ensure_removable [readonly_intros]: "readonly (ensure_removable ino)"
  unfolding ensure_removable_def has_children_def
  by (auto intro!: readonly_intros split: option.splits)

lemma readonly_total_size [readonly_intros]: "readonly current_total_size"
  unfolding current_total_size_def
  by (intro readonly_intros readonly_exec_select) (auto simp: select_sum_def split: if_splits)

lemma readonly_ceiling_check [readonly_intros]: "readonly (ceiling_check a ov)"
  unfolding ceiling_check_def by (auto intro!: readonly_intros split: sum.splits)

lemma readonly_expect_absent [readonly_intros]: "readonly (expect_absent p n)"
  unfolding expect_absent_def by (auto intro!: readonly_intros split: option.splits)

lemma attr_of_cdb: "attr_of e ino c = (r, c') \<Longrightarrow> cdb c' = cdb c"
  by (rule readonlyD [OF readonly_attr_of])

lemma ceiling_check_cdb: "ceiling_check a ov c = (r, c') \<Longrightarrow> cdb c' = cdb c"
  by (rule readonlyD [OF readonly_ceiling_check])

lemma expect_absent_Inr:
  "expect_absent p n c = (Inr u, c') \<Longrightarrow> cdb c' = cdb c \<and> child_at (cdb c) p n = None"
  by (auto simp: expect_absent_def child_ino_def act_inv split: option.splits)

lemma row_by_ino_Inr:
  "row_by_ino ino c = (Inr (Some row), c') \<Longrightarrow>
     cdb c' = cdb c \<and> (\<exists>r. inode_at (cdb c) ino = Some r \<and> row = map_row (cdb c) ino r)"
  unfolding row_by_ino_def query_Inr by (metis conn.select_convs(1) conn.update_convs(2) conn.surjective map_option_eq_Some)

lemma child_ino_Inr:
  "child_ino p n c = (Inr x, c') \<Longrightarrow> cdb c' = cdb c \<and> x = child_at (cdb c) p n"
  by (auto simp: child_ino_def act_inv)

lemma ensure_removable_Inr:
  "ensure_removable ino c = (Inr u, c') \<Longrightarrow>
     cdb c' = cdb c \<and> (is_dir (cdb c) ino \<longrightarrow> \<not> has_entries (cdb c) ino)"
  by (auto simp: ensure_removable_def has_children_def act_inv is_dir_def
      split: option.splits if_splits)

lemmas body_dest = attr_of_cdb ceiling_check_cdb expect_absent_Inr row_by_ino_Inr child_ino_Inr
  ensure_removable_Inr unlink_dentry_Inr link_dentry_Inr insert_child_Inr kill_priv_Inr
  truncate_inode_Inr write_loop_Inr

section \<open>The transaction bodies\<close>

lemma mkdir_body_Inr:
  "mkdir_body uid gid p n mode c = (Inr ino, c') \<Longrightarrow>
     \<exists>now. child_at (cdb c) p n = None \<and> next_rowid (cdb c) < 2 ^ 63 \<and>
       ino = word_of_nat (next_rowid (cdb c)) \<and>
       cdb c' = db_insert_child p n
         (new_inode KIND_DIR (uint (S_IFDIR OR (mode AND 0xFFF))) uid gid None now) now (cdb c)"
  unfolding mkdir_body_def by (fastforce simp: act_inv Let_def dest!: body_dest)

lemma create_body_Inr:
  "create_body msize uid gid p n mode c = (Inr ino, c') \<Longrightarrow>
     \<exists>now. child_at (cdb c) p n = None \<and> next_rowid (cdb c) < 2 ^ 63 \<and>
       ino = word_of_nat (next_rowid (cdb c)) \<and>
       cdb c' = db_insert_child p n
         (new_inode KIND_FILE (uint (S_IFREG OR (mode AND 0xFFF))) uid gid None now) now (cdb c)"
  unfolding create_body_def by (fastforce simp: act_inv Let_def dest!: body_dest)

lemma symlink_body_Inr:
  "symlink_body msize uid gid p n target c = (Inr ino, c') \<Longrightarrow>
     \<exists>now. child_at (cdb c) p n = None \<and> next_rowid (cdb c) < 2 ^ 63 \<and>
       ino = word_of_nat (next_rowid (cdb c)) \<and>
       cdb c' = db_insert_child p n
         (new_inode KIND_SYMLINK (uint (S_IFLNK OR 0x1FF :: u32)) uid gid (Some target) now) now (cdb c)"
  unfolding symlink_body_def
  by (fastforce simp: act_inv Let_def dest!: body_dest readonlyD [OF readonly_child_ino])

lemma unlink_body_Inr:
  "unlink_body p n c = (Inr u, c') \<Longrightarrow>
     \<exists>ino now. child_at (cdb c) p n = Some ino \<and> cdb c' = db_unlink p n ino now (cdb c)"
  unfolding unlink_body_def by (fastforce simp: act_inv dest!: body_dest split: option.splits)

lemma rmdir_body_Inr:
  "rmdir_body p n c = (Inr u, c') \<Longrightarrow>
     \<exists>ino now. child_at (cdb c) p n = Some ino \<and> ino \<noteq> ROOT_INO \<and>
       (is_dir (cdb c) ino \<longrightarrow> \<not> has_entries (cdb c) ino) \<and> cdb c' = db_unlink p n ino now (cdb c)"
  unfolding rmdir_body_def
  by (fastforce simp: act_inv dest!: body_dest split: option.splits if_splits)

definition db_replace :: "u64 \<Rightarrow> u64 \<Rightarrow> string \<Rightarrow> f64 \<Rightarrow> db \<Rightarrow> db" where
  "db_replace ino np nn now d =
     (case child_at d np nn of
        Some existing \<Rightarrow> if existing \<noteq> ino then db_unlink np nn existing now d else d
      | None \<Rightarrow> d)"

definition db_touch_dirs :: "u64 \<Rightarrow> u64 \<Rightarrow> f64 \<Rightarrow> db \<Rightarrow> db" where
  "db_touch_dirs p np now d =
     d\<lparr>t_inodes := update_where (\<lambda>k. k = p \<or> k = np) (set_mc now) (t_inodes d)\<rparr>"

definition replaceable :: "u64 \<Rightarrow> u64 \<Rightarrow> string \<Rightarrow> db \<Rightarrow> bool" where
  "replaceable ino np nn d \<longleftrightarrow>
     (\<forall>e. child_at d np nn = Some e \<longrightarrow> e \<noteq> ino \<longrightarrow> is_dir d e \<longrightarrow> \<not> has_entries d e)"

lemma replace_target_Inr:
  "replace_target ino np nn (child_at (cdb c) np nn) c = (Inr u, c') \<Longrightarrow>
     \<exists>now. cdb c' = db_replace ino np nn now (cdb c) \<and> replaceable ino np nn (cdb c)"
  by (cases "child_at (cdb c) np nn")
     (fastforce simp: replace_target_def act_inv db_replace_def replaceable_def
       dest!: body_dest split: if_splits)+

definition db_rename :: "u64 \<Rightarrow> string \<Rightarrow> u64 \<Rightarrow> string \<Rightarrow> u64 \<Rightarrow> f64 \<Rightarrow> f64 \<Rightarrow> db \<Rightarrow> db" where
  "db_rename p n np nn ino now now' d =
     db_touch_dirs p np now' (db_move p n np nn (db_replace ino np nn now d))"

lemma rename_body_Inr:
  assumes "rename_body p n np nn flags c = (Inr u, c')"
  shows "\<exists>ino now now'. child_at (cdb c) p n = Some ino \<and>
    flags AND (RENAME_EXCHANGE OR RENAME_WHITEOUT) = 0 \<and>
    (flags AND RENAME_NOREPLACE = 0 \<or> child_at (cdb c) np nn = None) \<and>
    replaceable ino np nn (cdb c) \<and>
    (child_at (db_replace ino np nn now (cdb c)) p n \<noteq> None \<longrightarrow> (np, nn) \<noteq> (p, n) \<longrightarrow>
       child_at (db_replace ino np nn now (cdb c)) np nn = None) \<and>
    cdb c' = db_rename p n np nn ino now now' (cdb c)"
proof -
  from assms obtain ino c1 target c2 c3 c4 c5 c6 c7 now' where
    steps: "child_ino p n c = (Inr (Some ino), c1)" "child_ino np nn c1 = (Inr target, c2)"
    "flags AND (RENAME_EXCHANGE OR RENAME_WHITEOUT) = 0"
    "\<not> (flags AND RENAME_NOREPLACE \<noteq> 0 \<and> target \<noteq> None)"
    "replace_target ino np nn target c2 = (Inr (), c3)"
    "(now_secs :: f64 io) c3 = (Inr now', c4)" "exec_sql (move_dentry p n np nn) c4 = (Inr (), c5)"
    "execute (db_touch_dirs p np now') c5 = (Inr (), c6)" "commit c6 = (Inr c7, c')"
    unfolding rename_body_def [folded db_touch_dirs_def]
    by (auto simp: bind_Inr or_eio_Inr case_option_fail if_fail fail_inv
        split: if_splits)
  have eq: "cdb c1 = cdb c" "cdb c2 = cdb c" "cdb c4 = cdb c3" "target = child_at (cdb c) np nn"
    "child_at (cdb c) p n = Some ino"
    using steps(1,2,6) by (auto simp: now_secs_inv dest!: child_ino_Inr)
  from steps(5) obtain now where
    rep: "cdb c3 = db_replace ino np nn now (cdb c)" "replaceable ino np nn (cdb c)"
    using replace_target_Inr [of ino np nn c2] unfolding eq by auto
  from steps(7) have "move_dentry p n np nn (cdb c3) = Inr ((), cdb c5)"
    by (auto simp: exec_sql_Inr eq(3))
  then have mv: "cdb c5 = db_move p n np nn (cdb c3)"
    "child_at (cdb c3) p n \<noteq> None \<longrightarrow> (np, nn) \<noteq> (p, n) \<longrightarrow> child_at (cdb c3) np nn = None"
    by (auto simp: move_dentry_def db_move_def split: if_splits)
  have "cdb c' = db_rename p n np nn ino now now' (cdb c)"
    using steps(8,9) by (auto simp: execute_Inr commit_Inr db_rename_def mv(1) rep(1))
  with mv(2) rep eq steps(3,4) show ?thesis by auto
qed

lemma link_body_Inr:
  "link_body ino p n c = (Inr a, c') \<Longrightarrow>
     \<exists>r now. inode_at (cdb c) ino = Some r \<and> i_kind r \<noteq> KIND_DIR \<and> child_at (cdb c) p n = None \<and>
       cdb c' = update_inode ino (set_c now) (db_link p n ino now (cdb c))"
  unfolding link_body_def
  by (fastforce simp: act_inv map_row_def dest!: body_dest)

definition db_kill_if :: "bool \<Rightarrow> u64 \<Rightarrow> db \<Rightarrow> db" where
  "db_kill_if b ino d = (if b then db_kill_priv ino d else d)"

definition set_size :: "i64 \<Rightarrow> f64 \<Rightarrow> inode \<Rightarrow> inode" where
  "set_size n now r = r\<lparr>i_size := n, i_mtime := now, i_ctime := now\<rparr>"

lemma write_body_Inr:
  assumes "write_body msize ino offset dat kill_flag c = (Inr u, c')"
  shows "\<exists>r now. inode_at (cdb c) ino = Some r \<and>
    cdb c' = db_kill_if kill_flag ino
      (update_inode ino (set_size (sint (max (word_of_int (i_size r)) (offset + word_of_nat (length dat)) :: u64)) now)
        (db_write_blocks ino (unat offset) dat (cdb c)))"
proof -
  from assms obtain row c1 c2 c3 c4 c5 c6 now where
    steps: "row_by_ino ino c = (Inr (Some row), c1)" "cdb c2 = cdb c1"
    "write_loop ino (unat offset) dat c2 = (Inr (), c3)" "(now_secs :: f64 io) c3 = (Inr now, c4)"
    "execute (update_inode ino (set_size (sint (max (r_size row) (offset + word_of_nat (length dat)))) now)) c4 = (Inr (), c5)"
    "(if kill_flag then or_errno (kill_priv ino) else ret ()) c5 = (Inr (), c6)" "commit c6 = (Inr (), c')"
    unfolding write_body_def [folded set_size_def] Let_def
    by (auto simp: bind_Inr or_eio_Inr or_errno_Inr case_option_fail dest!: ceiling_check_cdb)
  from row_by_ino_Inr [OF steps(1)] obtain r where
    r: "cdb c1 = cdb c" "inode_at (cdb c) ino = Some r" "row = map_row (cdb c) ino r" by blast
  have "cdb c' = cdb c6" using steps(7) by (auto simp: commit_Inr)
  moreover have "cdb c6 = db_kill_if kill_flag ino (cdb c5)"
    using steps(6) by (auto simp: db_kill_if_def act_inv dest!: kill_priv_Inr split: if_splits)
  ultimately show ?thesis
    using r steps(2,4,5) write_loop_Inr [OF steps(3)]
    by (auto simp: execute_Inr now_secs_inv map_row_def)
qed

section \<open>setattr\<close>

lemma is_ok_Inr: "(is_ok m c = (Inr b, c')) = (\<exists>r. m c = (r, c') \<and> b = (case r of Inr _ \<Rightarrow> True | Inl _ \<Rightarrow> False))"
  by (auto simp: is_ok_def act_inv)

lemma is_ok_True: "is_ok m c = (Inr True, c') \<Longrightarrow> \<exists>a. m c = (Inr a, c')"
  by (cases "m c"; cases "fst (m c)") (auto simp: is_ok_Inr)

definition db_mode :: "u64 \<Rightarrow> i64 \<Rightarrow> f64 \<Rightarrow> u32 option \<Rightarrow> db \<Rightarrow> db" where
  "db_mode ino old now mode d = (case mode of None \<Rightarrow> d | Some m \<Rightarrow>
     update_inode ino (\<lambda>r. r\<lparr>i_mode := (old AND NOT PERM_BITS) OR (uint m AND PERM_BITS), i_ctime := now\<rparr>) d)"

definition db_owner :: "u64 \<Rightarrow> inode_row \<Rightarrow> f64 \<Rightarrow> u32 option \<Rightarrow> u32 option \<Rightarrow> db \<Rightarrow> db" where
  "db_owner ino row now uid gid d =
     (if uid = None \<and> gid = None then d
      else update_inode ino (\<lambda>r.
        r\<lparr>i_uid := uint (case uid of Some u \<Rightarrow> u | None \<Rightarrow> r_uid row),
          i_gid := uint (case gid of Some g \<Rightarrow> g | None \<Rightarrow> r_gid row), i_ctime := now\<rparr>) d)"

definition db_size :: "u64 \<Rightarrow> u64 option \<Rightarrow> f64 \<Rightarrow> db \<Rightarrow> db" where
  "db_size ino sz now d = (case sz of None \<Rightarrow> d | Some len \<Rightarrow> db_truncate ino len now d)"

definition db_times :: "u64 \<Rightarrow> bool \<Rightarrow> f64 \<Rightarrow> f64 \<Rightarrow> db \<Rightarrow> db" where
  "db_times ino given a m d = (if given then update_inode ino (\<lambda>r. r\<lparr>i_atime := a, i_mtime := m\<rparr>) d else d)"

definition kills :: "u32 \<Rightarrow> i64 \<Rightarrow> u32 option \<Rightarrow> u32 option \<Rightarrow> u32 option \<Rightarrow> u64 option \<Rightarrow> bool" where
  "kills req_uid kind mode uid gid sz \<longleftrightarrow> mode = None \<and>
     (sz \<noteq> None \<and> req_uid \<noteq> 0 \<or> (uid \<noteq> None \<or> gid \<noteq> None) \<and> kind \<noteq> KIND_DIR)"

lemma setattr_mode_True:
  "setattr_mode ino row now mode c = (Inr True, c') \<Longrightarrow> cdb c' = db_mode ino (r_mode row) now mode (cdb c)"
  by (auto simp: setattr_mode_def db_mode_def Let_def act_inv dest!: is_ok_True split: option.splits)

lemma setattr_owner_True:
  "setattr_owner ino row now uid gid c = (Inr True, c') \<Longrightarrow> cdb c' = db_owner ino row now uid gid (cdb c)"
  by (auto simp: setattr_owner_def db_owner_def Let_def act_inv dest!: is_ok_True split: if_splits)

lemma setattr_size_True:
  "setattr_size msize ino row sz c = (Inr True, c') \<Longrightarrow>
     (\<forall>len. sz = Some len \<longrightarrow> len \<le> MAX_FILE_SIZE) \<and> (\<exists>now. cdb c' = db_size ino sz now (cdb c))"
  by (cases sz)
     (auto simp: setattr_size_def db_size_def act_inv not_less dest!: is_ok_True ceiling_check_cdb truncate_inode_Inr)

lemma readonly_time_or_now [readonly_intros]: "readonly (time_or_now_to_secs t)"
  unfolding time_or_now_to_secs_def
  by (auto intro!: readonly_intros split: option.splits time_or_now.splits)

lemma setattr_times_True:
  assumes "setattr_times ino row atime mtime c = (Inr True, c')"
  shows "\<exists>a m. cdb c' = db_times ino (atime \<noteq> None \<or> mtime \<noteq> None) a m (cdb c)"
proof (cases "atime = None \<and> mtime = None")
  case True
  with assms show ?thesis
    by (auto simp: setattr_times_def db_times_def ret_inv)
next
  case False
  with assms obtain a m c1 c2 where
    t: "(time_or_now_to_secs atime :: f64 option io) c = (Inr a, c1)"
      "(time_or_now_to_secs mtime :: f64 option io) c1 = (Inr m, c2)"
    and u: "is_ok (execute (update_inode ino (\<lambda>r.
      r\<lparr>i_atime := (case a of Some x \<Rightarrow> x | None \<Rightarrow> r_atime row),
        i_mtime := (case m of Some x \<Rightarrow> x | None \<Rightarrow> r_mtime row)\<rparr>))) c2 = (Inr True, c')"
    by (auto simp: setattr_times_def Let_def bind_Inr split: if_splits)
  have "cdb c1 = cdb c" "cdb c2 = cdb c1"
    using readonlyD [OF readonly_time_or_now] t by blast+
  then have "cdb c' = db_times ino (atime \<noteq> None \<or> mtime \<noteq> None)
      (case a of Some x \<Rightarrow> x | None \<Rightarrow> r_atime row) (case m of Some x \<Rightarrow> x | None \<Rightarrow> r_mtime row) (cdb c)"
    using is_ok_True [OF u] False by (auto simp: execute_Inr db_times_def)
  then show ?thesis by blast
qed

lemma setattr_kill_True:
  "setattr_kill req_uid ino row mode uid gid sz c = (Inr True, c') \<Longrightarrow>
     cdb c' = db_kill_if (kills req_uid (r_kind row) mode uid gid sz) ino (cdb c)"
  by (auto simp: setattr_kill_def db_kill_if_def kills_def Let_def act_inv
      dest!: is_ok_True kill_priv_Inr split: if_splits)

lemma setattr_body_Inr:
  assumes "setattr_body msize req_uid ino mode uid gid sz atime mtime c = (Inr u, c')"
  shows "\<exists>r now now' a m. inode_at (cdb c) ino = Some r \<and>
    (\<forall>len. sz = Some len \<longrightarrow> len \<le> MAX_FILE_SIZE) \<and>
    cdb c' = db_kill_if (kills req_uid (i_kind r) mode uid gid sz) ino
      (db_times ino (atime \<noteq> None \<or> mtime \<noteq> None) a m
        (db_size ino sz now'
          (db_owner ino (map_row (cdb c) ino r) now uid gid
            (db_mode ino (i_mode r) now mode (cdb c)))))"
proof -
  from assms obtain row now c1 c2 c3 c4 c5 c6 c7 where
    steps: "row_by_ino ino c = (Inr (Some row), c1)" "(now_secs :: f64 io) c1 = (Inr now, c2)"
    "setattr_mode ino row now mode c2 = (Inr True, c3)"
    "setattr_owner ino row now uid gid c3 = (Inr True, c4)"
    "setattr_size msize ino row sz c4 = (Inr True, c5)"
    "setattr_times ino row atime mtime c5 = (Inr True, c6)"
    "setattr_kill req_uid ino row mode uid gid sz c6 = (Inr True, c7)"
    "commit c7 = (Inr (), c')"
    unfolding setattr_body_def
    by (auto simp: bind_Inr or_eio_Inr case_option_fail if_fail)
  from row_by_ino_Inr [OF steps(1)] obtain r where
    r: "cdb c1 = cdb c" "inode_at (cdb c) ino = Some r" "row = map_row (cdb c) ino r" by blast
  have row: "r_mode row = i_mode r" "r_kind row = i_kind r" by (simp_all add: r(3) map_row_def)
  have "cdb c2 = cdb c" using steps(2) r(1) by (auto simp: now_secs_inv)
  moreover have "cdb c' = cdb c7" using steps(8) by (auto simp: commit_Inr)
  moreover obtain now' where "\<forall>len. sz = Some len \<longrightarrow> len \<le> MAX_FILE_SIZE"
    "cdb c5 = db_size ino sz now' (cdb c4)" using setattr_size_True [OF steps(5)] by blast
  moreover obtain a m where "cdb c6 = db_times ino (atime \<noteq> None \<or> mtime \<noteq> None) a m (cdb c5)"
    using setattr_times_True [OF steps(6)] by blast
  ultimately show ?thesis
    using r(2) setattr_kill_True [OF steps(7)] setattr_owner_True [OF steps(4)]
      setattr_mode_True [OF steps(3)]
    by (intro exI [of _ r] exI [of _ now] exI [of _ now'] exI [of _ a] exI [of _ m])
       (simp add: row r(3) [symmetric])
qed

section \<open>Extended attributes\<close>

definition db_set_xattr :: "u64 \<Rightarrow> string \<Rightarrow> bytes \<Rightarrow> db \<Rightarrow> db" where
  "db_set_xattr ino n v d = d\<lparr>t_xattrs := map_option (AList.update (ino, n) v) (t_xattrs d)\<rparr>"

definition db_remove_xattr :: "u64 \<Rightarrow> string \<Rightarrow> db \<Rightarrow> db" where
  "db_remove_xattr ino n d = d\<lparr>t_xattrs := map_option (delete_where (\<lambda>k. k = (ino, n))) (t_xattrs d)\<rparr>"

definition xattr_at :: "db \<Rightarrow> u64 \<Rightarrow> string \<Rightarrow> bytes option" where
  "xattr_at d ino n = (case t_xattrs d of None \<Rightarrow> None | Some t \<Rightarrow> map_of t (ino, n))"

lemma setxattr_body_Inr:
  "setxattr_body ino n v flags c = (Inr u, c') \<Longrightarrow>
     \<exists>now. inode_at (cdb c) ino \<noteq> None \<and> t_xattrs (cdb c) \<noteq> None \<and>
       (flags AND XATTR_CREATE = 0 \<or> xattr_at (cdb c) ino n = None) \<and>
       (flags AND XATTR_REPLACE = 0 \<or> xattr_at (cdb c) ino n \<noteq> None) \<and>
       cdb c' = update_inode ino (set_c now) (db_set_xattr ino n v (cdb c))"
  unfolding setxattr_body_def
  by (cases "t_xattrs (cdb c)")
     (force simp: act_inv exec_sql_Inr on_xattrs_def xattr_at_def db_set_xattr_def dest!: body_dest)+

lemma removexattr_body_Inr:
  "removexattr_body ino n c = (Inr u, c') \<Longrightarrow>
     \<exists>now. xattr_at (cdb c) ino n \<noteq> None \<and>
       cdb c' = update_inode ino (set_c now) (db_remove_xattr ino n (cdb c))"
  unfolding removexattr_body_def
  by (cases "t_xattrs (cdb c)")
     (force simp: act_inv exec_sql_Inr on_xattrs_def xattr_at_def db_remove_xattr_def
       map_of_eq_None_iff filter_empty_conv)+

end
