(* ===== verification/Fs_Step.thy ===== *)
theory Fs_Step
  imports Callbacks
begin

text \<open>
  The filesystem as a machine: a FUSE request, the callback the session loop dispatches it
  to, and the transition relation \<open>applied\<close> that says what a request may do to the tables.
  Every reply leaves the tables as they were or applied in full; the machine is serial, as
  the single FUSE thread and the mutex around the connection make it.
\<close>

section \<open>Requests and replies\<close>

datatype request =
    Lookup u64 string
  | Getattr u64
  | Setattr u32 u64 "u32 option" "u32 option" "u32 option" "u64 option" "time_or_now option" "time_or_now option"
  | Readlink u64
  | Mkdir u64 string u32
  | Unlink u64 string
  | Rmdir u64 string
  | Symlnk u64 string string
  | Rename u64 string u64 string u32
  | Open u64 u32
  | Create u64 string u32
  | Read u64 u64 u32
  | Write u64 u64 bytes bool
  | Flush
  | Fsync
  | Release
  | Opendir
  | Readdir u64 u64
  | Statfs
  | Link u64 u64 string
  | Setxattr u64 string bytes u32
  | Getxattr u64 string u32
  | Listxattr u64 u32
  | Removexattr u64 string
  | Access

datatype 'b reply =
    REmpty | RAttr file_attr | RData bytes | ROpened u64 | RCreated file_attr u64 | RWritten u32
  | RDirectory 'b | RStatfs statfs_reply | RXattr xattr_reply

text \<open>What the host contributes: the reply buffer of readdir and the answer of \<open>statvfs\<close>.\<close>

record 'b host =
  h_add :: "'b adder"
  h_buf :: 'b
  h_statvfs :: "(u64 \<times> u64 \<times> u64) option"

definition answer :: "('a \<Rightarrow> 'r) \<Rightarrow> 'a call \<Rightarrow> 'r call" where
  "answer f m = bind m (\<lambda>a. ret (f a))"

fun serve :: "'b host \<Rightarrow> request \<Rightarrow> 'b reply call" where
  "serve h (Lookup p n) = answer RAttr (fs_lookup p n)"
| "serve h (Getattr i) = answer RAttr (fs_getattr i)"
| "serve h (Setattr ru i m u g sz a mt) = answer RAttr (fs_setattr ru i m u g sz a mt)"
| "serve h (Readlink i) = answer RData (fs_readlink i)"
| "serve h (Mkdir p n m) = answer RAttr (fs_mkdir p n m)"
| "serve h (Unlink p n) = answer (\<lambda>_. REmpty) (fs_unlink p n)"
| "serve h (Rmdir p n) = answer (\<lambda>_. REmpty) (fs_rmdir p n)"
| "serve h (Symlnk p n t) = answer RAttr (fs_symlink p n t)"
| "serve h (Rename p n np nn f) = answer (\<lambda>_. REmpty) (fs_rename p n np nn f)"
| "serve h (Open i f) = answer ROpened (fs_open i f)"
| "serve h (Create p n m) = answer (\<lambda>(a, fh). RCreated a fh) (fs_create p n m)"
| "serve h (Read fh off sz) = answer RData (fs_read fh off sz)"
| "serve h (Write fh off dat k) = answer RWritten (fs_write fh off dat k)"
| "serve h Flush = answer (\<lambda>_. REmpty) fs_flush"
| "serve h Fsync = answer (\<lambda>_. REmpty) fs_fsync"
| "serve h Release = answer (\<lambda>_. REmpty) fs_release"
| "serve h Opendir = answer ROpened fs_opendir"
| "serve h (Readdir i off) = answer RDirectory (fs_readdir (h_add h) i off (h_buf h))"
| "serve h Statfs = answer RStatfs (fs_statfs (h_statvfs h))"
| "serve h (Link i p n) = answer RAttr (fs_link i p n)"
| "serve h (Setxattr i n v f) = answer (\<lambda>_. REmpty) (fs_setxattr i n v f)"
| "serve h (Getxattr i n sz) = answer RXattr (fs_getxattr i n sz)"
| "serve h (Listxattr i sz) = answer RXattr (fs_listxattr i sz)"
| "serve h (Removexattr i n) = answer (\<lambda>_. REmpty) (fs_removexattr i n)"
| "serve h Access = answer (\<lambda>_. REmpty) fs_access"

definition step :: "'b host \<Rightarrow> request \<Rightarrow> coffer_fs \<Rightarrow> coffer_fs" where
  "step h q self = snd (serve h q self)"

definition run :: "'b host \<Rightarrow> request list \<Rightarrow> coffer_fs \<Rightarrow> coffer_fs" where
  "run h qs self = fold (step h) qs self"

section \<open>The abstract transitions\<close>

text \<open>\<open>applied uid gid q d d'\<close>: request \<open>q\<close>, carried out for the mounting user, takes the tables from \<open>d\<close> to \<open>d'\<close>.\<close>

inductive applied :: "u32 \<Rightarrow> u32 \<Rightarrow> request \<Rightarrow> db \<Rightarrow> db \<Rightarrow> bool" for uid gid where
  mkdir: "utf8_valid n \<Longrightarrow> child_at d p n = None \<Longrightarrow> next_rowid d < 2 ^ 63 \<Longrightarrow>
    applied uid gid (Mkdir p n mode) d
      (db_insert_child p n (new_inode KIND_DIR (uint (S_IFDIR OR (mode AND 0xFFF))) uid gid None now) now d)"
| create: "utf8_valid n \<Longrightarrow> child_at d p n = None \<Longrightarrow> next_rowid d < 2 ^ 63 \<Longrightarrow>
    applied uid gid (Create p n mode) d
      (db_insert_child p n (new_inode KIND_FILE (uint (S_IFREG OR (mode AND 0xFFF))) uid gid None now) now d)"
| symlink: "utf8_valid n \<Longrightarrow> utf8_valid t \<Longrightarrow> child_at d p n = None \<Longrightarrow> next_rowid d < 2 ^ 63 \<Longrightarrow>
    applied uid gid (Symlnk p n t) d
      (db_insert_child p n (new_inode KIND_SYMLINK (uint (S_IFLNK OR 0x1FF :: u32)) uid gid (Some t) now) now d)"
| unlink: "utf8_valid n \<Longrightarrow> child_at d p n = Some i \<Longrightarrow>
    applied uid gid (Unlink p n) d (db_unlink p n i now d)"
| rmdir: "utf8_valid n \<Longrightarrow> child_at d p n = Some i \<Longrightarrow> i \<noteq> ROOT_INO \<Longrightarrow>
    (is_dir d i \<longrightarrow> \<not> has_entries d i) \<Longrightarrow> applied uid gid (Rmdir p n) d (db_unlink p n i now d)"
| rename: "utf8_valid n \<Longrightarrow> utf8_valid nn \<Longrightarrow> child_at d p n = Some i \<Longrightarrow>
    f AND (RENAME_EXCHANGE OR RENAME_WHITEOUT) = 0 \<Longrightarrow>
    f AND RENAME_NOREPLACE = 0 \<or> child_at d np nn = None \<Longrightarrow> replaceable i np nn d \<Longrightarrow>
    (child_at (db_replace i np nn now d) p n \<noteq> None \<longrightarrow> (np, nn) \<noteq> (p, n) \<longrightarrow>
       child_at (db_replace i np nn now d) np nn = None) \<Longrightarrow>
    applied uid gid (Rename p n np nn f) d (db_rename p n np nn i now now' d)"
| link: "utf8_valid n \<Longrightarrow> inode_at d i = Some r \<Longrightarrow> i_kind r \<noteq> KIND_DIR \<Longrightarrow> child_at d p n = None \<Longrightarrow>
    applied uid gid (Link i p n) d (update_inode i (set_c now) (db_link p n i now d))"
| write_data: "inode_at d i = Some r \<Longrightarrow> unat off + length dat < 2 ^ 63 \<Longrightarrow>
    applied uid gid (Write i off dat k) d
      (db_kill_if k i (update_inode i
         (set_size (sint (max (word_of_int (i_size r)) (off + word_of_nat (length dat)) :: u64)) now)
         (db_write_blocks i (unat off) dat d)))"
| setattr: "inode_at d i = Some r \<Longrightarrow> (\<forall>len. sz = Some len \<longrightarrow> len \<le> MAX_FILE_SIZE) \<Longrightarrow>
    applied uid gid (Setattr ru i mode u g sz atm mtm) d
      (db_kill_if (kills ru (i_kind r) mode u g sz) i
        (db_times i (atm \<noteq> None \<or> mtm \<noteq> None) a m
          (db_size i sz now'
            (db_owner i (map_row d i r) now u g
              (db_mode i (i_mode r) now mode d)))))"
| setxattr: "utf8_valid n \<Longrightarrow> inode_at d i \<noteq> None \<Longrightarrow> t_xattrs d \<noteq> None \<Longrightarrow>
    f AND XATTR_CREATE = 0 \<or> xattr_at d i n = None \<Longrightarrow>
    f AND XATTR_REPLACE = 0 \<or> xattr_at d i n \<noteq> None \<Longrightarrow>
    n \<noteq> [] \<Longrightarrow> length n \<le> XATTR_NAME_MAX \<Longrightarrow> length v \<le> XATTR_SIZE_MAX \<Longrightarrow>
    applied uid gid (Setxattr i n v f) d (update_inode i (set_c now) (db_set_xattr i n v d))"
| removexattr: "utf8_valid n \<Longrightarrow> xattr_at d i n \<noteq> None \<Longrightarrow>
    applied uid gid (Removexattr i n) d (update_inode i (set_c now) (db_remove_xattr i n d))"

inductive_cases applied_mkdir: "applied u g (Mkdir p n m) d d'"
inductive_cases applied_create: "applied u g (Create p n m) d d'"
inductive_cases applied_symlink: "applied u g (Symlnk p n t) d d'"
inductive_cases applied_unlink: "applied u g (Unlink p n) d d'"
inductive_cases applied_rmdir: "applied u g (Rmdir p n) d d'"
inductive_cases applied_rename: "applied u g (Rename p n np nn f) d d'"
inductive_cases applied_write: "applied u g (Write i off dat k) d d'"
inductive_cases applied_link: "applied u g (Link i p n) d d'"

section \<open>The machine makes these transitions only\<close>

lemma answer_inv:
  "(answer f m self = (r, self')) =
     (\<exists>r0. m self = (r0, self') \<and> r = (case r0 of Inl e \<Rightarrow> Inl e | Inr a \<Rightarrow> Inr (f a)))"
  by (auto simp: answer_def bind_def ret_def split: prod.splits sum.splits)

lemma in_tx_cases:
  assumes "in_tx body c = (r, c')"
  obtains e where "r = Inl e" "cdb c' = cdb c"
  | a c0 where "r = Inr a" "cdb c0 = cdb c" "body c0 = (Inr a, c')" "healthy c \<longrightarrow> healthy c0"
proof (cases r)
  case (Inl e)
  with assms that(1) in_tx_Inl show ?thesis by blast
next
  case (Inr a)
  with assms have "body (c\<lparr>tick := Suc (tick c)\<rparr>) = (Inr a, c')" by (auto dest: in_tx_Inr)
  with Inr show ?thesis by (intro that(2) [of a "c\<lparr>tick := Suc (tick c)\<rparr>"]) simp_all
qed

text \<open>A transaction followed by a read-back.\<close>

lemma tx_call_healthy:
  assumes "on_con (bind (in_tx body) k) self = (r, self')" and "\<And>a. readonly (k a)"
  shows "tables self' = tables self \<or>
    (\<exists>a c0 c1. cdb c0 = tables self \<and> body c0 = (Inr a, c1) \<and> tables self' = cdb c1 \<and>
       (healthy (con self) \<longrightarrow> healthy c0))"
proof -
  from assms(1) obtain c where c: "bind (in_tx body) k (con self) = (r, c)" "self' = self\<lparr>con := c\<rparr>"
    by (auto simp: on_con_inv)
  obtain r1 c1 where tx: "in_tx body (con self) = (r1, c1)" by (cases "in_tx body (con self)")
  show ?thesis
  proof (cases rule: in_tx_cases [OF tx])
    case (1 e)
    then show ?thesis using c tx by (simp add: bind_def)
  next
    case (2 a c0)
    then have "k a c1 = (r, c)" using c(1) tx by (simp add: bind_def)
    then have "cdb c = cdb c1" by (rule readonlyD [OF assms(2)])
    with 2 c(2) show ?thesis by auto
  qed
qed

lemma tx_call:
  assumes "on_con (bind (in_tx body) k) self = (r, self')" and "\<And>a. readonly (k a)"
  shows "tables self' = tables self \<or>
    (\<exists>a c0 c1. cdb c0 = tables self \<and> body c0 = (Inr a, c1) \<and> tables self' = cdb c1)"
  using tx_call_healthy [OF assms] by blast

lemma tx_only:
  assumes "on_con (in_tx body) self = (r, self')"
  shows "(\<exists>e. r = Inl e \<and> tables self' = tables self) \<or>
    (\<exists>a c0 c1. r = Inr a \<and> cdb c0 = tables self \<and> body c0 = (Inr a, c1) \<and> tables self' = cdb c1)"
proof -
  from assms obtain c where c: "in_tx body (con self) = (r, c)" "self' = self\<lparr>con := c\<rparr>"
    by (auto simp: on_con_inv)
  then show ?thesis by (cases rule: in_tx_cases [OF c(1)]) auto
qed

text \<open>The same when the reply is \<open>Ok\<close>: then the transaction was committed.\<close>

lemma tx_call_Inr:
  assumes "on_con (bind (in_tx body) k) self = (Inr x, self')"
  shows "\<exists>a c0 c1. cdb c0 = tables self \<and> body c0 = (Inr a, c1) \<and> k a c1 = (Inr x, con self')"
proof -
  from assms obtain c where c: "bind (in_tx body) k (con self) = (Inr x, c)" "self' = self\<lparr>con := c\<rparr>"
    by (auto simp: on_con_inv)
  then obtain a c1 where tx: "in_tx body (con self) = (Inr a, c1)" "k a c1 = (Inr x, c)"
    by (auto simp: bind_Inr)
  show ?thesis by (cases rule: in_tx_cases [OF tx(1)]) (use tx(2) c(2) in auto)
qed

lemma readonly_read_loop [readonly_intros]: "readonly (read_loop ino pos end_pos out)"
proof (induction ino pos end_pos out rule: read_loop.induct)
  case (1 ino pos end_pos out)
  then show ?case
    by (subst read_loop.simps)
       (auto simp: Let_def get_block_def intro!: readonly_intros split: sum.splits)
qed

lemma readonly_fetch_rows [readonly_intros]: "readonly (fetch_rows rs)"
  by (induction rs) (auto intro!: readonly_intros split: sum.splits)

lemma readonly_readdir_entries [readonly_intros]: "readonly (readdir_entries ino)"
  unfolding readdir_entries_def
  by (auto intro!: readonly_intros split: sum.splits option.splits)

lemma readonly_on_xattrs [readonly_intros]: "readonly (exec_sql (on_xattrs (\<lambda>t. (f t, t))))"
  by (rule readonly_exec_select) (auto simp: on_xattrs_def split: option.splits)

text \<open>Calls that never write.\<close>

definition reads :: "'a call \<Rightarrow> bool" where
  "reads m \<longleftrightarrow> (\<forall>self. tables (snd (m self)) = tables self)"

lemma reads_intros:
  "(\<And>self. reads (k self)) \<Longrightarrow> reads (touching k)" "reads (ret a)" "reads (refuse e)"
  "readonly m \<Longrightarrow> reads (on_con m)" "(\<And>s. reads (kk s)) \<Longrightarrow> reads (with_str os kk)"
  "reads m1 \<Longrightarrow> reads m2 \<Longrightarrow> reads (if b then m1 else m2)" "reads m1 \<Longrightarrow> reads (answer f m1)"
  by (auto simp: reads_def touching_run ret_def refuse_def throw_def on_con_def with_str_run
      readonly_def answer_def bind_def split: prod.splits sum.splits) (metis snd_conv)+

lemma reads_calls:
  "reads (fs_lookup p n)" "reads (fs_getattr i)" "reads (fs_readlink i)" "reads (fs_open i fl)"
  "reads (fs_read fh off sz)" "reads fs_flush" "reads fs_fsync" "reads fs_release" "reads fs_opendir"
  "reads (fs_readdir add i off buf)" "reads (fs_statfs sv)" "reads (fs_getxattr i n sz)"
  "reads (fs_listxattr i sz)" "reads fs_access"
  unfolding fs_lookup_def fs_getattr_def fs_readlink_def fs_open_def fs_read_def fs_flush_def
    fs_fsync_def fs_release_def fs_opendir_def fs_readdir_def fs_statfs_def fs_getxattr_def
    fs_listxattr_def fs_access_def Let_def
  by (auto intro!: reads_intros readonly_intros split: option.splits)

lemma readsD: "reads m \<Longrightarrow> m self = (r, self') \<Longrightarrow> tables self' = tables self"
  unfolding reads_def by (metis snd_conv)

section \<open>The callbacks that write\<close>

lemmas run_simps = touching_run writing_run with_str_run

lemma fs_mkdir_applied:
  "fs_mkdir p os mode self = (r, self') \<Longrightarrow> tables self' = tables self \<or>
     \<not> read_only self \<and> applied (fs_uid self) (fs_gid self) (Mkdir p os mode) (tables self) (tables self')"
  unfolding fs_mkdir_def
  by (auto simp: run_simps split: if_splits
      dest!: tx_call [OF _ readonly_attr_of] mkdir_body_Inr intro: applied.mkdir [simplified])

lemma fs_create_applied:
  "fs_create p os mode self = (r, self') \<Longrightarrow> tables self' = tables self \<or>
     \<not> read_only self \<and> applied (fs_uid self) (fs_gid self) (Create p os mode) (tables self) (tables self')"
  unfolding fs_create_def
  by (auto simp: run_simps split: if_splits
      dest!: tx_call [OF _ readonly_bind [OF readonly_attr_of readonly_ret]] create_body_Inr
      intro: applied.create [simplified])

lemma fs_symlink_applied:
  "fs_symlink p os t self = (r, self') \<Longrightarrow> tables self' = tables self \<or>
     \<not> read_only self \<and> applied (fs_uid self) (fs_gid self) (Symlnk p os t) (tables self) (tables self')"
  unfolding fs_symlink_def
  by (auto simp: run_simps split: if_splits
      dest!: tx_call [OF _ readonly_attr_of] symlink_body_Inr intro: applied.symlink [simplified])

lemma fs_setattr_applied:
  "fs_setattr ru i mode u g sz atm mtm self = (r, self') \<Longrightarrow> tables self' = tables self \<or>
     \<not> read_only self \<and>
     applied (fs_uid self) (fs_gid self) (Setattr ru i mode u g sz atm mtm) (tables self) (tables self')"
  unfolding fs_setattr_def
  by (auto simp: run_simps split: if_splits
      dest!: tx_call [OF _ readonly_attr_of] setattr_body_Inr intro: applied.setattr [simplified])

lemma fs_setattr_Inr:
  assumes "fs_setattr ru i mode u g sz atm mtm self = (Inr x, self')"
  shows "applied (fs_uid self) (fs_gid self) (Setattr ru i mode u g sz atm mtm) (tables self) (tables self')"
proof -
  from assms have "on_con (bind (in_tx (setattr_body (max_size self) ru i mode u g sz atm mtm))
      (\<lambda>_. attr_of EIO i)) (touch self) = (Inr x, self')"
    by (simp add: fs_setattr_def run_simps split: if_splits)
  from tx_call_Inr [OF this] obtain c0 c1 where
    b: "cdb c0 = tables self" "setattr_body (max_size self) ru i mode u g sz atm mtm c0 = (Inr (), c1)"
      "attr_of EIO i c1 = (Inr x, con self')" by auto
  then show ?thesis
    using setattr_body_Inr [OF b(2)] attr_of_cdb [OF b(3)] by (auto intro: applied.setattr [simplified])
qed

text \<open>For the others an error reply means that nothing changed.\<close>

definition all_or_nothing :: "request \<Rightarrow> 'a call \<Rightarrow> bool" where
  "all_or_nothing q m \<longleftrightarrow> (\<forall>self r self'. m self = (r, self') \<longrightarrow>
     (case r of
        Inl e \<Rightarrow> tables self' = tables self
      | Inr a \<Rightarrow> \<not> read_only self \<and>
          applied (fs_uid self) (fs_gid self) q (tables self) (tables self')))"

lemma fs_unlink_all: "all_or_nothing (Unlink p os) (fs_unlink p os)"
  unfolding all_or_nothing_def fs_unlink_def
  by (auto simp: run_simps split: if_splits sum.splits
      dest!: tx_only unlink_body_Inr intro: applied.unlink)

lemma fs_rmdir_all: "all_or_nothing (Rmdir p os) (fs_rmdir p os)"
  unfolding all_or_nothing_def fs_rmdir_def
  by (auto simp: run_simps split: if_splits sum.splits
      dest!: tx_only rmdir_body_Inr intro: applied.rmdir)

lemma fs_rename_all: "all_or_nothing (Rename p os np nos f) (fs_rename p os np nos f)"
  unfolding all_or_nothing_def fs_rename_def
  by (auto simp: run_simps split: if_splits sum.splits
      dest!: tx_only rename_body_Inr intro!: applied.rename)

lemma fs_link_all: "all_or_nothing (Link i p os) (fs_link i p os)"
  unfolding all_or_nothing_def fs_link_def
  by (auto simp: run_simps split: if_splits sum.splits
      dest!: tx_only link_body_Inr intro: applied.link)

lemma write_within:
  "off \<le> MAX_FILE_SIZE \<Longrightarrow> n \<le> unat (MAX_FILE_SIZE - off) \<Longrightarrow> unat (off :: u64) + n < 2 ^ 63"
  by (simp add: unat_sub word_le_nat_alt)

lemma fs_write_all: "all_or_nothing (Write i off dat k) (fs_write i off dat k)"
  unfolding all_or_nothing_def
proof (intro allI impI)
  fix self r self'
  assume call: "fs_write i off dat k self = (r, self')"
  show "case r of Inl e \<Rightarrow> tables self' = tables self
    | Inr a \<Rightarrow> \<not> read_only self \<and>
        applied (fs_uid self) (fs_gid self) (Write i off dat k) (tables self) (tables self')"
  proof (cases "read_only self \<or> MAX_FILE_SIZE < off \<or> unat (MAX_FILE_SIZE - off) < length dat")
    case True
    with call show ?thesis
      by (auto simp: fs_write_def run_simps refuse_inv split: if_splits)
  next
    case False
    then have fit: "unat off + length dat < 2 ^ 63" by (intro write_within) auto
    from False call have "on_con (bind (in_tx (write_body (max_size self) i off dat k))
        (\<lambda>_. ret (word_of_nat (length dat)))) (touch self) = (r, self')"
      by (simp add: fs_write_def run_simps)
    then obtain r1 c1 where tx: "in_tx (write_body (max_size self) i off dat k) (con (touch self)) = (r1, c1)"
      and r: "r = (case r1 of Inl e \<Rightarrow> Inl e | Inr _ \<Rightarrow> Inr (word_of_nat (length dat)))"
        "self' = touch self\<lparr>con := c1\<rparr>"
      by (auto simp: on_con_def bind_def ret_def split: prod.splits sum.splits)
    show ?thesis
      by (cases rule: in_tx_cases [OF tx])
         (use False in \<open>auto simp: r dest!: write_body_Inr intro!: applied.write_data fit\<close>)
  qed
qed

lemma fs_setxattr_all: "all_or_nothing (Setxattr i os v f) (fs_setxattr i os v f)"
  unfolding all_or_nothing_def fs_setxattr_def
  by (auto simp: run_simps refuse_inv split: if_splits sum.splits
      dest!: tx_only setxattr_body_Inr intro!: applied.setxattr)

lemma fs_removexattr_all: "all_or_nothing (Removexattr i os) (fs_removexattr i os)"
  unfolding all_or_nothing_def fs_removexattr_def
  by (auto simp: run_simps refuse_inv split: if_splits sum.splits
      dest!: tx_only removexattr_body_Inr intro!: applied.removexattr)

end
