(* ===== verification/Fs_Invariants.thy ===== *)
theory Fs_Invariants
  imports Fs_Step
begin

text \<open>
  Invariants of the machine. The locale \<open>invariant_machine\<close> states once what it takes for a
  predicate to survive any sequence of admissible requests; it is interpreted on the
  filesystem for each predicate that does: well-formed tables, the unchanged tables of a
  read-only mount, and inode numbers that stay unused once their inode is gone.
\<close>

section \<open>One step\<close>

lemma all_or_nothingD:
  "all_or_nothing q m \<Longrightarrow> m self = (r, self') \<Longrightarrow> tables self' = tables self \<or>
     \<not> read_only self \<and> applied (fs_uid self) (fs_gid self) q (tables self) (tables self')"
  by (cases r) (fastforce simp: all_or_nothing_def)+

lemma serve_applied:
  assumes "serve h q self = (r, self')"
  shows "tables self' = tables self \<or>
    \<not> read_only self \<and> applied (fs_uid self) (fs_gid self) q (tables self) (tables self')"
proof (cases q)
  case (Mkdir p n m)
  with assms show ?thesis by (auto simp: answer_inv dest!: fs_mkdir_applied)
next
  case (Create p n m)
  with assms show ?thesis by (auto simp: answer_inv dest!: fs_create_applied)
next
  case (Symlnk p n t)
  with assms show ?thesis by (auto simp: answer_inv dest!: fs_symlink_applied)
next
  case (Setattr ru i m u g sz a mt)
  with assms show ?thesis by (auto simp: answer_inv dest!: fs_setattr_applied)
next
  case (Unlink p n)
  with assms show ?thesis by (auto simp: answer_inv dest!: all_or_nothingD [OF fs_unlink_all])
next
  case (Rmdir p n)
  with assms show ?thesis by (auto simp: answer_inv dest!: all_or_nothingD [OF fs_rmdir_all])
next
  case (Rename p n np nn f)
  with assms show ?thesis by (auto simp: answer_inv dest!: all_or_nothingD [OF fs_rename_all])
next
  case (Link i p n)
  with assms show ?thesis by (auto simp: answer_inv dest!: all_or_nothingD [OF fs_link_all])
next
  case (Write i off dat k)
  with assms show ?thesis by (auto simp: answer_inv dest!: all_or_nothingD [OF fs_write_all])
next
  case (Setxattr i n v f)
  with assms show ?thesis by (auto simp: answer_inv dest!: all_or_nothingD [OF fs_setxattr_all])
next
  case (Removexattr i n)
  with assms show ?thesis by (auto simp: answer_inv dest!: all_or_nothingD [OF fs_removexattr_all])
qed (use assms in \<open>auto simp: answer_inv dest: reads_calls [THEN readsD]\<close>)

text \<open>The mount's own parameters never change.\<close>

definition same_mount :: "coffer_fs \<Rightarrow> coffer_fs \<Rightarrow> bool" where
  "same_mount s t \<longleftrightarrow> read_only t = read_only s \<and> max_size t = max_size s \<and> fs_uid t = fs_uid s \<and>
     fs_gid t = fs_gid s \<and> has_xattrs t = has_xattrs s"

definition keeps_mount :: "'a call \<Rightarrow> bool" where
  "keeps_mount m \<longleftrightarrow> (\<forall>self. same_mount self (snd (m self)))"

lemma same_mount_touch [simp]: "same_mount s (touch s)" "same_mount (touch s) t = same_mount s t"
  by (simp_all add: same_mount_def)

lemma keeps_mount_touching: "(\<And>self. keeps_mount (k self)) \<Longrightarrow> keeps_mount (touching k)"
  unfolding keeps_mount_def touching_run by (metis same_mount_touch(2))

lemma keeps_mount_writing: "(\<And>self. keeps_mount (k self)) \<Longrightarrow> keeps_mount (writing k)"
  unfolding keeps_mount_def writing_run by (auto simp del: same_mount_touch(2)) (metis same_mount_touch(2))

lemma keeps_mount_answer: "keeps_mount m \<Longrightarrow> keeps_mount (answer f m)"
  unfolding keeps_mount_def answer_def bind_def ret_def
  by (auto split: prod.split sum.split) (metis snd_conv)+

lemmas keeps_mount_intros = keeps_mount_touching keeps_mount_writing keeps_mount_answer

lemma keeps_mount_basic:
  "keeps_mount (ret a)" "keeps_mount (refuse e)" "keeps_mount (on_con b)"
  "(\<And>s. keeps_mount (kk s)) \<Longrightarrow> keeps_mount (with_str os kk)"
  "keeps_mount m1 \<Longrightarrow> keeps_mount m2 \<Longrightarrow> keeps_mount (if c then m1 else m2)"
  by (simp_all add: keeps_mount_def same_mount_def ret_def refuse_def throw_def on_con_def
      with_str_run split: prod.split)

lemma keeps_mount_calls:
  "keeps_mount (fs_lookup p n)" "keeps_mount (fs_getattr i)" "keeps_mount (fs_readlink i)"
  "keeps_mount (fs_open i fl)" "keeps_mount (fs_read fh off sz)" "keeps_mount fs_flush"
  "keeps_mount fs_fsync" "keeps_mount fs_release" "keeps_mount fs_opendir"
  "keeps_mount (fs_readdir add i off buf)" "keeps_mount (fs_statfs sv)"
  "keeps_mount (fs_getxattr i n xs)" "keeps_mount (fs_listxattr i xs)" "keeps_mount fs_access"
  unfolding fs_lookup_def fs_getattr_def fs_readlink_def fs_open_def fs_read_def fs_flush_def
    fs_fsync_def fs_release_def fs_opendir_def fs_readdir_def fs_statfs_def fs_getxattr_def
    fs_listxattr_def fs_access_def
  by (intro keeps_mount_intros keeps_mount_basic)+

lemma keeps_mount_writing_calls:
  "keeps_mount (fs_mkdir p n m)" "keeps_mount (fs_create p n m)" "keeps_mount (fs_symlink p n t)"
  "keeps_mount (fs_setattr ru i mo u g sz am mm)" "keeps_mount (fs_unlink p n)"
  "keeps_mount (fs_rmdir p n)" "keeps_mount (fs_rename p n np nn fl)" "keeps_mount (fs_link i p n)"
  "keeps_mount (fs_write i off dat k)" "keeps_mount (fs_setxattr i n v xf)"
  "keeps_mount (fs_removexattr i n)"
  unfolding fs_mkdir_def fs_create_def fs_symlink_def fs_setattr_def fs_unlink_def fs_rmdir_def
    fs_rename_def fs_link_def fs_write_def fs_setxattr_def fs_removexattr_def
  by (intro keeps_mount_intros keeps_mount_basic)+

lemma keeps_mount_serve: "keeps_mount (serve h q)"
  by (cases q) (simp_all add: keeps_mount_answer keeps_mount_calls keeps_mount_writing_calls)

lemma step_mount [simp]:
  "read_only (step h q self) = read_only self" "max_size (step h q self) = max_size self"
  "fs_uid (step h q self) = fs_uid self" "fs_gid (step h q self) = fs_gid self"
  "has_xattrs (step h q self) = has_xattrs self"
  using keeps_mount_serve [of h q] by (simp_all add: keeps_mount_def same_mount_def step_def)

lemma step_cases:
  obtains "tables (step h q self) = tables self"
  | "\<not> read_only self" "applied (fs_uid self) (fs_gid self) q (tables self) (tables (step h q self))"
  using serve_applied [of h q self "fst (serve h q self)" "step h q self"] by (auto simp: step_def)

section \<open>The environment of the machine\<close>

lemma keeps_env_rows [env_intros]:
  "keeps_env (row_by_ino i)" "keeps_env (child_ino p n)" "keeps_env (has_children i)"
  "keeps_env (get_block i b)" "keeps_env (put_block i b x)" "keeps_env current_total_size"
  "keeps_env commit"
  by (simp_all add: row_by_ino_def child_ino_def has_children_def get_block_def put_block_def
      current_total_size_def commit_def env_intros)

lemma keeps_env_checks [env_intros]:
  "keeps_env (attr_of e i)" "keeps_env (ensure_removable i)" "keeps_env (ceiling_check a ov)"
  "keeps_env (expect_absent p n)" "keeps_env (time_or_now_to_secs t)"
  "keeps_env (replace_target i np nn tg)"
  by (auto simp: attr_of_def ensure_removable_def ceiling_check_def expect_absent_def
      time_or_now_to_secs_def replace_target_def
      intro!: env_intros split: option.split sum.split time_or_now.split)

lemma keeps_env_is_ok [env_intros]: "keeps_env m \<Longrightarrow> keeps_env (is_ok m)"
  unfolding is_ok_def by (auto intro!: env_intros split: sum.split)

lemma keeps_env_setattr [env_intros]:
  "keeps_env (setattr_mode i row now mode)" "keeps_env (setattr_owner i row now u g)"
  "keeps_env (setattr_size ms i row sz)" "keeps_env (setattr_times i row atm mtm)"
  "keeps_env (setattr_kill ru i row mode u g sz)"
  by (auto simp: setattr_mode_def setattr_owner_def setattr_size_def setattr_times_def setattr_kill_def
      Let_def intro!: env_intros split: option.split)

lemma keeps_env_bodies [env_intros]:
  "keeps_env (mkdir_body u g p n m)" "keeps_env (create_body ms u g p n m)"
  "keeps_env (symlink_body ms u g p n t)" "keeps_env (unlink_body p n)" "keeps_env (rmdir_body p n)"
  "keeps_env (rename_body p n np nn fl)" "keeps_env (link_body i p n)"
  "keeps_env (write_body ms i off dat k)" "keeps_env (setxattr_body i n v xf)"
  "keeps_env (removexattr_body i n)" "keeps_env (setattr_body ms ru i mode uo go sz atm mtm)"
  by (auto simp: mkdir_body_def create_body_def symlink_body_def unlink_body_def rmdir_body_def
      rename_body_def link_body_def write_body_def setxattr_body_def removexattr_body_def
      setattr_body_def Let_def intro!: env_intros split: option.split)

lemma chunk_progress:
  "pos < e \<Longrightarrow> e - (pos + min (BLOCK_SIZE - pos mod BLOCK_SIZE) (e - pos)) < e - pos"
  using mod_BLOCK_SIZE_less [of pos] by linarith

lemma keeps_env_reads [env_intros]:
  "keeps_env (read_loop i pos end_pos out)" "keeps_env (fetch_rows rs)" "keeps_env (readdir_entries i)"
proof -
  show "keeps_env (read_loop i pos end_pos out)"
  proof (induction "end_pos - pos" arbitrary: pos out rule: less_induct)
    case less
    then show ?case
      by (subst read_loop.simps) (auto simp: Let_def intro!: env_intros less.hyps chunk_progress)
  qed
  show rows: "keeps_env (fetch_rows rs)" for rs :: "'r list"
    by (induction rs) (auto intro!: env_intros split: sum.split)
  show "keeps_env (readdir_entries i)"
    unfolding readdir_entries_def by (auto intro!: env_intros rows split: sum.split option.split)
qed

definition keeps_health :: "'a call \<Rightarrow> bool" where
  "keeps_health m \<longleftrightarrow> (\<forall>self. healthy (con self) \<longrightarrow> healthy (con (snd (m self))))"

lemma keeps_healthD:
  "keeps_health m \<Longrightarrow> m self = (r, self') \<Longrightarrow> healthy (con self) \<Longrightarrow> healthy (con self')"
  unfolding keeps_health_def by (metis snd_conv)

lemma keeps_health_intros:
  "(\<And>self. keeps_health (k self)) \<Longrightarrow> keeps_health (touching k)"
  "(\<And>self. keeps_health (k self)) \<Longrightarrow> keeps_health (writing k)"
  "keeps_health (ret a)" "keeps_health (refuse e)"
  "(\<And>s. keeps_health (kk s)) \<Longrightarrow> keeps_health (with_str os kk)"
  "keeps_health m1 \<Longrightarrow> keeps_health m2 \<Longrightarrow> keeps_health (if c then m1 else m2)"
  by (simp_all add: keeps_health_def run_simps ret_def refuse_def throw_def)

lemma keeps_health_answer: "keeps_health m \<Longrightarrow> keeps_health (answer f m)"
  unfolding keeps_health_def answer_def bind_def ret_def
  by (auto split: prod.split sum.split)

lemma keeps_health_on_con: "keeps_env m \<Longrightarrow> keeps_health (on_con m)"
  unfolding keeps_health_def on_con_def by (auto split: prod.split dest: keeps_envD)

lemma keeps_health_serve: "keeps_health (serve h q)"
  by (cases q)
     (auto simp: fs_lookup_def fs_getattr_def fs_readlink_def fs_open_def fs_read_def fs_flush_def
       fs_fsync_def fs_release_def fs_opendir_def fs_readdir_def fs_statfs_def fs_getxattr_def
       fs_listxattr_def fs_access_def fs_mkdir_def fs_create_def fs_symlink_def fs_setattr_def
       fs_unlink_def fs_rmdir_def fs_rename_def fs_link_def fs_write_def fs_setxattr_def
       fs_removexattr_def Let_def
       intro!: keeps_health_answer keeps_health_intros keeps_health_on_con env_intros
       split: option.split prod.split)

lemma healthy_step: "healthy (con self) \<Longrightarrow> healthy (con (step h q self))"
  using keeps_health_serve [of h q] by (simp add: keeps_health_def step_def)

section \<open>What the kernel guarantees\<close>

text \<open>
  The checks the VFS makes before it asks the filesystem: a name is added in an existing
  directory, unlink is not asked for a directory (that is rmdir's), and a symlink target is
  no longer than the kernel passes on.
\<close>

fun vfs_ok :: "db \<Rightarrow> request \<Rightarrow> bool" where
  "vfs_ok d (Mkdir p n m) = is_dir d p"
| "vfs_ok d (Create p n m) = is_dir d p"
| "vfs_ok d (Symlnk p n t) = (is_dir d p \<and> length t < 4096)"
| "vfs_ok d (Link i p n) = is_dir d p"
| "vfs_ok d (Unlink p n) = (case child_at d p n of Some i \<Rightarrow> \<not> is_dir d i | None \<Rightarrow> True)"
| "vfs_ok d (Rename p n np nn f) = is_dir d np"
| "vfs_ok d _ = True"

section \<open>Well-formed tables\<close>

lemma new_inode_size: "i_size (new_inode k m u g t now) = (case t of Some s \<Rightarrow> int (length s) | None \<Rightarrow> 0)"
  by (simp add: new_inode_def)

lemma db_unlink_inode_at:
  assumes "j \<noteq> i"
  shows "inode_at (db_unlink p n i now d) j =
    (if j = p then map_option (set_mc now) (inode_at d j) else inode_at d j)"
  using assms
  by (auto simp: db_unlink_def Let_def update_inode_def db_delete_inode_def)

lemma is_dir_db_unlink: "j \<noteq> i \<Longrightarrow> is_dir (db_unlink p n i now d) j = is_dir d j"
  by (auto simp: is_dir_def db_unlink_inode_at split: option.splits)

lemma db_unlink_dentries: "t_dentries (db_unlink p n i now d) = delete_where (\<lambda>k. k = (p, n)) (t_dentries d)"
  by (simp add: db_unlink_def Let_def db_delete_inode_def)

lemma has_entries_child: "child_at d p n = Some i \<Longrightarrow> has_entries d p"
  by (auto simp: has_entries_def list_ex_iff dest!: map_of_SomeD)

lemma wf_db_replace:
  assumes "wf_db d" and "replaceable i np nn d" and "is_dir d np"
  shows "wf_db (db_replace i np nn now d)" and "is_dir (db_replace i np nn now d) np"
proof -
  have "wf_db (db_unlink np nn e now d) \<and> is_dir (db_unlink np nn e now d) np"
    if e: "child_at d np nn = Some e" "e \<noteq> i" for e
  proof -
    have "e \<noteq> np" using assms(2,3) e has_entries_child [OF e(1)] by (auto simp: replaceable_def)
    moreover have "wf_db (db_unlink np nn e now d)"
      using assms(1,2) e by (intro wf_db_unlink) (auto simp: replaceable_def)
    ultimately show ?thesis using assms(3) by (simp add: is_dir_db_unlink)
  qed
  then show "wf_db (db_replace i np nn now d)" "is_dir (db_replace i np nn now d) np"
    using assms(1,3) by (auto simp: db_replace_def split: option.splits)
qed

lemma db_replace_child:
  assumes "child_at d p n = Some i"
  shows "child_at (db_replace i np nn now d) p n = Some i"
  using assms by (auto simp: db_replace_def db_unlink_dentries split: option.splits)

lemma wf_db_kill_if: "wf_db d \<Longrightarrow> wf_db (db_kill_if b i d)"
  by (simp add: db_kill_if_def wf_db_kill_priv)

lemma wf_db_rename:
  assumes "wf_db d" and "child_at d p n = Some i" and "replaceable i np nn d" and "is_dir d np"
    and "child_at (db_replace i np nn now d) p n \<noteq> None \<longrightarrow> (np, nn) \<noteq> (p, n) \<longrightarrow>
      child_at (db_replace i np nn now d) np nn = None"
  shows "wf_db (db_rename p n np nn i now now' d)"
  unfolding db_rename_def db_touch_dirs_def
proof (rule wf_update_rows)
  show "wf_db (db_move p n np nn (db_replace i np nn now d))"
    using wf_db_replace [OF assms(1,3,4)] db_replace_child [OF assms(2)] assms(5)
    by (intro wf_db_move [where i = i]) auto
qed simp_all

lemma wf_db_setattr:
  assumes "wf_db d" and "inode_at d i = Some r" and "\<forall>len. sz = Some len \<longrightarrow> len \<le> MAX_FILE_SIZE"
  shows "wf_db (db_times i given a m (db_size i sz now' (db_owner i row now u g (db_mode i om now mode d))))"
proof -
  have 1: "wf_db (db_mode i om now mode d)"
    using assms(1) by (auto simp: db_mode_def intro!: wf_update_inode split: option.splits)
  have 2: "wf_db (db_owner i row now u g (db_mode i om now mode d))" (is "wf_db ?d")
    using 1 by (auto simp: db_owner_def intro!: wf_update_inode)
  have "inode_at ?d i \<noteq> None"
    using assms(2) by (auto simp: db_mode_def db_owner_def update_inode_other split: option.splits)
  then have "wf_db (db_size i sz now' ?d)"
    using 2 assms(3) wf_db_truncate by (auto simp: db_size_def split: option.splits)
  then show ?thesis by (auto simp: db_times_def intro!: wf_update_inode)
qed

text \<open>The new size of a write, as the code computes it on \<open>u64\<close>, does not wrap.\<close>

lemma write_size:
  assumes "0 \<le> s" and "s < 2 ^ 63" and "unat (off :: u64) + n < 2 ^ 63"
  shows "sint (max (word_of_int s) (off + word_of_nat n) :: u64) = int (max (nat s) (unat off + n))"
proof -
  have nat: "nat s < 2 ^ 63" using assms(1,2) by (simp add: nat_less_iff)
  have "unat (word_of_nat (nat s) :: u64) = nat s"
    by (rule unat_word_small) (use nat in simp)
  then have 1: "unat (word_of_int s :: u64) = nat s" using assms(1) by (simp only: of_nat_nat)
  have "off + word_of_nat n = word_of_nat (unat off + n)" by simp
  moreover have "unat (word_of_nat (unat off + n) :: u64) = unat off + n"
    by (rule unat_word_small) (use assms(3) in simp)
  ultimately have 2: "unat (off + word_of_nat n) = unat off + n" by metis
  have 3: "unat (max a b) = max (unat a) (unat b)" for a b :: u64
    by (simp add: max_def word_le_nat_alt)
  have lt: "unat (max (word_of_int s) (off + word_of_nat n) :: u64) < 2 ^ 63"
    unfolding 3 1 2 using nat assms(3) by simp
  show ?thesis unfolding sint_small [OF lt] unfolding 3 1 2 by (rule refl)
qed

lemma wf_db_write_code:
  assumes "wf_db d" and "inode_at d i = Some r" and "unat off + length dat < 2 ^ 63"
  shows "update_inode i
      (set_size (sint (max (word_of_int (i_size r)) (off + word_of_nat (length dat)) :: u64)) now)
      (db_write_blocks i (unat off) dat d) = db_write i (unat off) dat now d"
  using wf_size [OF assms(1,2)] write_size [of "i_size r" off "length dat"] assms(2,3)
  by (simp add: db_write_def set_size_def [abs_def] file_size_def)

lemma applied_wf:
  assumes "applied uid gid q d d'" and "wf_db d" and "vfs_ok d q"
  shows "wf_db d'"
  using assms
proof (induction rule: applied.induct)
  case (symlink n t d p now)
  then show ?case by (intro wf_db_insert_child) (auto simp: new_inode_size)
next
  case (rename n nn d p i f np now now')
  then show ?case by (intro wf_db_rename) auto
next
  case (link n d i r p now)
  then show ?case by (intro wf_update_inode wf_db_link) auto
next
  case (write_data d i r off dat k now)
  then show ?case by (simp add: wf_db_write_code wf_db_kill_if wf_db_write)
next
  case (setattr d i r sz ru mode u g atm mtm a m now' now)
  then show ?case
    by (intro wf_db_kill_if wf_db_setattr) auto
next
  case (setxattr n d i f v now)
  then show ?case
    by (auto simp: db_set_xattr_def intro!: wf_update_inode wf_set_xattr)
next
  case (removexattr n d i now)
  then show ?case
    by (cases "t_xattrs d") (auto simp: db_remove_xattr_def xattr_at_def intro!: wf_update_inode wf_delete_xattr)
qed (auto intro!: wf_db_insert_child wf_db_unlink simp: new_inode_size)

section \<open>Invariants of a run\<close>

text \<open>Every request of a run is admissible where it is made.\<close>

primrec admissible :: "('s \<Rightarrow> 'q \<Rightarrow> bool) \<Rightarrow> ('q \<Rightarrow> 's \<Rightarrow> 's) \<Rightarrow> 'q list \<Rightarrow> 's \<Rightarrow> bool" where
  "admissible ok next_state [] s = True"
| "admissible ok next_state (q # qs) s = (ok s q \<and> admissible ok next_state qs (next_state q s))"

locale invariant_machine =
  fixes next_state :: "'q \<Rightarrow> 's \<Rightarrow> 's" and ok :: "'s \<Rightarrow> 'q \<Rightarrow> bool" and inv :: "'s \<Rightarrow> bool"
  assumes step_inv: "inv s \<Longrightarrow> ok s q \<Longrightarrow> inv (next_state q s)"
begin

lemma run_inv: "inv s \<Longrightarrow> admissible ok next_state qs s \<Longrightarrow> inv (fold next_state qs s)"
  by (induction qs arbitrary: s) (auto intro: step_inv)

lemma always_inv:
  "inv s \<Longrightarrow> admissible ok next_state qs s \<Longrightarrow> k \<le> length qs \<Longrightarrow> inv (fold next_state (take k qs) s)"
proof (induction qs arbitrary: s k)
  case (Cons q qs)
  then show ?case by (cases k) (auto intro: step_inv)
qed simp

end

lemma admissible_True: "admissible (\<lambda>s q. True) f qs s"
  by (induction qs arbitrary: s) auto

abbreviation kernel_ok :: "coffer_fs \<Rightarrow> request \<Rightarrow> bool" where
  "kernel_ok self q \<equiv> vfs_ok (tables self) q"

interpretation wf_machine: invariant_machine "step h" kernel_ok "\<lambda>self. wf_db (tables self)" for h
proof
  fix self q
  assume "wf_db (tables self)" "kernel_ok self q"
  then show "wf_db (tables (step h q self))"
    by (cases rule: step_cases [of h q self]) (auto intro: applied_wf)
qed

text \<open>A read-only mount: no request changes a table, whatever the statements answer.\<close>

interpretation ro_machine:
  invariant_machine "step h" "\<lambda>_ _. True" "\<lambda>self. read_only self \<and> tables self = d" for h d
  by unfold_locales (metis step_cases step_mount(1))

section \<open>Inode numbers\<close>

lemma db_insert_child_seq: "wf_db d \<Longrightarrow> inode_seq (db_insert_child p n r now d) = Suc (inode_seq d)"
  by (simp add: db_insert_child_def db_link_def next_rowid_wf)

lemma db_unlink_seq: "inode_seq (db_unlink p n i now d) = inode_seq d"
  by (simp add: db_unlink_def Let_def db_delete_inode_def)

lemma db_rename_seq: "inode_seq (db_rename p n np nn i now now' d) = inode_seq d"
  by (simp add: db_rename_def db_touch_dirs_def db_move_def db_replace_def db_unlink_seq split: option.split)

lemma db_write_blocks_seq: "wf_db d \<Longrightarrow> inode_seq (db_write_blocks i pos dat d) = inode_seq d"
  by (rule data_frameD(4) [OF data_frame_write])

lemma truncate_frame:
  "t_inodes (db_truncate_blocks i n d) = t_inodes d" "t_dentries (db_truncate_blocks i n d) = t_dentries d"
  "t_xattrs (db_truncate_blocks i n d) = t_xattrs d" "inode_seq (db_truncate_blocks i n d) = inode_seq d"
  by (simp_all add: truncate_blocks_def Let_def store_block_def delete_blocks_def upsert_block_def)

lemma write_frame:
  assumes "wf_db d"
  shows "t_inodes (db_write_blocks i pos dat d) = t_inodes d" "t_dentries (db_write_blocks i pos dat d) = t_dentries d"
    "t_xattrs (db_write_blocks i pos dat d) = t_xattrs d"
  using data_frameD(1-3) [OF data_frame_write [OF assms]] .

text \<open>The set of inode numbers grows at the high-water mark only.\<close>

lemma applied_fresh:
  assumes "applied uid gid q d d'" and "wf_db d" and "inode_at d j = None" and "unat j \<le> inode_seq d"
  shows "inode_at d' j = None \<and> unat j \<le> inode_seq d'"
proof -
  have new: "inode_at (db_insert_child p n r now d) j = None \<and> unat j \<le> inode_seq (db_insert_child p n r now d)"
    if "next_rowid d < 2 ^ 63" for p n r now
  proof -
    have "unat (word_of_nat (next_rowid d) :: u64) = next_rowid d" by (rule unat_word_small) (use that in simp)
    then have "j \<noteq> word_of_nat (next_rowid d)"
      using assms(4) next_rowid_wf [OF assms(2)] by auto
    then show ?thesis
      using assms(3,4) by (simp add: db_insert_child_seq assms(2))
        (auto simp: db_insert_child_def db_link_def update_inode_other map_add_def)
  qed
  have gone: "inode_at (db_unlink p n i now d) j = None" for p n i now
    using assms(3) by (auto simp: db_unlink_def Let_def db_delete_inode_def update_inode_other)
  have kill: "inode_at (db_kill_if b i e) j = None \<longleftrightarrow> inode_at e j = None"
    "inode_seq (db_kill_if b i e) = inode_seq e" for b i e
    by (simp_all add: db_kill_if_def db_kill_priv_def Let_def update_inode_other)
  show ?thesis
    using assms(1)
  proof cases
    case (rename n nn p i f np now now')
    have "inode_at (db_replace i np nn now d) j = None"
      using assms(3) gone by (simp add: db_replace_def split: option.split)
    then show ?thesis
      using assms(4) by (simp add: rename db_rename_seq)
        (simp add: db_rename_def db_touch_dirs_def db_move_def)
  next
    case (write_data i r off dat k now)
    then show ?thesis
      using assms(2-4)
      by (auto simp: kill update_inode_other write_frame db_write_blocks_seq)
  next
    case (setattr i r sz ru mode u g atm mtm a m now' now)
    then show ?thesis
      using assms(3,4)
      by (auto simp: kill db_times_def db_size_def db_owner_def db_mode_def db_truncate_def
          update_inode_other truncate_frame split: option.split)
  qed (use assms(3,4) new gone in
      \<open>auto simp: db_unlink_seq update_inode_other db_link_def db_set_xattr_def db_remove_xattr_def\<close>)
qed

interpretation number_machine:
  invariant_machine "step h" kernel_ok
    "\<lambda>self. wf_db (tables self) \<and> inode_at (tables self) j = None \<and> unat j \<le> inode_seq (tables self)" for h j
proof
  fix self q
  assume inv: "wf_db (tables self) \<and> inode_at (tables self) j = None \<and> unat j \<le> inode_seq (tables self)"
    and ok: "kernel_ok self q"
  then have "wf_db (tables (step h q self))" by (auto intro: wf_machine.step_inv)
  with inv show "wf_db (tables (step h q self)) \<and> inode_at (tables (step h q self)) j = None \<and>
      unat j \<le> inode_seq (tables (step h q self))"
    by (cases rule: step_cases [of h q self]) (auto dest: applied_fresh)
qed

end
