(* ===== verification/Demo.thy ===== *)
theory Demo
  imports Fs_Invariants
begin

text \<open>
  A small container on a connection without faults, the concrete input the properties are
  applied to: the root directory with a file \<open>f\<close> (inode 2, three bytes, one extended
  attribute), a directory \<open>d\<close> (inode 3) that holds a second name \<open>g\<close> of the file, and a
  symbolic link \<open>s\<close> (inode 4).
\<close>

definition demo_inode :: "i64 \<Rightarrow> i64 \<Rightarrow> i64 \<Rightarrow> string option \<Rightarrow> inode" where
  "demo_inode kind mode sz target =
     \<lparr>i_kind = kind, i_mode = mode, i_uid = 1000, i_gid = 1000, i_size = sz,
      i_atime = 0, i_mtime = 0, i_ctime = 0, i_target = target\<rparr>"

definition demo_db :: db where
  "demo_db =
     \<lparr>t_meta = [],
      t_inodes = [(1, demo_inode KIND_DIR 0x41ED 0 None), (2, demo_inode KIND_FILE 0x8DED 3 None),
                  (3, demo_inode KIND_DIR 0x41ED 0 None), (4, demo_inode KIND_SYMLINK 0xA1FF 1 (Some ''f''))],
      t_dentries = [((1, ''f''), 2), ((1, ''d''), 3), ((3, ''g''), 2), ((1, ''s''), 4)],
      t_data = [((2, 0), [10, 20, 30])],
      t_xattrs = Some [((2, ''user.a''), [7, 8])],
      xattrs_gc = True, inode_seq = 4\<rparr>"

definition demo_conn :: conn where
  "demo_conn = \<lparr>cdb = demo_db, tick = 0, fault = (\<lambda>_. None), clock = (\<lambda>_. 0)\<rparr>"

definition demo_fs :: coffer_fs where
  "demo_fs = \<lparr>con = demo_conn, max_size = 0, fs_uid = 1000, fs_gid = 1000, last_activity = 0,
     read_only = False, has_xattrs = True\<rparr>"

lemmas demo_defs = demo_db_def demo_conn_def demo_fs_def demo_inode_def

lemma demo_fs_simps [simp]:
  "tables demo_fs = demo_db" "healthy (con demo_fs)" "healthy demo_conn" "max_size demo_fs = 0"
  "read_only demo_fs = False" "has_xattrs demo_fs = True" "cdb demo_conn = demo_db"
  "fs_uid demo_fs = 1000" "fs_gid demo_fs = 1000" "con demo_fs = demo_conn"
  by (simp_all add: demo_fs_def demo_conn_def healthy_def)

lemma demo_wf [simp]: "wf_db demo_db"
proof -
  have "keys_ok demo_db" "names_ok demo_db" "linked_ok demo_db" "root_ok demo_db"
    "storage_ok demo_db" "sizes_ok demo_db" "attrs_ok demo_db" "seq_ok demo_db"
    by (simp_all add: keys_ok_def names_ok_def linked_ok_def root_ok_def storage_ok_def sizes_ok_def
        attrs_ok_def seq_ok_def is_dir_def size_at_def name_count_def demo_db_def demo_inode_def
        BLOCK_SIZE_def)
  then show ?thesis by (simp add: wf_db_def)
qed

lemma demo_inode_at:
  "inode_at demo_db 1 = Some (demo_inode KIND_DIR 0x41ED 0 None)"
  "inode_at demo_db 2 = Some (demo_inode KIND_FILE 0x8DED 3 None)"
  "inode_at demo_db 3 = Some (demo_inode KIND_DIR 0x41ED 0 None)"
  "inode_at demo_db 4 = Some (demo_inode KIND_SYMLINK 0xA1FF 1 (Some ''f''))"
  by (simp_all add: demo_db_def)

lemma demo_child_at:
  "child_at demo_db 1 ''f'' = Some 2" "child_at demo_db 1 ''d'' = Some 3"
  "child_at demo_db 3 ''g'' = Some 2" "child_at demo_db 1 ''s'' = Some 4"
  "child_at demo_db 1 ''new'' = None" "child_at demo_db 3 ''new'' = None"
  by (simp_all add: demo_db_def)

lemma demo_is_dir: "is_dir demo_db 1" "\<not> is_dir demo_db 2" "is_dir demo_db 3" "\<not> is_dir demo_db 4"
  by (simp_all add: is_dir_def demo_inode_at demo_inode_def)

lemma demo_kind [simp]: "i_kind (demo_inode k m s t) = k" "i_mode (demo_inode k m s t) = m"
  "i_size (demo_inode k m s t) = s"
  by (simp_all add: demo_inode_def)

section \<open>Running callbacks on it\<close>

text \<open>With these rules \<open>simp\<close> evaluates a callback on the demonstration container.\<close>

lemma demo_clock [simp]: "secs_since_epoch 0 = 0"
  by (simp add: secs_since_epoch_def duration_since_def UNIX_EPOCH_def as_secs_f64_def f64_of_nat_def f64_add_def f64_div_def f64_round_def)
lemma demo_activity [simp]: "f64_as_u64 0 = 0" by (simp add: f64_as_u64_def)
lemma demo_time [simp]: "secs_to_systemtime 0 = Some 0" by (simp add: secs_to_systemtime_def UNIX_EPOCH_def)

lemmas run_defs = on_con_def in_tx_def begin_tx_def commit_def bind_def ret_def or_eio_def or_errno_def
  map_err_def attempt_def throw_def fail_def refuse_def of_sum_def exec_sql_def query_def execute_def now_secs_def touch_def
  touching_run writing_run with_str_run Let_def
lemmas store_defs = row_by_ino_def child_ino_def has_children_def get_block_def put_block_def
  current_total_size_def link_dentry_def insert_child_def delete_inode_def unlink_dentry_def ensure_removable_def
  kill_priv_def truncate_inode_def insert_inode_def insert_dentry_def delete_dentry_def move_dentry_def update_inode_def
  on_xattrs_def delete_inode_row_def delete_blocks_def upsert_block_def store_block_def block_content_def block_at_def
  name_count_def has_entries_def next_rowid_def  new_inode_def update_where_def delete_where_def
  map_row_def link_count_def to_attr_def attr_of_def expect_absent_def ceiling_check_def file_type_of_def set_mc_def set_c_def
  replace_target_def is_ok_def time_or_now_to_secs_def reply_xattr_def
lemma demo_rowid: "rowid 1 = 1" "rowid 2 = 2" "rowid 3 = 3" "rowid 4 = 4" 
  by (simp_all add: rowid_small)
lemmas eval_defs = run_defs store_defs demo_defs demo_rowid code_def

end
