(* ===== verification/Fs_Content.thy ===== *)
theory Fs_Content
  imports Demo
begin

text \<open>
  Properties of file content: \<open>read\<close> is \<open>pread\<close>, \<open>write\<close> is \<open>pwrite\<close> and a resize through
  \<open>setattr\<close> is \<open>ftruncate\<close> on the byte sequence the blocks of an inode stand for, and no
  other file is touched.
\<close>

section \<open>The read loop\<close>

lemma read_loop_healthy:
  assumes "healthy c" and "pos \<le> end_pos"
  shows "\<exists>c'. read_loop ino pos end_pos out c =
      (Inr (out @ map (byte_at (file_blocks ino) (cdb c)) [pos..<end_pos]), c')"
  using assms
proof (induction "end_pos - pos" arbitrary: pos out c rule: less_induct)
  case less
  show ?case
  proof (cases "pos < end_pos")
    case False
    with less.prems show ?thesis by (subst read_loop.simps) (simp add: ret_def)
  next
    case True
    let ?n = "min (BLOCK_SIZE - pos mod BLOCK_SIZE) (end_pos - pos)"
    have npos: "0 < ?n" using True by simp
    let ?blk = "block_content (cdb c) ino (int (pos div BLOCK_SIZE))"
    let ?c = "c\<lparr>tick := Suc (tick c)\<rparr>"
    have get: "(attempt (get_block ino (int (pos div BLOCK_SIZE))) :: (sql_error + bytes) io) c = (Inr (Inr ?blk), ?c)"
      using less.prems(1) by (simp add: attempt_def get_block_def query_def exec_sql_healthy)
    have split: "[pos..<end_pos] = [pos..<pos + ?n] @ [pos + ?n..<end_pos]"
      using True by (metis add.commute le_add_diff_inverse2 less_imp_le_nat min.cobounded2 upt_add_eq_append
          diff_add_inverse le_add1 nat_add_left_cancel_le)
    have "\<exists>c'. read_loop ino (pos + ?n) end_pos (out @ read_chunk ?blk (pos mod BLOCK_SIZE) ?n) ?c =
        (Inr ((out @ read_chunk ?blk (pos mod BLOCK_SIZE) ?n) @
           map (byte_at (file_blocks ino) (cdb ?c)) [pos + ?n..<end_pos]), c')"
      by (rule less.hyps) (use less.prems True npos in \<open>auto simp del: min_less_iff_conj\<close>)
    moreover have "read_chunk ?blk (pos mod BLOCK_SIZE) ?n =
        map (byte_at (file_blocks ino) (cdb c)) [pos..<pos + ?n]"
      by (rule read_chunk_bytes [where get = "file_blocks ino"]) simp
    ultimately show ?thesis
      using True by (subst read_loop.simps) (simp add: Let_def bind_def get split)
  qed
qed

section \<open>read\<close>

lemma pread_file_bytes:
  "pread (file_bytes get s n) off k = map (byte_at get s) [off..<min (off + k) n]"
  proof -
  have "take k [off..<n] = [off..<min (off + k) n]"
    by (rule nth_equalityI) auto
  then show ?thesis by (simp add: pread_def file_bytes_def drop_map take_map)
qed

lemma unat_u32_u64: "unat (ucast (w :: u32) :: u64) = unat w"
proof -
  have "unat w < 2 ^ LENGTH(32)" by (rule unsigned_less)
  then have "unat w < 2 ^ 64" by simp
  then show ?thesis by (simp add: unsigned_ucast_eq take_bit_nat_eq_self)
qed

lemma wf_row_size:
  assumes "wf_db d" and "inode_at d i = Some r"
  shows "unat (word_of_int (i_size r) :: u64) = file_size d i"
proof -
  have "nat (i_size r) < 2 ^ 63" using wf_size [OF assms] by (simp add: nat_less_iff)
  then have "unat (word_of_nat (nat (i_size r)) :: u64) = nat (i_size r)"
    by (intro unat_word_small) simp
  then show ?thesis using wf_size [OF assms] by (simp add: file_size_def assms(2) of_nat_nat)
qed

lemma unat_add_small: "unat (a :: u64) + unat b < 2 ^ 64 \<Longrightarrow> unat (a + b) = unat a + unat b"
proof -
  assume small: "unat a + unat b < 2 ^ 64"
  have "a + b = word_of_nat (unat a + unat b)" by simp
  then show ?thesis using unat_word_small [OF small] by metis
qed

lemma fs_read_healthy:
  assumes "healthy (con self)" and "wf_db (tables self)" and "inode_at (tables self) fh \<noteq> None"
    and "unat off + unat sz < 2 ^ 64"
  shows "fst (fs_read fh off sz self) = Inr (pread (content (tables self) fh) (unat off) (unat sz))"
proof -
  obtain r where r: "inode_at (tables self) fh = Some r" using assms(3) by blast
  let ?c = "con (touch self)" and ?d = "tables self"
  let ?c1 = "?c\<lparr>tick := Suc (tick ?c)\<rparr>"
  let ?row = "map_row ?d fh r"
  have h: "healthy ?c" "healthy ?c1" using assms(1) by simp_all
  have row: "or_eio (row_by_ino fh) ?c = (Inr (Some ?row), ?c1)"
    using h(1) r by (simp add: or_eio_def map_err_def row_by_ino_def query_def exec_sql_healthy)
  have size: "unat (r_size ?row) = file_size ?d fh"
    using wf_row_size [OF assms(2) r] by (simp add: map_row_def)
  have "unat (off + ucast sz) = unat off + unat sz"
    using unat_add_small [of off "ucast sz"] assms(4) by (simp add: unat_u32_u64)
  then have end_pos: "unat (min (off + ucast sz) (r_size ?row)) = min (unat off + unat sz) (file_size ?d fh)"
    using size by (auto simp: min_def word_le_nat_alt)
  have spec: "pread (content ?d fh) (unat off) (unat sz) =
      map (byte_at (file_blocks fh) ?d) [unat off..<min (unat off + unat sz) (file_size ?d fh)]"
    unfolding content_def by (rule pread_file_bytes)
  show ?thesis
  proof (cases "min (off + ucast sz) (r_size ?row) \<le> off")
    case True
    then have "min (unat off + unat sz) (file_size ?d fh) \<le> unat off"
      unfolding end_pos [symmetric] by (simp only: word_le_nat_alt)
    then have "pread (content ?d fh) (unat off) (unat sz) = []" unfolding spec by simp
    with True show ?thesis
      by (simp add: fs_read_def touching_run on_con_def bind_def row Let_def ret_def)
  next
    case False
    then have "unat off \<le> unat (min (off + ucast sz) (r_size ?row))" by (simp add: word_le_nat_alt)
    then obtain c' where "read_loop fh (unat off) (unat (min (off + ucast sz) (r_size ?row))) [] ?c1 =
        (Inr ([] @ map (byte_at (file_blocks fh) (cdb ?c1)) [unat off..<unat (min (off + ucast sz) (r_size ?row))]), c')"
      using read_loop_healthy [OF h(2), of "unat off"] by blast
    with False show ?thesis
      by (simp add: fs_read_def touching_run on_con_def bind_def row Let_def spec end_pos)
  qed
qed

text \<open>
  C1: read. On a connection without faults a read answers exactly the bytes POSIX \<open>pread\<close>
  gives on the content of the file: short at the end of the file, empty beyond it, zeros
  where a block is missing or short.
\<close>

theorem read_is_pread:
  assumes "healthy (con self)" and "wf_db (tables self)" and "inode_at (tables self) fh \<noteq> None"
    and "unat off + unat sz < 2 ^ 64"
  shows "fst (fs_read fh off sz self) = Inr (pread (content (tables self) fh) (unat off) (unat sz))"
  using assms by (rule fs_read_healthy)

theorem read_is_pread_witness:
  "fst (fs_read 2 1 5 demo_fs) = Inr (pread (content demo_db 2) 1 5)"
  using read_is_pread [of demo_fs 2 1 5] by (simp add: demo_inode_at)

section \<open>write\<close>

lemma kill_if_frame [simp]:
  "t_data (db_kill_if b i d) = t_data d" "t_dentries (db_kill_if b i d) = t_dentries d"
  "inode_seq (db_kill_if b i d) = inode_seq d"
  by (simp_all add: db_kill_if_def db_kill_priv_def Let_def)

lemma content_cong:
  assumes "block_content d' i = block_content d i" and "size_at d' i = size_at d i"
  shows "content d' i = content d i"
proof -
  have "file_size d' i = file_size d i"
    using assms(2) unfolding file_size_def size_at_def by (auto split: option.splits)
  then show ?thesis unfolding content_def by simp (rule file_bytes_cong, simp add: assms(1))
qed

lemma size_at_update:
  "(\<And>r. i_size (f r) = i_size r) \<Longrightarrow> size_at (update_inode i f d) j = size_at d j"
  by (simp add: size_at_def update_inode_other option.map_comp comp_def)

lemma content_update_inode:
  "(\<And>r. i_size (f r) = i_size r) \<Longrightarrow> content (update_inode i f d) j = content d j"
  by (rule content_cong) (simp_all add: size_at_update)

lemma content_kill_if: "content (db_kill_if b i d) j = content d j"
proof (rule content_cong)
  show "block_content (db_kill_if b i d) j = block_content d j"
    by (simp add: block_content_def block_at_def fun_eq_iff)
  show "size_at (db_kill_if b i d) j = size_at d j"
    using size_at_update [of "drop_sgid \<circ> drop_suid" i d j]
    by (simp add: db_kill_if_def db_kill_priv_def Let_def size_at_def)
qed

lemma fs_write_Inr:
  assumes "fs_write fh off dat k self = (Inr n, self')"
  shows "n = word_of_nat (length dat)"
    and "\<exists>r now. inode_at (tables self) fh = Some r \<and> unat off + length dat < 2 ^ 63 \<and>
      (wf_db (tables self) \<longrightarrow>
        tables self' = db_kill_if k fh (db_write fh (unat off) dat now (tables self)))"
proof -
  show "n = word_of_nat (length dat)"
    using assms by (auto simp: fs_write_def run_simps refuse_inv on_con_inv act_inv split: if_splits)
  have "applied (fs_uid self) (fs_gid self) (Write fh off dat k) (tables self) (tables self')"
    using fs_write_all [of fh off dat k] assms unfolding all_or_nothing_def by fastforce
  then show "\<exists>r now. inode_at (tables self) fh = Some r \<and> unat off + length dat < 2 ^ 63 \<and>
      (wf_db (tables self) \<longrightarrow>
        tables self' = db_kill_if k fh (db_write fh (unat off) dat now (tables self)))"
  proof cases
    case (write_data r now)
    then show ?thesis
      using wf_db_write_code [of "tables self" fh r off dat now] by (intro exI [of _ r] exI [of _ now]) simp
  qed
qed

text \<open>
  C2: write. Whatever faults were possible, a write that is answered with a count has
  written all of it: the content of the file is POSIX \<open>pwrite\<close> of the content before,
  a gap beyond the old end reads as zeros, and every other file is what it was.
\<close>

theorem write_is_pwrite:
  assumes "wf_db (tables self)" and "fs_write fh off dat k self = (Inr n, self')"
  shows "n = word_of_nat (length dat) \<and>
    content (tables self') fh = pwrite (content (tables self) fh) (unat off) dat \<and>
    (\<forall>i. i \<noteq> fh \<longrightarrow> content (tables self') i = content (tables self) i)"
proof -
  obtain r now where "inode_at (tables self) fh = Some r"
    "tables self' = db_kill_if k fh (db_write fh (unat off) dat now (tables self))"
    using fs_write_Inr(2) [OF assms(2)] assms(1) by blast
  then show ?thesis
    using fs_write_Inr(1) [OF assms(2)] content_db_write [OF assms(1)] by (auto simp: content_kill_if)
qed

lemma write_body_healthy:
  assumes "healthy c" and "wf_db (cdb c)" and "inode_at (cdb c) ino \<noteq> None"
  shows "\<exists>c'. write_body 0 ino off dat k c = (Inr (), c')"
proof -
  obtain r where r: "inode_at (cdb c) ino = Some r" using assms(3) by blast
  let ?c1 = "c\<lparr>tick := Suc (tick c)\<rparr>"
  have h1: "healthy ?c1" using assms(1) by simp
  obtain c2 where loop: "write_loop ino (unat off) dat ?c1 = (Inr (), c2)"
    using write_loop_healthy [OF h1] by blast
  have h2: "healthy c2" by (rule keeps_envD [OF keeps_env_write_loop loop h1])
  have x: "t_xattrs (cdb c2) \<noteq> None"
    using write_loop_Inr [OF loop] wf_keys(4) [OF assms(2)] write_frame(3) [OF assms(2)] by auto
  define sz where "sz = sint (max (r_size (map_row (cdb c) ino r)) (off + word_of_nat (length dat)))"
  let ?now = "secs_since_epoch (clock c2 (tick c2))"
  let ?c3 = "c2\<lparr>tick := Suc (Suc (tick c2)), cdb := update_inode ino (set_size sz ?now) (cdb c2)\<rparr>"
  have "\<exists>c4. kill_priv ino ?c3 = (Inr (), c4)"
    using h2 x by (intro kill_priv_healthy) simp_all
  then obtain c4 where kp: "kill_priv ino ?c3 = (Inr (), c4)" by blast
  have "healthy c4" by (rule keeps_envD [OF keeps_env_kill_priv kp]) (use h2 in simp)
  with h2 show ?thesis
    using assms(1) r loop kp
    by (cases k)
       (simp_all add: write_body_def bind_def or_eio_def or_errno_def map_err_def row_by_ino_def query_def
         exec_sql_healthy ceiling_check_def ret_def now_secs_def execute_def commit_def Let_def
         set_size_def [abs_def] sz_def)
qed

lemma in_tx_healthy:
  assumes "healthy c" and "\<And>c. healthy c \<Longrightarrow> cdb c = d \<Longrightarrow> \<exists>a c'. body c = (Inr a, c')" and "cdb c = d"
  shows "\<exists>a c'. in_tx body c = (Inr a, c')"
proof -
  obtain a c' where "body (c\<lparr>tick := Suc (tick c)\<rparr>) = (Inr a, c')"
    using assms(2) [of "c\<lparr>tick := Suc (tick c)\<rparr>"] assms(1,3) by auto
  then show ?thesis using assms(1) by (simp add: in_tx_def begin_tx_def execute_def exec_sql_healthy)
qed

lemma fs_write_healthy:
  assumes "healthy (con self)" and "wf_db (tables self)" and "inode_at (tables self) fh \<noteq> None"
    and "\<not> read_only self" and "max_size self = 0"
    and "off \<le> MAX_FILE_SIZE" and "length dat \<le> unat (MAX_FILE_SIZE - off)"
  shows "\<exists>self'. fs_write fh off dat k self = (Inr (word_of_nat (length dat)), self')"
proof -
  have "\<exists>u c'. in_tx (write_body 0 fh off dat k) (con (touch self)) = (Inr u, c')"
  proof (rule in_tx_healthy)
    show "healthy (con (touch self))" using assms(1) by simp
    fix c :: conn
    assume "healthy c" "cdb c = tables (touch self)"
    then show "\<exists>u c'. write_body 0 fh off dat k c = (Inr u, c')"
      using write_body_healthy assms(2,3) by auto
  qed simp
  then obtain c' where "in_tx (write_body 0 fh off dat k) (con (touch self)) = (Inr (), c')" by auto
  then show ?thesis
    using assms(4,5) leD [OF assms(6)] leD [OF assms(7)]
    by (simp add: fs_write_def run_simps on_con_def bind_def ret_def)
qed



lemma demo_write: "\<exists>self'. fs_write 2 1 [99, 98, 97] True demo_fs = (Inr 3, self')"
  using fs_write_healthy [of demo_fs 2 1 "[99, 98, 97]" True] by (simp add: demo_inode_at)

theorem write_is_pwrite_witness:
  "\<exists>self'. fs_write 2 1 [99, 98, 97] True demo_fs = (Inr 3, self') \<and>
     content (tables self') 2 = pwrite (content demo_db 2) 1 [99, 98, 97]"
proof -
  obtain self' where w: "fs_write 2 1 [99, 98, 97] True demo_fs = (Inr 3, self')"
    using demo_write by blast
  from write_is_pwrite [OF _ this] w show ?thesis by auto
qed

lemma pread_pwrite: "pread (pwrite xs off ys) off (length ys) = ys"
  by (simp add: pread_def pwrite_def)

lemma applied_inode_kept:
  "tables self' = db_kill_if k fh (db_write fh pos dat now (tables self)) \<Longrightarrow> wf_db (tables self) \<Longrightarrow>
     inode_at (tables self) fh \<noteq> None \<Longrightarrow> inode_at (tables self') fh \<noteq> None"
  by (simp add: db_kill_if_def db_kill_priv_def db_write_def Let_def update_inode_other write_frame)

text \<open>
  C15: read after write. The range a successful write covered reads back as the bytes that
  were written, on a connection that has stayed without faults.
\<close>

theorem read_after_write:
  assumes "wf_db (tables self)" and "fs_write fh off dat k self = (Inr n, self')"
    and "healthy (con self')" and "unat sz = length dat"
  shows "fst (fs_read fh off sz self') = Inr dat"
proof -
  obtain r now where w: "inode_at (tables self) fh = Some r" "unat off + length dat < 2 ^ 63"
    "tables self' = db_kill_if k fh (db_write fh (unat off) dat now (tables self))"
    using fs_write_Inr(2) [OF assms(2)] assms(1) by blast
  have "wf_db (tables self')"
    unfolding w(3) by (intro wf_db_kill_if wf_db_write [OF assms(1) w(1,2)])
  moreover have "inode_at (tables self') fh \<noteq> None"
    by (rule applied_inode_kept [OF w(3) assms(1)]) (simp add: w(1))
  moreover have "content (tables self') fh = pwrite (content (tables self) fh) (unat off) dat"
    unfolding w(3) content_kill_if by (rule content_db_write(1) [OF assms(1) w(1)])
  ultimately show ?thesis
    using fs_read_healthy [OF assms(3), of fh off sz] w(2) assms(4) by (simp add: pread_pwrite)
qed

lemma keeps_health_write: "keeps_health (fs_write fh off dat k)"
  unfolding fs_write_def
  by (auto intro!: keeps_health_intros keeps_health_on_con env_intros)

theorem read_after_write_witness:
  "\<exists>self'. fs_write 2 1 [99, 98, 97] True demo_fs = (Inr 3, self') \<and>
     fst (fs_read 2 1 3 self') = Inr [99, 98, 97]"
proof -
  obtain self' where w: "fs_write 2 1 [99, 98, 97] True demo_fs = (Inr 3, self')"
    using demo_write by blast
  have "healthy (con self')"
    by (rule keeps_healthD [OF keeps_health_write w]) simp
  then show ?thesis using read_after_write [OF _ w, of 3] w by auto
qed

section \<open>Resizing\<close>

lemma content_mode_owner:
  "content (db_owner i row now u g (db_mode i om now mode d)) j = content d j"
  "content (db_times i given a m d) j = content d j"
  by (auto simp: db_owner_def db_mode_def db_times_def content_update_inode split: option.split)

text \<open>
  C11: resize. A \<open>setattr\<close> that sets a size and is answered with attributes has made the
  content of the file POSIX \<open>ftruncate\<close> of what it was (cut off, or extended with zeros)
  and left every other file alone, also when the same call changes mode, owner or times.
\<close>

theorem setattr_resizes:
  assumes "wf_db (tables self)"
    and "fs_setattr ru i mode u g (Some len) atm mtm self = (Inr attr, self')"
  shows "content (tables self') i = resize (content (tables self) i) (unat len) \<and>
    (\<forall>j. j \<noteq> i \<longrightarrow> content (tables self') j = content (tables self) j)"
  using fs_setattr_Inr [OF assms(2)]
proof cases
  case (setattr r a m now' now)
  let ?d = "db_owner i (map_row (tables self) i r) now u g (db_mode i (i_mode r) now mode (tables self))"
  have wf: "wf_db ?d"
    using assms(1) by (auto simp: db_owner_def db_mode_def intro!: wf_update_inode split: option.split)
  have "inode_at ?d i \<noteq> None"
    using setattr by (simp add: db_owner_def db_mode_def update_inode_other split: option.split)
  then obtain r' where r': "inode_at ?d i = Some r'" by blast
  have len: "len \<le> MAX_FILE_SIZE" using setattr by simp
  from content_db_truncate [OF wf r' len] show ?thesis
    unfolding setattr by (simp add: content_kill_if content_mode_owner db_size_def)
qed

lemma demo_setattr:
  "\<exists>attr self'. fs_setattr 1000 2 None None None (Some 2) None None demo_fs = (Inr attr, self')"
  by (simp add: fs_setattr_def setattr_body_def setattr_mode_def setattr_owner_def setattr_size_def
      setattr_times_def setattr_kill_def eval_defs BLOCK_SIZE_def drop_suid_def drop_sgid_def)

theorem setattr_resizes_witness:
  "\<exists>attr self'. fs_setattr 1000 2 None None None (Some 2) None None demo_fs = (Inr attr, self') \<and>
     content (tables self') 2 = resize (content demo_db 2) 2"
proof -
  obtain attr self' where s: "fs_setattr 1000 2 None None None (Some 2) None None demo_fs = (Inr attr, self')"
    using demo_setattr by blast
  from setattr_resizes [OF _ this] s show ?thesis by auto
qed

end
