(* ===== verification/Fs_Names.thy ===== *)
theory Fs_Names
  imports Fs_Content
begin

text \<open>
  Properties of names: what unlink, rmdir, rename, link, create, mkdir and symlink do to the
  directory entries and to the inodes behind them, on every branch.
\<close>

section \<open>unlink\<close>

lemma db_unlink_child: "child_at (db_unlink p n i now d) q m = (if (q, m) = (p, n) then None else child_at d q m)"
  by (simp add: db_unlink_dentries)

lemma name_count_db_unlink: "name_count (db_unlink p n i now d) j = name_count (delete_dentry p n d) j"
  by (rule name_count_dentries) (simp add: db_unlink_dentries)

lemma db_unlink_storage:
  assumes "name_count (delete_dentry p n d) i = 0" and "i \<noteq> p"
  shows "inode_at (db_unlink p n i now d) i = None" and "block_at (db_unlink p n i now d) i b = None"
    and "xattr_at (db_unlink p n i now d) i m = None"
  using assms
  by (auto simp: db_unlink_def Let_def update_inode_other db_delete_inode_def block_at_def
      xattr_at_def split: option.split)

lemma db_unlink_kept:
  assumes "j = i \<Longrightarrow> name_count (delete_dentry p n d) i \<noteq> 0"
  shows "content (db_unlink p n i now d) j = content d j"
    and "xattr_at (db_unlink p n i now d) j m = xattr_at d j m"
    and "(inode_at (db_unlink p n i now d) j = None) = (inode_at d j = None)"
proof -
  have b: "block_content (db_unlink p n i now d) j = block_content d j"
    using assms by (auto simp: fun_eq_iff db_unlink_def Let_def db_delete_inode_def block_content_def block_at_def)
  have s: "size_at (db_unlink p n i now d) j = size_at d j"
    using assms
    by (auto simp: db_unlink_def Let_def db_delete_inode_def size_at_def update_inode_other
        option.map_comp comp_def split: option.split)
  show "content (db_unlink p n i now d) j = content d j" by (rule content_cong [OF b s])
  show "xattr_at (db_unlink p n i now d) j m = xattr_at d j m"
    using assms by (auto simp: db_unlink_def Let_def db_delete_inode_def xattr_at_def split: option.split)
  show "(inode_at (db_unlink p n i now d) j = None) = (inode_at d j = None)"
    using s unfolding size_at_def by (metis option.map_disc_iff)
qed

text \<open>
  C6: unlink removes one name and only that; the inode with its blocks and attributes goes
  with the last name and survives, content and attributes unchanged, as long as another
  name is left. The name count drops by one.
\<close>

theorem unlink_removes_one_name:
  assumes "wf_db (tables self)" and "kernel_ok self (Unlink p n)"
    and "fs_unlink p n self = (Inr (), self')"
  shows "\<exists>i. child_at (tables self) p n = Some i \<and>
    (\<forall>q m. child_at (tables self') q m = (if (q, m) = (p, n) then None else child_at (tables self) q m)) \<and>
    name_count (tables self) i = Suc (name_count (tables self') i) \<and>
    (if name_count (tables self) i = 1
     then inode_at (tables self') i = None \<and> (\<forall>b. block_at (tables self') i b = None) \<and>
       (\<forall>m. xattr_at (tables self') i m = None)
     else inode_at (tables self') i \<noteq> None \<and> content (tables self') i = content (tables self) i \<and>
       (\<forall>m. xattr_at (tables self') i m = xattr_at (tables self) i m))"
proof -
  let ?d = "tables self"
  have "applied (fs_uid self) (fs_gid self) (Unlink p n) ?d (tables self')"
    using fs_unlink_all [of p n] assms(3) unfolding all_or_nothing_def by fastforce
  then obtain i now where u: "child_at ?d p n = Some i" "tables self' = db_unlink p n i now ?d"
    by (rule applied_unlink)
  have dir: "is_dir ?d p" "inode_at ?d i \<noteq> None" using wf_child [OF assms(1) u(1)] by simp_all
  moreover have "\<not> is_dir ?d i" using assms(2) u(1) by simp
  ultimately have ne: "i \<noteq> p" by auto
  have cnt: "name_count ?d i = Suc (name_count (delete_dentry p n ?d) i)"
    using name_count_delete [OF wf_keys(2) [OF assms(1)] u(1), of i] by simp
  show ?thesis
    using u(1) cnt ne dir(2) db_unlink_storage [of p n ?d i now]
      db_unlink_kept [of i i p n ?d now]
    by (intro exI [of _ i]) (auto simp: u(2) db_unlink_child name_count_db_unlink)
qed

lemma demo_unlink: "\<exists>self'. fs_unlink 1 ''f'' demo_fs = (Inr (), self')"
  by (simp add: fs_unlink_def unlink_body_def eval_defs)

theorem unlink_removes_one_name_witness:
  "\<exists>self'. fs_unlink 1 ''f'' demo_fs = (Inr (), self') \<and> child_at (tables self') 1 ''f'' = None \<and>
     child_at (tables self') 3 ''g'' = Some 2"
proof -
  obtain self' where u: "fs_unlink 1 ''f'' demo_fs = (Inr (), self')" using demo_unlink by blast
  from unlink_removes_one_name [OF _ _ this] u show ?thesis
    by (auto simp: demo_child_at demo_is_dir)
qed

section \<open>rmdir\<close>

lemma unlink_dentry_run:
  assumes "healthy c" and "wf_db (cdb c)"
  shows "\<exists>c'. unlink_dentry p n i now c = (Inr (), c') \<and> healthy c'"
proof -
  have "t_xattrs (cdb c) \<noteq> None" using wf_keys(4) [OF assms(2)] by auto
  then obtain c' where u: "unlink_dentry p n i now c = (Inr (), c')"
    using unlink_dentry_healthy [OF assms(1)] by blast
  then show ?thesis using keeps_envD [OF keeps_env_unlink_dentry u assms(1)] by blast
qed

lemma in_tx_result:
  assumes "healthy c" and "fst (body (c\<lparr>tick := Suc (tick c)\<rparr>)) = r"
  shows "fst (in_tx body c) = r"
  using assms by (auto simp: in_tx_def begin_tx_def execute_def exec_sql_healthy split: prod.split sum.split)

lemma unlink_body_healthy:
  assumes "healthy c" and "wf_db (cdb c)"
  shows "fst (unlink_body p n c) =
    (case child_at (cdb c) p n of None \<Rightarrow> Inl (Errno ENOENT) | Some i \<Rightarrow> Inr ())"
proof (cases "child_at (cdb c) p n")
  case None
  with assms(1) show ?thesis
    by (simp add: unlink_body_def bind_def or_eio_def map_err_def child_ino_def query_def
        exec_sql_healthy fail_def throw_def)
next
  case (Some i)
  let ?c = "c\<lparr>tick := Suc (Suc (tick c))\<rparr>" and ?now = "secs_since_epoch (clock c (Suc (tick c)))"
  obtain c' where "unlink_dentry p n i ?now ?c = (Inr (), c')" "healthy c'"
    using unlink_dentry_run [of ?c p n i ?now] assms by auto
  with Some assms(1) show ?thesis
    by (simp add: unlink_body_def bind_def or_eio_def map_err_def child_ino_def query_def
        exec_sql_healthy now_secs_def commit_def execute_def)
qed

lemma rmdir_body_healthy:
  assumes "healthy c" and "wf_db (cdb c)"
  shows "fst (rmdir_body p n c) =
    (case child_at (cdb c) p n of None \<Rightarrow> Inl (Errno ENOENT)
     | Some i \<Rightarrow> if is_dir (cdb c) i \<and> has_entries (cdb c) i then Inl (Errno ENOTEMPTY) else Inr ())"
proof (cases "child_at (cdb c) p n")
  case None
  with assms(1) show ?thesis
    by (simp add: rmdir_body_def bind_def or_eio_def map_err_def child_ino_def query_def
        exec_sql_healthy fail_def throw_def)
next
  case (Some i)
  obtain r where r: "inode_at (cdb c) i = Some r" "i \<noteq> ROOT_INO" using wf_child [OF assms(2) Some] by blast
  have ok: "fst (bind now_secs (\<lambda>now. bind (or_eio (unlink_dentry p n i now)) (\<lambda>_. or_eio commit)) c2) = Inr ()"
    if c2: "healthy c2" "cdb c2 = cdb c" for c2
  proof -
    let ?c = "c2\<lparr>tick := Suc (tick c2)\<rparr>" and ?now = "secs_since_epoch (clock c2 (tick c2))"
    obtain c' where "unlink_dentry p n i ?now ?c = (Inr (), c')" "healthy c'"
      using unlink_dentry_run [of ?c p n i ?now] c2 assms(2) by auto
    then show ?thesis
      by (simp add: bind_def or_eio_def map_err_def exec_sql_healthy now_secs_def commit_def execute_def)
  qed
  show ?thesis
    using Some assms(1) r ok [of "c\<lparr>tick := Suc (Suc (tick c))\<rparr>"] ok [of "c\<lparr>tick := Suc (Suc (Suc (tick c)))\<rparr>"]
    by (simp add: rmdir_body_def ensure_removable_def has_children_def bind_def or_eio_def map_err_def
        child_ino_def query_def exec_sql_healthy fail_def throw_def ret_def is_dir_def)
qed

text \<open>
  Rmdir answers ENOENT for a name that does not exist, ENOTEMPTY for a directory that
  has an entry, and otherwise removes it; these are all its answers on a connection
  without faults.
\<close>

theorem rmdir_answers:
  assumes "healthy (con self)" and "wf_db (tables self)" and "\<not> read_only self" and "utf8_valid n"
  shows "fst (fs_rmdir p n self) =
    (case child_at (tables self) p n of None \<Rightarrow> Inl (Errno ENOENT)
     | Some i \<Rightarrow> if is_dir (tables self) i \<and> has_entries (tables self) i
               then Inl (Errno ENOTEMPTY) else Inr ())"
proof -
  let ?c = "con (touch self)"
  have "fst (in_tx (rmdir_body p n) ?c) =
      (case child_at (tables self) p n of None \<Rightarrow> Inl (Errno ENOENT)
       | Some i \<Rightarrow> if is_dir (tables self) i \<and> has_entries (tables self) i
                 then Inl (Errno ENOTEMPTY) else Inr ())"
    using rmdir_body_healthy [of "?c\<lparr>tick := Suc (tick ?c)\<rparr>" p n] assms(1,2)
    by (intro in_tx_result) (simp_all split: option.split)
  moreover have "fst (fs_rmdir p n self) = fst (in_tx (rmdir_body p n) ?c)"
    using assms(3,4) by (simp add: fs_rmdir_def run_simps on_con_def split: prod.split)
  ultimately show ?thesis by simp
qed

theorem rmdir_answers_witness:
  "fst (fs_rmdir 1 ''d'' demo_fs) = Inl (Errno ENOTEMPTY) \<and>
   fst (fs_rmdir 1 ''new'' demo_fs) = Inl (Errno ENOENT)"
  using rmdir_answers [of demo_fs "''d''" 1] rmdir_answers [of demo_fs "''new''" 1]
  by (simp add: demo_child_at demo_is_dir code_def) (simp add: has_entries_def demo_db_def)

section \<open>rename\<close>

lemma db_replace_target:
  "child_at (db_replace i np nn now d) np nn = (if child_at d np nn = Some i then Some i else None)"
  by (auto simp: db_replace_def db_unlink_child split: option.split)

lemma db_replace_other:
  "(q, m) \<noteq> (np, nn) \<Longrightarrow> child_at (db_replace i np nn now d) q m = child_at d q m"
  by (auto simp: db_replace_def db_unlink_child split: option.split)

lemma db_rename_child:
  assumes "wf_db d" and "child_at d p n = Some i" and "replaceable i np nn d" and "is_dir d np"
    and "(np, nn) \<noteq> (p, n) \<Longrightarrow> child_at d np nn \<noteq> Some i"
  shows "child_at (db_rename p n np nn i now now' d) q m =
    (if (q, m) = (np, nn) then Some i else if (q, m) = (p, n) then None else child_at d q m)"
proof -
  let ?e = "db_replace i np nn now d"
  have wf: "wf_db ?e" by (rule wf_db_replace(1) [OF assms(1,3,4)])
  have at: "map_of (t_dentries ?e) (p, n) = Some i" by (rule db_replace_child [OF assms(2)])
  have free: "map_of (t_dentries ?e) (np, nn) = None" if "(np, nn) \<noteq> (p, n)"
    using assms(5) that by (simp add: db_replace_target)
  have "child_at (db_rename p n np nn i now now' d) q m =
      (if (q, m) = (np, nn) then Some i else if (q, m) = (p, n) then None else child_at ?e q m)"
    using move_keys(1) [OF wf_keys(2) [OF wf] at free]
    by (simp add: db_rename_def db_touch_dirs_def db_move_def)
  then show ?thesis using db_replace_other [of q m np nn i now d] by auto
qed

lemma db_rename_content:
  assumes "child_at d np nn \<noteq> Some j" and "i = j \<or> child_at d np nn \<noteq> Some j"
  shows "content (db_rename p n np nn i now now' d) j = content d j"
proof -
  have "content (db_rename p n np nn i now now' d) j = content (db_replace i np nn now d) j"
    by (rule content_cong)
       (auto simp: db_rename_def db_touch_dirs_def db_move_def block_content_def block_at_def fun_eq_iff
         size_at_def option.map_comp comp_def)
  also have "\<dots> = content d j"
    using assms by (auto simp: db_replace_def intro!: db_unlink_kept(1) split: option.split)
  finally show ?thesis .
qed

text \<open>
  C8: rename. A rename that succeeds moved exactly one name: the new name leads to the
  inode the old one led to, the old name is gone (unless it is the new one), every other
  name is where it was, and no file but a replaced one changed its content.
\<close>

theorem rename_moves_one_name:
  assumes "wf_db (tables self)" and "kernel_ok self (Rename p n np nn f)"
    and "fs_rename p n np nn f self = (Inr (), self')"
  shows "\<exists>i. child_at (tables self) p n = Some i \<and>
    (\<forall>q m. child_at (tables self') q m =
      (if (q, m) = (np, nn) then Some i else if (q, m) = (p, n) then None
       else child_at (tables self) q m)) \<and>
    (\<forall>j. child_at (tables self) np nn \<noteq> Some j \<longrightarrow> content (tables self') j = content (tables self) j)"
proof -
  let ?d = "tables self"
  have "applied (fs_uid self) (fs_gid self) (Rename p n np nn f) ?d (tables self')"
    using fs_rename_all [of p n np nn f] assms(3) unfolding all_or_nothing_def by fastforce
  then show ?thesis
  proof cases
    case (rename i now now')
    have dir: "is_dir ?d np" using assms(2) by simp
    have "child_at ?d np nn \<noteq> Some i" if ne: "(np, nn) \<noteq> (p, n)"
    proof
      assume "child_at ?d np nn = Some i"
      then have "child_at (db_replace i np nn now ?d) np nn = Some i" by (simp add: db_replace_target)
      moreover have "child_at (db_replace i np nn now ?d) p n = Some i"
        by (rule db_replace_child) (use rename in simp)
      ultimately show False using rename ne by auto
    qed
    then have names: "child_at (tables self') q m =
        (if (q, m) = (np, nn) then Some i else if (q, m) = (p, n) then None else child_at ?d q m)" for q m
      using rename dir unfolding rename(1) by (intro db_rename_child [OF assms(1)]) auto
    moreover have "content (tables self') j = content ?d j" if "child_at ?d np nn \<noteq> Some j" for j
      unfolding rename(1) using that by (intro db_rename_content) simp_all
    ultimately show ?thesis using rename by blast
  qed
qed

lemma demo_rename: "\<exists>self'. fs_rename 1 ''f'' 3 ''new'' 1 demo_fs = (Inr (), self')"
  by (simp add: fs_rename_def rename_body_def eval_defs)

theorem rename_moves_one_name_witness:
  "\<exists>self'. fs_rename 1 ''f'' 3 ''new'' 1 demo_fs = (Inr (), self') \<and>
     child_at (tables self') 3 ''new'' = Some 2 \<and> child_at (tables self') 1 ''f'' = None \<and>
     content (tables self') 2 = content demo_db 2"
proof -
  obtain self' where r: "fs_rename 1 ''f'' 3 ''new'' 1 demo_fs = (Inr (), self')" using demo_rename by blast
  from rename_moves_one_name [OF _ _ this] r show ?thesis
    by (auto simp: demo_child_at demo_is_dir)
qed







section \<open>link\<close>

lemma attr_of_Inr:
  assumes "attr_of e i c = (Inr attr, c')"
  shows "\<exists>r. inode_at (cdb c) i = Some r \<and> to_attr i (map_row (cdb c) i r) = Inr attr"
  using assms
  by (auto simp: attr_of_def row_by_ino_def act_inv split: option.splits)

lemma to_attr_Inr:
  "to_attr i row = Inr attr \<Longrightarrow> a_ino attr = i \<and> a_nlink attr = r_nlink row \<and> a_size attr = r_size row \<and>
     a_kind attr = file_type_of (r_kind row) \<and> a_perm attr = word_of_int (r_mode row AND PERM_BITS) \<and>
     a_uid attr = r_uid row \<and> a_gid attr = r_gid row"
  by (auto simp: to_attr_def split: option.splits)

lemma link_body_attr:
  assumes "link_body i p n c = (Inr attr, c')"
  shows "\<exists>r. inode_at (cdb c') i = Some r \<and> to_attr i (map_row (cdb c') i r) = Inr attr"
proof -
  from assms obtain c1 c2 where "attr_of EIO i c1 = (Inr attr, c2)" "commit c2 = (Inr (), c')"
    unfolding link_body_def by (auto simp: bind_Inr or_eio_Inr case_option_fail if_fail ret_inv)
  then show ?thesis using attr_of_Inr attr_of_cdb by (fastforce simp: commit_Inr)
qed

text \<open>
  C13: link. A hard link that succeeds is to an existing inode that is no directory, under
  a name that was free; it adds exactly that name, and the link count in the reply is the
  number of names the inode has afterwards, one more than before.
\<close>

theorem link_counts_names:
  assumes "wf_db (tables self)" and "kernel_ok self (Link i p n)"
    and "fs_link i p n self = (Inr attr, self')"
  shows "\<not> is_dir (tables self) i \<and> child_at (tables self) p n = None \<and>
    (\<forall>q m. child_at (tables self') q m = (if (q, m) = (p, n) then Some i else child_at (tables self) q m)) \<and>
    name_count (tables self') i = Suc (name_count (tables self) i) \<and>
    a_ino attr = i \<and> a_nlink attr = word_of_nat (name_count (tables self') i)"
proof -
  let ?d = "tables self"
  from assms(3) have call: "on_con (in_tx (link_body i p n)) (touch self) = (Inr attr, self')"
    by (simp add: fs_link_def run_simps split: if_splits)
  from tx_only [OF this] obtain c0 c1 where
    b: "cdb c0 = ?d" "link_body i p n c0 = (Inr attr, c1)" "tables self' = cdb c1" by auto
  obtain r now where l: "inode_at ?d i = Some r" "i_kind r \<noteq> KIND_DIR" "child_at ?d p n = None"
    "tables self' = update_inode i (set_c now) (db_link p n i now ?d)"
    using link_body_Inr [OF b(2)] b(1,3) by auto
  have t: "t_dentries (tables self') = t_dentries ?d @ [((p, n), i)]" by (simp add: l(4) db_link_def)
  have cnt: "name_count (tables self') i = Suc (name_count ?d i)"
    using name_count_add [OF t, of i] by simp
  obtain r' where r': "inode_at (tables self') i = Some r'" "to_attr i (map_row (tables self') i r') = Inr attr"
    using link_body_attr [OF b(2)] b(3) by auto
  have "i_kind r' \<noteq> KIND_DIR"
    using r'(1) l(1,2) by (auto simp: l(4) db_link_def update_inode_other split: if_splits)
  then have "r_nlink (map_row (tables self') i r') = word_of_nat (name_count (tables self') i)"
    by (simp add: map_row_def link_count_def)
  moreover have "\<not> is_dir ?d i" using l(1,2) by (simp add: is_dir_def)
  ultimately show ?thesis
    using l(3) cnt to_attr_Inr [OF r'(2)] by (auto simp: t map_add_def split: option.split)
qed

lemma demo_link: "\<exists>attr self'. fs_link 2 3 ''new'' demo_fs = (Inr attr, self')"
  by (simp add: fs_link_def link_body_def eval_defs)

theorem link_counts_names_witness:
  "\<exists>attr self'. fs_link 2 3 ''new'' demo_fs = (Inr attr, self') \<and> a_nlink attr = 3"
proof -
  obtain attr self' where l: "fs_link 2 3 ''new'' demo_fs = (Inr attr, self')" using demo_link by blast
  have "name_count demo_db 2 = 2" by (simp add: name_count_def demo_db_def)
  then show ?thesis using link_counts_names [OF _ _ l] l by (auto simp: demo_is_dir)
qed

end
