(* ===== verification/Fs_Creation.thy ===== *)
theory Fs_Creation
  imports Fs_Names
begin

text \<open>
  Properties of the callbacks that make a new inode: create, mkdir and symlink, with readlink
  as the inverse of symlink.
\<close>

section \<open>The new inode\<close>

lemma fresh_number:
  assumes "wf_db d" and "next_rowid d < 2 ^ 63"
  shows "unat (word_of_nat (next_rowid d) :: u64) = Suc (inode_seq d)"
    and "inode_at d (word_of_nat (next_rowid d)) = None"
proof -
  show u: "unat (word_of_nat (next_rowid d) :: u64) = Suc (inode_seq d)"
    using unat_word_small [of "next_rowid d"] assms(2) by (simp add: next_rowid_wf [OF assms(1)])
  show "inode_at d (word_of_nat (next_rowid d)) = None"
    using wf_seq [OF assms(1), of "word_of_nat (next_rowid d)"] u
    by (cases "inode_at d (word_of_nat (next_rowid d))") auto
qed

lemma wf_absent:
  assumes "wf_db d" and "inode_at d i = None"
  shows "name_count d i = 0" and "\<not> has_entries d i" and "block_at d i b = None"
proof -
  show "name_count d i = 0"
    using name_count_pos [OF wf_keys(2) [OF assms(1)], of i] wf_child(1) [OF assms(1)] assms(2)
    by (metis bot_nat_0.not_eq_extremum)
  show "\<not> has_entries d i"
    using assms by (fastforce simp: has_entries_def list_ex_iff wf_db_def names_ok_def is_dir_def)
  show "block_at d i b = None"
    using wf_stored [OF assms(1), of i b] assms(2)
    by (cases "map_of (t_data d) (i, b)") (auto simp: block_at_def)
qed

lemma new_child:
  fixes r :: inode and now :: f64
  assumes "wf_db d" and "next_rowid d < 2 ^ 63" and "child_at d p n = None" and "is_dir d p"
  defines "i \<equiv> word_of_nat (next_rowid d)" and "d' \<equiv> db_insert_child p n r now d"
  shows "inode_at d' i = Some r"
    and "child_at d' q m = (if (q, m) = (p, n) then Some i else child_at d q m)"
    and "name_count d' i = 1" and "\<not> has_entries d' i"
    and "i_size r = 0 \<Longrightarrow> content d' i = []"
    and "j \<noteq> i \<Longrightarrow> content d' j = content d j"
proof -
  have none: "inode_at d i = None" unfolding i_def by (rule fresh_number(2) [OF assms(1,2)])
  have ip: "i \<noteq> p" using none assms(4) by (auto simp: is_dir_def)
  have t: "t_dentries d' = t_dentries d @ [((p, n), i)]"
    by (simp add: d'_def db_insert_child_def db_link_def i_def)
  have at: "inode_at d' j = (if j = i then Some r
      else if j = p then map_option (set_mc now) (inode_at d p) else inode_at d j)" for j
    using none ip by (auto simp: d'_def db_insert_child_def db_link_def i_def update_inode_other
        map_add_def split: option.split)
  have b: "block_content d' = block_content d"
    by (simp add: d'_def db_insert_child_def db_link_def block_content_def block_at_def fun_eq_iff)
  show new: "inode_at d' i = Some r" by (simp add: at)
  show "child_at d' q m = (if (q, m) = (p, n) then Some i else child_at d q m)"
    using assms(3) by (auto simp: t map_add_def split: option.split)
  show "name_count d' i = 1"
    using name_count_add [OF t, of i] wf_absent(1) [OF assms(1) none] by simp
  show "\<not> has_entries d' i"
    using wf_absent(2) [OF assms(1) none] ip by (simp add: has_entries_def t)
  show "content d' i = []" if "i_size r = 0"
    using that new by (simp add: content_def file_bytes_def file_size_def)
  show "content d' j = content d j" if "j \<noteq> i"
    by (rule content_cong) (use that in \<open>auto simp: b size_at_def at option.map_comp comp_def\<close>)
qed

text \<open>The permission bits of a reply are those of the request.\<close>

lemma perm_bits:
  assumes "k AND 0xFFF = (0 :: u32)"
  shows "(word_of_int (uint (k OR (mode AND 0xFFF)) AND PERM_BITS) :: u16) = ucast (mode AND 0xFFF)"
proof -
  have "(k OR (mode AND 0xFFF)) AND 0xFFF = mode AND 0xFFF"
    using assms by (simp add: bit.conj_disj_distrib2 and.assoc)
  moreover have "uint (w AND 0xFFF :: u32) = uint w AND PERM_BITS" for w
    by (simp add: uint_and)
  ultimately have "uint (k OR (mode AND 0xFFF)) AND PERM_BITS = uint (mode AND 0xFFF)" by metis
  then show ?thesis by (simp only: ucast_eq)
qed

section \<open>create\<close>

lemma fs_create_Inr:
  assumes "fs_create p n mode self = (Inr (attr, fh), self')"
  shows "\<exists>now. child_at (tables self) p n = None \<and> next_rowid (tables self) < 2 ^ 63 \<and>
    fh = word_of_nat (next_rowid (tables self)) \<and>
    tables self' = db_insert_child p n
      (new_inode KIND_FILE (uint (S_IFREG OR (mode AND 0xFFF))) (fs_uid self) (fs_gid self) None now) now (tables self) \<and>
    (\<exists>r. inode_at (tables self') fh = Some r \<and> to_attr fh (map_row (tables self') fh r) = Inr attr)"
proof -
  from assms have "on_con (bind (in_tx (create_body (max_size self) (fs_uid self) (fs_gid self) p n mode))
      (\<lambda>i. bind (attr_of EIO i) (\<lambda>attr. ret (attr, i)))) (touch self) = (Inr (attr, fh), self')"
    by (simp add: fs_create_def run_simps split: if_splits)
  from tx_call_Inr [OF this] obtain i c0 c1 where
    b: "cdb c0 = tables self" "create_body (max_size self) (fs_uid self) (fs_gid self) p n mode c0 = (Inr i, c1)"
      "bind (attr_of EIO i) (\<lambda>attr. ret (attr, i)) c1 = (Inr (attr, fh), con self')" by auto
  then have a: "attr_of EIO fh c1 = (Inr attr, con self')" "i = fh" by (auto simp: bind_Inr ret_inv)
  show ?thesis
    using create_body_Inr [OF b(2)] attr_of_Inr [OF a(1)] attr_of_cdb [OF a(1)] b(1) a(2) by auto
qed

text \<open>
  C12: create. A file that was created has a number no inode had, the requested permission
  bits, the mounting user as its owner, one name (the requested one) and no content; every
  other name and file is what it was.
\<close>

theorem create_makes_empty_file:
  assumes "wf_db (tables self)" and "kernel_ok self (Create p n mode)"
    and "fs_create p n mode self = (Inr (attr, fh), self')"
  shows "inode_at (tables self) fh = None \<and> unat fh = Suc (inode_seq (tables self)) \<and>
    (\<forall>q m. child_at (tables self') q m = (if (q, m) = (p, n) then Some fh else child_at (tables self) q m)) \<and>
    content (tables self') fh = [] \<and>
    (\<forall>j. j \<noteq> fh \<longrightarrow> content (tables self') j = content (tables self) j) \<and>
    a_ino attr = fh \<and> a_size attr = 0 \<and> a_kind attr = RegularFile \<and> a_nlink attr = 1 \<and>
    a_perm attr = ucast (mode AND 0xFFF) \<and> a_uid attr = fs_uid self \<and> a_gid attr = fs_gid self"
proof -
  let ?d = "tables self"
  have dir: "is_dir ?d p" using assms(2) by simp
  obtain now r where c: "child_at ?d p n = None" "next_rowid ?d < 2 ^ 63" "fh = word_of_nat (next_rowid ?d)"
    "tables self' = db_insert_child p n
      (new_inode KIND_FILE (uint (S_IFREG OR (mode AND 0xFFF))) (fs_uid self) (fs_gid self) None now) now ?d"
    "inode_at (tables self') fh = Some r" "to_attr fh (map_row (tables self') fh r) = Inr attr"
    using fs_create_Inr [OF assms(3)] by blast
  note new = new_child [OF assms(1) c(2,1) dir, folded c(3)]
  have r: "r = new_inode KIND_FILE (uint (S_IFREG OR (mode AND 0xFFF))) (fs_uid self) (fs_gid self) None now"
    using c(5) new(1) unfolding c(4) by simp
  have attr: "a_ino attr = fh" "a_size attr = 0" "a_kind attr = RegularFile" "a_nlink attr = 1"
    "a_perm attr = ucast (mode AND 0xFFF)" "a_uid attr = fs_uid self" "a_gid attr = fs_gid self"
    using to_attr_Inr [OF c(6)] perm_bits [of S_IFREG mode] new(3)
    by (simp_all add: r map_row_def new_inode_def link_count_def file_type_of_def c(4))
  show ?thesis
    using fresh_number [OF assms(1) c(2)] new(2,5,6) attr unfolding c(3) [symmetric] c(4)
    by (simp add: new_inode_size)
qed

lemma demo_create: "\<exists>attr fh self'. fs_create 1 ''new'' 0x1A4 demo_fs = (Inr (attr, fh), self')"
  by (simp add: fs_create_def create_body_def eval_defs)

theorem create_makes_empty_file_witness:
  "\<exists>attr fh self'. fs_create 1 ''new'' 0x1A4 demo_fs = (Inr (attr, fh), self') \<and> unat fh = 5 \<and>
     content (tables self') fh = [] \<and> a_perm attr = 0x1A4"
proof -
  obtain attr fh self' where c: "fs_create 1 ''new'' 0x1A4 demo_fs = (Inr (attr, fh), self')"
    using demo_create by blast
  have "inode_seq demo_db = 4" by (simp add: demo_db_def)
  with create_makes_empty_file [OF _ _ c] c show ?thesis by (auto simp: demo_is_dir)
qed

section \<open>mkdir\<close>

lemma fs_mkdir_Inr:
  assumes "fs_mkdir p n mode self = (Inr attr, self')"
  shows "\<exists>now i. child_at (tables self) p n = None \<and> next_rowid (tables self) < 2 ^ 63 \<and>
    i = word_of_nat (next_rowid (tables self)) \<and>
    tables self' = db_insert_child p n
      (new_inode KIND_DIR (uint (S_IFDIR OR (mode AND 0xFFF))) (fs_uid self) (fs_gid self) None now) now (tables self) \<and>
    (\<exists>r. inode_at (tables self') i = Some r \<and> to_attr i (map_row (tables self') i r) = Inr attr)"
proof -
  from assms have "on_con (bind (in_tx (mkdir_body (fs_uid self) (fs_gid self) p n mode)) (attr_of EIO))
      (touch self) = (Inr attr, self')"
    by (simp add: fs_mkdir_def run_simps split: if_splits)
  from tx_call_Inr [OF this] obtain i c0 c1 where
    b: "cdb c0 = tables self" "mkdir_body (fs_uid self) (fs_gid self) p n mode c0 = (Inr i, c1)"
      "attr_of EIO i c1 = (Inr attr, con self')" by auto
  show ?thesis
    using mkdir_body_Inr [OF b(2)] attr_of_Inr [OF b(3)] attr_of_cdb [OF b(3)] b(1) by auto
qed

text \<open>
  Mkdir. A directory that was made is empty, has the requested permission bits and
  exactly one name; its reported link count is the classic 2, and nothing else changed its
  name or content.
\<close>

theorem mkdir_makes_empty_directory:
  assumes "wf_db (tables self)" and "kernel_ok self (Mkdir p n mode)"
    and "fs_mkdir p n mode self = (Inr attr, self')"
  shows "inode_at (tables self) (a_ino attr) = None \<and> is_dir (tables self') (a_ino attr) \<and>
    \<not> has_entries (tables self') (a_ino attr) \<and> name_count (tables self') (a_ino attr) = 1 \<and>
    (\<forall>q m. child_at (tables self') q m =
      (if (q, m) = (p, n) then Some (a_ino attr) else child_at (tables self) q m)) \<and>
    (\<forall>j. j \<noteq> a_ino attr \<longrightarrow> content (tables self') j = content (tables self) j) \<and>
    a_kind attr = Directory \<and> a_nlink attr = 2 \<and> a_perm attr = ucast (mode AND 0xFFF)"
proof -
  let ?d = "tables self"
  have dir: "is_dir ?d p" using assms(2) by simp
  obtain now i r where c: "child_at ?d p n = None" "next_rowid ?d < 2 ^ 63" "i = word_of_nat (next_rowid ?d)"
    "tables self' = db_insert_child p n
      (new_inode KIND_DIR (uint (S_IFDIR OR (mode AND 0xFFF))) (fs_uid self) (fs_gid self) None now) now ?d"
    "inode_at (tables self') i = Some r" "to_attr i (map_row (tables self') i r) = Inr attr"
    using fs_mkdir_Inr [OF assms(3)] by blast
  note new = new_child [OF assms(1) c(2,1) dir, folded c(3)]
  have r: "r = new_inode KIND_DIR (uint (S_IFDIR OR (mode AND 0xFFF))) (fs_uid self) (fs_gid self) None now"
    using c(5) new(1) unfolding c(4) by simp
  have attr: "a_ino attr = i" "a_kind attr = Directory" "a_nlink attr = 2"
    "a_perm attr = ucast (mode AND 0xFFF)"
    using to_attr_Inr [OF c(6)] perm_bits [of S_IFDIR mode]
    by (simp_all add: r map_row_def new_inode_def link_count_def file_type_of_def)
  have "is_dir (tables self') i" using c(5) by (simp add: is_dir_def r new_inode_def)
  then show ?thesis
    using fresh_number [OF assms(1) c(2)] new(2,3,4,6) attr unfolding c(3) [symmetric] c(4) by simp
qed

lemma demo_mkdir: "\<exists>attr self'. fs_mkdir 3 ''new'' 0x1ED demo_fs = (Inr attr, self')"
  by (simp add: fs_mkdir_def mkdir_body_def eval_defs)

theorem mkdir_makes_empty_directory_witness:
  "\<exists>attr self'. fs_mkdir 3 ''new'' 0x1ED demo_fs = (Inr attr, self') \<and>
     is_dir (tables self') (a_ino attr) \<and> a_nlink attr = 2"
proof -
  obtain attr self' where c: "fs_mkdir 3 ''new'' 0x1ED demo_fs = (Inr attr, self')" using demo_mkdir by blast
  from mkdir_makes_empty_directory [OF _ _ c] c show ?thesis by (auto simp: demo_is_dir)
qed

section \<open>symlink and readlink\<close>

lemma fs_symlink_Inr:
  assumes "fs_symlink p n t self = (Inr attr, self')"
  shows "\<exists>now i. child_at (tables self) p n = None \<and> next_rowid (tables self) < 2 ^ 63 \<and>
    i = word_of_nat (next_rowid (tables self)) \<and>
    tables self' = db_insert_child p n
      (new_inode KIND_SYMLINK (uint (S_IFLNK OR 0x1FF :: u32)) (fs_uid self) (fs_gid self) (Some t) now) now (tables self) \<and>
    (\<exists>r. inode_at (tables self') i = Some r \<and> to_attr i (map_row (tables self') i r) = Inr attr)"
proof -
  from assms have "on_con (bind (in_tx (symlink_body (max_size self) (fs_uid self) (fs_gid self) p n t)) (attr_of EIO))
      (touch self) = (Inr attr, self')"
    by (simp add: fs_symlink_def run_simps split: if_splits)
  from tx_call_Inr [OF this] obtain i c0 c1 where
    b: "cdb c0 = tables self" "symlink_body (max_size self) (fs_uid self) (fs_gid self) p n t c0 = (Inr i, c1)"
      "attr_of EIO i c1 = (Inr attr, con self')" by auto
  show ?thesis
    using symlink_body_Inr [OF b(2)] attr_of_Inr [OF b(3)] attr_of_cdb [OF b(3)] b(1) by auto
qed

text \<open>
  Symlink and readlink are inverse. The target given to symlink is, byte for byte, what
  readlink answers for the inode that was made, and its length is the size reported.
\<close>

theorem symlink_readlink:
  assumes "wf_db (tables self)" and "kernel_ok self (Symlnk p n t)"
    and "fs_symlink p n t self = (Inr attr, self')" and "healthy (con self')"
  shows "child_at (tables self') p n = Some (a_ino attr) \<and> a_kind attr = Symlink \<and>
    a_size attr = word_of_nat (length t) \<and> fst (fs_readlink (a_ino attr) self') = Inr (bytes_of t)"
proof -
  let ?d = "tables self"
  have dir: "is_dir ?d p" using assms(2) by simp
  obtain now i r where c: "child_at ?d p n = None" "next_rowid ?d < 2 ^ 63" "i = word_of_nat (next_rowid ?d)"
    "tables self' = db_insert_child p n
      (new_inode KIND_SYMLINK (uint (S_IFLNK OR 0x1FF :: u32)) (fs_uid self) (fs_gid self) (Some t) now) now ?d"
    "inode_at (tables self') i = Some r" "to_attr i (map_row (tables self') i r) = Inr attr"
    using fs_symlink_Inr [OF assms(3)] by blast
  note new = new_child [OF assms(1) c(2,1) dir, folded c(3)]
  have r: "r = new_inode KIND_SYMLINK (uint (S_IFLNK OR 0x1FF :: u32)) (fs_uid self) (fs_gid self) (Some t) now"
    using c(5) new(1) unfolding c(4) by simp
  have attr: "a_ino attr = i" "a_kind attr = Symlink" "a_size attr = word_of_nat (length t)"
    using to_attr_Inr [OF c(6)]
    by (simp_all add: r map_row_def new_inode_def link_count_def file_type_of_def)
  have "fst (fs_readlink i self') = Inr (bytes_of t)"
    using c(5) assms(4)
    by (simp add: fs_readlink_def touching_run on_con_def bind_def or_eio_def map_err_def row_by_ino_def
        query_def exec_sql_healthy ret_def map_row_def r new_inode_def)
  moreover have "child_at (tables self') p n = Some i"
    using new(2) [of _ _ p n] unfolding c(4) by simp
  ultimately show ?thesis using attr by simp
qed

lemma demo_symlink: "\<exists>attr self'. fs_symlink 1 ''new'' ''d/g'' demo_fs = (Inr attr, self')"
  by (simp add: fs_symlink_def symlink_body_def eval_defs)

lemma keeps_health_symlink: "keeps_health (fs_symlink p n t)"
  unfolding fs_symlink_def
  by (auto intro!: keeps_health_intros keeps_health_on_con env_intros)

theorem symlink_readlink_witness:
  "\<exists>attr self'. fs_symlink 1 ''new'' ''d/g'' demo_fs = (Inr attr, self') \<and>
     fst (fs_readlink (a_ino attr) self') = Inr (bytes_of ''d/g'')"
proof -
  obtain attr self' where c: "fs_symlink 1 ''new'' ''d/g'' demo_fs = (Inr attr, self')" using demo_symlink by blast
  have "healthy (con self')" by (rule keeps_healthD [OF keeps_health_symlink c]) simp
  with symlink_readlink [OF _ _ c] c show ?thesis by (auto simp: demo_is_dir)
qed

end
