(* ===== verification/Fs_Machine.thy ===== *)
theory Fs_Machine
  imports Fs_Creation
begin

text \<open>
  Properties of the filesystem as a machine, for every request and every run: the refinement
  of the abstract transitions, atomicity of failed calls, and the invariants.
\<close>

section \<open>Refinement\<close>

text \<open>
  C4: refinement. Whatever the statements of the connection answer, a request leaves the
  tables as they were or takes them through exactly the abstract transition of that
  request; a read-only mount only does the former.
\<close>

theorem serve_refines:
  assumes "serve h q self = (r, self')"
  shows "tables self' = tables self \<or>
    \<not> read_only self \<and> applied (fs_uid self) (fs_gid self) q (tables self) (tables self')"
  using assms by (rule serve_applied)

definition demo_host :: "(u64 \<times> string) list host" where
  "demo_host = \<lparr>h_add = (\<lambda>buf i off k n. (False, buf @ [(i, n)])), h_buf = [], h_statvfs = None\<rparr>"

theorem serve_refines_witness:
  "\<exists>r self'. serve demo_host (Unlink 1 ''f'') demo_fs = (r, self') \<and>
     (tables self' = demo_db \<or> applied 1000 1000 (Unlink 1 ''f'') demo_db (tables self'))"
proof -
  obtain r self' where s: "serve demo_host (Unlink 1 ''f'') demo_fs = (r, self')"
    by (cases "serve demo_host (Unlink 1 ''f'') demo_fs")
  from serve_refines [OF s] s show ?thesis by auto
qed

section \<open>Failed calls\<close>

text \<open>The requests whose whole effect and reply lie in one transaction.\<close>

fun transactional :: "request \<Rightarrow> bool" where
  "transactional (Unlink _ _) = True"
| "transactional (Rmdir _ _) = True"
| "transactional (Rename _ _ _ _ _) = True"
| "transactional (Link _ _ _) = True"
| "transactional (Write _ _ _ _) = True"
| "transactional (Setxattr _ _ _ _) = True"
| "transactional (Removexattr _ _) = True"
| "transactional _ = False"

lemma all_or_nothing_error:
  "all_or_nothing q m \<Longrightarrow> m self = (Inl e, self') \<Longrightarrow> tables self' = tables self"
  unfolding all_or_nothing_def by fastforce

lemma answer_error: "answer f m self = (Inl e, self') \<Longrightarrow> m self = (Inl e, self')"
  by (auto simp: answer_def bind_Inl ret_inv)

text \<open>
  C5: atomicity. When unlink, rmdir, rename, link, write, setxattr or removexattr answers
  an error - at whichever statement it was hit, COMMIT included - no table has changed.
\<close>

theorem failed_call_changes_nothing:
  assumes "transactional q" and "serve h q self = (Inl e, self')"
  shows "tables self' = tables self"
  using assms
  by (cases q)
     (auto dest!: answer_error
       intro: all_or_nothing_error [OF fs_unlink_all] all_or_nothing_error [OF fs_rmdir_all]
         all_or_nothing_error [OF fs_rename_all] all_or_nothing_error [OF fs_link_all]
         all_or_nothing_error [OF fs_write_all] all_or_nothing_error [OF fs_setxattr_all]
         all_or_nothing_error [OF fs_removexattr_all])

text \<open>A connection whose fourth statement finds the disk full.\<close>

definition demo_faulty :: coffer_fs where
  "demo_faulty = demo_fs\<lparr>con := demo_conn\<lparr>fault := (\<lambda>i. if i = 4 then Some DiskFull else None)\<rparr>\<rparr>"

lemma demo_faulty_unlink: "\<exists>self'. serve demo_host (Unlink 1 ''f'') demo_faulty = (Inl (Errno EIO), self')"
  by (simp add: answer_def fs_unlink_def unlink_body_def demo_faulty_def eval_defs)

theorem failed_call_changes_nothing_witness:
  "\<exists>self'. serve demo_host (Unlink 1 ''f'') demo_faulty = (Inl (Errno EIO), self') \<and> tables self' = demo_db"
proof -
  obtain self' where s: "serve demo_host (Unlink 1 ''f'') demo_faulty = (Inl (Errno EIO), self')"
    using demo_faulty_unlink by blast
  from failed_call_changes_nothing [OF _ s] s show ?thesis by (auto simp: demo_faulty_def)
qed

section \<open>Runs\<close>

text \<open>
  C3: the invariant of a run. From a well-formed container, after every prefix of any
  sequence of requests the kernel may send, whatever statements fail on the way, the
  container is well-formed.
\<close>

theorem runs_keep_container_wf:
  assumes "wf_db (tables self)" and "admissible kernel_ok (step h) qs self" and "k \<le> length qs"
  shows "wf_db (tables (run h (take k qs) self))"
  unfolding run_def using assms by (rule wf_machine.always_inv)

theorem runs_keep_container_wf_witness:
  "wf_db (tables (run demo_host [Mkdir 1 ''new'' 0x1ED] demo_fs))"
  using runs_keep_container_wf [of demo_fs demo_host "[Mkdir 1 ''new'' 0x1ED]" 1]
  by (simp add: demo_is_dir)

text \<open>
  C14: a read-only mount. No sequence of requests changes a table of a container mounted
  read-only.
\<close>

theorem read_only_mount_is_read_only:
  assumes "read_only self"
  shows "tables (run h qs self) = tables self"
  using ro_machine.run_inv [of self "tables self" h qs] assms by (simp add: run_def admissible_True)

theorem read_only_mount_is_read_only_witness:
  "tables (run demo_host [Write 2 0 [1] False, Rmdir 1 ''d''] (demo_fs\<lparr>read_only := True\<rparr>)) = demo_db"
  using read_only_mount_is_read_only [of "demo_fs\<lparr>read_only := True\<rparr>"] by (simp add: demo_fs_def demo_conn_def)

text \<open>
  C9: inode numbers are not reused. A number at or below the high-water mark that has no
  inode (its inode was deleted, say) never gets one again, in any run.
\<close>

theorem inode_numbers_never_reused:
  assumes "wf_db (tables self)" and "inode_at (tables self) i = None"
    and "unat i \<le> inode_seq (tables self)" and "admissible kernel_ok (step h) qs self"
  shows "inode_at (tables (run h qs self)) i = None"
  using number_machine.run_inv [of self i h qs] assms by (simp add: run_def)

definition demo_deleted :: coffer_fs where
  "demo_deleted = demo_fs\<lparr>con := demo_conn\<lparr>cdb := demo_db\<lparr>inode_seq := 5\<rparr>\<rparr>\<rparr>"

theorem inode_numbers_never_reused_witness:
  "inode_at (tables (run demo_host [Create 1 ''new'' 0x1A4] demo_deleted)) 5 = None"
proof -
  have wf: "wf_db (tables demo_deleted)"
    using demo_wf unfolding wf_db_def
    by (simp add: demo_deleted_def demo_fs_def keys_ok_def names_ok_def linked_ok_def root_ok_def
        storage_ok_def sizes_ok_def attrs_ok_def seq_ok_def is_dir_def size_at_def name_count_def)
      (simp add: demo_db_def)
  have "inode_at (tables demo_deleted) 5 = None" "inode_seq (tables demo_deleted) = 5"
    "is_dir (tables demo_deleted) 1"
    using demo_is_dir(1) by (simp_all add: demo_deleted_def demo_fs_def is_dir_def) (simp add: demo_db_def)
  with wf show ?thesis
    using inode_numbers_never_reused [of demo_deleted 5 demo_host "[Create 1 ''new'' 0x1A4]"] by simp
qed

end
