(* ===== verification/Fs_Attrs.thy ===== *)
theory Fs_Attrs
  imports Fs_Machine
begin

text \<open>
  Properties of metadata: extended attributes, the mode bits a modification has to drop, and
  the mode an explicit chmod sets.
\<close>

section \<open>Extended attributes\<close>

lemma xattr_at_set:
  "t_xattrs d \<noteq> None \<Longrightarrow> xattr_at (db_set_xattr i n v d) j m = (if (j, m) = (i, n) then Some v else xattr_at d j m)"
  by (auto simp: xattr_at_def db_set_xattr_def update_conv')

lemma xattr_at_remove:
  "xattr_at (db_remove_xattr i n d) j m = (if (j, m) = (i, n) then None else xattr_at d j m)"
  by (auto simp: xattr_at_def db_remove_xattr_def split: option.split)

lemma xattr_at_update_inode [simp]: "xattr_at (update_inode i f d) = xattr_at d"
  by (simp add: xattr_at_def fun_eq_iff)

lemma fs_setxattr_applied:
  assumes "fs_setxattr i n v f self = (Inr (), self')"
  shows "applied (fs_uid self) (fs_gid self) (Setxattr i n v f) (tables self) (tables self')"
    and "has_xattrs self" and "has_xattrs self'" and "utf8_valid n"
proof -
  show "applied (fs_uid self) (fs_gid self) (Setxattr i n v f) (tables self) (tables self')"
    using fs_setxattr_all [of i n v f] assms unfolding all_or_nothing_def by fastforce
  show has: "has_xattrs self"
    using assms by (auto simp: fs_setxattr_def run_simps refuse_inv split: if_splits)
  show "utf8_valid n"
    using assms by (auto simp: fs_setxattr_def run_simps refuse_inv split: if_splits)
  show "has_xattrs self'"
    using keeps_mount_writing_calls(10) [of i n v f] assms has
    unfolding keeps_mount_def same_mount_def by (metis snd_conv)
qed

lemma getxattr_healthy:
  assumes "healthy (con self)" and "has_xattrs self" and "utf8_valid n" and "t_xattrs (tables self) \<noteq> None"
  shows "fst (fs_getxattr i n sz self) =
    (case xattr_at (tables self) i n of Some v \<Rightarrow> reply_xattr sz v | None \<Rightarrow> Inl (Errno ENODATA))"
  using assms
  by (auto simp: fs_getxattr_def run_simps on_con_def bind_def or_eio_def map_err_def exec_sql_healthy
      on_xattrs_def xattr_at_def of_sum_def fail_def throw_def split: option.split)

text \<open>
  C19: an extended attribute that was set reads back: asked with size 0 its length, with a
  buffer that is large enough its value, with a smaller one ERANGE; no other attribute of
  any inode changed.
\<close>

theorem setxattr_getxattr:
  assumes "wf_db (tables self)" and "fs_setxattr i n v f self = (Inr (), self')" and "healthy (con self')"
  shows "fst (fs_getxattr i n sz self') =
      (if sz = 0 then Inr (XSize (word_of_nat (length v)))
       else if unat sz < length v then Inl (Errno ERANGE) else Inr (XData v)) \<and>
    (\<forall>j m. (j, m) \<noteq> (i, n) \<longrightarrow> xattr_at (tables self') j m = xattr_at (tables self) j m)"
proof -
  note call = fs_setxattr_applied [OF assms(2)]
  from call(1) show ?thesis
  proof cases
    case (setxattr now)
    then have at: "xattr_at (tables self') j m = (if (j, m) = (i, n) then Some v else xattr_at (tables self) j m)" for j m
      by (simp add: xattr_at_set)
    have "t_xattrs (tables self') \<noteq> None" using setxattr by (simp add: db_set_xattr_def)
    from getxattr_healthy [OF assms(3) call(3,4) this, of i sz] show ?thesis
      by (simp add: at reply_xattr_def)
  qed
qed

lemma demo_setxattr: "\<exists>self'. fs_setxattr 2 ''user.b'' [1, 2, 3] 1 demo_fs = (Inr (), self')"
  by (simp add: fs_setxattr_def setxattr_body_def eval_defs)

lemma keeps_health_setxattr: "keeps_health (fs_setxattr i n v f)"
  unfolding fs_setxattr_def by (auto intro!: keeps_health_intros keeps_health_on_con env_intros)

theorem setxattr_getxattr_witness:
  "\<exists>self'. fs_setxattr 2 ''user.b'' [1, 2, 3] 1 demo_fs = (Inr (), self') \<and>
     fst (fs_getxattr 2 ''user.b'' 2 self') = Inl (Errno ERANGE)"
proof -
  obtain self' where s: "fs_setxattr 2 ''user.b'' [1, 2, 3] 1 demo_fs = (Inr (), self')"
    using demo_setxattr by blast
  have "healthy (con self')" by (rule keeps_healthD [OF keeps_health_setxattr s]) simp
  from setxattr_getxattr [OF _ s this, of 2] s show ?thesis by auto
qed

lemma setxattr_body_healthy:
  assumes "healthy c" and "t_xattrs (cdb c) \<noteq> None"
  shows "fst (setxattr_body i n v f c) =
    (if inode_at (cdb c) i = None then Inl (Errno ENOENT)
     else if xattr_at (cdb c) i n \<noteq> None \<and> f AND XATTR_CREATE \<noteq> 0 then Inl (Errno EEXIST)
     else if xattr_at (cdb c) i n = None \<and> f AND XATTR_REPLACE \<noteq> 0 then Inl (Errno ENODATA)
     else Inr ())"
  using assms
  by (auto simp: setxattr_body_def bind_def or_eio_def map_err_def row_by_ino_def query_def execute_def
      exec_sql_healthy on_xattrs_def xattr_at_def now_secs_def commit_def fail_def throw_def split: option.split)

lemma removexattr_body_healthy:
  assumes "healthy c" and "t_xattrs (cdb c) \<noteq> None"
  shows "fst (removexattr_body i n c) =
    (if xattr_at (cdb c) i n = None then Inl (Errno ENODATA) else Inr ())"
  using assms
  by (auto simp: removexattr_body_def bind_def or_eio_def map_err_def execute_def
      exec_sql_healthy on_xattrs_def xattr_at_def now_secs_def commit_def fail_def throw_def
      map_of_eq_None_iff filter_empty_conv split: option.split intro: rev_image_eqI)

text \<open>
  All the answers of setxattr on a connection without faults, in the order of the
  checks: no attribute table, a name that is not UTF-8, an empty or overlong name, an
  overlong value, no such inode, XATTR_CREATE on an attribute that exists and
  XATTR_REPLACE on one that does not.
\<close>

theorem setxattr_answers:
  assumes "healthy (con self)" and "wf_db (tables self)" and "\<not> read_only self"
  shows "fst (fs_setxattr i n v f self) =
    (if \<not> has_xattrs self then Inl (Errno ENOTSUP)
     else if \<not> utf8_valid n then Inl (Errno EINVAL)
     else if n = [] \<or> XATTR_NAME_MAX < length n then Inl (Errno ERANGE)
     else if XATTR_SIZE_MAX < length v then Inl (Errno E2BIG)
     else if inode_at (tables self) i = None then Inl (Errno ENOENT)
     else if xattr_at (tables self) i n \<noteq> None \<and> f AND XATTR_CREATE \<noteq> 0 then Inl (Errno EEXIST)
     else if xattr_at (tables self) i n = None \<and> f AND XATTR_REPLACE \<noteq> 0 then Inl (Errno ENODATA)
     else Inr ())"
proof -
  let ?c = "con (touch self)"
  have x: "t_xattrs (tables self) \<noteq> None" using wf_keys(4) [OF assms(2)] by auto
  have h: "healthy (?c\<lparr>tick := Suc (tick ?c)\<rparr>)" and t: "cdb (?c\<lparr>tick := Suc (tick ?c)\<rparr>) = tables self"
    using assms(1) by simp_all
  have "fst (in_tx (setxattr_body i n v f) ?c) = fst (setxattr_body i n v f (?c\<lparr>tick := Suc (tick ?c)\<rparr>))"
    using assms(1) by (intro in_tx_result) simp_all
  then have "fst (in_tx (setxattr_body i n v f) ?c) =
    (if inode_at (tables self) i = None then Inl (Errno ENOENT)
     else if xattr_at (tables self) i n \<noteq> None \<and> f AND XATTR_CREATE \<noteq> 0 then Inl (Errno EEXIST)
     else if xattr_at (tables self) i n = None \<and> f AND XATTR_REPLACE \<noteq> 0 then Inl (Errno ENODATA)
     else Inr ())"
    unfolding setxattr_body_healthy [OF h, unfolded t, OF x] .
  then show ?thesis
    using assms(3) by (simp add: fs_setxattr_def run_simps refuse_def throw_def fst_on_con)
qed

theorem setxattr_answers_witness:
  "fst (fs_setxattr 2 ''user.a'' [1] 1 demo_fs) = Inl (Errno EEXIST) \<and>
   fst (fs_setxattr 2 ''user.b'' [1] 2 demo_fs) = Inl (Errno ENODATA) \<and>
   fst (fs_setxattr 9 ''user.b'' [1] 0 demo_fs) = Inl (Errno ENOENT)"
proof -
  have "inode_at demo_db 9 = None" "xattr_at demo_db 2 ''user.a'' = Some [7, 8]" "xattr_at demo_db 2 ''user.b'' = None"
    by (simp_all add: demo_db_def xattr_at_def)
  then show ?thesis
    using setxattr_answers [of demo_fs 2 "''user.a''" "[1]" 1] setxattr_answers [of demo_fs 2 "''user.b''" "[1]" 2]
      setxattr_answers [of demo_fs 9 "''user.b''" "[1]" 0]
    by (simp add: demo_inode_at code_def)
qed

text \<open>
  Removexattr takes away an attribute that is there (ENODATA when it is not), after
  which getxattr answers ENODATA; every other attribute stays.
\<close>

theorem removexattr_removes:
  assumes "wf_db (tables self)" and "fs_removexattr i n self = (Inr (), self')" and "healthy (con self')"
  shows "xattr_at (tables self) i n \<noteq> None \<and> fst (fs_getxattr i n sz self') = Inl (Errno ENODATA) \<and>
    (\<forall>j m. (j, m) \<noteq> (i, n) \<longrightarrow> xattr_at (tables self') j m = xattr_at (tables self) j m)"
proof -
  have a: "applied (fs_uid self) (fs_gid self) (Removexattr i n) (tables self) (tables self')"
    using fs_removexattr_all [of i n] assms(2) unfolding all_or_nothing_def by fastforce
  have u: "utf8_valid n"
    using assms(2) by (auto simp: fs_removexattr_def run_simps split: if_splits)
  have has: "has_xattrs self"
    using assms(2) by (auto simp: fs_removexattr_def run_simps refuse_inv split: if_splits)
  then have has': "has_xattrs self'"
    using keeps_mount_writing_calls(11) [of i n] assms(2)
    unfolding keeps_mount_def same_mount_def by (metis snd_conv)
  from a show ?thesis
  proof cases
    case (removexattr now)
    then have "t_xattrs (tables self') \<noteq> None"
      using wf_keys(4) [OF assms(1)] by (auto simp: db_remove_xattr_def)
    from getxattr_healthy [OF assms(3) has' u this, of i sz] removexattr show ?thesis
      by (simp add: xattr_at_remove)
  qed
qed

lemma demo_removexattr: "\<exists>self'. fs_removexattr 2 ''user.a'' demo_fs = (Inr (), self')"
  by (simp add: fs_removexattr_def removexattr_body_def eval_defs)

lemma keeps_health_removexattr: "keeps_health (fs_removexattr i n)"
  unfolding fs_removexattr_def by (auto intro!: keeps_health_intros keeps_health_on_con env_intros)

theorem removexattr_removes_witness:
  "\<exists>self'. fs_removexattr 2 ''user.a'' demo_fs = (Inr (), self') \<and>
     fst (fs_getxattr 2 ''user.a'' 0 self') = Inl (Errno ENODATA)"
proof -
  obtain self' where s: "fs_removexattr 2 ''user.a'' demo_fs = (Inr (), self')"
    using demo_removexattr by blast
  have "healthy (con self')" by (rule keeps_healthD [OF keeps_health_removexattr s]) simp
  from removexattr_removes [OF _ s this, of 0] s show ?thesis by auto
qed

section \<open>Privileges\<close>

definition mode_at :: "db \<Rightarrow> u64 \<Rightarrow> i64 option" where
  "mode_at d i = map_option i_mode (inode_at d i)"

text \<open>What the VFS drops: setuid always, setgid only when the group may execute.\<close>

definition dropped :: "i64 \<Rightarrow> i64" where
  "dropped m = m AND NOT S_ISUID AND NOT (if m AND S_IXGRP \<noteq> 0 then S_ISGID else 0)"

lemma and_not_absent: "m AND k = 0 \<Longrightarrow> m AND NOT k = (m :: int)"
  by (metis and.right_neutral bit.conj_disj_distrib bit.disj_cancel_right or.left_neutral)

lemmas and_not_bits = and_not_absent [where k = S_ISUID, simplified] and_not_absent [where k = S_ISGID, simplified]

lemma and_not_both: "m AND S_ISGID = 0 \<Longrightarrow> m AND - 3073 = m AND - 2049"
proof -
  assume "m AND S_ISGID = 0"
  then have "m AND - 1025 = m" using and_not_absent [of m S_ISGID] by simp
  then have "m AND - 2049 = (m AND - 1025) AND - 2049" by simp
  then show ?thesis by (simp add: and.assoc)
qed

lemma drop_modes: "i_mode (drop_sgid (drop_suid r)) = dropped (i_mode r)"
proof -
  let ?m = "i_mode r"
  have 1: "i_mode (drop_suid r) = ?m AND NOT S_ISUID"
    by (auto simp: drop_suid_def and_not_bits)
  have 2: "(?m AND NOT S_ISUID) AND S_IXGRP = ?m AND S_IXGRP"
    "(?m AND NOT S_ISUID) AND S_ISGID = ?m AND S_ISGID"
    by (simp_all add: and.assoc)
  show ?thesis
    unfolding drop_sgid_def 1 2 by (auto simp: 1 dropped_def and_not_bits and_not_both and.assoc)
qed

lemma mode_at_update: "(\<And>r. i_mode (f r) = i_mode r) \<Longrightarrow> mode_at (update_inode i f d) j = mode_at d j"
  by (simp add: mode_at_def update_inode_other option.map_comp comp_def)

lemma mode_at_kill:
  "mode_at (db_kill_priv i d) j = (if j = i then map_option dropped (mode_at d j) else mode_at d j)"
  by (simp add: mode_at_def db_kill_priv_def Let_def update_inode_other option.map_comp comp_def drop_modes)



lemma demo_mode: "mode_at demo_db 2 = Some 0x8DED"
  by (simp add: mode_at_def demo_inode_at)


section \<open>chmod and chown\<close>

lemma mode_at_size: "mode_at (db_size i sz now d) j = mode_at d j"
  by (auto simp: db_size_def db_truncate_def mode_at_def update_inode_other truncate_frame
      option.map_comp comp_def split: option.split)

lemma mode_at_owner_times:
  "mode_at (db_owner i row now u g d) j = mode_at d j" "mode_at (db_times i b a m d) j = mode_at d j"
  by (simp_all add: db_owner_def db_times_def mode_at_update)

lemma mode_at_mode:
  "mode_at (db_mode i old now (Some m) d) j =
     (if j = i then map_option (\<lambda>_. (old AND NOT PERM_BITS) OR (uint m AND PERM_BITS)) (mode_at d j)
      else mode_at d j)"
  by (simp add: db_mode_def mode_at_def update_inode_other option.map_comp comp_def)

text \<open>
  C17: an explicit chmod wins. A setattr that sets a mode leaves exactly the requested
  permission bits, setuid and setgid included, under the old file type, also when the same
  call truncates the file or changes its owner.
\<close>

theorem chmod_wins:
  assumes "fs_setattr ru i (Some mode) u g sz atm mtm self = (Inr attr, self')"
    and "mode_at (tables self) i = Some old"
  shows "mode_at (tables self') i = Some ((old AND NOT PERM_BITS) OR (uint mode AND PERM_BITS))"
  using fs_setattr_Inr [OF assms(1)]
proof cases
  case (setattr r a m now' now)
  have "i_mode r = old" using setattr assms(2) by (simp add: mode_at_def)
  with setattr assms(2) show ?thesis
    by (simp add: db_kill_if_def kills_def mode_at_owner_times mode_at_size mode_at_mode)
qed

lemma demo_chmod:
  "\<exists>attr self'. fs_setattr 1000 2 (Some 0x9ED) (Some 0) None (Some 2) None None demo_fs = (Inr attr, self')"
  by (simp add: fs_setattr_def setattr_body_def setattr_mode_def setattr_owner_def setattr_size_def
      setattr_times_def setattr_kill_def eval_defs BLOCK_SIZE_def)

theorem chmod_wins_witness:
  "\<exists>attr self'. fs_setattr 1000 2 (Some 0x9ED) (Some 0) None (Some 2) None None demo_fs = (Inr attr, self') \<and>
     mode_at (tables self') 2 = Some 0x89ED"
proof -
  obtain attr self' where s:
    "fs_setattr 1000 2 (Some 0x9ED) (Some 0) None (Some 2) None None demo_fs = (Inr attr, self')"
    using demo_chmod by blast
  from chmod_wins [OF s] s show ?thesis by (auto simp: demo_mode)
qed

text \<open>
  Chown and truncate drop privileges. A setattr without a mode that changes the owner
  of something that is no directory, or that sets the size for a caller other than root,
  leaves the mode the VFS would leave; with neither, the mode stays.
\<close>

theorem setattr_drops_privileges:
  assumes "fs_setattr ru i None u g sz atm mtm self = (Inr attr, self')"
    and "mode_at (tables self) i = Some old"
  shows "mode_at (tables self') i =
    Some (if sz \<noteq> None \<and> ru \<noteq> 0 \<or> (u \<noteq> None \<or> g \<noteq> None) \<and> \<not> is_dir (tables self) i
          then dropped old else old)"
  using fs_setattr_Inr [OF assms(1)]
proof cases
  case (setattr r a m now' now)
  have "is_dir (tables self) i = (i_kind r = KIND_DIR)" using setattr by (simp add: is_dir_def)
  with setattr assms(2) show ?thesis
    by (auto simp: db_kill_if_def kills_def mode_at_owner_times mode_at_size mode_at_kill db_mode_def)
qed

lemma demo_chown:
  "\<exists>attr self'. fs_setattr 0 2 None (Some 0) None None None None demo_fs = (Inr attr, self')"
  by (simp add: fs_setattr_def setattr_body_def setattr_mode_def setattr_owner_def setattr_size_def
      setattr_times_def setattr_kill_def eval_defs drop_suid_def drop_sgid_def)

theorem setattr_drops_privileges_witness:
  "\<exists>attr self'. fs_setattr 0 2 None (Some 0) None None None None demo_fs = (Inr attr, self') \<and>
     mode_at (tables self') 2 = Some 0x81ED"
proof -
  obtain attr self' where s: "fs_setattr 0 2 None (Some 0) None None None None demo_fs = (Inr attr, self')"
    using demo_chown by blast
  have "dropped 0x8DED = 0x81ED" by (simp add: dropped_def)
  with setattr_drops_privileges [OF s] s show ?thesis by (auto simp: demo_mode demo_is_dir)
qed

end
