(* ===== verification/Fs_Quota.thy ===== *)
theory Fs_Quota
  imports Fs_Attrs
begin

text \<open>
  The size ceiling (\<open>--max-size\<close>): on a connection without faults no request takes the sum of
  all sizes beyond it. The checks are made on wrapping \<open>u64\<close> arithmetic; below \<open>2 ^ 63\<close>
  nothing wraps.
\<close>

section \<open>Sums of sizes\<close>

lemma sum_list_update:
  "(\<And>r. i_size (f r) = i_size r) \<Longrightarrow>
     (\<Sum>(k, r)\<leftarrow>update_where P f t. i_size r) = (\<Sum>(k, r)\<leftarrow>t. i_size r)"
  by (induction t) (auto simp: update_where_def)

lemma sum_sizes_update:
  "(\<And>r. i_size (f r) = i_size r) \<Longrightarrow> sum_sizes (update_inode i f d) = sum_sizes d"
  unfolding sum_sizes_def update_inode_def by (simp add: sum_list_update)







lemma sum_sizes_insert: "sum_sizes (db_insert_child p n r now d) = sum_sizes d + i_size r"
  unfolding db_insert_child_def db_link_def
  by (subst sum_sizes_update) (simp_all add: sum_sizes_def)




section \<open>The check\<close>






section \<open>write\<close>



section \<open>create and symlink\<close>

lemma create_body_size:
  assumes "wf_db (cdb c)" and "create_body ms uid gid p n mode c = (Inr i, c')"
  shows "sum_sizes (cdb c') = sum_sizes (cdb c)"
  using create_body_Inr [OF assms(2)] by (auto simp: sum_sizes_insert new_inode_size)


section \<open>setattr\<close>






section \<open>Every request\<close>







end
