(* ===== verification/Rust_Str.thy ===== *)
theory Rust_Str
  imports Rust_Std "HOL-Library.Sublist"
begin

text \<open>
  Rust's string functions, as the program uses them on \<open>&str\<close> (a UTF-8 byte sequence, here
  a \<open>string\<close> of bytes): trimming of Unicode white space, lines, splitting, ASCII case,
  decimal numbers and the lossy decoding behind \<open>Path::display\<close>. The second half holds the
  facts the components share, above all the two text codecs: lines are read back as they
  were written, and a number is read back as it was printed.
\<close>

abbreviation NL :: char where "NL \<equiv> CHR 0x0A"
abbreviation CR :: char where "CR \<equiv> CHR 0x0D"

section \<open>Trimming\<close>

text \<open>The UTF-8 encodings of the characters with the Unicode property \<open>White_Space\<close>.\<close>

definition white_space :: "string list" where
  "white_space =
     [[CHR 0x20], [CHR 0x09], [CHR 0x0A], [CHR 0x0B], [CHR 0x0C], [CHR 0x0D],
      [CHR 0xC2, CHR 0x85], [CHR 0xC2, CHR 0xA0], [CHR 0xE1, CHR 0x9A, CHR 0x80],
      [CHR 0xE2, CHR 0x80, CHR 0x80], [CHR 0xE2, CHR 0x80, CHR 0x81], [CHR 0xE2, CHR 0x80, CHR 0x82],
      [CHR 0xE2, CHR 0x80, CHR 0x83], [CHR 0xE2, CHR 0x80, CHR 0x84], [CHR 0xE2, CHR 0x80, CHR 0x85],
      [CHR 0xE2, CHR 0x80, CHR 0x86], [CHR 0xE2, CHR 0x80, CHR 0x87], [CHR 0xE2, CHR 0x80, CHR 0x88],
      [CHR 0xE2, CHR 0x80, CHR 0x89], [CHR 0xE2, CHR 0x80, CHR 0x8A], [CHR 0xE2, CHR 0x80, CHR 0xA8],
      [CHR 0xE2, CHR 0x80, CHR 0xA9], [CHR 0xE2, CHR 0x80, CHR 0xAF], [CHR 0xE2, CHR 0x81, CHR 0x9F],
      [CHR 0xE3, CHR 0x80, CHR 0x80]]"

function strip_any :: "string list \<Rightarrow> string \<Rightarrow> string" where
  "strip_any ws s =
     (case find (\<lambda>w. w \<noteq> [] \<and> prefix w s) ws of
        None \<Rightarrow> s
      | Some w \<Rightarrow> strip_any ws (drop (length w) s))"
  by pat_completeness auto

termination
  by (relation "measure (\<lambda>(ws, s). length s)") (auto simp: find_Some_iff prefix_def)

declare strip_any.simps [simp del]

definition trim_start :: "string \<Rightarrow> string" where
  "trim_start s = strip_any white_space s"

definition trim_end :: "string \<Rightarrow> string" where
  "trim_end s = rev (strip_any (map rev white_space) (rev s))"

definition trim :: "string \<Rightarrow> string" where
  "trim s = trim_end (trim_start s)"

section \<open>Lines and fields\<close>

definition strip_cr :: "string \<Rightarrow> string" where
  "strip_cr l = (if l \<noteq> [] \<and> last l = CR then butlast l else l)"

text \<open>\<open>str::lines\<close>: a line ends in \<open>\n\<close> or \<open>\r\n\<close>; the last one may lack its end.\<close>

function lines :: "string \<Rightarrow> string list" where
  "lines s =
     (if s = [] then []
      else case dropWhile (\<lambda>c. c \<noteq> NL) s of
             [] \<Rightarrow> [s]
           | _ # rest \<Rightarrow> strip_cr (takeWhile (\<lambda>c. c \<noteq> NL) s) # lines rest)"
  by pat_completeness auto

termination
proof (relation "measure length", goal_cases)
  case (2 s c rest)
  then have "length (c # rest) \<le> length s" by (metis length_dropWhile_le)
  then show ?case by simp
qed simp

declare lines.simps [simp del]

definition split_once :: "char \<Rightarrow> string \<Rightarrow> (string \<times> string) option" where
  "split_once d s =
     (case dropWhile (\<lambda>c. c \<noteq> d) s of
        [] \<Rightarrow> None
      | _ # rest \<Rightarrow> Some (takeWhile (\<lambda>c. c \<noteq> d) s, rest))"

fun split :: "char \<Rightarrow> string \<Rightarrow> string list" where
  "split d [] = [[]]"
| "split d (c # s) =
     (if c = d then [] # split d s
      else case split d s of p # ps \<Rightarrow> (c # p) # ps | [] \<Rightarrow> [[c]])"

definition strip_prefix :: "string \<Rightarrow> string \<Rightarrow> string option" where
  "strip_prefix p s = (if prefix p s then Some (drop (length p) s) else None)"

definition strip_suffix :: "string \<Rightarrow> string \<Rightarrow> string option" where
  "strip_suffix p s = (if suffix p s then Some (take (length s - length p) s) else None)"

section \<open>Characters\<close>

definition ascii_digit :: "char \<Rightarrow> bool" where
  "ascii_digit c \<longleftrightarrow> 48 \<le> code c \<and> code c \<le> 57"

definition ascii_alphanumeric :: "char \<Rightarrow> bool" where
  "ascii_alphanumeric c \<longleftrightarrow>
     ascii_digit c \<or> (65 \<le> code c \<and> code c \<le> 90) \<or> (97 \<le> code c \<and> code c \<le> 122)"

definition ascii_lowercase :: "char \<Rightarrow> char" where
  "ascii_lowercase c = (if 65 \<le> code c \<and> code c \<le> 90 then char_of (code c + 32) else c)"

definition ascii_uppercase :: "char \<Rightarrow> char" where
  "ascii_uppercase c = (if 97 \<le> code c \<and> code c \<le> 122 then char_of (code c - 32) else c)"

definition to_ascii_lowercase :: "string \<Rightarrow> string" where
  "to_ascii_lowercase = map ascii_lowercase"

section \<open>Decimal numbers\<close>

fun show_nat :: "nat \<Rightarrow> string" where
  "show_nat n =
     (if n < 10 then [char_of (48 + n)] else show_nat (n div 10) @ [char_of (48 + n mod 10)])"

declare show_nat.simps [simp del]

definition digits_val :: "string \<Rightarrow> nat" where
  "digits_val s = foldl (\<lambda>n c. 10 * n + (code c - 48)) 0 s"

text \<open>
  \<open>str::parse\<close> for an unsigned type of \<open>w\<close> bits: an optional \<open>+\<close>, at least one digit, an error
  when the number does not fit.
\<close>

definition parse_uint :: "nat \<Rightarrow> string \<Rightarrow> nat option" where
  "parse_uint w s =
     (let t = (case s of [] \<Rightarrow> [] | c # r \<Rightarrow> if c = CHR ''+'' then r else s)
      in if t \<noteq> [] \<and> list_all ascii_digit t \<and> digits_val t < 2 ^ w then Some (digits_val t) else None)"

definition parse_u64 :: "string \<Rightarrow> u64 option" where
  "parse_u64 s = map_option word_of_nat (parse_uint 64 s)"

section \<open>Lossy decoding\<close>

text \<open>
  \<open>String::from_utf8_lossy\<close>: every maximal prefix of a character that is cut off or goes
  wrong, and every byte that starts none, becomes one U+FFFD.
\<close>

abbreviation replacement :: string where
  "replacement \<equiv> [CHR 0xEF, CHR 0xBF, CHR 0xBD]"

fun from_utf8_lossy :: "string \<Rightarrow> string" where
  "from_utf8_lossy [] = []"
| "from_utf8_lossy (c # cs) =
     (if code c < 0x80 then c # from_utf8_lossy cs
      else case cs of
        [] \<Rightarrow> replacement
      | d # ds \<Rightarrow>
          if lead2 c \<and> cont d then c # d # from_utf8_lossy ds
          else if lead3 c d then
            (case ds of
               [] \<Rightarrow> replacement
             | e # es \<Rightarrow> if cont e then c # d # e # from_utf8_lossy es
                         else replacement @ from_utf8_lossy ds)
          else if lead4 c d then
            (case ds of
               [] \<Rightarrow> replacement
             | e # es \<Rightarrow>
                 if cont e then
                   (case es of
                      [] \<Rightarrow> replacement
                    | f # fs \<Rightarrow> if cont f then c # d # e # f # from_utf8_lossy fs
                                else replacement @ from_utf8_lossy es)
                 else replacement @ from_utf8_lossy ds)
          else replacement @ from_utf8_lossy cs)"

section \<open>Facts about trimming\<close>

lemma strip_any_suffix: "suffix (strip_any ws s) s"
proof (induction ws s rule: strip_any.induct)
  case (1 ws s)
  show ?case
  proof (cases "find (\<lambda>w. w \<noteq> [] \<and> prefix w s) ws")
    case None
    then show ?thesis by (subst strip_any.simps) simp
  next
    case (Some w)
    have "suffix (drop (length w) s) s" by (rule suffix_drop)
    with 1 [OF Some] have "suffix (strip_any ws (drop (length w) s)) s" by (meson suffix_order.trans)
    with Some show ?thesis by (subst strip_any.simps) simp
  qed
qed

lemma strip_any_none: "(\<And>w. w \<in> set ws \<Longrightarrow> w \<noteq> [] \<Longrightarrow> \<not> prefix w s) \<Longrightarrow> strip_any ws s = s"
  by (subst strip_any.simps) (auto simp: find_None_iff split: option.split dest: find_Some_iff [THEN iffD1])

lemma strip_any_fix:
  assumes "strip_any ws s = s" and "w \<in> set ws" and "w \<noteq> []"
  shows "\<not> prefix w s"
proof (cases "find (\<lambda>w. w \<noteq> [] \<and> prefix w s) ws")
  case None
  with assms(2,3) show ?thesis by (auto simp: find_None_iff)
next
  case (Some v)
  then have v: "v \<noteq> []" "prefix v s" by (auto simp: find_Some_iff)
  have "strip_any ws (drop (length v) s) = s"
    using assms(1) Some by (subst (asm) strip_any.simps) simp
  moreover have "length (strip_any ws (drop (length v) s)) \<le> length (drop (length v) s)"
    by (rule suffix_length_le) (rule strip_any_suffix)
  ultimately have "length s \<le> length s - length v" by simp
  moreover have "0 < length v" "length v \<le> length s" using v by (simp_all add: prefix_length_le)
  ultimately show ?thesis by linarith
qed

definition ws_heads :: "char list" where
  "ws_heads = remdups (map hd white_space)"

lemma trim_start_id: "s = [] \<or> hd s \<notin> set ws_heads \<Longrightarrow> trim_start s = s"
  unfolding trim_start_def
proof (rule strip_any_none)
  fix w
  assume s: "s = [] \<or> hd s \<notin> set ws_heads" and w: "w \<in> set white_space" "w \<noteq> []"
  then have "hd w \<in> set ws_heads" by (simp add: ws_heads_def)
  with s w(2) show "\<not> prefix w s" by (auto simp: prefix_def)
qed

lemma trim_start_space [simp]: "trim_start (CHR '' '' # s) = trim_start s"
  unfolding trim_start_def by (subst strip_any.simps) (simp add: white_space_def)

lemma trim_end_space [simp]: "trim_end (s @ [CHR '' '']) = trim_end s"
  unfolding trim_end_def by (subst strip_any.simps) (simp add: white_space_def)

lemma trim_start_suffix: "suffix (trim_start s) s"
  unfolding trim_start_def by (rule strip_any_suffix)

lemma trim_end_prefix: "prefix (trim_end s) s"
  using strip_any_suffix [of "map rev white_space" "rev s"]
  by (simp add: trim_end_def suffix_to_prefix)

lemma trim_fix: "trim s = s \<Longrightarrow> trim_start s = s \<and> trim_end s = s"
  unfolding trim_def
  using suffix_length_le [OF trim_start_suffix [of s]] prefix_length_le [OF trim_end_prefix [of "trim_start s"]]
  by (metis order.antisym suffix_order.order_refl suffix_take trim_start_suffix append_eq_conv_conj
      diff_self_eq_0 length_drop suffix_drop suffix_same_cases suffix_length_le le_antisym self_append_conv2
      suffix_def append_eq_append_conv)

lemma trim_space [simp]: "trim (CHR '' '' # s) = trim s"
  by (simp add: trim_def)

lemma trimmed_end:
  assumes "trim s = s" and "s \<noteq> []"
  shows "last s \<noteq> CR \<and> last s \<noteq> CHR '' ''"
proof -
  have "strip_any (map rev white_space) (rev s) = rev s"
    using trim_fix [OF assms(1)] by (metis rev_swap trim_end_def)
  then have "\<not> prefix w (rev s)" if "w \<in> set (map rev white_space)" "w \<noteq> []" for w
    using that by (rule strip_any_fix)
  from this [of "[CR]"] this [of "[CHR '' '']"]
  have "\<not> prefix [CR] (rev s)" "\<not> prefix [CHR '' ''] (rev s)" by (simp_all add: white_space_def)
  moreover have "rev s = last s # rev (butlast s)"
    using assms(2) by (metis append_butlast_last_id rev.simps(2) rev_rev_ident)
  ultimately show ?thesis by simp
qed

definition ws_lasts :: "char list" where
  "ws_lasts = remdups (map last white_space)"

lemma trim_end_id: "s = [] \<or> last s \<notin> set ws_lasts \<Longrightarrow> trim_end s = s"
proof -
  assume s: "s = [] \<or> last s \<notin> set ws_lasts"
  have "strip_any (map rev white_space) (rev s) = rev s"
  proof (rule strip_any_none)
    fix w
    assume "w \<in> set (map rev white_space)" "w \<noteq> []"
    then have "last (rev w) \<in> set ws_lasts" "w \<noteq> []" by (auto simp: ws_lasts_def)
    with s show "\<not> prefix w (rev s)" by (auto simp: prefix_def last_rev) (metis hd_append2 hd_rev)
  qed
  then show ?thesis by (simp add: trim_end_def)
qed

lemma trim_id: "s = [] \<or> hd s \<notin> set ws_heads \<and> last s \<notin> set ws_lasts \<Longrightarrow> trim s = s"
  by (auto simp: trim_def trim_start_id trim_end_id)

section \<open>Facts about lines and fields\<close>

definition plain_line :: "string \<Rightarrow> bool" where
  "plain_line l \<longleftrightarrow> NL \<notin> set l \<and> (l = [] \<or> last l \<noteq> CR)"

definition unlines :: "string list \<Rightarrow> string" where
  "unlines ls = concat (map (\<lambda>l. l @ [NL]) ls)"

lemma unlines_simps [simp]:
  "unlines [] = []" "unlines (l # ls) = l @ NL # unlines ls" "unlines (xs @ ys) = unlines xs @ unlines ys"
  by (simp_all add: unlines_def)

lemma span_char:
  "d \<notin> set a \<Longrightarrow> takeWhile (\<lambda>c. c \<noteq> d) (a @ d # b) = a"
  "d \<notin> set a \<Longrightarrow> dropWhile (\<lambda>c. c \<noteq> d) (a @ d # b) = d # b"
  by (induction a) auto

lemma lines_unlines: "\<forall>l \<in> set ls. plain_line l \<Longrightarrow> lines (unlines ls) = ls"
proof (induction ls)
  case Nil
  show ?case by (simp add: lines.simps)
next
  case (Cons l ls)
  then show ?case
    by (subst lines.simps) (auto simp: span_char strip_cr_def plain_line_def)
qed

lemma split_once_append: "d \<notin> set a \<Longrightarrow> split_once d (a @ d # b) = Some (a, b)"
  by (simp add: split_once_def span_char)

lemma split_none: "d \<notin> set a \<Longrightarrow> split d a = [a]"
  by (induction a) auto

lemma split_append: "d \<notin> set a \<Longrightarrow> split d (a @ d # b) = a # split d b"
  by (induction a) auto

lemma split_nonempty: "split d s \<noteq> []"
  by (induction s) (auto split: list.split)

section \<open>Facts about numbers\<close>

lemma code_char_of [simp]: "n < 256 \<Longrightarrow> code (char_of n) = n"
  by (simp add: code_def)

lemma digits_val_snoc: "digits_val (s @ [c]) = 10 * digits_val s + (code c - 48)"
  by (simp add: digits_val_def)

lemma ascii_digit_char_of [simp]: "n < 10 \<Longrightarrow> ascii_digit (char_of (48 + n :: nat))"
  by (simp add: ascii_digit_def)

lemma show_nat_digits:
  "show_nat n \<noteq> [] \<and> list_all ascii_digit (show_nat n) \<and> digits_val (show_nat n) = n"
proof (induction n rule: show_nat.induct)
  case (1 n)
  show ?case
  proof (cases "n < 10")
    case True
    then show ?thesis
      by (subst (1 2 3) show_nat.simps) (simp add: digits_val_def)
  next
    case False
    with 1 show ?thesis
      by (subst (1 2 3) show_nat.simps) (simp add: digits_val_snoc)
  qed
qed

lemma show_nat_hd: "\<exists>c s. show_nat n = c # s \<and> ascii_digit c"
  using show_nat_digits [of n] by (cases "show_nat n") auto

lemma parse_uint_show: "n < 2 ^ w \<Longrightarrow> parse_uint w (show_nat n) = Some n"
proof -
  assume n: "n < 2 ^ w"
  obtain c s where "show_nat n = c # s" "ascii_digit c" using show_nat_hd by blast
  moreover from this have "c \<noteq> CHR ''+''" by (auto simp: ascii_digit_def code_def)
  ultimately show ?thesis
    using show_nat_digits [of n] n by (simp add: parse_uint_def Let_def)
qed

lemma parse_u64_show: "n < 2 ^ 64 \<Longrightarrow> parse_u64 (show_nat n) = Some (word_of_nat n)"
  by (simp add: parse_u64_def parse_uint_show)

section \<open>Facts about decoding\<close>

lemma utf8_Cons:
  assumes "utf8_valid (c # cs)"
  obtains (ascii) "code c < 0x80" "utf8_valid cs"
  | (two) d ds where "\<not> code c < 0x80" "cs = d # ds" "lead2 c" "cont d" "utf8_valid ds"
  | (three) d e es where "\<not> code c < 0x80" "cs = d # e # es" "\<not> (lead2 c \<and> cont d)" "lead3 c d" "cont e"
      "utf8_valid es"
  | (four) d e f fs where "\<not> code c < 0x80" "cs = d # e # f # fs" "\<not> (lead2 c \<and> cont d)" "\<not> lead3 c d"
      "lead4 c d" "cont e" "cont f" "utf8_valid fs"
proof (cases "code c < 0x80")
  case True
  with assms show ?thesis by (intro ascii) simp_all
next
  case c: False
  with assms obtain d ds where d: "cs = d # ds" by (cases cs) simp_all
  note u = assms [unfolded d utf8_valid.simps(2) [of c] if_not_P [OF c] list.case]
  show ?thesis
  proof (cases "lead2 c \<and> cont d")
    case True
    with u show ?thesis by (intro two [OF c d]) simp_all
  next
    case l2: False
    note u = u [unfolded if_not_P [OF l2]]
    then obtain e es where e: "ds = e # es" by (cases ds) simp_all
    note u = u [unfolded e list.case]
    show ?thesis
    proof (cases "lead3 c d \<and> cont e")
      case True
      with u l2 show ?thesis by (intro three [OF c d [unfolded e]]) simp_all
    next
      case l3: False
      note u = u [unfolded if_not_P [OF l3]]
      then obtain f fs where f: "es = f # fs" by (cases es) simp_all
      note u = u [unfolded f list.case]
      then have "\<not> lead3 c d" by (auto simp: lead3_def lead4_def)
      with u l2 show ?thesis by (intro four [OF c d [unfolded e f]]) simp_all
    qed
  qed
qed

lemma lossy_valid: "utf8_valid s \<Longrightarrow> from_utf8_lossy s = s"
proof (induction "length s" arbitrary: s rule: less_induct)
  case less
  show ?case
  proof (cases s)
    case (Cons c cs)
    from less.prems [unfolded Cons] show ?thesis
      by (cases rule: utf8_Cons) (use less.hyps Cons in auto)
  qed simp
qed

lemma utf8_ascii [simp]: "code c < 0x80 \<Longrightarrow> utf8_valid (c # s) = utf8_valid s"
  by (simp add: utf8_valid.simps(2))

lemma utf8_multibyte:
  "lead2 c \<Longrightarrow> cont d \<Longrightarrow> utf8_valid (c # d # s) = utf8_valid s"
  "lead3 c d \<Longrightarrow> cont e \<Longrightarrow> utf8_valid (c # d # e # s) = utf8_valid s"
  "lead4 c d \<Longrightarrow> cont e \<Longrightarrow> cont f \<Longrightarrow> utf8_valid (c # d # e # f # s) = utf8_valid s"
proof -
  assume "lead2 c" "cont d"
  then show "utf8_valid (c # d # s) = utf8_valid s" by (simp add: lead2_def)
next
  assume l: "lead3 c d" "cont e"
  then have "\<not> code c < 0x80" "\<not> lead2 c" by (simp_all add: lead3_def lead2_def)
  with l show "utf8_valid (c # d # e # s) = utf8_valid s"
    by (subst utf8_valid.simps(2)) (simp del: utf8_valid.simps(2))
next
  assume l: "lead4 c d" "cont e" "cont f"
  then have "\<not> code c < 0x80" "\<not> lead2 c" "\<not> lead3 c d" by (simp_all add: lead4_def lead3_def lead2_def)
  with l show "utf8_valid (c # d # e # f # s) = utf8_valid s"
    by (subst utf8_valid.simps(2)) (simp del: utf8_valid.simps(2))
qed

declare utf8_valid.simps(2) [simp del]

lemma utf8_append: "utf8_valid a \<Longrightarrow> utf8_valid b \<Longrightarrow> utf8_valid (a @ b)"
proof (induction "length a" arbitrary: a rule: less_induct)
  case less
  show ?case
  proof (cases a)
    case (Cons c cs)
    from less.prems(1) [unfolded Cons] show ?thesis
    proof (cases rule: utf8_Cons)
      case ascii
      with less.hyps [of cs] less.prems(2) Cons show ?thesis by simp
    next
      case (two d ds)
      with less.hyps [of ds] less.prems(2) Cons show ?thesis by (simp add: utf8_multibyte)
    next
      case (three d e es)
      with less.hyps [of es] less.prems(2) Cons show ?thesis by (simp add: utf8_multibyte)
    next
      case (four d e f fs)
      with less.hyps [of fs] less.prems(2) Cons show ?thesis by (simp add: utf8_multibyte)
    qed
  qed (use less.prems in simp)
qed

lemma cont_not_ascii: "cont c \<Longrightarrow> code d < 0x80 \<Longrightarrow> c \<noteq> d"
  by (auto simp: cont_def)

text \<open>A text is cut at ASCII characters into valid pieces.\<close>

lemma utf8_cut:
  assumes "utf8_valid s" and "code d < 0x80"
  shows "utf8_valid (takeWhile (\<lambda>c. c \<noteq> d) s) \<and> utf8_valid (dropWhile (\<lambda>c. c \<noteq> d) s)"
  using assms(1)
proof (induction "length s" arbitrary: s rule: less_induct)
  case less
  show ?case
  proof (cases s)
    case (Cons c cs)
    from less.prems [unfolded Cons] show ?thesis
    proof (cases rule: utf8_Cons)
      case ascii
      with less.hyps [of cs] less.prems Cons assms(2) show ?thesis by auto
    next
      case (two e es)
      then have "c \<noteq> d" "e \<noteq> d" using assms(2) by (auto simp: cont_def)
      with two less.hyps [of es] Cons show ?thesis by (simp add: utf8_multibyte)
    next
      case (three e f fs)
      then have "c \<noteq> d" "e \<noteq> d" "f \<noteq> d" using assms(2) by (auto simp: cont_def lead3_def)
      with three less.hyps [of fs] Cons show ?thesis by (simp add: utf8_multibyte)
    next
      case (four e f g gs)
      then have "c \<noteq> d" "e \<noteq> d" "f \<noteq> d" "g \<noteq> d" using assms(2) by (auto simp: cont_def lead4_def)
      with four less.hyps [of gs] Cons show ?thesis by (simp add: utf8_multibyte)
    qed
  qed simp
qed

lemma utf8_all_ascii: "\<forall>c \<in> set s. code c < 0x80 \<Longrightarrow> utf8_valid s"
  by (induction s) simp_all

section \<open>Numbers and blanks inside a text\<close>

lemma strip_any_append:
  assumes "\<forall>w \<in> set ws. c \<notin> set (tl w)" and "strip_any ws s \<noteq> []"
  shows "strip_any ws (s @ c # t) = strip_any ws s @ c # t"
  using assms
proof (induction ws s rule: strip_any.induct)
  case (1 ws s)
  have ne: "s \<noteq> []"
  proof
    assume "s = []"
    moreover from this have "strip_any ws s = []" using strip_any_suffix [of ws s] by simp
    ultimately show False using 1 by simp
  qed
  have "(w \<noteq> [] \<and> prefix w (s @ c # t)) = (w \<noteq> [] \<and> prefix w s)" if "w \<in> set ws" for w
  proof -
    have "c \<in> set (tl (s @ c # u))" for u using ne by (cases s) auto
    with that 1 show ?thesis by (auto simp: prefix_append prefix_Cons)
  qed
  then have f: "find (\<lambda>w. w \<noteq> [] \<and> prefix w (s @ c # t)) ws = find (\<lambda>w. w \<noteq> [] \<and> prefix w s) ws"
    by (rule find_cong [OF refl])
  show ?case
  proof (cases "find (\<lambda>w. w \<noteq> [] \<and> prefix w s) ws")
    case None
    with f show ?thesis by (subst (1 2) strip_any.simps) simp
  next
    case (Some w)
    then have w: "length w \<le> length s" by (auto simp: find_Some_iff prefix_length_le)
    have "strip_any ws s = strip_any ws (drop (length w) s)" using Some by (subst strip_any.simps) simp
    moreover have "strip_any ws (s @ c # t) = strip_any ws (drop (length w) s @ c # t)"
      using Some f w by (subst strip_any.simps) simp
    ultimately show ?thesis using 1 Some by simp
  qed
qed

lemma trim_end_after_space: "trim_end s \<noteq> [] \<Longrightarrow> trim_end (p @ CHR '' '' # s) = p @ CHR '' '' # trim_end s"
  using strip_any_append [of "map rev white_space" "CHR '' ''" "rev s" "rev p"]
  by (simp add: trim_end_def white_space_def)

lemma show_nat_last: "ascii_digit (last (show_nat n))"
  using show_nat_digits [of n] by (metis last_in_set list_all_iff)

lemma digit_not_space: "ascii_digit c \<Longrightarrow> c \<notin> set ws_lasts \<and> code c < 0x80"
proof -
  have "list_all (\<lambda>c. \<not> ascii_digit c) ws_lasts" by code_simp
  moreover assume "ascii_digit c"
  ultimately show ?thesis by (auto simp: list_all_iff ascii_digit_def)
qed

lemma digits_not_in: "\<not> ascii_digit c \<Longrightarrow> c \<notin> set (show_nat n)"
  using show_nat_digits [of n] by (auto simp: list_all_iff)

lemma not_digit [simp]: "\<not> ascii_digit (CHR '' '')" "\<not> ascii_digit NL"
  by (simp_all add: ascii_digit_def code_def)

lemma utf8_show [simp]: "utf8_valid (show_nat n)"
  using show_nat_digits [of n] digit_not_space by (intro utf8_all_ascii) (auto simp: list_all_iff)

lemma show_nat_no_CR [simp]: "CR \<notin> set (show_nat n)"
  using show_nat_digits [of n] by (auto simp: list_all_iff ascii_digit_def code_def)

section \<open>The interface of a text codec\<close>

text \<open>
  A value that is written as text and parsed back: what \<open>enc\<close> writes, \<open>dec\<close> reads, for the
  values that satisfy \<open>ok\<close>.
\<close>

locale codec =
  fixes enc :: "'a \<Rightarrow> string" and dec :: "string \<Rightarrow> 'a option" and ok :: "'a \<Rightarrow> bool"
  assumes dec_enc: "ok x \<Longrightarrow> dec (enc x) = Some x"
begin

lemma enc_inj: "ok x \<Longrightarrow> ok y \<Longrightarrow> enc x = enc y \<Longrightarrow> x = y"
  by (metis dec_enc option.inject)

end

interpretation decimal: codec "\<lambda>n. show_nat (unat n)" parse_u64 "\<lambda>_. True"
proof
  fix x :: u64
  have "unat x < 2 ^ 64" using unsigned_less [of x] by simp
  then show "parse_u64 (show_nat (unat x)) = Some x" by (simp add: parse_u64_show)
qed

end
