(* ===== verification/Container.thy ===== *)
theory Container
  imports Wellformed Rust_Str
begin

text \<open>
  The container around the tables (src/src/db.rs): how it is keyed, created and opened, the
  migration from format 1 to format 2, the logical check, and the locking choice of a mount.
  SQLCipher is not modelled: a container remembers the password it was keyed with, a
  statement on a connection with another one is "not a database", and any statement may
  fail (\<open>stmt_fault\<close>), in which case it changes nothing.
\<close>

section \<open>Keying\<close>

abbreviation QUOTE :: char where "QUOTE \<equiv> CHR 0x27"

definition escape_quotes :: "string \<Rightarrow> string" where
  "escape_quotes v = concat (map (\<lambda>c. if c = QUOTE then [QUOTE, QUOTE] else [c]) v)"

definition pragma_key_sql :: "string \<Rightarrow> string \<Rightarrow> string" where
  "pragma_key_sql pragma v = ''PRAGMA '' @ pragma @ '' = '' @ [QUOTE] @ escape_quotes v @ [QUOTE]"

text \<open>
  What SQL makes of it: a string literal reaches to the first quote that is not doubled. The
  text after the opening quote is split into the literal's value and what follows it.
\<close>

fun sql_literal :: "string \<Rightarrow> (string \<times> string) option" where
  "sql_literal [] = None"
| "sql_literal (c # s) =
     (if c \<noteq> QUOTE then map_option (map_prod (Cons c) id) (sql_literal s)
      else case s of
             [] \<Rightarrow> Some ([], [])
           | d # t \<Rightarrow> if d = QUOTE then map_option (map_prod (Cons QUOTE) id) (sql_literal t)
                       else Some ([], s))"

section \<open>Format 1\<close>

text \<open>In format 1 a row of \<open>inodes\<close> carried its one name and the directory it is in.\<close>

record inode_v1 = inode +
  v1_parent :: u64
  v1_name :: string

record db_v1 =
  v1_meta :: "(string \<times> string) list"
  v1_inodes :: "(u64 \<times> inode_v1) list"
  v1_data :: "((u64 \<times> i64) \<times> bytes) list"
  v1_xattrs :: "((u64 \<times> string) \<times> bytes) list option"
  v1_gc :: bool
  v1_seq :: nat

definition v1_names :: "db_v1 \<Rightarrow> ((u64 \<times> string) \<times> u64) list" where
  "v1_names d = map (\<lambda>(i, r). ((v1_parent r, v1_name r), i)) (filter (\<lambda>(i, r). i \<noteq> ROOT_INO) (v1_inodes d))"

definition v1_rows :: "db_v1 \<Rightarrow> (u64 \<times> inode) list" where
  "v1_rows d = map (\<lambda>(i, r). (i, inode.truncate r)) (v1_inodes d)"

text \<open>
  \<open>migrate_to_v2\<close>. The sequence row of \<open>inodes_v2\<close> exists once a row was copied, with the
  largest number copied; the UPDATE raises it to the old table's. \<open>DROP TABLE inodes\<close> takes
  the trigger along.
\<close>

definition migrate_to_v2 :: "db_v1 \<Rightarrow> sql_error + db" where
  "migrate_to_v2 d =
     (if \<not> unique_keys (v1_names d) then Inl ConstraintViolation
      else let rows = v1_rows d in
        Inr \<lparr>t_meta = update_where (\<lambda>k. k = ''schema_version'') (\<lambda>_. ''2'') (v1_meta d),
             t_inodes = rows, t_dentries = v1_names d, t_data = v1_data d, t_xattrs = v1_xattrs d,
             xattrs_gc = False,
             inode_seq = (if rows = [] then 0
                          else max (foldr (\<lambda>(k, r). max (rowid k)) rows 0) (v1_seq d))\<rparr>)"

text \<open>\<open>XATTRS_SCHEMA\<close>: \<open>CREATE .. IF NOT EXISTS\<close> for the table and for the trigger.\<close>

definition add_xattrs :: "db \<Rightarrow> db" where
  "add_xattrs d =
     d\<lparr>t_xattrs := Some (case t_xattrs d of None \<Rightarrow> [] | Some t \<Rightarrow> t), xattrs_gc := True\<rparr>"

section \<open>The container file\<close>

datatype body = Format1 db_v1 | Format2 db | OtherFormat "(string \<times> string) list"

definition meta_of :: "body \<Rightarrow> (string \<times> string) list" where
  "meta_of b = (case b of Format1 d \<Rightarrow> v1_meta d | Format2 d \<Rightarrow> t_meta d | OtherFormat m \<Rightarrow> m)"

record container =
  c_key :: string
  c_body :: body
  c_held :: bool
    \<comment> \<open>another connection holds it exclusively\<close>

record session =
  box :: container
  given_key :: string
  stmt :: nat
  stmt_fault :: "nat \<Rightarrow> sql_error option"

datatype open_error =
    NotFound | AlreadyExists | Mounted | WrongPassword | OtherVersion string | Sql sql_error

text \<open>One statement (or batch) on the session's connection.\<close>

definition on_box :: "(body \<Rightarrow> sql_error + 'a \<times> body) \<Rightarrow> (session, sql_error, 'a) act" where
  "on_box f = (\<lambda>s. let s' = s\<lparr>stmt := Suc (stmt s)\<rparr> in
     case stmt_fault s (stmt s) of
       Some e \<Rightarrow> (Inl e, s')
     | None \<Rightarrow>
         if c_held (box s) then (Inl DatabaseBusy, s')
         else if c_key (box s) \<noteq> given_key s then (Inl NotADatabase, s')
         else (case f (c_body (box s)) of
                 Inl e \<Rightarrow> (Inl e, s')
               | Inr (a, b) \<Rightarrow> (Inr a, s'\<lparr>box := box s\<lparr>c_body := b\<rparr>\<rparr>)))"

text \<open>Opening the file, or a pragma that touches no page of it.\<close>

definition pragma :: "(session, sql_error, unit) act" where
  "pragma = (\<lambda>s. (case stmt_fault s (stmt s) of Some e \<Rightarrow> Inl e | None \<Rightarrow> Inr (), s\<lparr>stmt := Suc (stmt s)\<rparr>))"

definition select_meta :: "string \<Rightarrow> body \<Rightarrow> sql_error + string \<times> body" where
  "select_meta k b = (case map_of (meta_of b) k of Some v \<Rightarrow> Inr (v, b) | None \<Rightarrow> Inl OtherError)"

definition on_format2 :: "(db \<Rightarrow> sql_error + 'a \<times> db) \<Rightarrow> body \<Rightarrow> sql_error + 'a \<times> body" where
  "on_format2 f b = (case b of
     Format2 d \<Rightarrow> (case f d of Inl e \<Rightarrow> Inl e | Inr (a, d') \<Rightarrow> Inr (a, Format2 d'))
   | _ \<Rightarrow> Inl NoSuchTable)"

definition migration :: "body \<Rightarrow> sql_error + unit \<times> body" where
  "migration b = (case b of
     Format1 d \<Rightarrow> (case migrate_to_v2 d of Inl e \<Rightarrow> Inl e | Inr d' \<Rightarrow> Inr ((), Format2 d'))
   | _ \<Rightarrow> Inl OtherError)"

abbreviation or_sql :: "(session, sql_error, 'a) act \<Rightarrow> (session, open_error, 'a) act" where
  "or_sql \<equiv> map_err Sql"

definition open_db_with :: "bool \<Rightarrow> bool \<Rightarrow> (session, open_error, unit) act" where
  "open_db_with ro excl =
     bind (or_sql pragma) (\<lambda>_.
     bind (or_sql pragma) (\<lambda>_.
     bind (or_sql pragma) (\<lambda>_.
     bind (if excl then or_sql pragma else ret ()) (\<lambda>_.
     bind (attempt (on_box (select_meta ''schema_version''))) (\<lambda>check. case check of
       Inl DatabaseBusy \<Rightarrow> throw Mounted
     | Inl _ \<Rightarrow> throw WrongPassword
     | Inr schema \<Rightarrow>
         let outdated = (schema = ''1'') in
         if schema \<noteq> ''2'' \<and> \<not> outdated then throw (OtherVersion schema)
         else bind (if ro then ret ()
                    else bind (or_sql pragma) (\<lambda>_.
                         bind (if outdated then or_sql (on_box migration) else ret ()) (\<lambda>_.
                         or_sql (on_box (on_format2 (\<lambda>d. Inr ((), add_xattrs d))))))) (\<lambda>_.
              or_sql pragma))))))"

definition open_db :: "bool \<Rightarrow> (session, open_error, unit) act" where
  "open_db ro = open_db_with ro False"

definition open_db_for_mount :: "bool \<Rightarrow> bool \<Rightarrow> (session, open_error, unit) act" where
  "open_db_for_mount ro excl = open_db_with ro (excl \<and> \<not> ro)"

text \<open>The file on disk, a password and the engine's faults: what a call of \<open>open_db\<close> meets.\<close>

definition open_container ::
  "bool \<Rightarrow> string \<Rightarrow> (nat \<Rightarrow> sql_error option) \<Rightarrow> container option \<Rightarrow> (open_error + unit) \<times> container option" where
  "open_container ro password faults file =
     (case file of
        None \<Rightarrow> (Inl NotFound, None)
      | Some c \<Rightarrow> map_prod id (\<lambda>s. Some (box s))
          (open_db ro \<lparr>box = c, given_key = password, stmt = 0, stmt_fault = faults\<rparr>))"

section \<open>Creation\<close>

definition root_inode :: "u32 \<Rightarrow> u32 \<Rightarrow> f64 \<Rightarrow> inode" where
  "root_inode uid gid now =
     \<lparr>i_kind = KIND_DIR, i_mode = 0x4000 OR 0x1C0, i_uid = uint uid, i_gid = uint gid, i_size = 0,
      i_atime = now, i_mtime = now, i_ctime = now, i_target = None\<rparr>"

definition fresh_db :: "u32 \<Rightarrow> u32 \<Rightarrow> f64 \<Rightarrow> string \<Rightarrow> u64 \<Rightarrow> db" where
  "fresh_db uid gid now created msize =
     \<lparr>t_meta = [(''schema_version'', ''2''), (''created_at'', created),
        (''block_size'', show_nat BLOCK_SIZE), (''max_size'', show_nat (unat msize))],
      t_inodes = [(ROOT_INO, root_inode uid gid now)], t_dentries = [], t_data = [], t_xattrs = Some [],
      xattrs_gc = True, inode_seq = 1\<rparr>"

text \<open>
  \<open>create_container\<close>. \<open>created\<close> is the decimal text of \<open>now\<close>, which nothing reads back. Fourteen
  calls can fail, and the first that does ends the creation: making the directory, the open,
  the log level, key, page size, both schemas, the root, four rows of \<open>meta\<close>, the journal mode,
  and the permissions of the file. Those of the system fail with \<open>OtherError\<close>.
\<close>

definition create_container ::
  "(nat \<Rightarrow> sql_error option) \<Rightarrow> u32 \<Rightarrow> u32 \<Rightarrow> f64 \<Rightarrow> string \<Rightarrow> string \<Rightarrow> u64 \<Rightarrow> container option \<Rightarrow>
     open_error + container" where
  "create_container faults uid gid now created password msize file =
     (if file \<noteq> None then Inl AlreadyExists
      else case find (\<lambda>k. faults k \<noteq> None) [0..<14] of
        Some k \<Rightarrow> Inl (Sql (the (faults k)))
      | None \<Rightarrow> Inr \<lparr>c_key = password, c_body = Format2 (fresh_db uid gid now created msize), c_held = False\<rparr>)"

section \<open>Questions about an open container\<close>

definition schema_version :: "body \<Rightarrow> string option" where
  "schema_version b = map_of (meta_of b) ''schema_version''"

definition has_xattrs_table :: "body \<Rightarrow> bool" where
  "has_xattrs_table b = (case b of
     Format1 d \<Rightarrow> v1_xattrs d \<noteq> None | Format2 d \<Rightarrow> t_xattrs d \<noteq> None | OtherFormat _ \<Rightarrow> False)"

definition read_max_size :: "body \<Rightarrow> u64" where
  "read_max_size b =
     (case Option.bind (map_of (meta_of b) ''max_size'') parse_u64 of Some n \<Rightarrow> n | None \<Rightarrow> 0)"

text \<open>\<open>PRAGMA page_size\<close> answers an integer or, under SQLCipher, a text.\<close>

datatype pragma_value = IntRow i64 | TextRow string

definition page_size :: "sql_error + pragma_value \<Rightarrow> sql_error + u64" where
  "page_size row = (case row of
     Inl e \<Rightarrow> Inl e
   | Inr (IntRow v) \<Rightarrow> Inr (word_of_int v)
   | Inr (TextRow s) \<Rightarrow> Inr (case parse_u64 s of Some n \<Rightarrow> n | None \<Rightarrow> 4096))"

definition find_inconsistencies :: "db \<Rightarrow> nat \<times> nat" where
  "find_inconsistencies d =
     (length (filter (\<lambda>(k, i). inode_at d i = None) (t_dentries d)),
      length (filter (\<lambda>(i, r). i \<noteq> ROOT_INO \<and> name_count d i = 0) (t_inodes d)))"

text \<open>The verdict of \<open>verify_password\<close> on what reading the header of the copied page answered.\<close>

definition password_verdict :: "sql_error + i64 \<Rightarrow> sql_error + bool" where
  "password_verdict r = (case r of
     Inr _ \<Rightarrow> Inr True
   | Inl DatabaseCorrupt \<Rightarrow> Inr True
   | Inl NotADatabase \<Rightarrow> Inr False
   | Inl e \<Rightarrow> Inl e)"

text \<open>
  \<open>verify_password\<close>: the page is written to a scratch file and keyed there. The scratch file is
  removed in the end, also when a step before failed. What the system and the engine answer on
  the way is the record \<open>scratch\<close>; four statements come before the query.
\<close>

record scratch =
  s_create :: "string + unit"
  s_write :: "string + unit"
  s_faults :: "nat \<Rightarrow> sql_error option"
  s_header :: "string \<Rightarrow> string \<Rightarrow> sql_error + i64"
    \<comment> \<open>\<open>PRAGMA schema_version\<close> on a file that holds the page, under the password\<close>
  s_error_text :: "sql_error \<Rightarrow> string"

definition verify_password ::
  "scratch \<Rightarrow> string \<Rightarrow> string \<Rightarrow> string \<Rightarrow> (string \<Rightarrow> string option) \<Rightarrow>
     (string + bool) \<times> (string \<Rightarrow> string option)" where
  "verify_password h name page password files =
     (case (if files name \<noteq> None then Inl ''File exists'' else s_create h) of
        Inl e \<Rightarrow> (Inl e, files(name := None))
      | Inr _ \<Rightarrow>
          (case s_write h of
             Inl e \<Rightarrow> (Inl e, files(name := None))
           | Inr _ \<Rightarrow>
               (case find (\<lambda>k. s_faults h k \<noteq> None) [0..<4] of
                  Some k \<Rightarrow> (Inl (s_error_text h (the (s_faults h k))), files(name := None))
                | None \<Rightarrow>
                    (case password_verdict (s_header h page password) of
                       Inl e \<Rightarrow> (Inl (''checking the password: '' @ s_error_text h e), files(name := None))
                     | Inr ok \<Rightarrow> (Inr ok, files(name := None))))))"

text \<open>No copy of the page stays behind, and no other file is touched.\<close>

lemma verify_leaves_no_scratch: "snd (verify_password h name page password files) = files(name := None)"
  by (simp add: verify_password_def split: sum.split option.split)

text \<open>A wrong password is told from a right one by the header alone.\<close>

lemma verify_by_header:
  assumes "s_create h = Inr ()" and "s_write h = Inr ()" and "\<And>k. s_faults h k = None" and "files name = None"
    and "s_header h page pw = (if pw = key then Inl DatabaseCorrupt else Inl NotADatabase)"
  shows "fst (verify_password h name page pw files) = Inr (pw = key)"
proof -
  have "find (\<lambda>k. s_faults h k \<noteq> None) [0..<4] = None" by (simp add: assms(3) find_None_iff)
  then show ?thesis by (simp add: verify_password_def assms(1,2,4,5) password_verdict_def)
qed

section \<open>The lock on the container file\<close>

datatype flock_answer = Granted | WouldBlock | FlockFailed

datatype lock_error = NotOpened | AlreadyInUse | LockFailed

definition lock_exclusive :: "bool \<Rightarrow> flock_answer \<Rightarrow> lock_error + unit" where
  "lock_exclusive opens answer =
     (if \<not> opens then Inl NotOpened
      else case answer of Granted \<Rightarrow> Inr () | WouldBlock \<Rightarrow> Inl AlreadyInUse | FlockFailed \<Rightarrow> Inl LockFailed)"

text \<open>Only a lock that was granted lets a command go on.\<close>

lemma lock_exclusive_Inr [simp]: "lock_exclusive opens answer = Inr u \<longleftrightarrow> opens \<and> answer = Granted"
  by (auto simp: lock_exclusive_def split: flock_answer.split)

section \<open>Locking\<close>

datatype locking = Auto | Exclusive | Normal

definition as_str :: "locking \<Rightarrow> string" where
  "as_str l = (case l of Auto \<Rightarrow> ''auto'' | Exclusive \<Rightarrow> ''exclusive'' | Normal \<Rightarrow> ''normal'')"

definition locking_parse :: "string \<Rightarrow> locking option" where
  "locking_parse s =
     (let t = to_ascii_lowercase (trim s) in
      if t = ''auto'' then Some Auto
      else if t = ''exclusive'' then Some Exclusive
      else if t = ''normal'' then Some Normal
      else None)"

definition network_fs :: "i64 list" where
  "network_fs = [0x6969, 0x517B, 0xFF534D42, 0xFE534D42, 0x00C36400, 0x01021997, 0x6B414653, 0x5346414F,
     0x01161970, 0x7461636F, 0x0BD00BD0, 0x65735546]"

text \<open>\<open>statfs\<close> of a path is the system's answer, \<open>None\<close> when the call fails.\<close>

definition on_network_fs :: "(string \<Rightarrow> i64 option) \<Rightarrow> string \<Rightarrow> bool" where
  "on_network_fs statfs path =
     (CHR 0x00 \<notin> set path \<and> (case statfs path of None \<Rightarrow> False | Some t \<Rightarrow> t \<in> set network_fs))"

definition exclusive_for :: "(string \<Rightarrow> i64 option) \<Rightarrow> locking \<Rightarrow> string \<Rightarrow> bool" where
  "exclusive_for statfs l path = (case l of
     Auto \<Rightarrow> on_network_fs statfs path | Exclusive \<Rightarrow> True | Normal \<Rightarrow> False)"

section \<open>Migration\<close>

definition wf_v1 :: "db_v1 \<Rightarrow> bool" where
  "wf_v1 d \<longleftrightarrow>
     unique_keys (v1_inodes d) \<and> unique_keys (v1_names d) \<and> unique_keys (v1_data d) \<and>
     (case v1_xattrs d of None \<Rightarrow> True
      | Some t \<Rightarrow> unique_keys t \<and> (\<forall>((i, n), v) \<in> set t. map_of (v1_inodes d) i \<noteq> None)) \<and>
     (\<exists>r. map_of (v1_inodes d) ROOT_INO = Some r \<and> i_kind r = KIND_DIR) \<and>
     (\<forall>(i, r) \<in> set (v1_inodes d). i \<noteq> ROOT_INO \<longrightarrow>
        (\<exists>p. map_of (v1_inodes d) (v1_parent r) = Some p \<and> i_kind p = KIND_DIR)) \<and>
     (\<forall>((i, b), x) \<in> set (v1_data d). 0 \<le> b \<and> x \<noteq> [] \<and> length x \<le> BLOCK_SIZE \<and>
        (\<exists>r. map_of (v1_inodes d) i = Some r \<and> b * int BLOCK_SIZE + int (length x) \<le> i_size r)) \<and>
     (\<forall>(i, r) \<in> set (v1_inodes d). 0 \<le> i_size r \<and> i_size r < 2 ^ 63 \<and> 0 < unat i \<and> unat i \<le> v1_seq d) \<and>
     v1_seq d < 2 ^ 63"

lemma v1_rows_at: "map_of (v1_rows d) i = map_option inode.truncate (map_of (v1_inodes d) i)"
  by (simp add: v1_rows_def map_of_map)

lemma truncate_sel [simp]:
  "i_kind (inode.truncate r) = i_kind r" "i_size (inode.truncate r) = i_size r"
  by (simp_all add: inode.truncate_def)

lemma fst_v1_rows [simp]: "map fst (v1_rows d) = map fst (v1_inodes d)"
  by (simp add: v1_rows_def comp_def case_prod_beta)

lemma in_v1_names:
  "((p, n), i) \<in> set (v1_names d) \<longleftrightarrow>
     (\<exists>r. (i, r) \<in> set (v1_inodes d) \<and> i \<noteq> ROOT_INO \<and> v1_parent r = p \<and> v1_name r = n)"
  by (force simp: v1_names_def)

lemma one_name:
  "unique_keys t \<Longrightarrow> map_of t i = Some r \<Longrightarrow>
     length (filter (\<lambda>(k, r). k = i) t) = 1"
proof (induction t)
  case (Cons e t)
  have "filter (\<lambda>(k, r). k = i) t = []" if "i \<notin> fst ` set t"
    using that by (force simp: filter_empty_conv)
  with Cons show ?case by (cases e) (auto split: if_splits)
qed simp

lemma v1_name_count:
  assumes "unique_keys (v1_inodes d)" and "map_of (v1_inodes d) i = Some r" and "i \<noteq> ROOT_INO"
  shows "length (filter (\<lambda>e. snd e = i) (v1_names d)) = 1"
proof -
  have "length (filter (\<lambda>e. snd e = i) (v1_names d)) = length (filter (\<lambda>(k, r). k = i) (v1_inodes d))"
    unfolding v1_names_def filter_map length_map filter_filter
    by (rule arg_cong [where f = length], rule filter_cong) (use assms(3) in \<open>auto simp: comp_def\<close>)
  with one_name [OF assms(1,2)] show ?thesis by simp
qed

lemma foldr_max_le: "\<forall>(k, r) \<in> set t. rowid k \<le> m \<Longrightarrow> z \<le> m \<Longrightarrow> foldr (\<lambda>(k, r). max (rowid k)) t z \<le> m"
  by (induction t) auto

lemma migrate_Inr:
  assumes "wf_v1 d"
  obtains d' where "migrate_to_v2 d = Inr d'" "t_inodes d' = v1_rows d" "t_dentries d' = v1_names d"
    "t_data d' = v1_data d" "t_xattrs d' = v1_xattrs d" "inode_seq d' = v1_seq d"
    "t_meta d' = update_where (\<lambda>k. k = ''schema_version'') (\<lambda>_. ''2'') (v1_meta d)"
proof -
  have "rowid k \<le> v1_seq d" if "(k, r) \<in> set (v1_rows d)" for k r
  proof -
    from that have "unat k \<le> v1_seq d" "v1_seq d < 2 ^ 63"
      using assms by (auto simp: wf_v1_def v1_rows_def)
    then show ?thesis using rowid_small [of k] by simp
  qed
  then have "foldr (\<lambda>(k, r). max (rowid k)) (v1_rows d) 0 \<le> v1_seq d" by (intro foldr_max_le) auto
  moreover have "v1_rows d \<noteq> []" using assms by (auto simp: wf_v1_def v1_rows_def)
  ultimately show ?thesis
    using assms that by (simp add: migrate_to_v2_def wf_v1_def Let_def)
qed

lemma add_xattrs_frame [simp]:
  "t_inodes (add_xattrs d) = t_inodes d" "t_dentries (add_xattrs d) = t_dentries d"
  "t_data (add_xattrs d) = t_data d" "inode_seq (add_xattrs d) = inode_seq d"
  "t_meta (add_xattrs d) = t_meta d" "xattrs_gc (add_xattrs d)"
  "t_xattrs (add_xattrs d) = Some (case t_xattrs d of None \<Rightarrow> [] | Some t \<Rightarrow> t)"
  by (simp_all add: add_xattrs_def)

lemma migrated_wf:
  assumes wf: "wf_v1 d" and m: "migrate_to_v2 d = Inr d'"
  shows "wf_db (add_xattrs d')"
proof -
  let ?d = "add_xattrs d'"
  note v1 = wf [unfolded wf_v1_def]
  have t: "t_inodes d' = v1_rows d" "t_dentries d' = v1_names d" "t_data d' = v1_data d"
    "t_xattrs d' = v1_xattrs d" "inode_seq d' = v1_seq d"
    using migrate_Inr [OF wf] m by auto
  have at: "inode_at d' i = map_option inode.truncate (map_of (v1_inodes d) i)" for i
    by (simp add: t v1_rows_at)
  have uk: "unique_keys (v1_inodes d)" using v1 by blast
  have "keys_ok ?d"
    using v1 t by (auto simp: keys_ok_def split: option.splits)
  moreover have "names_ok ?d"
    unfolding names_ok_def
  proof clarify
    fix p n i
    assume "((p, n), i) \<in> set (t_dentries ?d)"
    then obtain r where r: "(i, r) \<in> set (v1_inodes d)" "i \<noteq> ROOT_INO" "v1_parent r = p"
      by (auto simp: t in_v1_names)
    then obtain q where "map_of (v1_inodes d) p = Some q" "i_kind q = KIND_DIR" using v1 by fastforce
    with r uk show "inode_at ?d i \<noteq> None \<and> i \<noteq> ROOT_INO \<and> is_dir ?d p"
      by (simp add: at is_dir_def)
  qed
  moreover have "linked_ok ?d"
    unfolding linked_ok_def
  proof clarify
    fix i r
    assume "(i, r) \<in> set (t_inodes ?d)"
    then obtain q where q: "map_of (v1_inodes d) i = Some q" "r = inode.truncate q"
      using uk by (auto simp: t v1_rows_def)
    show "if i = ROOT_INO then i_kind r = KIND_DIR
      else 0 < name_count ?d i \<and> (i_kind r = KIND_DIR \<longrightarrow> name_count ?d i = 1)"
      using v1 q v1_name_count [OF uk q(1)] by (auto simp: name_count_def t)
  qed
  moreover have "root_ok ?d" using v1 by (auto simp: root_ok_def at)
  moreover have "storage_ok ?d"
    unfolding storage_ok_def
  proof clarify
    fix i b x
    assume "((i, b), x) \<in> set (t_data ?d)"
    then have "((i, b), x) \<in> set (v1_data d)" by (simp add: t)
    then obtain r where r: "map_of (v1_inodes d) i = Some r" "b * int BLOCK_SIZE + int (length x) \<le> i_size r"
      and x: "0 \<le> b" "x \<noteq> []" "length x \<le> BLOCK_SIZE"
      using v1 by blast
    have "size_at ?d i = Some (i_size r)" by (simp add: size_at_def at r(1))
    with r(2) x show "0 \<le> b \<and> x \<noteq> [] \<and> length x \<le> BLOCK_SIZE \<and>
        (case size_at ?d i of None \<Rightarrow> False | Some s \<Rightarrow> b * int BLOCK_SIZE + int (length x) \<le> s)"
      by simp
  qed
  moreover have "sizes_ok ?d" "seq_ok ?d"
    using v1 by (auto simp: sizes_ok_def seq_ok_def t v1_rows_def)
  moreover have "inode_at d' i \<noteq> None" if "v1_xattrs d = Some u" and "((i, n), v) \<in> set u" for u i n v
  proof -
    have "case v1_xattrs d of None \<Rightarrow> True
      | Some t \<Rightarrow> unique_keys t \<and> (\<forall>((i, n), v) \<in> set t. map_of (v1_inodes d) i \<noteq> None)"
      using v1 by blast
    then have "\<forall>((i, n), v) \<in> set u. map_of (v1_inodes d) i \<noteq> None" unfolding that(1) by simp
    with that(2) have "map_of (v1_inodes d) i \<noteq> None" by blast
    then show ?thesis unfolding at by (metis option.map_disc_iff)
  qed
  then have "attrs_ok ?d"
    by (force simp: attrs_ok_def t split: option.splits)
  ultimately show ?thesis by (simp add: wf_db_def)
qed

section \<open>The logical check\<close>

lemma check_ok_iff:
  "find_inconsistencies d = (0, 0) \<longleftrightarrow>
     (\<forall>(k, i) \<in> set (t_dentries d). inode_at d i \<noteq> None) \<and>
     (\<forall>(i, r) \<in> set (t_inodes d). i \<noteq> ROOT_INO \<longrightarrow> 0 < name_count d i)"
  by (fastforce simp: find_inconsistencies_def filter_empty_conv)

lemma wf_check_ok: "wf_db d \<Longrightarrow> find_inconsistencies d = (0, 0)"
  unfolding check_ok_iff by (fastforce simp: wf_db_def names_ok_def linked_ok_def split: if_splits)

section \<open>Codecs\<close>

lemma escape_quotes_simps [simp]:
  "escape_quotes [] = []"
  "escape_quotes (c # v) = (if c = QUOTE then [QUOTE, QUOTE] else [c]) @ escape_quotes v"
  by (simp_all add: escape_quotes_def)

lemma sql_literal_escape:
  "rest = [] \<or> hd rest \<noteq> QUOTE \<Longrightarrow> sql_literal (escape_quotes v @ QUOTE # rest) = Some (v, rest)"
  by (induction v) (auto simp: neq_Nil_conv split: list.splits)

interpretation literal: codec "\<lambda>v. escape_quotes v @ [QUOTE]" "\<lambda>s. map_option fst (sql_literal s)" "\<lambda>_. True"
  by unfold_locales (simp add: sql_literal_escape)

lemma locking_parse_as_str: "locking_parse (as_str l) = Some l"
  by (cases l) (simp_all add: as_str_def, code_simp+)

interpretation locking: codec as_str locking_parse "\<lambda>_. True"
  by unfold_locales (rule locking_parse_as_str)

end
