(* ===== verification/Container_Props.thy ===== *)
theory Container_Props
  imports Container Fs_Machine
begin

text \<open>
  What holds of opening, migrating, creating and checking a container, on top of the
  definitions of \<open>Container\<close>: which bodies an open can leave behind whatever fails, the tree
  they show, and the answers when nothing fails.
\<close>

section \<open>The bodies an open can leave behind\<close>

definition opened :: "body \<Rightarrow> body \<Rightarrow> bool" where
  "opened b b' \<longleftrightarrow> b' = b \<or>
     (\<exists>d d'. b = Format1 d \<and> migrate_to_v2 d = Inr d' \<and> b' \<in> {Format2 d', Format2 (add_xattrs d')}) \<or>
     (\<exists>d. b = Format2 d \<and> b' = Format2 (add_xattrs d))"

lemma add_xattrs_idem [simp]: "add_xattrs (add_xattrs d) = add_xattrs d"
  by (simp add: add_xattrs_def)

definition keeps :: "(session \<Rightarrow> bool) \<Rightarrow> (session, 'e, 'a) act \<Rightarrow> bool" where
  "keeps P m \<longleftrightarrow> (\<forall>s. P s \<longrightarrow> P (snd (m s)))"

named_theorems keeps_intros \<open>actions that keep a predicate of the session\<close>

lemma keepsD: "keeps P m \<Longrightarrow> m s = (r, s') \<Longrightarrow> P s \<Longrightarrow> P s'"
  unfolding keeps_def by (metis snd_conv)

lemma keeps_ret [keeps_intros]: "keeps P (ret a)"
  by (simp add: keeps_def ret_def)

lemma keeps_throw [keeps_intros]: "keeps P (throw e)"
  by (simp add: keeps_def throw_def)

lemma keeps_bind [keeps_intros]: "keeps P m \<Longrightarrow> (\<And>a. keeps P (k a)) \<Longrightarrow> keeps P (bind m k)"
  unfolding keeps_def bind_def by (auto split: prod.splits sum.splits)

lemma keeps_map_err [keeps_intros]: "keeps P m \<Longrightarrow> keeps P (map_err f m)"
  unfolding keeps_def map_err_def by (auto split: prod.splits sum.splits)

lemma keeps_attempt [keeps_intros]: "keeps P m \<Longrightarrow> keeps P (attempt m)"
  unfolding keeps_def attempt_def by (auto split: prod.splits)

lemma keeps_if [keeps_intros]: "keeps P m \<Longrightarrow> keeps P n \<Longrightarrow> keeps P (if b then m else n)"
  by simp

text \<open>Predicates of the file only.\<close>

lemma keeps_pragma [keeps_intros]: "keeps (\<lambda>s. Q (box s)) pragma"
  by (simp add: keeps_def pragma_def)

lemma keeps_on_box:
  "(\<And>c a b. Q c \<Longrightarrow> f (c_body c) = Inr (a, b) \<Longrightarrow> Q (c\<lparr>c_body := b\<rparr>)) \<Longrightarrow> keeps (\<lambda>s. Q (box s)) (on_box f)"
  by (auto simp: keeps_def on_box_def Let_def split: option.splits sum.splits)

lemma keeps_select [keeps_intros]: "keeps (\<lambda>s. Q (box s)) (on_box (select_meta k))"
  by (rule keeps_on_box) (auto simp: select_meta_def split: option.splits)

definition opens_from :: "container \<Rightarrow> container \<Rightarrow> bool" where
  "opens_from c0 c \<longleftrightarrow> c_key c = c_key c0 \<and> c_held c = c_held c0 \<and> opened (c_body c0) (c_body c)"

lemma opens_from_refl [simp]: "opens_from c c"
  by (simp add: opens_from_def opened_def)

lemma keeps_migration [keeps_intros]: "keeps (\<lambda>s. opens_from c0 (box s)) (on_box migration)"
  by (rule keeps_on_box)
    (auto 0 3 simp: opens_from_def opened_def migration_def split: body.splits sum.splits dest: sym)

lemma keeps_add_xattrs [keeps_intros]:
  "keeps (\<lambda>s. opens_from c0 (box s)) (on_box (on_format2 (\<lambda>d. Inr ((), add_xattrs d))))"
  by (rule keeps_on_box)
    (auto 0 3 simp: opens_from_def opened_def on_format2_def split: body.splits dest: sym)

lemma keeps_open: "keeps (\<lambda>s. opens_from c0 (box s)) (open_db_with ro excl)"
  unfolding open_db_with_def Let_def
  by (intro keeps_intros; (intro keeps_intros)?; simp split: sum.split sql_error.split; intro allI impI conjI keeps_intros)

lemma keeps_open_ro: "keeps (\<lambda>s. Q (box s)) (open_db_with True excl)"
  unfolding open_db_with_def Let_def
  by (intro keeps_intros; (intro keeps_intros)?; simp split: sum.split sql_error.split; intro allI impI conjI keeps_intros)

lemma open_container_file:
  assumes "open_container ro pw faults (Some c) = (r, disk)"
  obtains b where "disk = Some (c\<lparr>c_body := b\<rparr>)" "opened (c_body c) b" "ro \<Longrightarrow> b = c_body c"
proof -
  let ?s = "\<lparr>box = c, given_key = pw, stmt = 0, stmt_fault = faults\<rparr>"
  obtain s' where run: "open_db_with ro False ?s = (r, s')" and f: "disk = Some (box s')"
    using assms by (cases "open_db_with ro False ?s") (auto simp: open_container_def open_db_def)
  have "opens_from c (box s')" by (rule keepsD [OF keeps_open run]) simp
  then have b: "box s' = c\<lparr>c_body := c_body (box s')\<rparr>" "opened (c_body c) (c_body (box s'))"
    by (simp_all add: opens_from_def)
  have "c_body (box s') = c_body c" if ro
  proof -
    have "open_db_with True False ?s = (r, s')" using run that by simp
    from keepsD [OF keeps_open_ro [of "\<lambda>x. x = c"] this] show ?thesis by simp
  qed
  with f b that [of "c_body (box s')"] show ?thesis by simp
qed

section \<open>The tree a container shows\<close>

text \<open>
  The same reading of both formats: the inodes, the names, the blocks and the attributes.
\<close>

type_synonym tree =
  "(u64 \<Rightarrow> inode option) \<times> (u64 \<times> string \<Rightarrow> u64 option) \<times> (u64 \<times> i64 \<Rightarrow> bytes option) \<times>
   (u64 \<times> string \<Rightarrow> bytes option)"

definition attrs_of :: "((u64 \<times> string) \<times> bytes) list option \<Rightarrow> u64 \<times> string \<Rightarrow> bytes option" where
  "attrs_of t = (case t of None \<Rightarrow> (\<lambda>_. None) | Some t \<Rightarrow> map_of t)"

definition tree_of :: "body \<Rightarrow> tree" where
  "tree_of b = (case b of
     Format1 d \<Rightarrow> ((\<lambda>i. map_option inode.truncate (map_of (v1_inodes d) i)), map_of (v1_names d),
                   map_of (v1_data d), attrs_of (v1_xattrs d))
   | Format2 d \<Rightarrow> (inode_at d, map_of (t_dentries d), map_of (t_data d), attrs_of (t_xattrs d))
   | OtherFormat m \<Rightarrow> ((\<lambda>_. None), (\<lambda>_. None), (\<lambda>_. None), (\<lambda>_. None)))"

definition body_ok :: "body \<Rightarrow> bool" where
  "body_ok b = (case b of
     Format1 d \<Rightarrow> map_of (v1_meta d) ''schema_version'' = Some ''1'' \<and> wf_v1 d
   | Format2 d \<Rightarrow> map_of (t_meta d) ''schema_version'' = Some ''2'' \<and> wf_db (add_xattrs d)
   | OtherFormat m \<Rightarrow> map_of m ''schema_version'' \<notin> {Some ''1'', Some ''2''})"

lemma tree_add_xattrs [simp]: "tree_of (Format2 (add_xattrs d)) = tree_of (Format2 d)"
  by (auto simp: tree_of_def attrs_of_def split: option.splits)

lemma opened_ok:
  assumes "opened b b'" and "body_ok b"
  shows "body_ok b' \<and> tree_of b' = tree_of b"
proof -
  consider "b' = b" | d where "b = Format2 d" "b' = Format2 (add_xattrs d)"
    | d d' where "b = Format1 d" "migrate_to_v2 d = Inr d'" "b' \<in> {Format2 d', Format2 (add_xattrs d')}"
    using assms(1) by (auto simp: opened_def)
  then show ?thesis
  proof cases
    case 3
    with assms(2) have wf: "wf_v1 d" and v: "map_of (v1_meta d) ''schema_version'' = Some ''1''"
      by (simp_all add: body_ok_def)
    have t: "t_inodes d' = v1_rows d" "t_dentries d' = v1_names d" "t_data d' = v1_data d"
      "t_xattrs d' = v1_xattrs d" "t_meta d' = update_where (\<lambda>k. k = ''schema_version'') (\<lambda>_. ''2'') (v1_meta d)"
      using migrate_Inr [OF wf] 3(2) by auto
    have "tree_of (Format2 d') = tree_of (Format1 d)"
      by (simp add: tree_of_def t v1_rows_at fun_eq_iff)
    moreover have "map_of (t_meta d') ''schema_version'' = Some ''2''" by (simp add: t v)
    ultimately show ?thesis
      using 3(1,3) migrated_wf [OF wf 3(2)] by (auto simp: body_ok_def)
  qed (use assms(2) in \<open>auto simp: body_ok_def\<close>)
qed

text \<open>
  C21: opening never damages a container. Whatever statement fails on the way, and whether the
  container is migrated, given its attribute table or left alone, it comes out keyed as
  before, well-formed for its format, and shows the same tree: the same inodes under the
  same names with the same blocks and attributes. A read-only open changes nothing.
\<close>

theorem open_keeps_tree:
  assumes "body_ok (c_body c)" and "open_container ro pw faults (Some c) = (r, disk)"
  shows "\<exists>c'. disk = Some c' \<and> c_key c' = c_key c \<and> body_ok (c_body c') \<and>
     tree_of (c_body c') = tree_of (c_body c) \<and> (ro \<longrightarrow> c' = c)"
proof -
  obtain b where b: "disk = Some (c\<lparr>c_body := b\<rparr>)" "opened (c_body c) b" "ro \<Longrightarrow> b = c_body c"
    using open_container_file [OF assms(2)] by blast
  with opened_ok [OF b(2) assms(1)] show ?thesis by auto
qed

text \<open>A format-1 container like any that has seen its newest file (inode 12) deleted.\<close>

definition old_inode :: "u64 \<Rightarrow> string \<Rightarrow> i64 \<Rightarrow> i64 \<Rightarrow> i64 \<Rightarrow> inode_v1" where
  "old_inode p n kind mode sz =
     \<lparr>i_kind = kind, i_mode = mode, i_uid = 0, i_gid = 0, i_size = sz, i_atime = 0, i_mtime = 0,
      i_ctime = 0, i_target = None, v1_parent = p, v1_name = n\<rparr>"

definition old_db :: db_v1 where
  "old_db =
     \<lparr>v1_meta = [(''schema_version'', ''1''), (''block_size'', ''131072''), (''max_size'', ''0'')],
      v1_inodes = [(1, old_inode 0 [] KIND_DIR 0x41C0 0), (2, old_inode 1 ''sub'' KIND_DIR 0x41ED 0),
        (7, old_inode 1 ''a.txt'' KIND_FILE 0x81A4 5), (9, old_inode 2 ''b.txt'' KIND_FILE 0x81A4 3)],
      v1_data = [((7, 0), [104, 101, 108, 108, 111])], v1_xattrs = None, v1_gc = False, v1_seq = 12\<rparr>"

definition old_container :: container where
  "old_container = \<lparr>c_key = ''pw'', c_body = Format1 old_db, c_held = False\<rparr>"

lemma old_names: "v1_names old_db = [((1, ''sub''), 2), ((1, ''a.txt''), 7), ((2, ''b.txt''), 9)]"
  by (simp add: v1_names_def old_db_def old_inode_def)

lemma old_wf: "wf_v1 old_db"
  unfolding wf_v1_def old_names by (simp add: old_db_def old_inode_def BLOCK_SIZE_def)

lemma old_body_ok: "body_ok (c_body old_container)"
  using old_wf by (simp add: old_container_def body_ok_def) (simp add: old_db_def)

theorem open_keeps_tree_witness:
  "\<exists>c'. snd (open_container False ''pw'' (\<lambda>i. if i = 6 then Some DiskFull else None) (Some old_container)) = Some c' \<and>
     tree_of (c_body c') = tree_of (c_body old_container)"
proof -
  obtain r disk where
    "open_container False ''pw'' (\<lambda>i. if i = 6 then Some DiskFull else None) (Some old_container) = (r, disk)"
    by (metis prod.collapse)
  with open_keeps_tree [OF old_body_ok this] show ?thesis by auto
qed

section \<open>When nothing fails\<close>

abbreviation no_faults :: "nat \<Rightarrow> sql_error option" where
  "no_faults \<equiv> \<lambda>_. None"

lemma pragma_ok: "stmt_fault s = no_faults \<Longrightarrow> pragma s = (Inr (), s\<lparr>stmt := Suc (stmt s)\<rparr>)"
  by (simp add: pragma_def)

lemma on_box_ok:
  "stmt_fault s = no_faults \<Longrightarrow> on_box f s =
     (if c_held (box s) then (Inl DatabaseBusy, s\<lparr>stmt := Suc (stmt s)\<rparr>)
      else if c_key (box s) \<noteq> given_key s then (Inl NotADatabase, s\<lparr>stmt := Suc (stmt s)\<rparr>)
      else case f (c_body (box s)) of
        Inl e \<Rightarrow> (Inl e, s\<lparr>stmt := Suc (stmt s)\<rparr>)
      | Inr (a, b) \<Rightarrow> (Inr a, s\<lparr>stmt := Suc (stmt s), box := box s\<lparr>c_body := b\<rparr>\<rparr>))"
  by (simp add: on_box_def Let_def split: sum.split)

lemmas open_run = open_container_def open_db_def open_db_with_def bind_def map_err_def attempt_def
  ret_def throw_def pragma_ok on_box_ok select_meta_def on_format2_def migration_def

text \<open>The body a successful open leaves behind.\<close>

definition upgraded :: "body \<Rightarrow> body" where
  "upgraded b = (case b of
     Format1 d \<Rightarrow> (case migrate_to_v2 d of Inl e \<Rightarrow> b | Inr d' \<Rightarrow> Format2 (add_xattrs d'))
   | Format2 d \<Rightarrow> Format2 (add_xattrs d)
   | OtherFormat m \<Rightarrow> b)"

lemma open_ok:
  assumes "body_ok b"
  shows "open_container ro pw no_faults (Some \<lparr>c_key = key, c_body = b, c_held = held\<rparr>) =
     (let c = \<lparr>c_key = key, c_body = b, c_held = held\<rparr> in
      if held then (Inl Mounted, Some c)
      else if pw \<noteq> key then (Inl WrongPassword, Some c)
      else case b of
        OtherFormat m \<Rightarrow>
          (case map_of m ''schema_version'' of
             None \<Rightarrow> (Inl WrongPassword, Some c) | Some v \<Rightarrow> (Inl (OtherVersion v), Some c))
      | _ \<Rightarrow> (Inr (), Some (c\<lparr>c_body := (if ro then b else upgraded b)\<rparr>)))"
proof (cases b)
  case (Format1 d)
  obtain d' where d': "migrate_to_v2 d = Inr d'"
    using assms Format1 by (auto simp: body_ok_def elim: migrate_Inr)
  have "map_of (v1_meta d) ''schema_version'' = Some ''1''" using assms Format1 by (simp add: body_ok_def)
  then show ?thesis by (simp add: Format1 open_run meta_of_def upgraded_def d')
next
  case (Format2 d)
  then have "map_of (t_meta d) ''schema_version'' = Some ''2''" using assms by (simp add: body_ok_def)
  then show ?thesis by (simp add: Format2 open_run meta_of_def upgraded_def)
next
  case (OtherFormat m)
  then show ?thesis
    using assms by (simp add: open_run meta_of_def body_ok_def Let_def split: option.split)
qed



lemma foldr_max_ge: "z \<le> foldr (\<lambda>(k, r). max (rowid k)) t z"
  by (induction t) (auto simp: le_max_iff_disj)

text \<open>
  C23: inode numbers survive the migration unused. Whatever number a format-1 container ever
  gave out (its sequence stays above the numbers of deleted files), the first number the
  migrated container gives out is the next one: no number comes back.
\<close>

theorem migration_keeps_numbers_fresh:
  assumes "wf_v1 d" and "migrate_to_v2 d = Inr d'"
  shows "next_rowid (add_xattrs d') = Suc (v1_seq d)"
proof -
  obtain t: "t_inodes d' = v1_rows d" "inode_seq d' = v1_seq d" using migrate_Inr [OF assms(1)] assms(2) by auto
  have "foldr (\<lambda>(k, r). max (rowid k)) (v1_rows d) (v1_seq d) = v1_seq d"
  proof (rule antisym)
    show "foldr (\<lambda>(k, r). max (rowid k)) (v1_rows d) (v1_seq d) \<le> v1_seq d"
    proof (rule foldr_max_le)
      show "\<forall>(k, r) \<in> set (v1_rows d). rowid k \<le> v1_seq d"
      proof clarify
        fix k r
        assume "(k, r) \<in> set (v1_rows d)"
        then have "unat k \<le> v1_seq d" "v1_seq d < 2 ^ 63"
          using assms(1) by (auto simp: wf_v1_def v1_rows_def)
        then show "rowid k \<le> v1_seq d" using rowid_small [of k] by simp
      qed
    qed simp
    show "v1_seq d \<le> foldr (\<lambda>(k, r). max (rowid k)) (v1_rows d) (v1_seq d)"
      by (rule foldr_max_ge)
  qed
  then show ?thesis by (simp add: next_rowid_def t)
qed

lemma old_migrated:
  "\<exists>d'. migrate_to_v2 old_db = Inr d'"
  using migrate_Inr [OF old_wf] by metis

theorem migration_keeps_numbers_fresh_witness:
  "\<exists>d'. migrate_to_v2 old_db = Inr d' \<and> next_rowid (add_xattrs d') = 13"
proof -
  obtain d' where "migrate_to_v2 old_db = Inr d'" using old_migrated by blast
  moreover from migration_keeps_numbers_fresh [OF old_wf this] have "next_rowid (add_xattrs d') = 13"
    by (simp add: old_db_def)
  ultimately show ?thesis by blast
qed

section \<open>Creation\<close>

lemma fresh_wf: "wf_db (fresh_db uid gid now created msize)"
proof -
  let ?d = "fresh_db uid gid now created msize"
  have "keys_ok ?d" "names_ok ?d" "linked_ok ?d" "root_ok ?d" "storage_ok ?d" "sizes_ok ?d" "attrs_ok ?d" "seq_ok ?d"
    by (simp_all add: keys_ok_def names_ok_def linked_ok_def root_ok_def storage_ok_def sizes_ok_def
        attrs_ok_def seq_ok_def fresh_db_def root_inode_def)
  then show ?thesis by (simp add: wf_db_def)
qed

lemma created_opens:
  assumes "create_container faults uid gid now created pw msize None = Inr c"
  shows "open_container ro pw' no_faults (Some c) =
      (if pw' = pw then (Inr (), Some c) else (Inl WrongPassword, Some c)) \<and>
    read_max_size (c_body c) = msize \<and>
    (\<exists>d. c_body c = Format2 d \<and> wf_db d \<and> t_inodes d = [(ROOT_INO, root_inode uid gid now)] \<and>
       t_dentries d = [] \<and> t_data d = [])"
proof -
  let ?d = "fresh_db uid gid now created msize"
  have c: "c = \<lparr>c_key = pw, c_body = Format2 ?d, c_held = False\<rparr>"
    using assms by (auto simp: create_container_def split: option.splits)
  have add: "add_xattrs ?d = ?d" by (simp add: add_xattrs_def fresh_db_def)
  have ok: "body_ok (Format2 ?d)"
    using fresh_wf by (simp add: body_ok_def add) (simp add: fresh_db_def)
  have "read_max_size (Format2 ?d) = msize"
    using decimal.dec_enc [of msize] by (simp add: read_max_size_def meta_of_def fresh_db_def)
  then show ?thesis
    using fresh_wf [of uid gid now created msize]
    by (simp add: c open_ok [OF ok] upgraded_def add) (simp add: fresh_db_def)
qed

text \<open>
  C24: a container that was created opens with the password it was created with and with no
  other. What it holds is the root directory of the creating user, empty and private, and
  the size ceiling is read back as it was given.
\<close>

theorem create_then_open:
  assumes "create_container faults uid gid now created pw msize None = Inr c"
  shows "open_container ro pw' no_faults (Some c) =
      (if pw' = pw then (Inr (), Some c) else (Inl WrongPassword, Some c)) \<and>
    read_max_size (c_body c) = msize \<and>
    (\<exists>d. c_body c = Format2 d \<and> wf_db d \<and> t_inodes d = [(ROOT_INO, root_inode uid gid now)] \<and>
       t_dentries d = [] \<and> t_data d = [])"
  using assms by (rule created_opens)

lemma find_never: "find (\<lambda>k. False) xs = None"
  by (induction xs) simp_all

theorem create_then_open_witness:
  "\<exists>c. create_container no_faults 1000 1000 0 ''0'' ''pw'' 4096 None = Inr c \<and>
     fst (open_container False ''pw'' no_faults (Some c)) = Inr () \<and> read_max_size (c_body c) = 4096"
proof -
  obtain c where "create_container no_faults 1000 1000 0 ''0'' ''pw'' 4096 None = Inr c"
    by (simp add: create_container_def find_never)
  with create_then_open [OF this, where ro = False and pw' = "''pw''"] show ?thesis by auto
qed

section \<open>Quoting the key\<close>

text \<open>
  C25: the password cannot leave its string literal. The statement that keys a connection is
  the pragma's name followed by one SQL string literal whose value is exactly the password,
  quotes and all, and nothing comes after it.
\<close>

theorem key_is_one_literal:
  "\<exists>lit. pragma_key_sql p pw = ''PRAGMA '' @ p @ '' = '' @ QUOTE # lit \<and> sql_literal lit = Some (pw, [])"
  using sql_literal_escape [of "[]" pw] by (simp add: pragma_key_sql_def)

section \<open>The logical check\<close>

text \<open>
  The logical check of \<open>coffer check\<close> stays quiet about every container the mount can
  have written: from a well-formed one, after any sequence of requests, whatever statements
  failed, no name dangles and no inode is unreachable.
\<close>

theorem runs_pass_the_check:
  assumes "wf_db (tables self)" and "admissible kernel_ok (step h) qs self" and "k \<le> length qs"
  shows "find_inconsistencies (tables (run h (take k qs) self)) = (0, 0)"
proof (rule wf_check_ok)
  show "wf_db (tables (run h (take k qs) self))"
    unfolding run_def using assms by (rule wf_machine.always_inv)
qed

theorem runs_pass_the_check_witness:
  "find_inconsistencies (tables (run demo_host [Mkdir 1 ''new'' 0x1ED] demo_fs)) = (0, 0)"
  using runs_pass_the_check [of demo_fs demo_host "[Mkdir 1 ''new'' 0x1ED]" 1]
  by (simp add: demo_is_dir)

end
