(* ===== verification/Cli_Input.thy ===== *)
theory Cli_Input
  imports Rust_Str
begin

text \<open>
  What the command line and the registry hold as text (src/src/main.rs): sizes and durations
  with a unit, over Rust's \<open>str::parse::<f64>\<close>, and the sizes that are printed. A finite
  \<open>f64\<close> is the rational it denotes.
\<close>

section \<open>Errors\<close>

datatype input_error = NotANumber | NotNonNegative

text \<open>A result or an error, or a panic, which the release profile turns into an abort.\<close>

datatype 'a outcome = Ok 'a | Err input_error | Abort

section \<open>Parsing an f64\<close>

datatype f64_any = Finite f64 | Infinite bool | NotANum

text \<open>Rounding overflows to an infinity; \<open>Infinite True\<close> is the negative one.\<close>

definition to_f64 :: "rat \<Rightarrow> f64_any" where
  "to_f64 x =
     (let r = f64_round x in
      if 2 ^ 1024 \<le> r then Infinite False else if r \<le> - (2 ^ 1024) then Infinite True else Finite r)"

definition f64_mul :: "f64 \<Rightarrow> f64 \<Rightarrow> f64_any" where
  "f64_mul a b = to_f64 (a * b)"

definition decimal_value :: "nat \<Rightarrow> int \<Rightarrow> rat" where
  "decimal_value m e = (if 0 \<le> e then of_nat m * 10 ^ nat e else of_nat m / 10 ^ nat (- e))"

definition digits_of :: "string \<Rightarrow> string \<times> string" where
  "digits_of s = (takeWhile ascii_digit s, dropWhile ascii_digit s)"

text \<open>The sign in front of a number: whether it is negative, and what follows.\<close>

definition sign_of :: "string \<Rightarrow> bool \<times> string" where
  "sign_of s = (case s of
     [] \<Rightarrow> (False, [])
   | c # r \<Rightarrow> if c = CHR ''-'' then (True, r) else if c = CHR ''+'' then (False, r) else (False, s))"

definition parse_exponent :: "string \<Rightarrow> int option" where
  "parse_exponent s = (case s of
     [] \<Rightarrow> Some 0
   | c # r \<Rightarrow>
       (case sign_of r of (neg, t) \<Rightarrow>
          if c \<in> {CHR ''e'', CHR ''E''} \<and> t \<noteq> [] \<and> list_all ascii_digit t
          then Some (if neg then - int (digits_val t) else int (digits_val t)) else None))"

definition parse_number :: "string \<Rightarrow> rat option" where
  "parse_number s =
     (case digits_of s of (i, r) \<Rightarrow>
      case (if prefix ''.'' r then digits_of (tl r) else ([], r)) of (f, r2) \<Rightarrow>
      if i @ f = [] then None
      else map_option (\<lambda>e. decimal_value (digits_val (i @ f)) (e - int (length f))) (parse_exponent r2))"

definition parse_f64 :: "string \<Rightarrow> f64_any option" where
  "parse_f64 s =
     (case sign_of s of (neg, t) \<Rightarrow>
      let low = to_ascii_lowercase t in
      if low = ''inf'' \<or> low = ''infinity'' then Some (Infinite neg)
      else if low = ''nan'' then Some NotANum
      else map_option (\<lambda>x. to_f64 (if neg then - x else x)) (parse_number t))"

section \<open>Sizes and durations\<close>

text \<open>
  \<open>to_uppercase\<close> of a text with a character beyond ASCII is a text no number can be read from
  (the few that become ASCII letters become I, S, F, L or J), so only ASCII is mapped here.
\<close>

definition ascii_only :: "string \<Rightarrow> bool" where
  "ascii_only s \<longleftrightarrow> list_all (\<lambda>c. code c < 128) s"

definition size_unit :: "string \<Rightarrow> string \<times> nat" where
  "size_unit s =
     (if s \<noteq> [] \<and> last s = CHR ''K'' then (butlast s, 1024)
      else if s \<noteq> [] \<and> last s = CHR ''M'' then (butlast s, 1024 ^ 2)
      else if s \<noteq> [] \<and> last s = CHR ''G'' then (butlast s, 1024 ^ 3)
      else if s \<noteq> [] \<and> last s = CHR ''T'' then (butlast s, 1024 ^ 4)
      else (s, 1))"

definition parse_size :: "string \<Rightarrow> u64 outcome" where
  "parse_size text =
     (let s = map ascii_uppercase (trim text) in
      if \<not> ascii_only s then Err NotANumber
      else case size_unit s of (num, mult) \<Rightarrow>
        (case parse_f64 num of
           None \<Rightarrow> Err NotANumber
         | Some (Finite v) \<Rightarrow>
             if v < 0 then Err NotNonNegative
             else Ok (case f64_mul v (of_nat mult) of
                        Finite x \<Rightarrow> f64_as_u64 x
                      | _ \<Rightarrow> 2 ^ 64 - 1)
         | Some _ \<Rightarrow> Err NotNonNegative))"

definition duration_unit :: "string \<Rightarrow> string \<times> nat" where
  "duration_unit s =
     (if s \<noteq> [] \<and> last s = CHR ''s'' then (butlast s, 1)
      else if s \<noteq> [] \<and> last s = CHR ''m'' then (butlast s, 60)
      else if s \<noteq> [] \<and> last s = CHR ''h'' then (butlast s, 3600)
      else if s \<noteq> [] \<and> last s = CHR ''d'' then (butlast s, 86400)
      else (s, 1))"

definition parse_duration :: "string \<Rightarrow> duration outcome" where
  "parse_duration text =
     (case duration_unit (trim text) of (num, mult) \<Rightarrow>
        (case parse_f64 num of
           None \<Rightarrow> Err NotANumber
         | Some (Finite v) \<Rightarrow>
             (case f64_mul v (of_nat mult) of
                Finite secs \<Rightarrow>
                  if secs < 0 then Err NotNonNegative
                  else (case from_secs_f64 secs of Some d \<Rightarrow> Ok d | None \<Rightarrow> Abort)
              | _ \<Rightarrow> Err NotNonNegative)
         | Some _ \<Rightarrow> Err NotNonNegative))"

section \<open>Printing a size\<close>

text \<open>\<open>{:.1}\<close>: one decimal, the exact value rounded half to even.\<close>

definition one_decimal :: "f64 \<Rightarrow> string" where
  "one_decimal x =
     (let n = nat (round_half_even (x * 10)) in show_nat (n div 10) @ ''.'' @ show_nat (n mod 10))"

definition size_units :: "string list" where
  "size_units = [''B'', ''KiB'', ''MiB'', ''GiB'', ''TiB'']"

function scale_size :: "f64 \<Rightarrow> nat \<Rightarrow> f64 \<times> nat" where
  "scale_size v u =
     (if 1024 \<le> v \<and> u < length size_units - 1 then scale_size (f64_div v 1024) (Suc u) else (v, u))"
  by pat_completeness auto

termination
  by (relation "measure (\<lambda>(v, u). length size_units - u)") auto

declare scale_size.simps [simp del]

definition human_size :: "u64 \<Rightarrow> string" where
  "human_size n =
     (case scale_size (f64_of_nat (unat n)) 0 of (v, u) \<Rightarrow>
        if u = 0 then show_nat (unat n) @ '' B'' else one_decimal v @ '' '' @ size_units ! u)"

section \<open>Exact values\<close>

lemma floor_log2_bounds: "0 < n \<Longrightarrow> 2 ^ floor_log2 n \<le> n \<and> n < 2 ^ Suc (floor_log2 n)"
proof (induction n rule: floor_log2.induct)
  case (1 n)
  show ?case
  proof (cases "n < 2")
    case True
    with 1(2) show ?thesis by (subst (1 2) floor_log2.simps) simp
  next
    case False
    with 1(1) have "2 ^ floor_log2 (n div 2) \<le> n div 2 \<and> n div 2 < 2 ^ Suc (floor_log2 (n div 2))" by simp
    then have "2 * 2 ^ floor_log2 (n div 2) \<le> n \<and> n < 2 * 2 ^ Suc (floor_log2 (n div 2))" by linarith
    with False show ?thesis by (subst (1 2) floor_log2.simps) simp
  qed
qed

lemma round_half_even_int [simp]: "round_half_even (of_int k) = k"
  by (simp add: round_half_even_def Let_def)

lemma binade_nat:
  assumes "0 < m"
  shows "binade (of_nat m) = int (floor_log2 m)"
proof -
  have "quotient_of (of_nat m) = (int m, 1)" using quotient_of_int [of "int m"] by simp
  moreover have "floor_log2 1 = 0" by (simp add: floor_log2.simps)
  moreover have "(2 :: rat) ^ floor_log2 m \<le> of_nat m"
    using floor_log2_bounds [OF assms] by (metis of_nat_le_iff of_nat_numeral of_nat_power)
  ultimately show ?thesis by (simp add: binade_def pow2_def)
qed

text \<open>A whole number with at most 53 significant bits is an \<open>f64\<close>.\<close>

lemma f64_round_exact:
  assumes "n < 2 ^ 53"
  shows "f64_round (of_nat (n * 2 ^ j)) = of_nat (n * 2 ^ j)"
proof (cases "n = 0")
  case True
  then show ?thesis by (simp add: f64_round_def)
next
  case False
  define m where "m = n * 2 ^ j"
  define k where "k = floor_log2 m"
  have m: "0 < m" using False by (simp add: m_def)
  have bounds: "2 ^ k \<le> m" "m < 2 ^ Suc k" using floor_log2_bounds [OF m] by (simp_all add: k_def)
  have "m < 2 ^ (53 + j)" using assms by (simp add: m_def power_add)
  with bounds(1) have "(2 :: nat) ^ k < 2 ^ (53 + j)" by linarith
  then have kj: "k < 53 + j" by simp
  have "\<exists>q :: int. of_nat m / pow2 (int k - 52) = (of_int q :: rat)"
  proof (cases "k \<le> 52")
    case True
    then have e: "pow2 (int k - 52) = 1 / 2 ^ (52 - k)" by (auto simp: pow2_def nat_diff_distrib le_less)
    show ?thesis
      by (rule exI [of _ "int m * 2 ^ (52 - k)"]) (simp add: e)
  next
    case gt: False
    then have e: "pow2 (int k - 52) = 2 ^ (k - 52)" by (simp add: pow2_def nat_diff_distrib)
    from kj gt have "j = (k - 52) + (52 + j - k)" by simp
    then have "2 ^ j = (2 :: nat) ^ (k - 52) * 2 ^ (52 + j - k)" by (metis power_add)
    then have "m = n * 2 ^ (52 + j - k) * 2 ^ (k - 52)" by (simp add: m_def)
    then have "(of_nat m :: rat) = of_nat (n * 2 ^ (52 + j - k)) * 2 ^ (k - 52)" by simp
    then show ?thesis
      by (intro exI [of _ "int (n * 2 ^ (52 + j - k))"]) (simp add: e)
  qed
  then obtain q :: int where q: "of_nat m / pow2 (int k - 52) = (of_int q :: rat)" by blast
  have "f64_round (of_nat m) = of_int (round_half_even (of_nat m / pow2 (int k - 52))) * pow2 (int k - 52)"
    using m by (simp add: f64_round_def binade_nat k_def Let_def)
  also have "\<dots> = of_int q * pow2 (int k - 52)" by (simp add: q)
  also have "\<dots> = of_nat m"
    using q pow2_pos [of "int k - 52"] by (simp add: field_simps)
  finally show ?thesis by (simp add: m_def)
qed

lemma f64_round_nat: "n < 2 ^ 53 \<Longrightarrow> f64_round (of_nat n) = of_nat n"
  using f64_round_exact [of n 0] by simp

lemma to_f64_exact:
  assumes "n < 2 ^ 53" and "j < 100"
  shows "to_f64 (of_nat (n * 2 ^ j)) = Finite (of_nat (n * 2 ^ j))"
proof -
  have "n * 2 ^ j < 2 ^ (53 + j)" using assms(1) by (simp add: power_add)
  also have "\<dots> \<le> (2 :: nat) ^ 1024" using assms(2) by (intro power_increasing) simp_all
  finally have "(of_nat (n * 2 ^ j) :: rat) < of_nat (2 ^ 1024)" by (rule of_nat_less_iff [THEN iffD2])
  then have lt: "(of_nat (n * 2 ^ j) :: rat) < 2 ^ 1024" by (simp only: of_nat_power of_nat_numeral)
  have ge: "- (2 ^ 1024) < (of_nat (n * 2 ^ j) :: rat)"
    by (rule less_le_trans [of _ 0]) simp_all
  show ?thesis
    unfolding to_f64_def f64_round_exact [OF assms(1)] Let_def
      if_not_P [OF not_le [THEN iffD2, OF lt]] if_not_P [OF not_le [THEN iffD2, OF ge]] by (rule refl)
qed

section \<open>Numbers as they are typed\<close>

lemma digit_facts:
  "ascii_digit c \<Longrightarrow> c \<notin> set ws_heads \<and> c \<noteq> CHR ''+'' \<and> c \<noteq> CHR ''-'' \<and> ascii_uppercase c = c \<and>
     ascii_lowercase c = c \<and> code c < 128 \<and> c \<noteq> CHR ''i'' \<and> c \<noteq> CHR ''n''"
proof -
  assume d: "ascii_digit c"
  have "\<forall>c \<in> set (ws_heads @ ''+-in''). \<not> ascii_digit c" by code_simp
  with d show ?thesis
    by (auto simp: ascii_uppercase_def ascii_lowercase_def ascii_digit_def)
qed

lemma parse_f64_show: "n < 2 ^ 53 \<Longrightarrow> parse_f64 (show_nat n) = Some (Finite (of_nat n))"
proof -
  assume n: "n < 2 ^ 53"
  obtain c s where cs: "show_nat n = c # s" "ascii_digit c" using show_nat_hd by blast
  note facts = show_nat_digits [of n]
  have sign: "sign_of (show_nat n) = (False, show_nat n)"
    using cs digit_facts [OF cs(2)] by (simp add: sign_of_def)
  have low: "hd (to_ascii_lowercase (show_nat n)) = c"
    using cs digit_facts [OF cs(2)] by (simp add: to_ascii_lowercase_def)
  then have words: "to_ascii_lowercase (show_nat n) \<notin> {''inf'', ''infinity'', ''nan''}"
    using digit_facts [OF cs(2)] by auto
  have "digits_of (show_nat n) = (show_nat n, [])"
    using facts by (simp add: digits_of_def list_all_iff)
  then have "parse_number (show_nat n) = Some (of_nat n)"
    using facts by (simp add: parse_number_def parse_exponent_def decimal_value_def)
  with sign words to_f64_exact [OF n, of 0] show ?thesis
    by (simp add: parse_f64_def Let_def)
qed

lemma show_unit:
  assumes "c \<notin> set ws_lasts"
  shows "trim (show_nat n @ [c]) = show_nat n @ [c]"
proof (rule trim_id)
  obtain d s where "show_nat n = d # s" "ascii_digit d" using show_nat_hd by blast
  with digit_facts [of d] assms
  show "show_nat n @ [c] = [] \<or> hd (show_nat n @ [c]) \<notin> set ws_heads \<and> last (show_nat n @ [c]) \<notin> set ws_lasts"
    by simp
qed

lemma upper_show: "map ascii_uppercase (show_nat n) = show_nat n \<and> ascii_only (show_nat n)"
  using show_nat_digits [of n] digit_facts
  by (auto simp: ascii_only_def list_all_iff intro: map_idI)

lemma one_less_53: "n < 2 ^ 53 \<Longrightarrow> n * 1 < (2 :: nat) ^ 53"
  by simp

text \<open>The units a size may carry, as powers of two, and those of a duration, in seconds.\<close>

definition size_shift :: "char \<Rightarrow> nat option" where
  "size_shift c = map_of [(CHR ''K'', 10), (CHR ''M'', 20), (CHR ''G'', 30), (CHR ''T'', 40),
     (CHR ''k'', 10), (CHR ''m'', 20), (CHR ''g'', 30), (CHR ''t'', 40)] c"

definition unit_secs :: "char \<Rightarrow> nat option" where
  "unit_secs c = map_of [(CHR ''s'', 1), (CHR ''m'', 60), (CHR ''h'', 3600), (CHR ''d'', 86400)] c"

lemma size_shift_unit:
  assumes "size_shift c = Some j"
  shows "c \<notin> set ws_lasts" "code c < 128" "code (ascii_uppercase c) < 128" "j < 100"
    "size_unit (s @ [ascii_uppercase c]) = (s, 2 ^ j)"
proof -
  let ?cs = "''KMGTkmgt''"
  have c: "c \<in> set ?cs" using assms by (auto simp: size_shift_def split: if_splits)
  have "\<forall>c \<in> set ?cs. c \<notin> set ws_lasts \<and> code c < 128 \<and> code (ascii_uppercase c) < 128" by code_simp
  with c show "c \<notin> set ws_lasts" "code c < 128" "code (ascii_uppercase c) < 128" by blast+
  show "j < 100" using assms by (auto simp: size_shift_def split: if_splits)
  have "ascii_uppercase CHR ''K'' = CHR ''K'' \<and> ascii_uppercase CHR ''M'' = CHR ''M'' \<and>
      ascii_uppercase CHR ''G'' = CHR ''G'' \<and> ascii_uppercase CHR ''T'' = CHR ''T'' \<and>
      ascii_uppercase CHR ''k'' = CHR ''K'' \<and> ascii_uppercase CHR ''m'' = CHR ''M'' \<and>
      ascii_uppercase CHR ''g'' = CHR ''G'' \<and> ascii_uppercase CHR ''t'' = CHR ''T''"
    by code_simp
  with c assms show "size_unit (s @ [ascii_uppercase c]) = (s, 2 ^ j)"
    by (auto simp: size_unit_def size_shift_def)
qed

lemma not_negative: "\<not> (of_nat n :: rat) < 0"
  by simp

lemma f64_as_u64_nat: "f64_as_u64 (of_nat n) = word_of_nat (min n (2 ^ 64 - 1))"
proof -
  have "\<lfloor>of_nat n :: rat\<rfloor> = int n" by simp
  then have "max 0 (min (2 ^ 64 - 1) \<lfloor>of_nat n :: rat\<rfloor>) = int (min n (2 ^ 64 - 1))"
    by (simp add: min_def)
  then show ?thesis unfolding f64_as_u64_def by (metis of_int_of_nat_eq)
qed

text \<open>
  A whole number with a unit is read exactly. For every number below \<open>2 ^ 53\<close> and every unit
  K, M, G and T in either case, \<open>parse_size\<close> of its decimal text followed by the unit is the
  number times the unit, clamped to the largest \<open>u64\<close>.
\<close>

theorem parse_size_exact:
  assumes "n < 2 ^ 53" and "size_shift c = Some j"
  shows "parse_size (show_nat n @ [c]) = Ok (word_of_nat (min (n * 2 ^ j) (2 ^ 64 - 1)))"
proof -
  note u = size_shift_unit [OF assms(2)]
  have t: "map ascii_uppercase (trim (show_nat n @ [c])) = show_nat n @ [ascii_uppercase c]"
    using show_unit [OF u(1), of n] upper_show [of n] by simp
  have a: "ascii_only (show_nat n @ [ascii_uppercase c])"
    using upper_show [of n] u(3) by (simp add: ascii_only_def)
  have m: "f64_mul (of_nat n) (of_nat (2 ^ j)) = Finite (of_nat (n * 2 ^ j))"
    using to_f64_exact [OF assms(1) u(4)] by (simp only: f64_mul_def of_nat_mult)
  show ?thesis
    unfolding parse_size_def t Let_def u(5) prod.case parse_f64_show [OF assms(1)] option.case
      f64_any.case if_not_P [OF not_negative] m f64_as_u64_nat
    using a by (simp only: not_True_eq_False if_False)
qed

theorem parse_size_exact_witness: "parse_size (show_nat 20 @ ''g'') = Ok 21474836480"
  using parse_size_exact [of 20 "CHR ''g''" 30] by (simp add: size_shift_def)

lemma unit_secs_unit:
  assumes "unit_secs c = Some k"
  shows "c \<notin> set ws_lasts" "duration_unit (s @ [c]) = (s, k)"
proof -
  let ?cs = "''smhd''"
  have c: "c \<in> set ?cs" using assms by (auto simp: unit_secs_def split: if_splits)
  have "\<forall>c \<in> set ?cs. c \<notin> set ws_lasts" by code_simp
  with c show "c \<notin> set ws_lasts" by blast
  show "duration_unit (s @ [c]) = (s, k)"
    using c assms by (auto simp: duration_unit_def unit_secs_def split: if_splits)
qed

lemma from_secs_nat:
  assumes "n < 2 ^ 53"
  shows "from_secs_f64 (of_nat n) = Some (n * nanos_per_sec)"
proof -
  have "(of_nat n :: rat) * of_nat nanos_per_sec = of_int (int (n * nanos_per_sec))" by simp
  then have "nat (round_half_even ((of_nat n :: rat) * of_nat nanos_per_sec)) = n * nanos_per_sec"
    by (metis nat_int round_half_even_int)
  with assms show ?thesis by (simp add: from_secs_f64_def Let_def)
qed

lemma duration_exact:
  assumes "n * k < 2 ^ 53" and "unit_secs c = Some k"
  shows "parse_duration (show_nat n @ [c]) = Ok (n * k * nanos_per_sec)"
proof -
  note u = unit_secs_unit [OF assms(2)]
  have "0 < k" using assms(2) by (auto simp: unit_secs_def split: if_splits)
  then have n: "n < 2 ^ 53" using assms(1) by (metis le_less_trans mult.right_neutral mult_le_mono2 Suc_leI One_nat_def)
  have m: "f64_mul (of_nat n) (of_nat k) = Finite (of_nat (n * k))"
    using to_f64_exact [OF assms(1), of 0] by (simp add: f64_mul_def)
  show ?thesis
    unfolding parse_duration_def show_unit [OF u(1)] u(2) prod.case parse_f64_show [OF n] option.case
      f64_any.case m if_not_P [OF not_negative] from_secs_nat [OF assms(1)]
    by (rule refl)
qed

text \<open>
  A whole number of seconds, minutes, hours or days is read exactly, as long as it comes
  to fewer than \<open>2 ^ 53\<close> seconds; in particular the call does not panic there.
\<close>

theorem parse_duration_exact:
  assumes "n * k < 2 ^ 53" and "unit_secs c = Some k"
  shows "parse_duration (show_nat n @ [c]) = Ok (n * k * nanos_per_sec)"
  using assms by (rule duration_exact)

theorem parse_duration_exact_witness: "parse_duration (show_nat 30 @ ''m'') = Ok (1800 * nanos_per_sec)"
  using parse_duration_exact [of 30 60 "CHR ''m''"] by (simp add: unit_secs_def)

text \<open>
  Beyond \<open>2 ^ 64\<close> seconds the conversion to a \<open>Duration\<close> panics, which aborts the process: the
  guard only rejects values that are not finite.
\<close>

lemma large_duration_aborts:
  assumes "parse_f64 num = Some (Finite v)" and "duration_unit (trim text) = (num, mult)"
    and "f64_mul v (of_nat mult) = Finite secs" and "2 ^ 64 \<le> secs"
  shows "parse_duration text = Abort"
proof -
  have "2 ^ 64 * of_nat nanos_per_sec \<le> secs * of_nat nanos_per_sec"
    using assms(4) by (rule mult_right_mono) simp
  then have "of_int (2 ^ 64 * int nanos_per_sec) \<le> secs * of_nat nanos_per_sec" by simp
  then have f: "2 ^ 64 * int nanos_per_sec \<le> \<lfloor>secs * of_nat nanos_per_sec\<rfloor>" by (simp only: le_floor_iff)
  have "\<lfloor>secs * of_nat nanos_per_sec\<rfloor> \<le> round_half_even (secs * of_nat nanos_per_sec)"
    by (simp add: round_half_even_def Let_def)
  from order_trans [OF f this] have "int (2 ^ 64 * nanos_per_sec) \<le> round_half_even (secs * of_nat nanos_per_sec)"
    by (simp only: of_nat_mult of_nat_power of_nat_numeral)
  then have "2 ^ 64 * nanos_per_sec \<le> nat (round_half_even (secs * of_nat nanos_per_sec))"
    by (metis nat_int nat_mono)
  then have "2 ^ 64 \<le> nat (round_half_even (secs * of_nat nanos_per_sec)) div nanos_per_sec"
    by (metis div_le_mono nonzero_mult_div_cancel_right zero_neq_numeral)
  moreover have "\<not> secs < 0" using assms(4) by simp
  ultimately show ?thesis
    using assms(1-3) by (simp add: parse_duration_def from_secs_f64_def Let_def)
qed

end
