(* ===== verification/Vault_Config.thy ===== *)
theory Vault_Config
  imports Container
begin

text \<open>
  The vault registry (src/src/config.rs): parsing the line-oriented file, reading a vault out
  of a section, registering and removing one, and writing the file back. Strings are the
  file's bytes; \<open>home\<close> is the environment's \<open>$HOME\<close>.
\<close>

section \<open>Data\<close>

record vault =
  v_alias :: string
  v_path :: string
  v_mountpoint :: string
  v_idle_timeout :: "string option"
  v_compact_on_idle :: "string option"
  v_password_file :: "string option"
  v_password_command :: "string option"
  v_log_file :: "string option"
  v_read_only :: bool
  v_enforce_permissions :: bool
  v_locking :: "locking option"

record vault_section =
  sec_name :: string
  sec_lines :: "string list"

record config =
  cfg_path :: string
  preamble :: "string list"
  sections :: "vault_section list"

datatype config_error =
    MalformedHeader | InvalidAlias | DuplicateSection | NotKeyValue | NoValue string
  | BadValue string | UnknownKey string | Missing string | AtLine nat config_error
  | NoHome | ReadFailed

section \<open>Paths and words\<close>

text \<open>\<open>PathBuf::join\<close>.\<close>

definition path_join :: "string \<Rightarrow> string \<Rightarrow> string" where
  "path_join a b =
     (if prefix ''/'' b then b
      else if a = [] \<or> last a = CHR ''/'' then a @ b
      else a @ ''/'' @ b)"

text \<open>\<open>$COFFER_CONFIG\<close> and \<open>$HOME\<close>, where the environment has them.\<close>

definition home_dir :: "string option \<Rightarrow> config_error + string" where
  "home_dir env_home =
     (case env_home of None \<Rightarrow> Inl NoHome | Some h \<Rightarrow> if h = [] then Inl NoHome else Inr h)"

definition config_path :: "string option \<Rightarrow> string option \<Rightarrow> config_error + string" where
  "config_path coffer_config env_home =
     (if coffer_config \<noteq> None \<and> coffer_config \<noteq> Some [] then Inr (the coffer_config)
      else case home_dir env_home of
             Inl e \<Rightarrow> Inl e
           | Inr h \<Rightarrow> Inr (path_join (path_join h ''.coffer'') ''config''))"

definition expand_tilde :: "string option \<Rightarrow> string \<Rightarrow> string" where
  "expand_tilde home s =
     (case strip_prefix ''~'' s of
        None \<Rightarrow> s
      | Some rest \<Rightarrow>
          if rest = [] \<or> prefix ''/'' rest
          then (case home_dir home of
                  Inr h \<Rightarrow> path_join h (dropWhile (\<lambda>c. c = CHR ''/'') rest)
                | Inl _ \<Rightarrow> s)
          else s)"

definition alias_char :: "char \<Rightarrow> bool" where
  "alias_char c \<longleftrightarrow> ascii_alphanumeric c \<or> c \<in> {CHR ''-'', CHR ''_'', CHR ''.''}"

definition validate_alias :: "string \<Rightarrow> config_error + unit" where
  "validate_alias alias =
     (if (alias = [] \<or> \<not> ascii_alphanumeric (hd alias)) \<or> \<not> list_all alias_char alias
      then Inl InvalidAlias else Inr ())"

definition quoted_by :: "char \<Rightarrow> string \<Rightarrow> bool" where
  "quoted_by q v \<longleftrightarrow> prefix [q] v \<and> suffix [q] v"

definition unquote :: "string \<Rightarrow> string" where
  "unquote s =
     (let v = trim s in
      if 2 \<le> length v \<and> (quoted_by (CHR 0x22) v \<or> quoted_by (CHR 0x27) v)
      then butlast (tl v) else v)"

definition parse_bool :: "string \<Rightarrow> bool option" where
  "parse_bool s =
     (let t = to_ascii_lowercase s in
      if t \<in> {''true'', ''yes'', ''on'', ''1''} then Some True
      else if t \<in> {''false'', ''no'', ''off'', ''0''} then Some False
      else None)"

definition is_comment :: "string \<Rightarrow> bool" where
  "is_comment l = (let t = trim_start l in t = [] \<or> prefix ''#'' t \<or> prefix '';'' t)"

section \<open>Parsing\<close>

definition add_line :: "string \<Rightarrow> config \<Rightarrow> config" where
  "add_line raw c =
     (if sections c = [] then c\<lparr>preamble := preamble c @ [raw]\<rparr>
      else c\<lparr>sections := butlast (sections c) @
               [(last (sections c))\<lparr>sec_lines := sec_lines (last (sections c)) @ [raw]\<rparr>]\<rparr>)"

definition parse_line :: "string \<Rightarrow> config \<Rightarrow> config_error + config" where
  "parse_line raw c =
     (let line = trim raw in
      if prefix ''['' line then
        (case Option.bind (strip_prefix ''['' line) (strip_suffix '']'') of
           None \<Rightarrow> Inl MalformedHeader
         | Some inner \<Rightarrow>
             let name = trim inner in
             (case validate_alias name of
                Inl e \<Rightarrow> Inl e
              | Inr _ \<Rightarrow>
                  if name \<in> sec_name ` set (sections c) then Inl DuplicateSection
                  else Inr (c\<lparr>sections := sections c @ [\<lparr>sec_name = name, sec_lines = []\<rparr>]\<rparr>)))
      else Inr (add_line raw c))"

fun parse_lines :: "nat \<Rightarrow> string list \<Rightarrow> config \<Rightarrow> config_error + config" where
  "parse_lines idx [] c = Inr c"
| "parse_lines idx (raw # rest) c =
     (case parse_line raw c of
        Inl e \<Rightarrow> Inl (AtLine (idx + 1) e)
      | Inr c' \<Rightarrow> parse_lines (idx + 1) rest c')"

definition parse :: "string \<Rightarrow> string \<Rightarrow> config_error + config" where
  "parse path text = parse_lines 0 (lines text) \<lparr>cfg_path = path, preamble = [], sections = []\<rparr>"

definition default_header :: "string list" where
  "default_header =
     [''# coffer vault registry - maintained by `coffer add` / `coffer remove`,'',
      ''# shown by `coffer list`. One section per vault; the section name is the'',
      ''# alias for `coffer mount <alias>`. Safe to edit by hand: comments on their'',
      ''# own line are kept, `~` at the start of a path means $HOME.'']"

datatype read_result = Contents string | DoesNotExist | Unreadable

definition load_from :: "string \<Rightarrow> read_result \<Rightarrow> config_error + config" where
  "load_from path r = (case r of
     Contents text \<Rightarrow> parse path text
   | DoesNotExist \<Rightarrow> Inr \<lparr>cfg_path = path, preamble = default_header @ [[]], sections = []\<rparr>
   | Unreadable \<Rightarrow> Inl ReadFailed)"

section \<open>Vaults\<close>

record draft =
  d_path :: "string option"
  d_mountpoint :: "string option"
  d_idle_timeout :: "string option"
  d_compact_on_idle :: "string option"
  d_password_file :: "string option"
  d_password_command :: "string option"
  d_log_file :: "string option"
  d_read_only :: bool
  d_enforce_permissions :: bool
  d_locking :: "locking option"

definition empty_draft :: draft where
  "empty_draft = \<lparr>d_path = None, d_mountpoint = None, d_idle_timeout = None, d_compact_on_idle = None,
     d_password_file = None, d_password_command = None, d_log_file = None, d_read_only = False,
     d_enforce_permissions = False, d_locking = None\<rparr>"

definition setting :: "string option \<Rightarrow> string \<Rightarrow> string \<Rightarrow> draft \<Rightarrow> config_error + draft" where
  "setting home key value d =
     (if key = ''file'' then Inr (d\<lparr>d_path := Some (expand_tilde home value)\<rparr>)
      else if key = ''mountpoint'' then Inr (d\<lparr>d_mountpoint := Some (expand_tilde home value)\<rparr>)
      else if key = ''idle_timeout'' then Inr (d\<lparr>d_idle_timeout := Some value\<rparr>)
      else if key = ''compact_on_idle'' then Inr (d\<lparr>d_compact_on_idle := Some value\<rparr>)
      else if key = ''password_file'' then Inr (d\<lparr>d_password_file := Some (expand_tilde home value)\<rparr>)
      else if key = ''password_command'' then Inr (d\<lparr>d_password_command := Some value\<rparr>)
      else if key = ''log_file'' then Inr (d\<lparr>d_log_file := Some (expand_tilde home value)\<rparr>)
      else if key = ''read_only'' then
        (case parse_bool value of Some b \<Rightarrow> Inr (d\<lparr>d_read_only := b\<rparr>) | None \<Rightarrow> Inl (BadValue key))
      else if key = ''enforce_permissions'' then
        (case parse_bool value of Some b \<Rightarrow> Inr (d\<lparr>d_enforce_permissions := b\<rparr>) | None \<Rightarrow> Inl (BadValue key))
      else if key = ''locking'' then
        (case locking_parse value of Some l \<Rightarrow> Inr (d\<lparr>d_locking := Some l\<rparr>) | None \<Rightarrow> Inl (BadValue key))
      else Inl (UnknownKey key))"

definition read_line :: "string option \<Rightarrow> string \<Rightarrow> draft \<Rightarrow> config_error + draft" where
  "read_line home raw d =
     (if is_comment raw then Inr d
      else case split_once (CHR ''='') raw of
        None \<Rightarrow> Inl NotKeyValue
      | Some (key, v) \<Rightarrow>
          let value = unquote v in
          if value = [] then Inl (NoValue (trim key)) else setting home (trim key) value d)"

fun read_lines :: "string option \<Rightarrow> string list \<Rightarrow> draft \<Rightarrow> config_error + draft" where
  "read_lines home [] d = Inr d"
| "read_lines home (raw # rest) d =
     (case read_line home raw d of Inl e \<Rightarrow> Inl e | Inr d' \<Rightarrow> read_lines home rest d')"

definition vault_from :: "string option \<Rightarrow> vault_section \<Rightarrow> config_error + vault" where
  "vault_from home s =
     (case read_lines home (sec_lines s) empty_draft of
        Inl e \<Rightarrow> Inl e
      | Inr d \<Rightarrow>
          (case d_path d of
             None \<Rightarrow> Inl (Missing ''file'')
           | Some f \<Rightarrow>
               (case d_mountpoint d of
                  None \<Rightarrow> Inl (Missing ''mountpoint'')
                | Some m \<Rightarrow>
                    Inr \<lparr>v_alias = sec_name s, v_path = f, v_mountpoint = m,
                         v_idle_timeout = d_idle_timeout d, v_compact_on_idle = d_compact_on_idle d,
                         v_password_file = d_password_file d, v_password_command = d_password_command d,
                         v_log_file = d_log_file d, v_read_only = d_read_only d,
                         v_enforce_permissions = d_enforce_permissions d, v_locking = d_locking d\<rparr>)))"

fun collect :: "('e + 'a) list \<Rightarrow> 'e + 'a list" where
  "collect [] = Inr []"
| "collect (r # rs) =
     (case r of Inl e \<Rightarrow> Inl e
      | Inr a \<Rightarrow> (case collect rs of Inl e \<Rightarrow> Inl e | Inr as \<Rightarrow> Inr (a # as)))"

definition vaults :: "string option \<Rightarrow> config \<Rightarrow> config_error + vault list" where
  "vaults home c = collect (map (vault_from home) (sections c))"

definition get :: "string option \<Rightarrow> config \<Rightarrow> string \<Rightarrow> config_error + vault option" where
  "get home c alias =
     (case find (\<lambda>s. sec_name s = alias) (sections c) of
        None \<Rightarrow> Inr None
      | Some s \<Rightarrow> (case vault_from home s of Inl e \<Rightarrow> Inl e | Inr v \<Rightarrow> Inr (Some v)))"

section \<open>Registering and removing\<close>

definition key_line :: "string \<Rightarrow> string \<Rightarrow> string" where
  "key_line key v = key @ '' = '' @ v"

definition opt_line :: "string \<Rightarrow> ('a \<Rightarrow> string) \<Rightarrow> 'a option \<Rightarrow> string list" where
  "opt_line key enc x = (case x of None \<Rightarrow> [] | Some v \<Rightarrow> [key_line key (enc v)])"

definition render :: "vault \<Rightarrow> string list" where
  "render v =
     [key_line ''file'' (from_utf8_lossy (v_path v)),
      key_line ''mountpoint'' (from_utf8_lossy (v_mountpoint v))] @
     opt_line ''idle_timeout'' id (v_idle_timeout v) @
     opt_line ''compact_on_idle'' id (v_compact_on_idle v) @
     opt_line ''password_file'' from_utf8_lossy (v_password_file v) @
     opt_line ''password_command'' id (v_password_command v) @
     opt_line ''log_file'' from_utf8_lossy (v_log_file v) @
     (if v_read_only v then [key_line ''read_only'' ''true''] else []) @
     (if v_enforce_permissions v then [key_line ''enforce_permissions'' ''true''] else []) @
     opt_line ''locking'' as_str (v_locking v)"

text \<open>Replacing the lines of the first section of that name.\<close>

fun replace_lines :: "string \<Rightarrow> string list \<Rightarrow> vault_section list \<Rightarrow> vault_section list" where
  "replace_lines alias ls [] = []"
| "replace_lines alias ls (s # ss) =
     (if sec_name s = alias
      then s\<lparr>sec_lines := ls @ (if sec_lines s \<noteq> [] \<and> trim (last (sec_lines s)) = [] then [[]] else [])\<rparr> # ss
      else s # replace_lines alias ls ss)"

definition last_lines :: "config \<Rightarrow> string list" where
  "last_lines c = (if sections c = [] then preamble c else sec_lines (last (sections c)))"

definition separated :: "config \<Rightarrow> config" where
  "separated c =
     (if last_lines c \<noteq> [] \<and> trim (last (last_lines c)) \<noteq> [] then add_line [] c else c)"

definition upsert :: "vault \<Rightarrow> config \<Rightarrow> bool \<times> config" where
  "upsert v c =
     (if v_alias v \<in> sec_name ` set (sections c)
      then (True, c\<lparr>sections := replace_lines (v_alias v) (render v) (sections c)\<rparr>)
      else let c' = separated c in
        (False, c'\<lparr>sections := sections c' @ [\<lparr>sec_name = v_alias v, sec_lines = render v\<rparr>]\<rparr>))"

definition remove :: "string \<Rightarrow> config \<Rightarrow> bool \<times> config" where
  "remove alias c =
     (let ss = filter (\<lambda>s. sec_name s \<noteq> alias) (sections c)
      in (length ss \<noteq> length (sections c), c\<lparr>sections := ss\<rparr>))"

section \<open>Writing\<close>

definition all_lines :: "config \<Rightarrow> string list" where
  "all_lines c =
     preamble c @ concat (map (\<lambda>s. (''['' @ sec_name s @ '']'') # sec_lines s) (sections c))"

text \<open>\<open>while out.ends_with("\n\n") { out.pop(); }\<close>\<close>

function pop_blank :: "string \<Rightarrow> string" where
  "pop_blank out = (if suffix [NL, NL] out then pop_blank (butlast out) else out)"
  by pat_completeness auto

termination
  by (relation "measure length") (auto simp: suffix_def)

declare pop_blank.simps [simp del]

definition to_text :: "config \<Rightarrow> string" where
  "to_text c = pop_blank (unlines (all_lines c))"

text \<open>
  \<open>save\<close> as the operations it issues, in order; \<open>dir\<close> is the file's directory. An operation
  that fails, or in the middle of which the machine stops, may have written a part of its
  bytes; a rename has happened or has not.
\<close>

datatype file_op =
    CreateDirAll string | SetMode string nat | OpenTruncate string | WriteAll string string
  | SyncAll string | RenameTo string string

type_synonym files = "string \<Rightarrow> string option"

definition save_ops :: "string \<Rightarrow> bool \<Rightarrow> config \<Rightarrow> file_op list" where
  "save_ops dir dir_exists c =
     (let tmp = cfg_path c @ ''.tmp'' in
      (if dir_exists then [] else [CreateDirAll dir, SetMode dir 0x1C0]) @
      [OpenTruncate tmp, WriteAll tmp (to_text c), SyncAll tmp, RenameTo tmp (cfg_path c)])"

definition do_op :: "file_op \<Rightarrow> files \<Rightarrow> files" where
  "do_op a fs = (case a of
     OpenTruncate p \<Rightarrow> fs(p := Some [])
   | WriteAll p t \<Rightarrow> fs(p := Some (case fs p of None \<Rightarrow> t | Some u \<Rightarrow> u @ t))
   | RenameTo p q \<Rightarrow> (fs(q := fs p))(p := None)
   | _ \<Rightarrow> fs)"

definition part_op :: "nat \<Rightarrow> file_op \<Rightarrow> files \<Rightarrow> files" where
  "part_op n a fs = (case a of
     WriteAll p t \<Rightarrow> do_op (WriteAll p (take n t)) fs
   | _ \<Rightarrow> if n = 0 then fs else do_op a fs)"

text \<open>\<open>stops i = Some n\<close>: operation \<open>i\<close> stops after \<open>n\<close> bytes and the rest is not reached.\<close>

fun perform :: "(nat \<Rightarrow> nat option) \<Rightarrow> nat \<Rightarrow> file_op list \<Rightarrow> files \<Rightarrow> bool \<times> files" where
  "perform stops i [] fs = (True, fs)"
| "perform stops i (a # as) fs =
     (case stops i of
        Some n \<Rightarrow> (False, part_op n a fs)
      | None \<Rightarrow> perform stops (Suc i) as (do_op a fs))"

definition save :: "(nat \<Rightarrow> nat option) \<Rightarrow> string \<Rightarrow> bool \<Rightarrow> config \<Rightarrow> files \<Rightarrow> bool \<times> files" where
  "save stops dir dir_exists c fs = perform stops 0 (save_ops dir dir_exists c) fs"

end
