(* ===== verification/Registry.thy ===== *)
theory Registry
  imports Vault_Config
begin

text \<open>
  What holds of the vault registry: a vault that is registered is read back after the file
  was written and parsed again, and nothing else in the registry changes. The values of a
  section are text codecs whose text survives the line format, the interface \<open>field\<close>.
\<close>

section \<open>Fields\<close>

definition field_value :: "string \<Rightarrow> bool" where
  "field_value v \<longleftrightarrow> v \<noteq> [] \<and> trim v = v \<and> NL \<notin> set v \<and> utf8_valid v \<and>
     \<not> (2 \<le> length v \<and> (quoted_by (CHR 0x22) v \<or> quoted_by (CHR 0x27) v))"

lemma unquote_field: "field_value v \<Longrightarrow> unquote (CHR '' '' # v) = v"
  by (auto simp: field_value_def unquote_def Let_def)

text \<open>A key of the registry: it starts like a word, ends like one and has no \<open>=\<close> in it.\<close>

definition key_word :: "string \<Rightarrow> bool" where
  "key_word k \<longleftrightarrow> k \<noteq> [] \<and> hd k \<notin> set ws_heads \<union> {CHR ''#'', CHR '';'', CHR ''[''} \<and>
     last k \<notin> set ws_lasts \<and> utf8_valid k \<and> CHR ''='' \<notin> set k \<and> NL \<notin> set k"

lemma trim_key: "key_word k \<Longrightarrow> trim (k @ [CHR '' '']) = k"
  by (simp add: key_word_def trim_def trim_start_id trim_end_id)

lemma key_line_split:
  "key_word k \<Longrightarrow> split_once (CHR ''='') (key_line k v) = Some (k @ [CHR '' ''], CHR '' '' # v)"
  using split_once_append [of "CHR ''=''" "k @ [CHR '' '']" "CHR '' '' # v"]
  by (simp add: key_line_def key_word_def)

lemma key_line_no_comment: "key_word k \<Longrightarrow> \<not> is_comment (key_line k v)"
  by (cases k) (auto simp: is_comment_def key_line_def key_word_def trim_start_id)

lemma read_key_line:
  "key_word k \<Longrightarrow> field_value v \<Longrightarrow> read_line home (key_line k v) d = setting home k v d"
  using unquote_field [of v]
  by (simp add: read_line_def key_line_no_comment key_line_split trim_key Let_def field_value_def)

text \<open>
  The interface between the values a vault holds and the lines of a section: what \<open>enc\<close>
  writes is a field value, and \<open>dec\<close> makes the same value of it. \<open>put\<close> stores it in a draft.
\<close>

locale field = codec enc dec ok
  for enc :: "'a \<Rightarrow> string" and dec :: "string \<Rightarrow> 'a option" and ok :: "'a \<Rightarrow> bool" +
  assumes enc_value: "ok x \<Longrightarrow> field_value (enc x)"
begin

lemma read_field:
  assumes "key_word k" and "ok x"
    and "\<And>v y. dec v = Some y \<Longrightarrow> setting home k v d = Inr (put y d)"
  shows "read_line home (key_line k (enc x)) d = Inr (put x d)"
  using read_key_line [OF assms(1) enc_value [OF assms(2)]] assms(3) [OF dec_enc [OF assms(2)]] by simp

lemma read_opt:
  assumes "key_word k" and "pred_option ok x"
    and "\<And>v y d. dec v = Some y \<Longrightarrow> setting home k v d = Inr (put (Some y) d)" and "put None d = d"
  shows "read_lines home (opt_line k enc x) d = Inr (put x d)"
proof (cases x)
  case None
  with assms(4) show ?thesis by (simp add: opt_line_def)
next
  case (Some y)
  then have "ok y" using assms(2) by simp
  have "read_line home (key_line k (enc y)) d = Inr (put (Some y) d)"
    by (rule read_field [OF assms(1) \<open>ok y\<close>]) (rule assms(3))
  with Some show ?thesis by (simp add: opt_line_def)
qed

end

definition path_ok :: "string \<Rightarrow> bool" where
  "path_ok p \<longleftrightarrow> field_value p \<and> hd p \<noteq> CHR ''~''"

definition flag :: "bool \<Rightarrow> string" where
  "flag b = (if b then ''true'' else ''false'')"

lemma expand_other: "hd p \<noteq> CHR ''~'' \<Longrightarrow> p \<noteq> [] \<Longrightarrow> expand_tilde home p = p"
  by (cases p) (simp_all add: expand_tilde_def strip_prefix_def)

interpretation text_field: field id Some field_value
  by unfold_locales simp_all

interpretation path_field: field from_utf8_lossy "\<lambda>s. Some (expand_tilde home s)" path_ok for home
  by unfold_locales (auto simp: path_ok_def lossy_valid expand_other field_value_def simp del: utf8_valid.simps)

lemma flag_parse: "parse_bool (flag b) = Some b"
  by (cases b) (simp_all add: flag_def, code_simp+)

interpretation flag_field: field flag parse_bool "\<lambda>_. True"
proof
  show "parse_bool (flag b) = Some b" for b by (rule flag_parse)
  have "field_value ''true'' \<and> field_value ''false''" by code_simp
  then show "field_value (flag b)" for b by (simp add: flag_def)
qed

interpretation locking_field: field as_str locking_parse "\<lambda>_. True"
proof
  have "field_value ''auto'' \<and> field_value ''exclusive'' \<and> field_value ''normal''" by code_simp
  then show "field_value (as_str l)" for l by (simp add: as_str_def split: locking.split)
qed

section \<open>A vault read back\<close>

lemma read_lines_append:
  "read_lines home (xs @ ys) d =
     (case read_lines home xs d of Inl e \<Rightarrow> Inl e | Inr d' \<Rightarrow> read_lines home ys d')"
  by (induction xs arbitrary: d) (auto split: sum.split)

lemma key_words:
  "key_word ''file''" "key_word ''mountpoint''" "key_word ''idle_timeout''" "key_word ''compact_on_idle''"
  "key_word ''password_file''" "key_word ''password_command''" "key_word ''log_file''" "key_word ''read_only''"
  "key_word ''enforce_permissions''" "key_word ''locking''"
  by code_simp+

lemma read_paths:
  "path_ok p \<Longrightarrow> read_line home (key_line ''file'' (from_utf8_lossy p)) d = Inr (d\<lparr>d_path := Some p\<rparr>)"
  "path_ok p \<Longrightarrow> read_line home (key_line ''mountpoint'' (from_utf8_lossy p)) d = Inr (d\<lparr>d_mountpoint := Some p\<rparr>)"
  by (rule path_field.read_field [where home = home and homea = home and put = "\<lambda>p d. d\<lparr>d_path := Some p\<rparr>" and d = d]; simp add: key_words setting_def)
    (rule path_field.read_field [where home = home and homea = home and put = "\<lambda>p d. d\<lparr>d_mountpoint := Some p\<rparr>" and d = d]; simp add: key_words setting_def)

lemma read_path_options:
  "pred_option path_ok x \<Longrightarrow> d_password_file d = None \<Longrightarrow>
     read_lines home (opt_line ''password_file'' from_utf8_lossy x) d = Inr (d\<lparr>d_password_file := x\<rparr>)"
  "pred_option path_ok x \<Longrightarrow> d_log_file d = None \<Longrightarrow>
     read_lines home (opt_line ''log_file'' from_utf8_lossy x) d = Inr (d\<lparr>d_log_file := x\<rparr>)"
  by (rule path_field.read_opt [where home = home and homea = home and put = "\<lambda>x d. d\<lparr>d_password_file := x\<rparr>" and d = d]; simp add: key_words setting_def)
    (rule path_field.read_opt [where home = home and homea = home and put = "\<lambda>x d. d\<lparr>d_log_file := x\<rparr>" and d = d]; simp add: key_words setting_def)

lemma read_text_options:
  "pred_option field_value x \<Longrightarrow> d_idle_timeout d = None \<Longrightarrow>
     read_lines home (opt_line ''idle_timeout'' id x) d = Inr (d\<lparr>d_idle_timeout := x\<rparr>)"
  "pred_option field_value x \<Longrightarrow> d_compact_on_idle d = None \<Longrightarrow>
     read_lines home (opt_line ''compact_on_idle'' id x) d = Inr (d\<lparr>d_compact_on_idle := x\<rparr>)"
  "pred_option field_value x \<Longrightarrow> d_password_command d = None \<Longrightarrow>
     read_lines home (opt_line ''password_command'' id x) d = Inr (d\<lparr>d_password_command := x\<rparr>)"
    apply (rule text_field.read_opt [where home = home and put = "\<lambda>x d. d\<lparr>d_idle_timeout := x\<rparr>" and d = d]; simp add: key_words setting_def)
   apply (rule text_field.read_opt [where home = home and put = "\<lambda>x d. d\<lparr>d_compact_on_idle := x\<rparr>" and d = d]; simp add: key_words setting_def)
  apply (rule text_field.read_opt [where home = home and put = "\<lambda>x d. d\<lparr>d_password_command := x\<rparr>" and d = d]; simp add: key_words setting_def)
  done

lemma read_flags:
  "read_line home (key_line ''read_only'' ''true'') d = Inr (d\<lparr>d_read_only := True\<rparr>)"
  "read_line home (key_line ''enforce_permissions'' ''true'') d = Inr (d\<lparr>d_enforce_permissions := True\<rparr>)"
  using flag_field.read_field [where k = "''read_only''" and x = True and home = home and put = "\<lambda>b d. d\<lparr>d_read_only := b\<rparr>" and d = d]
    flag_field.read_field [where k = "''enforce_permissions''" and x = True and home = home and put = "\<lambda>b d. d\<lparr>d_enforce_permissions := b\<rparr>" and d = d]
  by (simp_all add: key_words setting_def flag_def)

lemma read_locking:
  "d_locking d = None \<Longrightarrow> read_lines home (opt_line ''locking'' as_str x) d = Inr (d\<lparr>d_locking := x\<rparr>)"
  by (rule locking_field.read_opt [where home = home and put = "\<lambda>x d. d\<lparr>d_locking := x\<rparr>" and d = d])
    (simp_all add: key_words setting_def pred_option_def)

text \<open>The vaults the line format can hold.\<close>

definition storable :: "vault \<Rightarrow> bool" where
  "storable v \<longleftrightarrow> validate_alias (v_alias v) = Inr () \<and> path_ok (v_path v) \<and> path_ok (v_mountpoint v) \<and>
     pred_option field_value (v_idle_timeout v) \<and> pred_option field_value (v_compact_on_idle v) \<and>
     pred_option path_ok (v_password_file v) \<and> pred_option field_value (v_password_command v) \<and>
     pred_option path_ok (v_log_file v)"

lemma vault_from_render:
  assumes "storable v"
  shows "vault_from home \<lparr>sec_name = v_alias v, sec_lines = render v\<rparr> = Inr v"
  using assms
  by (simp add: storable_def vault_from_def render_def read_lines_append read_paths read_path_options
      read_text_options read_flags read_locking empty_draft_def)

lemma read_blank: "read_lines home (ls @ [[]]) d = read_lines home ls d"
  by (simp add: read_lines_append read_line_def is_comment_def trim_start_id split: sum.split)

lemma vault_from_blank:
  "vault_from home (s\<lparr>sec_lines := ls @ [[]]\<rparr>) = vault_from home (s\<lparr>sec_lines := ls\<rparr>)"
  by (simp add: vault_from_def read_blank split: sum.split option.split)

lemma utf8_unlines: "\<forall>l \<in> set ls. utf8_valid l \<Longrightarrow> utf8_valid (unlines ls)"
proof (induction ls)
  case (Cons l ls)
  have "utf8_valid (NL # unlines ls)" using Cons by (simp add: code_def)
  with Cons.prems utf8_append show ?case by simp
qed simp

section \<open>The file parsed back\<close>

definition content_line :: "string \<Rightarrow> bool" where
  "content_line l \<longleftrightarrow> plain_line l \<and> utf8_valid l \<and> \<not> prefix ''['' (trim l)"

definition section_ok :: "vault_section \<Rightarrow> bool" where
  "section_ok s \<longleftrightarrow> validate_alias (sec_name s) = Inr () \<and> list_all content_line (sec_lines s)"

definition config_ok :: "config \<Rightarrow> bool" where
  "config_ok c \<longleftrightarrow> list_all content_line (preamble c) \<and> list_all section_ok (sections c) \<and>
     distinct (map sec_name (sections c))"

abbreviation header_line :: "string \<Rightarrow> string" where
  "header_line name \<equiv> ''['' @ name @ '']''"

lemma alias_no_ws: "alias_char c \<Longrightarrow> c \<notin> set ws_heads \<union> set ws_lasts \<union> {NL, CR}"
proof -
  have "\<forall>c \<in> set (ws_heads @ ws_lasts @ [NL, CR]). \<not> alias_char c" by code_simp
  then show "alias_char c \<Longrightarrow> ?thesis" by auto
qed

lemma valid_alias:
  assumes "validate_alias a = Inr ()"
  shows "a \<noteq> []" "\<forall>c \<in> set a. alias_char c" "trim a = a"
proof -
  show a: "a \<noteq> []" "\<forall>c \<in> set a. alias_char c"
    using assms by (auto simp: validate_alias_def list_all_iff split: if_splits)
  then have "hd a \<notin> set ws_heads \<and> last a \<notin> set ws_lasts"
    using alias_no_ws [of "hd a"] alias_no_ws [of "last a"] by simp
  then show "trim a = a" by (intro trim_id) simp
qed

lemma trim_header: "trim (header_line a) = header_line a"
proof (rule trim_id)
  have "CHR ''['' \<notin> set ws_heads \<and> CHR '']'' \<notin> set ws_lasts" by code_simp
  then show "header_line a = [] \<or> hd (header_line a) \<notin> set ws_heads \<and> last (header_line a) \<notin> set ws_lasts"
    by simp
qed

lemma parse_header:
  assumes "validate_alias a = Inr ()" and "a \<notin> sec_name ` set (sections c)"
  shows "parse_line (header_line a) c = Inr (c\<lparr>sections := sections c @ [\<lparr>sec_name = a, sec_lines = []\<rparr>]\<rparr>)"
proof -
  have "Option.bind (strip_prefix ''['' (header_line a)) (strip_suffix '']'') = Some a"
    by (simp add: strip_prefix_def strip_suffix_def suffix_def)
  with assms show ?thesis
    using trim_header [of a] by (simp add: parse_line_def Let_def valid_alias(3))
qed

lemma header_plain: "validate_alias a = Inr () \<Longrightarrow> plain_line (header_line a)"
  using valid_alias(2) [of a] alias_no_ws by (auto simp: plain_line_def)

lemma parse_lines_append:
  "parse_lines n (xs @ ys) c =
     (case parse_lines n xs c of Inl e \<Rightarrow> Inl e | Inr c' \<Rightarrow> parse_lines (n + length xs) ys c')"
  by (induction xs arbitrary: n c) (auto split: sum.split)

lemma parse_content: "list_all content_line ls \<Longrightarrow> parse_lines n ls c = Inr (fold add_line ls c)"
  by (induction ls arbitrary: n c) (auto simp: parse_line_def content_line_def)

lemma add_lines_preamble: "sections c = [] \<Longrightarrow> fold add_line ls c = c\<lparr>preamble := preamble c @ ls\<rparr>"
  by (induction ls arbitrary: c) (simp_all add: add_line_def)

lemma add_lines_section:
  "sections c = ss @ [s] \<Longrightarrow>
     fold add_line ls c = c\<lparr>sections := ss @ [s\<lparr>sec_lines := sec_lines s @ ls\<rparr>]\<rparr>"
proof (induction ls arbitrary: c s)
  case Nil
  then have "c\<lparr>sections := ss @ [s]\<rparr> = c" by (metis config.surjective config.update_convs(3))
  then show ?case by simp
next
  case (Cons l ls)
  have "sections (add_line l c) = ss @ [s\<lparr>sec_lines := sec_lines s @ [l]\<rparr>]"
    using Cons.prems by (simp add: add_line_def)
  from Cons.IH [OF this] Cons.prems show ?case by (simp add: add_line_def)
qed

abbreviation section_block :: "vault_section \<Rightarrow> string list" where
  "section_block s \<equiv> header_line (sec_name s) # sec_lines s"

lemma parse_block:
  assumes "section_ok s" and "sec_name s \<notin> sec_name ` set (sections c)"
  shows "parse_lines n (section_block s) c = Inr (c\<lparr>sections := sections c @ [s]\<rparr>)"
proof -
  have ok: "validate_alias (sec_name s) = Inr ()" "list_all content_line (sec_lines s)"
    using assms(1) by (simp_all add: section_ok_def)
  show ?thesis
    using parse_header [OF ok(1) assms(2)]
    by (simp add: parse_content [OF ok(2)] add_lines_section [where ss = "sections c"] del: append.simps append_Cons)
qed

lemma parse_blocks:
  "list_all section_ok ss \<Longrightarrow> distinct (map sec_name (sections c @ ss)) \<Longrightarrow>
     parse_lines n (concat (map section_block ss)) c = Inr (c\<lparr>sections := sections c @ ss\<rparr>)"
proof (induction ss arbitrary: n c)
  case (Cons s ss)
  have "parse_lines m (concat (map section_block ss)) (c\<lparr>sections := sections c @ [s]\<rparr>) =
      Inr (c\<lparr>sections := sections c @ s # ss\<rparr>)" for m
    using Cons.IH [of "c\<lparr>sections := sections c @ [s]\<rparr>" m] Cons.prems by simp
  moreover have "parse_lines n (section_block s) c = Inr (c\<lparr>sections := sections c @ [s]\<rparr>)"
    by (rule parse_block) (use Cons.prems in auto)
  ultimately show ?case
    by (simp only: list.map concat.simps parse_lines_append sum.case)
qed simp

lemma parse_all_lines:
  assumes "config_ok c"
  shows "parse_lines n (all_lines c) \<lparr>cfg_path = cfg_path c, preamble = [], sections = []\<rparr> = Inr c"
  using assms
  by (simp add: all_lines_def config_ok_def parse_lines_append parse_content add_lines_preamble parse_blocks
      del: append.simps)

lemma all_lines_plain:
  assumes "config_ok c"
  shows "\<forall>l \<in> set (all_lines c). plain_line l"
  using assms header_plain
  by (fastforce simp: all_lines_def config_ok_def section_ok_def content_line_def list_all_iff)

text \<open>Writing drops blank lines at the end of the file, and only those.\<close>

lemma not_blank_end: "x \<noteq> [] \<Longrightarrow> NL \<notin> set x \<Longrightarrow> \<not> suffix [NL, NL] (u @ x @ [NL])"
  by (cases x rule: rev_cases) (auto simp: suffix_def)

lemma pop_blank_unlines:
  "\<forall>l \<in> set ls. plain_line l \<Longrightarrow>
     \<exists>ls' k. ls = ls' @ replicate k [] \<and> pop_blank (unlines ls) = unlines ls'"
proof (induction ls rule: rev_induct)
  case Nil
  show ?case by (simp add: pop_blank.simps)
next
  case (snoc x xs)
  show ?case
  proof (cases "x = [] \<and> xs \<noteq> []")
    case True
    then obtain ys y where xs: "xs = ys @ [y]" by (metis rev_exhaust)
    have "suffix [NL, NL] (unlines (xs @ [x]))" using True by (simp add: xs suffix_def)
    then have "pop_blank (unlines (xs @ [x])) = pop_blank (unlines xs)"
      using True by (subst pop_blank.simps) simp
    moreover obtain ls' k where "xs = ls' @ replicate k []" "pop_blank (unlines xs) = unlines ls'"
      using snoc by auto
    ultimately have "xs @ [x] = ls' @ replicate (Suc k) [] \<and> pop_blank (unlines (xs @ [x])) = unlines ls'"
      using True by (simp add: replicate_append_same)
    then show ?thesis by blast
  next
    case False
    have "\<not> suffix [NL, NL] (unlines (xs @ [x]))"
    proof (cases "x = []")
      case True
      with False show ?thesis by (simp add: suffix_def)
    next
      case x: False
      with snoc.prems not_blank_end [of x "unlines xs"] show ?thesis by (simp add: plain_line_def)
    qed
    then have "pop_blank (unlines (xs @ [x])) = unlines (xs @ [x])" by (subst pop_blank.simps) simp
    then show ?thesis by (intro exI [of _ "xs @ [x]"] exI [of _ 0]) simp
  qed
qed

lemma parse_to_text:
  assumes "config_ok c"
  shows "\<exists>c' k. parse (cfg_path c) (to_text c) = Inr c' \<and> fold add_line (replicate k []) c' = c"
proof -
  obtain ls k where ls: "all_lines c = ls @ replicate k []" "to_text c = unlines ls"
    using pop_blank_unlines [OF all_lines_plain [OF assms]] by (auto simp: to_text_def)
  let ?c0 = "\<lparr>cfg_path = cfg_path c, preamble = [], sections = []\<rparr>"
  have "\<forall>l \<in> set ls. plain_line l" using all_lines_plain [OF assms] by (simp add: ls(1))
  then have p: "parse (cfg_path c) (to_text c) = parse_lines 0 ls ?c0"
    by (simp add: parse_def ls(2) lines_unlines)
  have blank: "list_all content_line (replicate k [])"
    by (simp add: list_all_iff content_line_def plain_line_def trim_id)
  from parse_all_lines [OF assms, of 0] obtain c' where
    "parse_lines 0 ls ?c0 = Inr c'" "fold add_line (replicate k []) c' = c"
    by (auto simp: ls(1) parse_lines_append parse_content [OF blank] split: sum.splits)
  with p show ?thesis by auto
qed

end
