(* ===== verification/Registry_Props.thy ===== *)
theory Registry_Props
  imports Registry
begin

text \<open>
  The properties of the vault registry: registering and removing a vault through the file,
  what a parsed registry looks like, and that the file is replaced as a whole.
\<close>

section \<open>Registries with the same vaults\<close>

definition same_section :: "string option \<Rightarrow> vault_section \<Rightarrow> vault_section \<Rightarrow> bool" where
  "same_section home s s' \<longleftrightarrow> sec_name s = sec_name s' \<and> vault_from home s = vault_from home s'"

definition same_vaults :: "string option \<Rightarrow> config \<Rightarrow> config \<Rightarrow> bool" where
  "same_vaults home c c' \<longleftrightarrow> list_all2 (same_section home) (sections c) (sections c')"

lemma same_section_refl [simp]: "same_section home s s"
  by (simp add: same_section_def)

lemma same_vaults_refl [simp]: "same_vaults home c c"
  by (simp add: same_vaults_def list_all2_refl)

lemma same_vaults_trans: "same_vaults home a b \<Longrightarrow> same_vaults home b c \<Longrightarrow> same_vaults home a c"
  unfolding same_vaults_def by (rule list_all2_trans [where ?P1.0 = "same_section home" and ?P2.0 = "same_section home"])
    (auto simp: same_section_def)

lemma find_same:
  "list_all2 (same_section home) ss ss' \<Longrightarrow>
     rel_option (same_section home) (find (\<lambda>s. sec_name s = a) ss) (find (\<lambda>s. sec_name s = a) ss')"
  by (induction rule: list_all2_induct) (auto simp: same_section_def)

lemma get_same: "same_vaults home c c' \<Longrightarrow> get home c a = get home c' a"
  using find_same [of home "sections c" "sections c'" a]
  by (auto simp: same_vaults_def get_def same_section_def split: option.splits)

lemma same_add_blank: "same_vaults home (add_line [] c) c"
proof (cases "sections c" rule: rev_cases)
  case Nil
  then show ?thesis by (simp add: same_vaults_def add_line_def)
next
  case (snoc ss s)
  have "same_section home (s\<lparr>sec_lines := sec_lines s @ [[]]\<rparr>) s"
    using vault_from_blank [of home "sec_lines s" s] by (simp add: same_section_def)
  with snoc show ?thesis
    by (simp add: same_vaults_def add_line_def list_all2_appendI list_all2_refl)
qed

lemma same_add_blanks: "same_vaults home (fold add_line (replicate k []) c) c"
proof (induction k arbitrary: c)
  case (Suc k)
  show ?case using same_vaults_trans [OF Suc same_add_blank] by simp
qed simp

text \<open>So the file says what the registry says.\<close>

lemma reparse_get:
  assumes "config_ok c"
  obtains c' where "parse (cfg_path c) (to_text c) = Inr c'" "\<And>a. get home c' a = get home c a"
    "map sec_name (sections c') = map sec_name (sections c)"
proof -
  obtain c' k where c': "parse (cfg_path c) (to_text c) = Inr c'" "fold add_line (replicate k []) c' = c"
    using parse_to_text [OF assms] by blast
  then have same: "same_vaults home c c'" using same_add_blanks by metis
  then have "list_all2 (\<lambda>s s'. sec_name s = sec_name s') (sections c) (sections c')"
    unfolding same_vaults_def by (rule list_all2_mono) (simp add: same_section_def)
  then have "map sec_name (sections c) = map sec_name (sections c')"
    by (simp add: list_all2_map2 list_all2_map1 list_all2_eq)
  with c'(1) get_same [OF same] show ?thesis by (intro that) simp_all
qed

section \<open>Upsert\<close>

lemma last_value: "field_value v \<Longrightarrow> last v \<noteq> CR"
  using trimmed_end [of v] by (simp add: field_value_def)

lemma head_not_bracket:
  assumes "hd l \<notin> set ws_heads" and "hd l \<noteq> CHR ''[''"
  shows "\<not> prefix ''['' (trim l)"
proof -
  have "prefix (trim l) l" using trim_end_prefix [of l] assms(1) by (simp add: trim_def trim_start_id)
  with assms(2) show ?thesis by (auto simp: prefix_def)
qed

lemma key_line_content:
  assumes "key_word k" and "field_value v"
  shows "content_line (key_line k v)"
proof -
  have "NL \<notin> set (key_line k v)" "last (key_line k v) \<noteq> CR" "hd (key_line k v) = hd k"
    using assms last_value [OF assms(2)] by (auto simp: key_line_def key_word_def field_value_def)
  moreover have "utf8_valid (key_line k v)"
  proof -
    have "utf8_valid '' = ''" by (rule utf8_all_ascii) (simp add: code_def)
    with assms show ?thesis
      unfolding key_line_def by (intro utf8_append) (simp_all add: key_word_def field_value_def)
  qed
  ultimately show ?thesis
    using assms(1) head_not_bracket [of "key_line k v"]
    by (simp add: content_line_def plain_line_def key_word_def)
qed

lemma opt_line_content:
  "key_word k \<Longrightarrow> (\<And>y. x = Some y \<Longrightarrow> field_value (enc y)) \<Longrightarrow> list_all content_line (opt_line k enc x)"
  by (cases x) (auto simp: opt_line_def key_line_content)

lemma render_content:
  assumes "storable v"
  shows "list_all content_line (render v)"
proof -
  have p: "path_ok p \<Longrightarrow> field_value (from_utf8_lossy p)" for p
    by (rule path_field.enc_value)
  have t: "field_value ''true''" by code_simp
  show ?thesis
    using assms unfolding render_def storable_def
    by (auto simp: key_line_content key_words p t pred_option_def
        intro!: opt_line_content locking_field.enc_value)
qed

lemma names_replace: "map sec_name (replace_lines a ls ss) = map sec_name ss"
  by (induction ss) simp_all

lemma replace_ok:
  "list_all section_ok ss \<Longrightarrow> list_all content_line ls \<Longrightarrow> list_all section_ok (replace_lines a ls ss)"
proof -
  have "content_line []" by (simp add: content_line_def plain_line_def trim_id)
  then show "list_all section_ok ss \<Longrightarrow> list_all content_line ls \<Longrightarrow> list_all section_ok (replace_lines a ls ss)"
    by (induction ss) (auto simp: section_ok_def)
qed

lemma add_blank_ok: "config_ok c \<Longrightarrow> config_ok (add_line [] c)"
proof -
  have "content_line []" by (simp add: content_line_def plain_line_def trim_id)
  then show "config_ok c \<Longrightarrow> config_ok (add_line [] c)"
    by (cases "sections c" rule: rev_cases) (auto simp: config_ok_def add_line_def section_ok_def)
qed

lemma names_add_line [simp]: "map sec_name (sections (add_line l c)) = map sec_name (sections c)"
  by (cases "sections c" rule: rev_cases) (simp_all add: add_line_def)

lemma names_set: "map sec_name ss = map sec_name ss' \<Longrightarrow> sec_name ` set ss = sec_name ` set ss'"
  by (metis list.set_map)

lemma separated_ok: "config_ok c \<Longrightarrow> config_ok (separated c) \<and> same_vaults home (separated c) c \<and>
    map sec_name (sections (separated c)) = map sec_name (sections c)"
  by (simp add: separated_def add_blank_ok same_add_blank)

lemma upsert_ok:
  assumes "config_ok c" and "storable v"
  shows "config_ok (snd (upsert v c))"
proof (cases "v_alias v \<in> sec_name ` set (sections c)")
  case True
  with assms show ?thesis
    by (simp add: upsert_def config_ok_def names_replace replace_ok render_content)
next
  case False
  note sep = separated_ok [OF assms(1)]
  then have "v_alias v \<notin> sec_name ` set (sections (separated c))" using False names_set by metis
  moreover have "distinct (map sec_name (sections c))" using assms(1) by (simp add: config_ok_def)
  ultimately show ?thesis
    using False sep assms(2) render_content [OF assms(2)]
    by (simp add: upsert_def config_ok_def section_ok_def storable_def Let_def)
qed

lemma find_replace:
  "find (\<lambda>s. sec_name s = a) (replace_lines b ls ss) =
     (if a = b then map_option (\<lambda>s. s\<lparr>sec_lines := ls @ (if sec_lines s \<noteq> [] \<and> trim (last (sec_lines s)) = [] then [[]] else [])\<rparr>)
        (find (\<lambda>s. sec_name s = a) ss)
      else find (\<lambda>s. sec_name s = a) ss)"
  by (induction ss) auto

lemma find_name: "find (\<lambda>s. sec_name s = a) ss = Some s \<Longrightarrow> sec_name s = a"
  by (simp add: find_Some_iff) blast

lemma find_exists: "a \<in> sec_name ` set ss \<Longrightarrow> \<exists>s. find (\<lambda>s. sec_name s = a) ss = Some s"
  by (induction ss) auto

lemma find_append: "find P (xs @ ys) = (case find P xs of None \<Rightarrow> find P ys | Some x \<Rightarrow> Some x)"
  by (induction xs) simp_all

lemma find_absent: "a \<notin> sec_name ` set ss \<Longrightarrow> find (\<lambda>s. sec_name s = a) ss = None"
  by (auto simp: find_None_iff)

lemma get_upsert:
  assumes "storable v"
  shows "get home (snd (upsert v c)) a = (if a = v_alias v then Inr (Some v) else get home c a)"
proof (cases "v_alias v \<in> sec_name ` set (sections c)")
  case True
  then obtain s where s: "find (\<lambda>s. sec_name s = v_alias v) (sections c) = Some s" using find_exists by metis
  have "vault_from home (s\<lparr>sec_lines := render v @ (if b then [[]] else [])\<rparr>) = Inr v" for b
    using vault_from_render [OF assms, of home] find_name [OF s] vault_from_blank [of home "render v" s]
    by (cases s) simp
  with True s show ?thesis by (simp add: upsert_def get_def find_replace)
next
  case False
  have same: "same_vaults home (separated c) c" by (simp add: separated_def same_add_blank)
  have names: "map sec_name (sections (separated c)) = map sec_name (sections c)" by (simp add: separated_def)
  have absent: "v_alias v \<notin> sec_name ` set (sections (separated c))" using False names_set [OF names] by simp
  show ?thesis
  proof (cases "a = v_alias v")
    case True
    with False show ?thesis
      using vault_from_render [OF assms, of home] find_absent [OF absent]
      by (simp add: upsert_def get_def Let_def find_append)
  next
    case other: False
    have "get home (snd (upsert v c)) a = get home (separated c) a"
      using False other by (simp add: upsert_def get_def Let_def find_append split: option.split)
    with other get_same [OF same] show ?thesis by simp
  qed
qed

section \<open>What the parser makes of a text\<close>

lemma set_strip_cr: "set (strip_cr l) \<subseteq> set l"
  by (auto simp: strip_cr_def dest: in_set_butlastD)

lemma lines_chars: "l \<in> set (lines s) \<Longrightarrow> set l \<subseteq> set s \<and> NL \<notin> set l"
proof (induction s rule: lines.induct)
  case (1 s)
  show ?case
  proof (cases "dropWhile (\<lambda>c. c \<noteq> NL) s")
    case Nil
    then have "NL \<notin> set s" by (auto simp: dropWhile_eq_Nil_conv)
    moreover have "lines s = (if s = [] then [] else [s])" by (subst lines.simps) (simp add: Nil)
    ultimately show ?thesis using 1(2) by (auto split: if_splits)
  next
    case (Cons d rest)
    let ?l = "takeWhile (\<lambda>c. c \<noteq> NL) s"
    have ne: "s \<noteq> []" using Cons by auto
    then have "lines s = strip_cr ?l # lines rest" by (subst lines.simps) (simp add: Cons)
    with 1(2) consider "l = strip_cr ?l" | "l \<in> set (lines rest)" by auto
    then show ?thesis
    proof cases
      case 1
      moreover have "set ?l \<subseteq> set s" "NL \<notin> set ?l" by (auto dest: set_takeWhileD)
      ultimately show ?thesis using set_strip_cr [of ?l] by blast
    next
      case 2
      have "set (d # rest) \<subseteq> set s" using Cons by (metis set_dropWhileD subsetI)
      with 1(1) [OF ne Cons 2] show ?thesis by auto
    qed
  qed
qed

lemma lines_utf8: "utf8_valid s \<Longrightarrow> CR \<notin> set s \<Longrightarrow> l \<in> set (lines s) \<Longrightarrow> utf8_valid l"
proof (induction s rule: lines.induct)
  case (1 s)
  let ?l = "takeWhile (\<lambda>c. c \<noteq> NL) s"
  show ?case
  proof (cases "dropWhile (\<lambda>c. c \<noteq> NL) s")
    case Nil
    moreover have "lines s = (if s = [] then [] else [s])" by (subst lines.simps) (simp add: Nil)
    ultimately show ?thesis using 1(2,4) by (auto split: if_splits)
  next
    case (Cons d rest)
    have ne: "s \<noteq> []" using Cons by auto
    have d: "d = NL" using hd_dropWhile [of "\<lambda>c. c \<noteq> NL" s] by (simp add: Cons)
    have cut: "utf8_valid ?l" "utf8_valid (d # rest)" using utf8_cut [OF 1(2), of NL] Cons by (simp_all add: code_def)
    then have rest: "utf8_valid rest" by (simp add: d code_def)
    have "set (d # rest) \<subseteq> set s" using Cons by (metis set_dropWhileD subsetI)
    moreover have "set ?l \<subseteq> set s" by (auto dest: set_takeWhileD)
    ultimately have "CR \<notin> set ?l" "CR \<notin> set rest" using 1(3) by auto
    then have "strip_cr ?l = ?l" by (metis strip_cr_def last_in_set)
    then have "lines s = ?l # lines rest" using ne by (subst lines.simps) (simp add: Cons)
    with 1(4) consider "l = ?l" | "l \<in> set (lines rest)" by auto
    then show ?thesis
      using cut(1) 1(1) [OF ne Cons rest \<open>CR \<notin> set rest\<close>] by cases simp_all
  qed
qed

lemma parse_line_ok:
  assumes "parse_line raw c = Inr c'" and "plain_line raw \<and> utf8_valid raw" and "config_ok c"
  shows "config_ok c'"
proof (cases "prefix ''['' (trim raw)")
  case True
  then obtain nm where "validate_alias nm = Inr ()" "nm \<notin> sec_name ` set (sections c)"
    "c' = c\<lparr>sections := sections c @ [\<lparr>sec_name = nm, sec_lines = []\<rparr>]\<rparr>"
    using assms(1) by (auto simp: parse_line_def Let_def split: option.splits sum.splits if_splits)
  with assms(3) show ?thesis by (simp add: config_ok_def section_ok_def)
next
  case False
  with assms have "c' = add_line raw c" "content_line raw"
    by (simp_all add: parse_line_def content_line_def)
  with assms(3) show ?thesis
    by (cases "sections c" rule: rev_cases) (auto simp: config_ok_def add_line_def section_ok_def)
qed

lemma parse_lines_ok:
  "parse_lines n ls c = Inr c' \<Longrightarrow> \<forall>l \<in> set ls. plain_line l \<and> utf8_valid l \<Longrightarrow> config_ok c \<Longrightarrow> config_ok c'"
  by (induction n ls c rule: parse_lines.induct) (auto split: sum.splits dest: parse_line_ok)

lemma parse_ok:
  assumes "parse path t = Inr c" and "CR \<notin> set t" and "utf8_valid t"
  shows "config_ok c"
proof (rule parse_lines_ok [OF assms(1) [unfolded parse_def]])
  show "\<forall>l \<in> set (lines t). plain_line l \<and> utf8_valid l"
  proof
    fix l
    assume l: "l \<in> set (lines t)"
    then have "plain_line l"
      using assms(2) lines_chars [of l t] last_in_set [of l] by (fastforce simp: plain_line_def)
    with lines_utf8 [OF assms(3,2) l] show "plain_line l \<and> utf8_valid l" by simp
  qed
qed (simp add: config_ok_def)

lemma default_header_ok: "list_all content_line (default_header @ [[]])"
  unfolding list_all_iff by code_simp

lemma load_ok:
  assumes "load_from path r = Inr c" and "\<And>t. r = Contents t \<Longrightarrow> CR \<notin> set t \<and> utf8_valid t"
  shows "config_ok c"
proof (cases r)
  case (Contents t)
  with assms show ?thesis by (auto simp: load_from_def intro: parse_ok)
next
  case DoesNotExist
  with assms(1) default_header_ok show ?thesis by (auto simp: load_from_def config_ok_def)
qed (use assms(1) in \<open>simp add: load_from_def\<close>)

section \<open>Saving\<close>

lemma save_file:
  assumes "save stops dir ex c fs = (finished, fs')"
  shows "finished \<Longrightarrow> fs' (cfg_path c) = Some (to_text c)"
    and "fs' (cfg_path c) \<in> {fs (cfg_path c), Some (to_text c)}"
    and "q \<noteq> cfg_path c \<Longrightarrow> q \<noteq> cfg_path c @ ''.tmp'' \<Longrightarrow> fs' q = fs q"
  using assms
  by (auto simp: save_def save_ops_def Let_def do_op_def part_op_def split: option.splits if_splits)

text \<open>
  C26: the registry file is replaced as a whole. Wherever saving fails or the machine stops -
  between two operations or in the middle of a write - the file holds what it held before or
  exactly the new text, and the new text if the save reached its end; no other file but the
  temporary one is touched.
\<close>

theorem save_is_atomic:
  assumes "save stops dir ex c fs = (finished, fs')"
  shows "fs' (cfg_path c) \<in> {fs (cfg_path c), Some (to_text c)} \<and>
    (finished \<longrightarrow> fs' (cfg_path c) = Some (to_text c)) \<and>
    (\<forall>q. q \<noteq> cfg_path c \<and> q \<noteq> cfg_path c @ ''.tmp'' \<longrightarrow> fs' q = fs q)"
  using save_file [OF assms] by blast

definition demo_config :: config where
  "demo_config = \<lparr>cfg_path = ''/d/c'', preamble = [''# x''], sections = []\<rparr>"

theorem save_is_atomic_witness:
  "\<exists>fs'. save (\<lambda>i. if i = 3 then Some 2 else None) ''/d'' False demo_config (\<lambda>p. Some ''# y'') = (False, fs') \<and>
     fs' ''/d/c'' \<in> {Some ''# y'', Some (to_text demo_config)}"
proof -
  let ?stops = "\<lambda>i::nat. if i = 3 then Some (2::nat) else None"
  obtain fs' where run: "save ?stops ''/d'' False demo_config (\<lambda>p. Some ''# y'') = (False, fs')"
    by (simp add: save_def save_ops_def Let_def)
  with save_is_atomic [OF run] show ?thesis by (simp add: demo_config_def)
qed

end
