(* ===== verification/Cli.thy ===== *)
theory Cli
  imports Cli_Input Registry_Props
begin

text \<open>
  The decisions of the command line (src/src/main.rs): where a password comes from, what a
  mount was asked for, which vault a menu answer picks, and the commands that change the
  registry. What the process finds in its environment - the registry file, the answers typed,
  the files that exist - is an argument.
\<close>

section \<open>Errors\<close>

datatype cli_error =
    Config config_error | Input input_error | BothPasswordSources | EmptyPassword | PasswordUnreadable
  | PasswordsDiffer | CommandFailed | NoVaults | NoTerminal | MenuAborted | NeedsMountpoint | NoSuchContainer
  | NoSuchVault | NotAbsolute | SaveFailed | Panicked | NotMounted | NoneMounted | CannotRun

definition config_err :: "config_error + 'a \<Rightarrow> cli_error + 'a" where
  "config_err r = (case r of Inl e \<Rightarrow> Inl (Config e) | Inr a \<Rightarrow> Inr a)"

definition from_outcome :: "'a outcome \<Rightarrow> cli_error + 'a" where
  "from_outcome r = (case r of Ok a \<Rightarrow> Inr a | Err e \<Rightarrow> Inl (Input e) | Abort \<Rightarrow> Inl Panicked)"

definition sbind :: "'e + 'a \<Rightarrow> ('a \<Rightarrow> 'e + 'b) \<Rightarrow> 'e + 'b" where
  "sbind r k = (case r of Inl e \<Rightarrow> Inl e | Inr a \<Rightarrow> k a)"

definition for_some :: "('a \<Rightarrow> 'e + 'b) \<Rightarrow> 'a option \<Rightarrow> 'e + 'b option" where
  "for_some f x = (case x of None \<Rightarrow> Inr None | Some a \<Rightarrow> sbind (f a) (\<lambda>b. Inr (Some b)))"

lemma sbind_Inr [simp]: "(sbind r k = Inr b) = (\<exists>a. r = Inr a \<and> k a = Inr b)"
  by (cases r) (simp_all add: sbind_def)

lemma sbind_simps [simp]: "sbind (Inl e) k = Inl e" "sbind (Inr a) k = k a"
  by (simp_all add: sbind_def)

section \<open>Passwords\<close>

text \<open>What running \<open>sh -c CMD\<close> came to: it did not start, it failed, or its standard output.\<close>

datatype command_result = NotRun | Failed | Output string

definition read_password_from_command :: "command_result \<Rightarrow> cli_error + string" where
  "read_password_from_command r = (case r of
     Output stdout \<Rightarrow>
       (let first = hd (split NL stdout);
            pw = (case strip_suffix [CR] first of Some p \<Rightarrow> p | None \<Rightarrow> first)
        in if \<not> utf8_valid pw then Inl PasswordUnreadable
           else if pw = [] then Inl EmptyPassword else Inr pw)
   | _ \<Rightarrow> Inl CommandFailed)"

text \<open>\<open>prompt\<close> is what the interactive fallback comes to; a file that is not UTF-8 is not readable.\<close>

definition read_password_source ::
  "cli_error + string \<Rightarrow> (string \<Rightarrow> command_result) \<Rightarrow> (string \<Rightarrow> string option) \<Rightarrow>
     string option \<Rightarrow> string option \<Rightarrow> cli_error + string" where
  "read_password_source prompt sh contents password_file password_command =
     (case password_command of
        Some cmd \<Rightarrow>
          if password_file \<noteq> None then Inl BothPasswordSources else read_password_from_command (sh cmd)
      | None \<Rightarrow>
          (case password_file of
             None \<Rightarrow> prompt
           | Some path \<Rightarrow>
               (case Option.bind (contents path) to_str of
                  None \<Rightarrow> Inl PasswordUnreadable
                | Some t \<Rightarrow>
                    let pw = (case lines t of [] \<Rightarrow> [] | l # _ \<Rightarrow> l)
                    in if pw = [] then Inl EmptyPassword else Inr pw)))"

section \<open>What to mount\<close>

record mount_opts =
  o_foreground :: bool
  o_idle_timeout :: "string option"
  o_compact_on_idle :: "string option"
  o_password_file :: "string option"
  o_password_command :: "string option"
  o_read_only :: bool
  o_log :: "string option"
  o_enforce_permissions :: bool
  o_locking :: "locking option"

definition or_else :: "'a option \<Rightarrow> 'a option \<Rightarrow> 'a option" where
  "or_else a b = (case a of Some x \<Rightarrow> Some x | None \<Rightarrow> b)"

definition with_defaults_from :: "mount_opts \<Rightarrow> vault \<Rightarrow> mount_opts" where
  "with_defaults_from opts v =
     (let unset = o_password_file opts = None \<and> o_password_command opts = None in
      opts\<lparr>o_idle_timeout := or_else (o_idle_timeout opts) (v_idle_timeout v),
           o_compact_on_idle := or_else (o_compact_on_idle opts) (v_compact_on_idle v),
           o_password_file := (if unset then v_password_file v else o_password_file opts),
           o_password_command := (if unset then v_password_command v else o_password_command opts),
           o_log := or_else (o_log opts) (v_log_file v),
           o_read_only := o_read_only opts \<or> v_read_only v,
           o_enforce_permissions := o_enforce_permissions opts \<or> v_enforce_permissions v,
           o_locking := or_else (o_locking opts) (v_locking v)\<rparr>)"

definition looks_like_path :: "string \<Rightarrow> bool" where
  "looks_like_path arg \<longleftrightarrow> CHR ''/'' \<in> set arg \<or> prefix ''.'' arg \<or> prefix ''~'' arg"

text \<open>\<open>reg\<close> is what \<open>Config::load()\<close> answers.\<close>

definition resolve_container ::
  "string option \<Rightarrow> config_error + config \<Rightarrow> (string \<Rightarrow> bool) \<Rightarrow> string \<Rightarrow> cli_error + string" where
  "resolve_container home reg exists arg =
     (if looks_like_path arg then Inr arg
      else sbind (config_err reg) (\<lambda>c.
           sbind (config_err (get home c arg)) (\<lambda>found. case found of
             Some v \<Rightarrow> Inr (v_path v)
           | None \<Rightarrow> if exists arg then Inr arg else Inl NoSuchContainer)))"

text \<open>The menu: a line that is neither a number in range nor an alias asks again.\<close>

fun menu :: "vault list \<Rightarrow> string list \<Rightarrow> cli_error + vault" where
  "menu cands [] = Inl MenuAborted"
| "menu cands (l # ls) =
     (let answer = trim l in
      if answer = [] \<or> answer = ''q'' then Inl MenuAborted
      else case parse_uint 64 answer of
        Some n \<Rightarrow>
          if 1 \<le> n \<and> n \<le> length cands then Inr (cands ! (n - 1))
          else (case find (\<lambda>v. v_alias v = answer) cands of Some v \<Rightarrow> Inr v | None \<Rightarrow> menu cands ls)
      | None \<Rightarrow>
          (case find (\<lambda>v. v_alias v = answer) cands of Some v \<Rightarrow> Inr v | None \<Rightarrow> menu cands ls))"

definition pick_vault :: "bool \<Rightarrow> string list \<Rightarrow> vault list \<Rightarrow> cli_error + vault" where
  "pick_vault terminal input cands =
     (case cands of
        [v] \<Rightarrow> Inr v
      | _ \<Rightarrow> if terminal then menu cands input else Inl NoTerminal)"

definition plan_mount ::
  "string option \<Rightarrow> config_error + config \<Rightarrow> bool \<Rightarrow> string list \<Rightarrow> string option \<Rightarrow> string option \<Rightarrow>
     mount_opts \<Rightarrow> cli_error + string \<times> string \<times> mount_opts" where
  "plan_mount home reg terminal input target mountpoint opts =
     sbind (case target of
              Some t \<Rightarrow>
                if looks_like_path t then Inr None
                else sbind (config_err reg) (\<lambda>c. config_err (get home c t))
            | None \<Rightarrow>
                sbind (config_err reg) (\<lambda>c.
                sbind (config_err (vaults home c)) (\<lambda>vs.
                if vs = [] then Inl NoVaults
                else sbind (pick_vault terminal input vs) (\<lambda>v. Inr (Some v))))) (\<lambda>registered.
     case registered of
       Some v \<Rightarrow>
         Inr (v_path v, (case mountpoint of Some m \<Rightarrow> m | None \<Rightarrow> v_mountpoint v), with_defaults_from opts v)
     | None \<Rightarrow>
         (case (target, mountpoint) of
            (Some t, Some m) \<Rightarrow> Inr (t, m, opts)
          | _ \<Rightarrow> Inl NeedsMountpoint))"

section \<open>Commands that change the registry\<close>

text \<open>
  \<open>cmd_add\<close>: \<open>is_file\<close> and \<open>absolute\<close> are \<open>Path::is_file\<close> and \<open>std::path::absolute\<close>, which depend
  on the file system and the working directory. The result is whether a section was replaced,
  the vault as stored, and the registry to save.
\<close>

definition absolute_vault :: "(string \<Rightarrow> string option) \<Rightarrow> vault \<Rightarrow> cli_error + vault" where
  "absolute_vault absolute v =
     (let abs = (\<lambda>p. case absolute p of Some q \<Rightarrow> Inr q | None \<Rightarrow> Inl NotAbsolute) in
      sbind (abs (v_path v)) (\<lambda>f.
      sbind (abs (v_mountpoint v)) (\<lambda>m.
      sbind (for_some abs (v_password_file v)) (\<lambda>pw.
      sbind (for_some abs (v_log_file v)) (\<lambda>log.
      Inr (v\<lparr>v_path := f, v_mountpoint := m, v_password_file := pw, v_log_file := log\<rparr>))))))"

definition add_vault ::
  "(string \<Rightarrow> bool) \<Rightarrow> (string \<Rightarrow> string option) \<Rightarrow> vault \<Rightarrow> config \<Rightarrow> cli_error + bool \<times> vault \<times> config" where
  "add_vault is_file absolute v0 c =
     sbind (config_err (validate_alias (v_alias v0))) (\<lambda>_.
     if \<not> is_file (v_path v0) then Inl NoSuchContainer
     else sbind (absolute_vault absolute v0) (\<lambda>v.
          sbind (for_some (\<lambda>d. from_outcome (parse_duration d)) (v_idle_timeout v)) (\<lambda>_.
          sbind (for_some (\<lambda>d. from_outcome (parse_duration d)) (v_compact_on_idle v)) (\<lambda>_.
          case upsert v c of (replaced, c') \<Rightarrow> Inr (replaced, v, c')))))"

definition cmd_add ::
  "(string \<Rightarrow> bool) \<Rightarrow> (string \<Rightarrow> string option) \<Rightarrow> (nat \<Rightarrow> nat option) \<Rightarrow> string \<Rightarrow> bool \<Rightarrow> vault \<Rightarrow> config \<Rightarrow>
     files \<Rightarrow> (cli_error + bool) \<times> files" where
  "cmd_add is_file absolute stops dir ex v c fs =
     (case add_vault is_file absolute v c of
        Inl e \<Rightarrow> (Inl e, fs)
      | Inr (replaced, _, c') \<Rightarrow>
          (case save stops dir ex c' fs of
             (finished, fs') \<Rightarrow> (if finished then Inr replaced else Inl SaveFailed, fs')))"

text \<open>\<open>cmd_remove\<close>; the vault it looks up first only goes into its message.\<close>

definition cmd_remove ::
  "(nat \<Rightarrow> nat option) \<Rightarrow> string \<Rightarrow> bool \<Rightarrow> string \<Rightarrow> config \<Rightarrow> files \<Rightarrow> (cli_error + unit) \<times> files" where
  "cmd_remove stops dir ex alias c fs =
     (case remove alias c of
        (found, c') \<Rightarrow>
          if \<not> found then (Inl NoSuchVault, fs)
          else (case save stops dir ex c' fs of
                  (finished, fs') \<Rightarrow> (if finished then Inr () else Inl SaveFailed, fs')))"

text \<open>Loading what is there; \<open>read_to_string\<close> refuses what is not UTF-8.\<close>

definition load_file :: "string \<Rightarrow> files \<Rightarrow> config_error + config" where
  "load_file path fs =
     load_from path (case fs path of
       None \<Rightarrow> DoesNotExist
     | Some t \<Rightarrow> if utf8_valid t then Contents t else Unreadable)"

end
