(* ===== verification/Cli_Props.thy ===== *)
theory Cli_Props
  imports Cli
begin

text \<open>
  The properties of the commands: what \<open>coffer add\<close> and \<open>coffer remove\<close> leave in the registry
  file, read back through the parser and whatever stopped the write, and what a mount runs with.
\<close>

section \<open>From one load to the next\<close>

lemma utf8_to_text: "config_ok c \<Longrightarrow> utf8_valid (to_text c)"
proof -
  assume ok: "config_ok c"
  obtain ls k where ls: "all_lines c = ls @ replicate k []" "to_text c = unlines ls"
    using pop_blank_unlines [OF all_lines_plain [OF ok]] by (auto simp: to_text_def)
  have head: "utf8_valid (header_line a)" if "validate_alias a = Inr ()" for a
  proof (rule utf8_all_ascii)
    have "\<forall>c. alias_char c \<longrightarrow> code c < 128"
      by (auto simp: alias_char_def ascii_alphanumeric_def ascii_digit_def code_def)
    then show "\<forall>c \<in> set (header_line a). code c < 128"
      using valid_alias(2) [OF that] by (auto simp: code_def)
  qed
  have "\<forall>l \<in> set (all_lines c). utf8_valid l"
    using ok head by (fastforce simp: all_lines_def config_ok_def section_ok_def content_line_def list_all_iff)
  then have "utf8_valid (unlines ls)" by (intro utf8_unlines) (simp add: ls(1))
  then show ?thesis by (simp add: ls(2))
qed

lemma cfg_path_add_line [simp]: "cfg_path (add_line l c) = cfg_path c"
  by (simp add: add_line_def)

lemma cfg_path_parse: "parse_lines n ls c = Inr c' \<Longrightarrow> cfg_path c' = cfg_path c"
  by (induction n ls c rule: parse_lines.induct)
    (auto simp: parse_line_def Let_def split: sum.splits option.splits if_splits)

lemma load_file_ok:
  assumes "load_file path fs = Inr c" and "\<And>t. fs path = Some t \<Longrightarrow> CR \<notin> set t"
  shows "config_ok c" "cfg_path c = path"
proof -
  show "config_ok c"
    using assms by (auto simp: load_file_def split: option.splits if_splits elim!: load_ok)
  show "cfg_path c = path"
    using assms(1)
    by (auto simp: load_file_def load_from_def parse_def split: option.splits if_splits dest: cfg_path_parse)
qed

lemma load_saved:
  assumes "config_ok c" and "fs (cfg_path c) = Some (to_text c)"
  shows "\<exists>c'. load_file (cfg_path c) fs = Inr c' \<and> (\<forall>a. get home c' a = get home c a)"
proof -
  obtain c' where "parse (cfg_path c) (to_text c) = Inr c'" "\<And>a. get home c' a = get home c a"
    using reparse_get [OF assms(1)] by blast
  with assms(2) utf8_to_text [OF assms(1)] show ?thesis by (auto simp: load_file_def load_from_def)
qed

text \<open>After a save, whatever stopped it, the next load answers as the old or the new registry.\<close>

lemma load_after_save:
  assumes "load_file path fs = Inr c" and "\<And>t. fs path = Some t \<Longrightarrow> CR \<notin> set t"
    and "config_ok c'" and "cfg_path c' = path" and "save stops dir ex c' fs = (finished, fs')"
  shows "\<exists>c2. load_file path fs' = Inr c2 \<and>
    ((\<forall>a. get home c2 a = get home c' a) \<or> \<not> finished \<and> (\<forall>a. get home c2 a = get home c a))"
proof (cases "fs' path = Some (to_text c')")
  case True
  with load_saved [OF assms(3)] show ?thesis unfolding assms(4) by blast
next
  case False
  with save_file(1,2) [OF assms(5)] have "\<not> finished" "fs' path = fs path" by (auto simp: assms(4))
  moreover from this(2) have "load_file path fs' = load_file path fs" by (simp add: load_file_def)
  ultimately show ?thesis using assms(1) by auto
qed

section \<open>coffer add\<close>

lemma cfg_path_upsert: "cfg_path (snd (upsert v c)) = cfg_path c"
  by (simp add: upsert_def separated_def Let_def)

lemma fst_upsert: "fst (upsert v c) = (v_alias v \<in> sec_name ` set (sections c))"
  by (simp add: upsert_def Let_def)

lemma add_reloads:
  assumes "load_file path fs = Inr c" and "\<And>t. fs path = Some t \<Longrightarrow> CR \<notin> set t"
    and "add_vault is_file absolute v0 c = Inr (replaced, v, c')" and "storable v"
    and "cmd_add is_file absolute stops dir ex v0 c fs = (r, fs')"
  shows "\<exists>c2. load_file path fs' = Inr c2 \<and>
    ((get home c2 (v_alias v0) = Inr (Some v) \<and> (\<forall>a. a \<noteq> v_alias v0 \<longrightarrow> get home c2 a = get home c a)) \<or>
     (r = Inl SaveFailed \<and> (\<forall>a. get home c2 a = get home c a)))"
proof -
  note ok = load_file_ok [OF assms(1,2)]
  from assms(3) have v: "upsert v c = (replaced, c')" "absolute_vault absolute v0 = Inr v"
    by (auto simp: add_vault_def case_prod_beta prod_eq_iff split: if_splits)
  have al: "v_alias v = v_alias v0" using v(2) by (auto simp: absolute_vault_def Let_def)
  have c': "config_ok c'" "cfg_path c' = path" "get home c' a = (if a = v_alias v then Inr (Some v) else get home c a)" for a
    using upsert_ok [OF ok(1) assms(4)] cfg_path_upsert [of v c] get_upsert [OF assms(4), of home c a] ok(2)
    by (simp_all add: v(1))
  obtain finished where s: "save stops dir ex c' fs = (finished, fs')"
    and r: "r = (if finished then Inr replaced else Inl SaveFailed)"
    using assms(5) by (auto simp: cmd_add_def assms(3) split: prod.splits)
  from load_after_save [OF assms(1,2) c'(1,2) s, where home = home] show ?thesis
    by (auto simp: c'(3) al r)
qed

text \<open>
  C27: a registered vault survives. Where the registry file loads and \<open>coffer add\<close> comes to a
  vault the line format can hold, then after a finished \<open>cmd_add\<close> the file loads again, the
  alias is the vault as given (with its paths made absolute), and every other alias answers
  exactly what it answered before. If the write was cut short, the file still loads, and
  answers either like that or as before.
\<close>

theorem add_survives_reload:
  assumes "load_file path fs = Inr c" and "\<And>t. fs path = Some t \<Longrightarrow> CR \<notin> set t"
    and "add_vault is_file absolute v0 c = Inr (replaced, v, c')" and "storable v"
    and "cmd_add is_file absolute stops dir ex v0 c fs = (r, fs')"
  shows "\<exists>c2. load_file path fs' = Inr c2 \<and>
    ((get home c2 (v_alias v0) = Inr (Some v) \<and> (\<forall>a. a \<noteq> v_alias v0 \<longrightarrow> get home c2 a = get home c a)) \<or>
     (r = Inl SaveFailed \<and> (\<forall>a. get home c2 a = get home c a)))"
  using assms by (rule add_reloads)

definition demo_vault :: vault where
  "demo_vault = \<lparr>v_alias = ''work'', v_path = ''/data/w.coffer'', v_mountpoint = ''/mnt/w'',
     v_idle_timeout = Some ''30m'', v_compact_on_idle = None, v_password_file = None,
     v_password_command = Some ''pass show x = y'', v_log_file = None, v_read_only = True,
     v_enforce_permissions = False, v_locking = Some Exclusive\<rparr>"

lemma demo_vault_storable: "storable demo_vault"
proof -
  have "validate_alias ''work'' = Inr () \<and> path_ok ''/data/w.coffer'' \<and> path_ok ''/mnt/w'' \<and> field_value ''30m'' \<and>
      field_value ''pass show x = y''"
    by code_simp
  then show ?thesis by (simp add: storable_def demo_vault_def)
qed

definition no_files :: files where
  "no_files = (\<lambda>_. None)"

lemma demo_add:
  "add_vault (\<lambda>_. True) Some demo_vault c = Inr (fst (upsert demo_vault c), demo_vault, snd (upsert demo_vault c))"
proof -
  have "validate_alias ''work'' = Inr ()" by code_simp
  moreover have "show_nat 30 = ''30''" by (simp add: show_nat.simps) code_simp
  then have "parse_duration ''30m'' = Ok (1800 * nanos_per_sec)"
    using duration_exact [of 30 60 "CHR ''m''"] by (simp add: unit_secs_def)
  ultimately show ?thesis
    by (simp add: add_vault_def absolute_vault_def for_some_def config_err_def from_outcome_def demo_vault_def
        split: prod.split)
qed

theorem add_survives_reload_witness:
  "\<exists>r fs' c2. cmd_add (\<lambda>_. True) Some (\<lambda>_. None) ''/d'' True demo_vault
       \<lparr>cfg_path = ''/d/c'', preamble = default_header @ [[]], sections = []\<rparr> no_files = (Inr r, fs') \<and>
     load_file ''/d/c'' fs' = Inr c2 \<and> get None c2 ''work'' = Inr (Some demo_vault)"
proof -
  let ?c = "\<lparr>cfg_path = ''/d/c'', preamble = default_header @ [[]], sections = []\<rparr>"
  have l: "load_file ''/d/c'' no_files = Inr ?c"
    by (simp add: load_file_def load_from_def no_files_def)
  obtain r fs' where run: "cmd_add (\<lambda>_. True) Some (\<lambda>_. None) ''/d'' True demo_vault ?c no_files = (Inr r, fs')"
    by (simp add: cmd_add_def demo_add save_def save_ops_def Let_def)
  have al: "v_alias demo_vault = ''work''" by (simp add: demo_vault_def)
  from add_survives_reload [OF l _ demo_add demo_vault_storable run, where home = None]
  show ?thesis unfolding al using run by (auto simp: no_files_def)
qed

section \<open>coffer remove\<close>

lemma get_remove: "get home (snd (remove alias c)) a = (if a = alias then Inr None else get home c a)"
proof -
  have fl: "find (\<lambda>s. sec_name s = a) (filter (\<lambda>s. sec_name s \<noteq> alias) ss) =
      (if a = alias then None else find (\<lambda>s. sec_name s = a) ss)" for ss
    by (induction ss) auto
  show ?thesis by (simp add: remove_def get_def Let_def fl)
qed

lemma remove_ok: "config_ok c \<Longrightarrow> config_ok (snd (remove alias c)) \<and> cfg_path (snd (remove alias c)) = cfg_path c"
  by (auto simp: remove_def Let_def config_ok_def list_all_iff distinct_map inj_on_def)

lemma fst_remove: "fst (remove alias c) = (alias \<in> sec_name ` set (sections c))"
proof -
  have "(length (filter (\<lambda>s. sec_name s \<noteq> alias) ss) \<noteq> length ss) = (alias \<in> sec_name ` set ss)" for ss
  proof -
    have "length (filter P ss) < length ss" if "\<exists>x \<in> set ss. \<not> P x" for P
      using that length_filter_less by metis
    moreover have "filter P ss = ss" if "\<forall>x \<in> set ss. P x" for P using that by simp
    ultimately show ?thesis by (metis (mono_tags, lifting) image_iff less_irrefl_nat)
  qed
  then show ?thesis by (simp add: remove_def Let_def)
qed

text \<open>
  \<open>coffer remove\<close> takes away one vault and nothing else. An alias without a section is an
  error and the file stays as it is. Otherwise, after a finished removal the file loads and
  knows the alias no more, while every other alias answers as before; cut short, the file
  answers like that or as before.
\<close>

theorem remove_survives_reload:
  assumes "load_file path fs = Inr c" and "\<And>t. fs path = Some t \<Longrightarrow> CR \<notin> set t"
    and "cmd_remove stops dir ex alias c fs = (r, fs')"
  shows "if alias \<in> sec_name ` set (sections c)
    then \<exists>c2. load_file path fs' = Inr c2 \<and>
      ((get home c2 alias = Inr None \<and> (\<forall>a. a \<noteq> alias \<longrightarrow> get home c2 a = get home c a)) \<or>
       (r = Inl SaveFailed \<and> (\<forall>a. get home c2 a = get home c a)))
    else r = Inl NoSuchVault \<and> fs' = fs"
proof (cases "alias \<in> sec_name ` set (sections c)")
  case False
  with fst_remove [of "alias" c] assms(3) show ?thesis by (auto simp: cmd_remove_def split: prod.splits)
next
  case True
  note ok = load_file_ok [OF assms(1,2)]
  obtain finished where s: "save stops dir ex (snd (remove alias c)) fs = (finished, fs')"
    and r: "r = (if finished then Inr () else Inl SaveFailed)"
    using assms(3) True fst_remove [of "alias" c] by (auto simp: cmd_remove_def split: prod.splits)
  have "config_ok (snd (remove alias c))" "cfg_path (snd (remove alias c)) = path"
    using remove_ok [OF ok(1), of "alias"] ok(2) by simp_all
  from load_after_save [OF assms(1,2) this s, where home = home] True show ?thesis
    by (auto simp: get_remove r)
qed

definition two_lines :: files where
  "two_lines = (\<lambda>p. if p = ''/d/c'' then Some (''[a]'' @ [NL] @ ''file = /x'' @ [NL]) else None)"

lemma two_lines_load:
  "load_file ''/d/c'' two_lines = Inr \<lparr>cfg_path = ''/d/c'', preamble = [],
     sections = [\<lparr>sec_name = ''a'', sec_lines = [''file = /x'']\<rparr>]\<rparr>"
  by code_simp

theorem remove_survives_reload_witness:
  "\<exists>fs' c2. cmd_remove (\<lambda>_. None) ''/d'' True ''a''
      \<lparr>cfg_path = ''/d/c'', preamble = [], sections = [\<lparr>sec_name = ''a'', sec_lines = [''file = /x'']\<rparr>]\<rparr> two_lines
      = (Inr (), fs') \<and> load_file ''/d/c'' fs' = Inr c2 \<and> get None c2 ''a'' = Inr None"
proof -
  let ?c = "\<lparr>cfg_path = ''/d/c'', preamble = [], sections = [\<lparr>sec_name = ''a'', sec_lines = [''file = /x'']\<rparr>]\<rparr>"
  obtain fs' where run: "cmd_remove (\<lambda>_. None) ''/d'' True ''a'' ?c two_lines = (Inr (), fs')"
    by (simp add: cmd_remove_def remove_def save_def save_ops_def Let_def)
  have "CR \<notin> set t" if "two_lines ''/d/c'' = Some t" for t
    using that by (auto simp: two_lines_def)
  from remove_survives_reload [OF two_lines_load this run, where home = None] run show ?thesis by auto
qed

text \<open>
  What the line format cannot hold: a command in quotes (here \<open>'a' 'b'\<close>) comes back without the
  outer ones. Nothing on the way of \<open>coffer add\<close> refuses it.
\<close>

lemma unquoted_command: "unquote (CHR '' '' # [QUOTE, CHR ''a'', QUOTE, CHR '' '', QUOTE, CHR ''b'', QUOTE]) = [CHR ''a'', QUOTE, CHR '' '', QUOTE, CHR ''b'']"
  by code_simp

lemma quoted_command_is_damaged:
  "read_line None (hd (opt_line ''password_command'' id (Some [QUOTE, CHR ''a'', QUOTE, CHR '' '', QUOTE, CHR ''b'', QUOTE]))) d =
   Inr (d\<lparr>d_password_command := Some [CHR ''a'', QUOTE, CHR '' '', QUOTE, CHR ''b'']\<rparr>)"
proof -
  have "is_comment (''password_command'' @ '' = '' @ [QUOTE, CHR ''a'', QUOTE, CHR '' '', QUOTE, CHR ''b'', QUOTE]) = False"
    by code_simp
  moreover have "split_once (CHR ''='') (''password_command'' @ '' = '' @ [QUOTE, CHR ''a'', QUOTE, CHR '' '', QUOTE, CHR ''b'', QUOTE]) =
      Some (''password_command '', CHR '' '' # [QUOTE, CHR ''a'', QUOTE, CHR '' '', QUOTE, CHR ''b'', QUOTE])"
    by code_simp
  moreover have "trim ''password_command '' = ''password_command''"
    by code_simp
  ultimately show ?thesis
    by (simp add: read_line_def setting_def opt_line_def key_line_def unquoted_command Let_def del: append_Cons append_Nil)
qed

section \<open>coffer mount\<close>

lemma or_else_Some [simp]: "(or_else a b = Some x) = (a = Some x \<or> a = None \<and> b = Some x)"
  by (cases a) (auto simp: or_else_def)

lemma config_err_Inr [simp]: "(config_err r = Inr a) = (r = Inr a)"
  by (cases r) (simp_all add: config_err_def)







section \<open>Passwords\<close>

text \<open>
  A password reads the same from a file and from a command. For a text whose first line
  is the password, ended by a newline with or without a carriage return, both sources answer
  exactly that line; given both sources, neither is used.
\<close>

theorem password_sources_agree:
  assumes "plain_line pw" and "pw \<noteq> []" and "utf8_valid pw" and "utf8_valid rest" and "eol \<in> {[NL], [CR, NL]}"
    and "contents path = Some (pw @ eol @ rest)" and "sh cmd = Output (pw @ eol @ rest)"
  shows "read_password_source prompt sh contents (Some path) None = Inr pw \<and>
    read_password_source prompt sh contents None (Some cmd) = Inr pw \<and>
    read_password_source prompt sh contents (Some path) (Some cmd) = Inl BothPasswordSources"
proof -
  obtain p where first: "pw @ eol @ rest = p @ NL # rest" "NL \<notin> set p" "strip_cr p = pw"
    "strip_suffix [CR] p = (if eol = [NL] then None else Some pw)" "utf8_valid p"
  proof (cases "eol = [NL]")
    case True
    with assms(1,2,3) show ?thesis
      by (intro that [of pw]) (auto simp: plain_line_def strip_cr_def strip_suffix_def suffix_def)
  next
    case False
    have "utf8_valid [CR]" by (rule utf8_all_ascii) (simp add: code_def)
    with assms(3) have "utf8_valid (pw @ [CR])" by (rule utf8_append)
    with False assms(1,5) show ?thesis
      by (intro that [of "pw @ [CR]"]) (auto simp: plain_line_def strip_cr_def strip_suffix_def suffix_def)
  qed
  have "utf8_valid (NL # rest)" using assms(4) by (simp add: code_def)
  with first(5) have u: "utf8_valid (p @ NL # rest)" by (rule utf8_append)
  have "lines (p @ NL # rest) = pw # lines rest"
    by (subst lines.simps) (simp add: span_char first)
  moreover have "hd (split NL (p @ NL # rest)) = p" by (simp add: split_append first)
  moreover have "p = pw" if "eol = [NL]" using first(1) that by simp
  ultimately show ?thesis
    using assms(2,3,6,7) u first(4)
    by (auto simp: read_password_source_def read_password_from_command_def Let_def first(1) to_str_def
        split: if_splits)
qed

theorem password_sources_agree_witness:
  "read_password_source (Inl PasswordUnreadable) (\<lambda>_. Output (''pw'' @ [CR, NL] @ ''x'')) (\<lambda>_. None) None (Some ''c'') = Inr ''pw''"
  using password_sources_agree [where pw = "''pw''" and rest = "''x''" and eol = "[CR, NL]" and path = "''f''" and cmd = "''c''"
      and contents = "\<lambda>_. Some (''pw'' @ [CR, NL] @ ''x'')" and sh = "\<lambda>_. Output (''pw'' @ [CR, NL] @ ''x'')"
      and prompt = "Inl PasswordUnreadable"]
  by (simp add: plain_line_def code_def read_password_source_def)

end
