(* ===== verification/Ipc.thy ===== *)
theory Ipc
  imports Container
begin

text \<open>
  The control socket of an exclusive mount (src/src/ipc.rs): where it lives, the request
  \<open>coffer backup\<close> sends, the daemon's side (\<open>serve\<close>, \<open>handle\<close>, the stepwise copy) and the client's
  side (\<open>ask\<close>, \<open>request_backup\<close>). Sockets, the file system and SQLite's backup interface are
  arguments: which writes arrive, what each step of the copy answers.
\<close>

section \<open>Where the socket lives\<close>

definition fnv_step :: "u64 \<Rightarrow> char \<Rightarrow> u64" where
  "fnv_step h b = (h XOR word_of_nat (code b)) * 0x100000001b3"

definition hex_digit :: "nat \<Rightarrow> char" where
  "hex_digit n = (if n < 10 then char_of (48 + n) else char_of (87 + n))"

text \<open>\<open>{h:016x}\<close>\<close>

definition hex16 :: "u64 \<Rightarrow> string" where
  "hex16 h = map (\<lambda>i. hex_digit (unat h div 16 ^ i mod 16)) (rev [0..<16])"

definition socket_name :: "string \<Rightarrow> string" where
  "socket_name container = hex16 (foldl fnv_step 0xcbf29ce484222325 container) @ ''.sock''"

definition candidate_dirs :: "(string \<Rightarrow> bool) \<Rightarrow> u32 \<Rightarrow> string list" where
  "candidate_dirs dir_exists uid =
     (let run = ''/run/user/'' @ show_nat (unat uid) in
      (if dir_exists run then [run @ ''/coffer''] else []) @ [''/tmp/coffer-'' @ show_nat (unat uid)])"

text \<open>What stands at a path: whether it is a directory (and no symbolic link), whose, its mode.\<close>

record entry =
  e_dir :: bool
  e_uid :: u32
  e_mode :: nat

type_synonym dir_tree = "string \<Rightarrow> entry option"

text \<open>\<open>fresh\<close> is the entry \<open>create_dir\<close> makes at a free path, \<open>None\<close> when it cannot.\<close>

definition ensure_private_dir :: "(string \<Rightarrow> entry option) \<Rightarrow> u32 \<Rightarrow> string \<Rightarrow> dir_tree \<Rightarrow> (string + unit) \<times> dir_tree" where
  "ensure_private_dir fresh uid dir t =
     (case (case t dir of Some e \<Rightarrow> Some (e, t) | None \<Rightarrow> map_option (\<lambda>e. (e, t(dir \<mapsto> e))) (fresh dir)) of
        None \<Rightarrow> (Inl (''creating '' @ from_utf8_lossy dir), t)
      | Some (e, t') \<Rightarrow>
          if \<not> e_dir e \<or> e_uid e \<noteq> uid then (Inl (from_utf8_lossy dir @ '' is not a directory owned by you''), t')
          else (Inr (), t'(dir \<mapsto> e\<lparr>e_mode := 0x1C0\<rparr>)))"

text \<open>\<open>can_bind\<close>: whether \<open>UnixListener::bind\<close> succeeds at a path nothing stands at.\<close>

fun bind_first ::
  "(string \<Rightarrow> entry option) \<Rightarrow> (string \<Rightarrow> bool) \<Rightarrow> u32 \<Rightarrow> string \<Rightarrow> string list \<Rightarrow> string \<Rightarrow> dir_tree \<Rightarrow>
     (string + string \<times> string) \<times> dir_tree" where
  "bind_first fresh can_bind uid name [] e t = (Inl e, t)"
| "bind_first fresh can_bind uid name (dir # dirs) e t =
     (case ensure_private_dir fresh uid dir t of
        (Inl e', t') \<Rightarrow> bind_first fresh can_bind uid name dirs e' t'
      | (Inr _, t') \<Rightarrow>
          let path = dir @ ''/'' @ name in
          if can_bind path then (Inr (dir, path), t'(path := None))
          else bind_first fresh can_bind uid name dirs (''binding '' @ from_utf8_lossy path) (t'(path := None)))"

definition bind_socket ::
  "(string \<Rightarrow> entry option) \<Rightarrow> (string \<Rightarrow> bool) \<Rightarrow> (string \<Rightarrow> bool) \<Rightarrow> u32 \<Rightarrow> string \<Rightarrow> dir_tree \<Rightarrow>
     (string + string \<times> string) \<times> dir_tree" where
  "bind_socket fresh can_bind dir_exists uid container t =
     bind_first fresh can_bind uid (socket_name container) (candidate_dirs dir_exists uid)
       ''no directory for the control socket'' t"

section \<open>The copy\<close>

text \<open>
  What SQLite's backup interface answers to one \<open>sqlite3_backup_step\<close>, with \<open>remaining\<close> and
  \<open>pagecount\<close> as they stand after it.
\<close>

datatype step_code = StepOk | StepBusy | StepLocked | StepDone | StepError

record step =
  s_code :: step_code
  s_remaining :: "32 word"
  s_pagecount :: "32 word"

definition pages_total :: "step \<Rightarrow> nat" where
  "pages_total s = nat (max (sint (s_pagecount s)) 0)"

definition pages_done :: "step \<Rightarrow> nat" where
  "pages_done s = pages_total s - min (nat (max (sint (s_remaining s)) 0)) (pages_total s)"

definition in_bytes :: "u64 \<Rightarrow> nat \<Rightarrow> u64" where
  "in_bytes ps n = word_of_nat n * ps"

text \<open>
  The loop, over the answers of the engine. \<open>None\<close>: these answers do not end it, the copy is
  still running. \<open>prog\<close> is the caller's progress closure with the state it works on.
\<close>

type_synonym 's reporter = "u64 \<times> u64 \<Rightarrow> 's \<Rightarrow> (string + unit) \<times> 's"

fun copy_loop :: "'s reporter \<Rightarrow> u64 \<Rightarrow> step list \<Rightarrow> 's \<Rightarrow> ((step_code \<times> string option) \<times> 's) option" where
  "copy_loop prog ps [] s = None"
| "copy_loop prog ps (a # as) s =
     (case s_code a of
        StepOk \<Rightarrow>
          (case prog (in_bytes ps (pages_done a), in_bytes ps (pages_total a)) s of
             (Inl e, s') \<Rightarrow> Some ((StepOk, Some e), s')
           | (Inr _, s') \<Rightarrow> copy_loop prog ps as s')
      | StepBusy \<Rightarrow> copy_loop prog ps as s
      | StepLocked \<Rightarrow> copy_loop prog ps as s
      | StepDone \<Rightarrow>
          Some ((StepDone, None), snd (prog (in_bytes ps (pages_total a), in_bytes ps (pages_total a)) s))
      | StepError \<Rightarrow> Some ((StepError, None), s))"

record copy_run =
  c_opened :: "string + unit"
    \<comment> \<open>opening and keying the destination\<close>
  c_page_size :: "string + u64"
  c_init_error :: "string option"
  c_steps :: "step list"
  c_finish_ok :: bool
  c_errmsg :: string
  c_chmod :: "string + unit"

definition backup :: "'s reporter \<Rightarrow> copy_run \<Rightarrow> 's \<Rightarrow> ((string + unit) \<times> 's) option" where
  "backup prog c s =
     (case c_opened c of
        Inl e \<Rightarrow> Some (Inl e, s)
      | Inr _ \<Rightarrow>
          (case c_page_size c of
             Inl e \<Rightarrow> Some (Inl e, s)
           | Inr ps \<Rightarrow>
               (case c_init_error c of
                  Some e \<Rightarrow> Some (Inl (''starting the backup: '' @ e), s)
                | None \<Rightarrow>
                    (case copy_loop prog ps (c_steps c) s of
                       None \<Rightarrow> None
                     | Some ((rc, abandoned), s') \<Rightarrow>
                         Some (case abandoned of
                                 Some e \<Rightarrow> Inl (''backup abandoned: '' @ e)
                               | None \<Rightarrow>
                                   if rc \<noteq> StepDone \<or> \<not> c_finish_ok c then Inl (''backup failed: '' @ c_errmsg c)
                                   else c_chmod c, s')))))"

section \<open>The daemon\<close>

abbreviation NUL :: char where "NUL \<equiv> CHR 0x00"

text \<open>
  What the daemon meets: the first page as read through its connection, what the check of a
  password on it meets, the run of the engine for a destination and a key, and which of its
  writes to the socket arrive.
\<close>

record daemon =
  d_uid :: u32
  d_page :: "string + string"
  d_scratch :: scratch
  d_scratch_name :: string
  d_files :: "string \<Rightarrow> string option"
    \<comment> \<open>what the directory of the socket holds\<close>
  d_copy :: "string \<Rightarrow> string \<Rightarrow> copy_run"
  d_utf8_error :: "string \<Rightarrow> string"
  d_arrives :: "nat \<Rightarrow> bool"
  d_write_error :: string

abbreviation d_verify :: "daemon \<Rightarrow> string \<Rightarrow> string \<Rightarrow> string + bool" where
  "d_verify d page password \<equiv> fst (verify_password (d_scratch d) (d_scratch_name d) page password (d_files d))"

text \<open>A write to the socket; the state is what has been written, line by line.\<close>

definition send :: "daemon \<Rightarrow> string \<Rightarrow> string list \<Rightarrow> (string + unit) \<times> string list" where
  "send d l out =
     (if d_arrives d (length out) then (Inr (), out @ [l @ [NL]]) else (Inl (d_write_error d), out))"

definition progress_line :: "u64 \<times> u64 \<Rightarrow> string" where
  "progress_line r = ''progress '' @ show_nat (unat (fst r)) @ '' '' @ show_nat (unat (snd r))"

definition MAX_REQUEST :: nat where "MAX_REQUEST = 64 * 1024"

definition decode_request :: "(string \<Rightarrow> string) \<Rightarrow> string \<Rightarrow> string + bool \<times> string \<times> string" where
  "decode_request utf8_error bytes =
     (case split NUL (take MAX_REQUEST bytes) of
        [verb, dest, password, []] \<Rightarrow>
          if verb \<noteq> ''backup'' \<and> verb \<noteq> ''backup-progress'' then Inl ''malformed request''
          else if \<not> prefix ''/'' dest then Inl ''malformed request: destination must be an absolute path''
          else if \<not> utf8_valid password then Inl (''malformed request: '' @ utf8_error password)
          else Inr (verb = ''backup-progress'', dest, password)
      | _ \<Rightarrow> Inl ''malformed request'')"

text \<open>What the request asks for, once it is understood: the check of the password and the copy.\<close>

definition copy_for :: "daemon \<Rightarrow> 's reporter \<Rightarrow> string \<Rightarrow> string \<Rightarrow> 's \<Rightarrow> ((string + unit) \<times> 's) option" where
  "copy_for d prog dest password s =
     (case d_page d of
        Inl e \<Rightarrow> Some (Inl e, s)
      | Inr page \<Rightarrow>
          (case d_verify d page password of
             Inl e \<Rightarrow> Some (Inl e, s)
           | Inr ok \<Rightarrow>
               if \<not> ok then Some (Inl ''wrong password'', s)
               else backup prog (d_copy d dest password) s))"

definition serve_backup :: "daemon \<Rightarrow> u32 \<Rightarrow> string \<Rightarrow> ((string + unit) \<times> string list) option" where
  "serve_backup d peer bytes =
     (if peer \<noteq> d_uid d then
        Some (Inl ''refused: only the user who mounted the container may use this socket'', [])
      else case decode_request (d_utf8_error d) bytes of
        Inl e \<Rightarrow> Some (Inl e, [])
      | Inr (with_progress, dest, password) \<Rightarrow>
          copy_for d (if with_progress then (\<lambda>r. send d (progress_line r)) else (\<lambda>r out. (Inr (), out)))
            dest password [])"

definition one_line :: "string \<Rightarrow> string" where
  "one_line = map (\<lambda>c. if c = NL then CHR '' '' else c)"

definition reply_line :: "string + unit \<Rightarrow> string" where
  "reply_line r = (case r of Inr _ \<Rightarrow> ''ok'' | Inl e \<Rightarrow> ''error '' @ one_line e)"

text \<open>All the bytes the client gets for its request.\<close>

definition handle :: "daemon \<Rightarrow> u32 \<Rightarrow> string \<Rightarrow> string option" where
  "handle d peer bytes =
     map_option (\<lambda>(r, out). concat (snd (send d (reply_line r) out))) (serve_backup d peer bytes)"

text \<open>
  The thread of the daemon takes one connection after the other; those that fail to be accepted
  are skipped, and a copy that does not end keeps the later ones waiting.
\<close>

fun spawn :: "('e + daemon \<times> u32 \<times> string) list \<Rightarrow> string list" where
  "spawn [] = []"
| "spawn (Inl e # cs) = spawn cs"
| "spawn (Inr (d, peer, bytes) # cs) =
     (case handle d peer bytes of None \<Rightarrow> [] | Some answer \<Rightarrow> answer # spawn cs)"

section \<open>The client\<close>

definition request_bytes :: "string \<Rightarrow> string \<Rightarrow> string \<Rightarrow> string" where
  "request_bytes verb dest password = verb @ [NUL] @ dest @ [NUL] @ password @ [NUL]"

definition no_answer :: string where
  "no_answer = ''the mount daemon closed the connection without an answer''"

text \<open>A \<open>progress\<close> line: \<open>Some\<close> of the report it carries, which is none when a number is malformed.\<close>

definition progress_of :: "string \<Rightarrow> (u64 \<times> u64) list option" where
  "progress_of line =
     (case Option.bind (strip_prefix ''progress '' line) (split_once (CHR '' '')) of
        None \<Rightarrow> None
      | Some (d, t) \<Rightarrow>
          Some (case (parse_u64 d, parse_u64 t) of (Some x, Some y) \<Rightarrow> [(x, y)] | _ \<Rightarrow> []))"

text \<open>
  The loop of \<open>ask\<close> over the bytes still to be read; the result comes with the reports passed to
  the progress bar. The newline that ends a line goes with the rest of \<open>trim_end\<close>.
\<close>

function read_answer :: "string \<Rightarrow> (string + unit) \<times> (u64 \<times> u64) list" where
  "read_answer bytes =
     (if bytes = [] then (Inl no_answer, [])
      else let raw = takeWhile (\<lambda>c. c \<noteq> NL) bytes; rest = drop (Suc (length raw)) bytes in
        if \<not> utf8_valid raw then (Inl ''waiting for the mount daemon'', [])
        else let line = trim_end raw in
          case progress_of line of
            Some r \<Rightarrow> map_prod id (\<lambda>rs. r @ rs) (read_answer rest)
          | None \<Rightarrow>
              (if line = ''ok'' then Inr ()
               else case strip_prefix ''error '' line of Some e \<Rightarrow> Inl e | None \<Rightarrow> Inl no_answer, []))"
  by pat_completeness auto

termination
  by (relation "measure length") auto

declare read_answer.simps [simp del]

text \<open>A connection: what comes back for the bytes sent, or why they could not be sent.\<close>

type_synonym connection = "string \<Rightarrow> string + string"

definition ask :: "connection \<Rightarrow> string \<Rightarrow> string \<Rightarrow> string \<Rightarrow> (string + unit) \<times> (u64 \<times> u64) list" where
  "ask line1 verb dest password =
     (case line1 (request_bytes verb dest password) of
        Inl e \<Rightarrow> (Inl e, [])
      | Inr bytes \<Rightarrow> read_answer bytes)"

text \<open>\<open>first\<close> and \<open>second\<close> are what the two calls of \<open>connect\<close> come to.\<close>

definition request_backup ::
  "connection option \<Rightarrow> connection option \<Rightarrow> string \<Rightarrow> string \<Rightarrow>
     ((string + unit) \<times> (u64 \<times> u64) list) option" where
  "request_backup first second dest password =
     (case first of
        None \<Rightarrow> None
      | Some line1 \<Rightarrow>
          Some (case ask line1 ''backup-progress'' dest password of
                  (Inl e, rs) \<Rightarrow>
                    if e = ''malformed request'' then
                      (case second of
                         Some line2 \<Rightarrow> map_prod id (\<lambda>rs2. rs @ rs2) (ask line2 ''backup'' dest password)
                       | None \<Rightarrow> (Inl e, rs))
                    else (Inl e, rs)
                | r \<Rightarrow> r))"

end
