(* ===== verification/Ipc_Props.thy ===== *)
theory Ipc_Props
  imports Ipc
begin

text \<open>
  Properties of the control socket: where it may be bound, what a stranger gets, and that a
  backup through the socket is a backup: the client reports what the daemon's copy reported
  and ends as it ended.
\<close>

section \<open>The text of the protocol\<close>

lemma progress_line_plain:
  "NL \<notin> set (progress_line r)" "utf8_valid (progress_line r)" "trim_end (progress_line r) = progress_line r"
proof -
  show "NL \<notin> set (progress_line r)" by (auto simp: progress_line_def digits_not_in)
  have "utf8_valid ''progress ''" by code_simp
  then show "utf8_valid (progress_line r)"
    unfolding progress_line_def by (intro utf8_append) (simp_all add: code_def)
  have "last (progress_line r) = last (show_nat (unat (snd r)))"
    using show_nat_digits [of "unat (snd r)"] by (simp add: progress_line_def)
  then show "trim_end (progress_line r) = progress_line r"
    using digit_not_space [OF show_nat_last] by (intro trim_end_id) metis
qed

lemma progress_of_line: "progress_of (progress_line r) = Some [r]"
proof -
  have "strip_prefix ''progress '' (progress_line r) = Some (show_nat (unat (fst r)) @ '' '' @ show_nat (unat (snd r)))"
    by (simp add: strip_prefix_def progress_line_def)
  then show ?thesis
    using decimal.dec_enc [of "fst r"] decimal.dec_enc [of "snd r"]
    by (simp add: progress_of_def split_once_append digits_not_in)
qed

lemma utf8_one_line: "utf8_valid e \<Longrightarrow> utf8_valid (one_line e)"
proof (induction "length e" arbitrary: e rule: less_induct)
  case less
  have big: "0x80 \<le> code c \<Longrightarrow> c \<noteq> NL" for c by (auto simp: code_def)
  show ?case
  proof (cases e)
    case (Cons c cs)
    from less.prems [unfolded Cons] show ?thesis
    proof (cases rule: utf8_Cons)
      case ascii
      with less.hyps [of cs] Cons show ?thesis by (simp add: one_line_def code_def)
    next
      case (two d ds)
      with less.hyps [of ds] Cons show ?thesis
        using big [of c] big [of d] by (simp add: one_line_def utf8_multibyte cont_def)
    next
      case (three d f fs)
      with less.hyps [of fs] Cons show ?thesis
        using big [of c] big [of d] big [of f] by (simp add: one_line_def utf8_multibyte cont_def lead3_def)
    next
      case (four d f g gs)
      with less.hyps [of gs] Cons show ?thesis
        using big [of c] big [of d] big [of f] big [of g] by (simp add: one_line_def utf8_multibyte cont_def lead4_def)
    qed
  qed (simp add: one_line_def)
qed

section \<open>What the client reads\<close>

lemma read_one:
  assumes "NL \<notin> set l" and "utf8_valid l"
  shows "read_answer (l @ NL # rest) =
    (case progress_of (trim_end l) of
       Some r \<Rightarrow> map_prod id (\<lambda>rs. r @ rs) (read_answer rest)
     | None \<Rightarrow>
         (if trim_end l = ''ok'' then Inr ()
          else case strip_prefix ''error '' (trim_end l) of Some e \<Rightarrow> Inl e | None \<Rightarrow> Inl no_answer, []))"
proof -
  have "l @ NL # rest \<noteq> []" "drop (Suc (length l)) (l @ NL # rest) = rest" by simp_all
  then show ?thesis
    using assms by (subst read_answer.simps) (simp only: span_char Let_def simp_thms if_False if_True)
qed

lemma read_progress:
  "read_answer (progress_line r @ NL # rest) = map_prod id (\<lambda>rs. r # rs) (read_answer rest)"
  unfolding read_one [OF progress_line_plain(1,2)] progress_line_plain(3) progress_of_line
  by (cases "read_answer rest") simp

lemma read_reports:
  "read_answer (concat (map (\<lambda>r. progress_line r @ [NL]) rs) @ rest) = map_prod id (\<lambda>qs. rs @ qs) (read_answer rest)"
proof (induction rs)
  case Nil
  show ?case by (cases "read_answer rest") simp
next
  case (Cons r rs)
  then show ?case by (cases "read_answer rest") (simp add: read_progress)
qed

text \<open>What the client makes of the daemon's outcome: an error crosses the socket as one line.\<close>

definition over_socket :: "string + unit \<Rightarrow> string + unit" where
  "over_socket r = (case r of Inr _ \<Rightarrow> Inr () | Inl e \<Rightarrow> Inl (trim_end (one_line e)))"

lemma read_reply:
  assumes "\<And>e. r = Inl e \<Longrightarrow> utf8_valid e \<and> trim_end (one_line e) \<noteq> []"
  shows "read_answer (reply_line r @ [NL]) = (over_socket r, [])"
proof (cases r)
  case (Inr u)
  have "trim_end ''ok'' = ''ok''" "utf8_valid ''ok''" "progress_of ''ok'' = None" by code_simp+
  with Inr show ?thesis
    using read_one [of "''ok''" "[]"] by (simp add: reply_line_def over_socket_def)
next
  case (Inl e)
  let ?l = "''error '' @ one_line e"
  have t: "trim_end ?l = ''error '' @ trim_end (one_line e)"
    using trim_end_after_space [of "one_line e" "''error''"] assms [OF Inl] by simp
  moreover have "progress_of (''error '' @ x) = None" for x
    by (simp add: progress_of_def strip_prefix_def)
  moreover have "strip_prefix ''error '' (''error '' @ x) = Some x" for x
    by (simp add: strip_prefix_def)
  moreover have "utf8_valid ?l"
    using assms [OF Inl] by (simp add: utf8_one_line code_def)
  moreover have "NL \<notin> set ?l" by (auto simp: one_line_def)
  ultimately show ?thesis
    using read_one [of ?l "[]"] Inl
    by (simp add: reply_line_def over_socket_def del: append_Cons append_Nil)
qed

section \<open>What the daemon reads\<close>

lemma decode_encoded:
  assumes "NUL \<notin> set dest" and "NUL \<notin> set password" and "prefix ''/'' dest" and "utf8_valid password"
    and "verb = (if reports then ''backup-progress'' else ''backup'')"
    and "length (request_bytes verb dest password) \<le> MAX_REQUEST"
  shows "decode_request err (request_bytes verb dest password) = Inr (reports, dest, password)"
proof -
  have "NUL \<notin> set verb" using assms(5) by simp
  then have "split NUL (request_bytes verb dest password) = [verb, dest, password, []]"
    using assms(1,2) by (simp add: request_bytes_def split_append)
  with assms(3-6) show ?thesis by (simp add: decode_request_def)
qed

section \<open>The copy\<close>

text \<open>Two reporters that answer alike on related states drive the copy alike.\<close>

definition alike :: "('s \<Rightarrow> 't) \<Rightarrow> 't reporter \<Rightarrow> 's reporter \<Rightarrow> bool" where
  "alike h p1 p2 \<longleftrightarrow> (\<forall>r s. p1 r (h s) = map_prod id h (p2 r s))"

lemma copy_loop_alike:
  assumes "alike h p1 p2"
  shows "copy_loop p1 ps as (h s) = map_option (map_prod id h) (copy_loop p2 ps as s)"
proof (induction as arbitrary: s)
  case (Cons a as)
  have "p1 r (h s) = map_prod id h (p2 r s)" for r s using assms unfolding alike_def by blast
  with Cons show ?case
    by (cases "s_code a") (simp_all split: prod.split sum.split)
qed simp

lemma backup_alike:
  assumes "alike h p1 p2"
  shows "backup p1 c (h s) = map_option (map_prod id h) (backup p2 c s)"
  by (auto simp: backup_def copy_loop_alike [OF assms] split: sum.split option.split prod.split)

lemma copy_for_alike:
  assumes "alike h p1 p2"
  shows "copy_for d p1 dest password (h s) = map_option (map_prod id h) (copy_for d p2 dest password s)"
  by (simp add: copy_for_def backup_alike [OF assms] split: sum.split)

text \<open>The reporter of a caller that keeps every report and never gives up.\<close>

definition collect :: "(u64 \<times> u64) list reporter" where
  "collect r rs = (Inr (), rs @ [r])"

definition wire :: "(u64 \<times> u64) list \<Rightarrow> string list" where
  "wire rs = map (\<lambda>r. progress_line r @ [NL]) rs"

lemma send_collect: "\<forall>k. d_arrives d k \<Longrightarrow> alike wire (\<lambda>r. send d (progress_line r)) collect"
  by (simp add: alike_def send_def collect_def wire_def)

lemma copy_loop_reports:
  assumes "copy_loop collect ps as rs = Some ((rc, ab), rs')"
  shows "ab = None \<and> (\<exists>new. rs' = rs @ new \<and> (\<forall>r \<in> set new. \<exists>a \<in> set as.
      r = (in_bytes ps (pages_done a), in_bytes ps (pages_total a)) \<or>
      r = (in_bytes ps (pages_total a), in_bytes ps (pages_total a)))) \<and>
    (rc = StepDone \<longrightarrow> (\<exists>a \<in> set as. s_code a = StepDone \<and>
        last rs' = (in_bytes ps (pages_total a), in_bytes ps (pages_total a))))"
  using assms
proof (induction as arbitrary: rs)
  case (Cons a as)
  show ?case
  proof (cases "s_code a")
    case StepOk
    with Cons.prems have "copy_loop collect ps as (rs @ [(in_bytes ps (pages_done a), in_bytes ps (pages_total a))]) =
        Some ((rc, ab), rs')" by (simp add: collect_def [of _ rs])
    from Cons.IH [OF this] show ?thesis by auto
  next
    case StepBusy
    with Cons.prems have "copy_loop collect ps as rs = Some ((rc, ab), rs')" by simp
    from Cons.IH [OF this] show ?thesis by auto
  next
    case StepLocked
    with Cons.prems have "copy_loop collect ps as rs = Some ((rc, ab), rs')" by simp
    from Cons.IH [OF this] show ?thesis by auto
  next
    case StepDone
    with Cons.prems show ?thesis by (auto simp: collect_def)
  next
    case StepError
    with Cons.prems show ?thesis by auto
  qed
qed simp

lemma pages_bounds: "pages_done a \<le> pages_total a" "pages_total a < 2 ^ 31"
proof -
  show "pages_done a \<le> pages_total a" by (simp add: pages_done_def)
  have "sint (s_pagecount a) < 2 ^ 31" using sint_lt [of "s_pagecount a"] by simp
  then show "pages_total a < 2 ^ 31" by (simp add: pages_total_def)
qed

lemma in_bytes_mono:
  assumes "m \<le> n" and "n < 2 ^ 31" and "unat ps < 2 ^ 32"
  shows "in_bytes ps m \<le> in_bytes ps n"
proof -
  have fits: "unat (in_bytes ps k) = k * unat ps" if "k \<le> n" for k
  proof -
    have "k * unat ps \<le> 2 ^ 31 * 2 ^ 32" using that assms by (intro mult_mono) simp_all
    then have "k * unat ps < 2 ^ 64" by simp
    moreover have "k < 2 ^ 64" using that assms(2) by simp
    ultimately show ?thesis
      by (simp add: in_bytes_def unat_mult_lem [THEN iffD1] unat_of_nat take_bit_nat_eq_self_iff)
  qed
  show ?thesis using assms(1) fits [of m] fits [of n] by (simp add: word_le_nat_alt)
qed

section \<open>A backup through the mount\<close>

lemma copy_for_reports:
  assumes "copy_for d collect dest password [] = Some (r, reports)"
    and "\<And>ps. c_page_size (d_copy d dest password) = Inr ps \<Longrightarrow> unat ps < 2 ^ 32"
  shows "(\<forall>(x, y) \<in> set reports. x \<le> y) \<and>
    (r = Inr () \<longrightarrow> c_finish_ok (d_copy d dest password) \<and>
       (\<exists>a \<in> set (c_steps (d_copy d dest password)). s_code a = StepDone) \<and> fst (last reports) = snd (last reports))"
proof (cases "reports = [] \<and> r \<noteq> Inr ()")
  case False
  then obtain ps rc ab where ps: "c_page_size (d_copy d dest password) = Inr ps"
    and l: "copy_loop collect ps (c_steps (d_copy d dest password)) [] = Some ((rc, ab), reports)"
    and r: "r = (case ab of Some e \<Rightarrow> Inl (''backup abandoned: '' @ e) | None \<Rightarrow>
      if rc \<noteq> StepDone \<or> \<not> c_finish_ok (d_copy d dest password)
      then Inl (''backup failed: '' @ c_errmsg (d_copy d dest password)) else c_chmod (d_copy d dest password))"
    using assms(1) by (auto simp: copy_for_def backup_def split: sum.splits option.splits prod.splits if_splits)
  from copy_loop_reports [OF l] obtain
    new: "\<forall>r \<in> set reports. \<exists>a \<in> set (c_steps (d_copy d dest password)).
      r = (in_bytes ps (pages_done a), in_bytes ps (pages_total a)) \<or>
      r = (in_bytes ps (pages_total a), in_bytes ps (pages_total a))"
    and fin: "ab = None" "rc = StepDone \<longrightarrow> (\<exists>a \<in> set (c_steps (d_copy d dest password)). s_code a = StepDone \<and>
        last reports = (in_bytes ps (pages_total a), in_bytes ps (pages_total a)))"
    by auto
  have "x \<le> y" if "(x, y) \<in> set reports" for x y
    using bspec [OF new that] in_bytes_mono [OF pages_bounds assms(2) [OF ps]] by auto
  moreover have "rc = StepDone \<and> c_finish_ok (d_copy d dest password)" if "r = Inr ()"
    using r fin(1) that by (auto split: if_splits)
  ultimately show ?thesis using fin(2) by auto
qed auto

text \<open>
  C29: a backup through the running mount. When the client is the user who mounted, the paths
  and the password can be written as a request and the client keeps listening, the socket is
  transparent: if the daemon's check and copy come to an end, the client reports exactly the
  progress the copy reported, none beyond its total, and ends as the copy ended - with
  success only when the engine said that the copy is done and closed it well; an error
  arrives as one line, and no second request is made.
\<close>

theorem backup_through_mount:
  assumes "\<forall>k. d_arrives d k" and "NUL \<notin> set dest" and "NUL \<notin> set password" and "prefix ''/'' dest"
    and "utf8_valid password" and "length dest + length password + 18 \<le> MAX_REQUEST"
    and "\<And>ps. c_page_size (d_copy d dest password) = Inr ps \<Longrightarrow> unat ps < 2 ^ 32"
    and "copy_for d collect dest password [] = Some (r, reports)"
    and "\<And>e. r = Inl e \<Longrightarrow> utf8_valid e \<and> trim_end (one_line e) \<notin> {[], ''malformed request''}"
  shows "(\<exists>bytes. handle d (d_uid d) (request_bytes ''backup-progress'' dest password) = Some bytes \<and>
      request_backup (Some (\<lambda>_. Inr bytes)) second dest password = Some (over_socket r, reports)) \<and>
    (\<forall>(x, y) \<in> set reports. x \<le> y) \<and>
    (over_socket r = Inr () \<longrightarrow> c_finish_ok (d_copy d dest password) \<and>
      (\<exists>a \<in> set (c_steps (d_copy d dest password)). s_code a = StepDone) \<and> fst (last reports) = snd (last reports))"
proof -
  let ?req = "request_bytes ''backup-progress'' dest password"
  have "decode_request (d_utf8_error d) ?req = Inr (True, dest, password)"
    using assms(2-6) by (intro decode_encoded) (simp_all add: request_bytes_def)
  then have "serve_backup d (d_uid d) ?req = Some (r, wire reports)"
    using copy_for_alike [OF send_collect [OF assms(1)], of d dest password "[]"] assms(8)
    by (simp add: serve_backup_def wire_def)
  then have h: "handle d (d_uid d) ?req = Some (concat (wire reports) @ reply_line r @ [NL])"
    using assms(1) by (simp add: handle_def send_def)
  have "read_answer (concat (wire reports) @ reply_line r @ [NL]) = (over_socket r, reports)"
    using assms(9) unfolding wire_def read_reports by (subst read_reply) auto
  moreover have "over_socket r \<noteq> Inl ''malformed request''"
    using assms(9) by (auto simp: over_socket_def split: sum.splits)
  ultimately have "request_backup (Some (\<lambda>_. Inr (concat (wire reports) @ reply_line r @ [NL]))) second dest password =
      Some (over_socket r, reports)"
    by (auto simp: request_backup_def ask_def split: sum.splits)
  with h have "\<exists>bytes. handle d (d_uid d) ?req = Some bytes \<and>
      request_backup (Some (\<lambda>_. Inr bytes)) second dest password = Some (over_socket r, reports)" by blast
  moreover have "over_socket r = Inr () \<longleftrightarrow> r = Inr ()" by (cases r) (simp_all add: over_socket_def)
  ultimately show ?thesis using copy_for_reports [OF assms(8,7)] by auto
qed

definition two_steps :: copy_run where
  "two_steps = \<lparr>c_opened = Inr (), c_page_size = Inr 4096, c_init_error = None,
     c_steps = [\<lparr>s_code = StepOk, s_remaining = 1, s_pagecount = 3\<rparr>, \<lparr>s_code = StepBusy, s_remaining = 1, s_pagecount = 3\<rparr>,
       \<lparr>s_code = StepDone, s_remaining = 0, s_pagecount = 3\<rparr>],
     c_finish_ok = True, c_errmsg = [], c_chmod = Inr ()\<rparr>"

definition demo_scratch :: scratch where
  "demo_scratch = \<lparr>s_create = Inr (), s_write = Inr (), s_faults = (\<lambda>_. None),
     s_header = (\<lambda>_ pw. Inl (if pw = ''pw'' then DatabaseCorrupt else NotADatabase)), s_error_text = (\<lambda>_. [])\<rparr>"

definition demo_daemon :: daemon where
  "demo_daemon = \<lparr>d_uid = 1000, d_page = Inr [], d_scratch = demo_scratch, d_scratch_name = ''.verify-1-0'',
     d_files = (\<lambda>_. None), d_copy = (\<lambda>_ _. two_steps),
     d_utf8_error = (\<lambda>_. []), d_arrives = (\<lambda>_. True), d_write_error = []\<rparr>"

theorem backup_through_mount_witness:
  "\<exists>bytes. handle demo_daemon 1000 (request_bytes ''backup-progress'' ''/b'' ''pw'') = Some bytes \<and>
     request_backup (Some (\<lambda>_. Inr bytes)) None ''/b'' ''pw'' = Some (Inr (), [(8192, 12288), (12288, 12288)])"
proof -
  have run: "copy_for demo_daemon collect ''/b'' ''pw'' [] = Some (Inr (), [(8192, 12288), (12288, 12288)])"
    using verify_by_header [of demo_scratch "\<lambda>_. None" "''.verify-1-0''" "[]" "''pw''" "''pw''"]
    by (simp add: copy_for_def demo_daemon_def demo_scratch_def backup_def two_steps_def collect_def in_bytes_def pages_done_def
        pages_total_def)
  have "d_uid demo_daemon = 1000" "\<forall>k. d_arrives demo_daemon k" by (simp_all add: demo_daemon_def)
  moreover have "unat ps < 2 ^ 32" if "c_page_size (d_copy demo_daemon ''/b'' ''pw'') = Inr ps" for ps
    using that by (auto simp: demo_daemon_def two_steps_def)
  moreover have "utf8_valid ''pw''" by code_simp
  ultimately show ?thesis
    using backup_through_mount [OF _ _ _ _ _ _ _ run, where second = None]
    by (simp add: MAX_REQUEST_def over_socket_def)
qed

section \<open>Who may use it\<close>

text \<open>
  Whatever a stranger, or a client without the container's password, asks for, the engine is
  never asked: the answer does not depend on what it would do, and it is an error.
\<close>

lemma stranger_refused:
  assumes "peer \<noteq> d_uid d \<or> (\<forall>page pw. d_verify d page pw \<noteq> Inr True)"
  shows "\<exists>e. serve_backup (d\<lparr>d_copy := k\<rparr>) peer bytes = Some (Inl e, [])"
  using assms
  by (auto simp: serve_backup_def copy_for_def send_def split: sum.split prod.split)

text \<open>The copy ends with the first answer that is not "more" or "busy".\<close>

lemma copy_ends:
  assumes "\<exists>a \<in> set as. s_code a \<in> {StepDone, StepError}"
  shows "copy_loop prog ps as s \<noteq> None"
  using assms
proof (induction as arbitrary: s)
  case (Cons a as)
  then show ?case by (cases "s_code a") (auto split: prod.split sum.split)
qed simp

text \<open>A client that stops listening ends it too, with an error.\<close>

lemma deaf_client_abandons:
  assumes "s_code a = StepOk" and "\<not> d_arrives d (length out)"
  shows "copy_loop (\<lambda>r. send d (progress_line r)) ps (a # as) out = Some ((StepOk, Some (d_write_error d)), out)"
  using assms by (simp add: send_def)

text \<open>A bound socket lies in a directory of the user that nobody else can enter.\<close>

lemma bound_in_private_dir:
  assumes "bind_first fresh can_bind uid name dirs e t = (Inr (dir, path), t')"
  shows "dir \<in> set dirs \<and> path = dir @ ''/'' @ name \<and>
    (\<exists>entry. t' dir = Some entry \<and> e_dir entry \<and> e_uid entry = uid \<and> e_mode entry = 0x1C0)"
  using assms
proof (induction dirs arbitrary: e t)
  case (Cons d dirs)
  obtain x t2 where p: "ensure_private_dir fresh uid d t = (x, t2)" by (cases "ensure_private_dir fresh uid d t")
  show ?case
  proof (cases x)
    case (Inl e')
    with Cons.prems p have "bind_first fresh can_bind uid name dirs e' t2 = (Inr (dir, path), t')" by simp
    from Cons.IH [OF this] show ?thesis by simp
  next
    case (Inr u)
    show ?thesis
    proof (cases "can_bind (d @ ''/'' @ name)")
      case True
      have "\<exists>entry. t2 d = Some entry \<and> e_dir entry \<and> e_uid entry = uid \<and> e_mode entry = 0x1C0"
        using p Inr by (auto simp: ensure_private_dir_def split: option.splits if_splits)
      with True Cons.prems p Inr show ?thesis by (auto simp: Let_def)
    next
      case False
      with Cons.prems p Inr have "bind_first fresh can_bind uid name dirs (''binding '' @ from_utf8_lossy (d @ ''/'' @ name))
          (t2(d @ ''/'' @ name := None)) = (Inr (dir, path), t')" by (simp add: Let_def)
      from Cons.IH [OF this] show ?thesis by simp
    qed
  qed
qed simp

text \<open>The name of a socket has no slash in it and the same length for every container.\<close>

lemma socket_name_plain: "length (socket_name c) = 21 \<and> CHR ''/'' \<notin> set (socket_name c)"
proof -
  have "hex_digit n \<noteq> CHR ''/''" if "n < 16" for n
  proof -
    have "code (hex_digit n) \<noteq> code (CHR ''/'')"
      using that by (simp add: hex_digit_def) (simp add: code_def)
    then show ?thesis by auto
  qed
  then have "hex_digit (n mod 16) \<noteq> CHR ''/''" for n by simp
  then have "CHR ''/'' \<notin> set (hex16 h)" for h unfolding hex16_def by (auto dest: sym)
  then show ?thesis by (simp add: socket_name_def) (simp add: hex16_def)
qed

end
