(* ===== verification/Progress.thy ===== *)
theory Progress
  imports Cli_Input
begin

text \<open>
  The progress line of a copy (src/src/progress.rs): the text of the line, when it is redrawn,
  and what the terminal shows. Everything printed is ASCII, so a byte is a column.
\<close>

section \<open>Formatting\<close>

definition pad_left :: "nat \<Rightarrow> string \<Rightarrow> string" where
  "pad_left n s = replicate (n - length s) (CHR '' '') @ s"

definition pad_right :: "nat \<Rightarrow> string \<Rightarrow> string" where
  "pad_right n s = s @ replicate (n - length s) (CHR '' '')"

text \<open>\<open>{m:02}\<close>\<close>

definition two_digits :: "nat \<Rightarrow> string" where
  "two_digits n = replicate (2 - length (show_nat n)) (CHR ''0'') @ show_nat n"

definition format_duration :: "u64 \<Rightarrow> string" where
  "format_duration secs =
     (let h = unat secs div 3600; m = unat secs div 60 mod 60; s = unat secs mod 60 in
      if 0 < h then show_nat h @ '':'' @ two_digits m @ '':'' @ two_digits s
      else show_nat m @ '':'' @ two_digits s)"

text \<open>The arithmetic on \<open>u64\<close> wraps as it does in a release build.\<close>

definition percent :: "u64 \<Rightarrow> u64 \<Rightarrow> u64" where
  "percent copied whole = (if whole = 0 then 100 else copied * 100 div whole)"

definition rate :: "u64 \<Rightarrow> duration \<Rightarrow> f64" where
  "rate copied elapsed =
     (let secs = as_secs_f64 elapsed in if 0 < secs then f64_div (f64_of_nat (unat copied)) secs else 0)"

definition time_field :: "u64 \<Rightarrow> u64 \<Rightarrow> duration \<Rightarrow> bool \<Rightarrow> string" where
  "time_field copied whole elapsed finished =
     (if finished then format_duration (word_of_nat (elapsed div nanos_per_sec))
      else if 0 < rate copied elapsed then
        ''ETA '' @ format_duration (f64_as_u64 (f64_div (f64_of_nat (unat (whole - copied))) (rate copied elapsed)))
      else ''ETA --:--'')"

definition line_text :: "u64 \<Rightarrow> u64 \<Rightarrow> duration \<Rightarrow> bool \<Rightarrow> string" where
  "line_text copied whole elapsed finished =
     (let total_size = human_size whole in
      pad_left 3 (show_nat (unat (percent copied whole))) @ ''%  '' @
      pad_left (length total_size) (human_size copied) @ '' / '' @ total_size @ ''  '' @
      pad_left 10 (human_size (f64_as_u64 (rate copied elapsed))) @ ''/s  '' @
      pad_right 12 (time_field copied whole elapsed finished))"

definition MAX_BAR :: nat where "MAX_BAR = 40"

definition bar_of :: "nat \<Rightarrow> u64 \<Rightarrow> u64 \<Rightarrow> string" where
  "bar_of bar_width copied whole =
     (let filled = (if whole = 0 then bar_width else unat (word_of_nat bar_width * copied div whole));
          bar = replicate filled (CHR ''='')
      in pad_right bar_width (if filled < bar_width then bar @ ''>'' else bar))"

definition render_line :: "u64 \<Rightarrow> u64 \<Rightarrow> duration \<Rightarrow> bool \<Rightarrow> nat \<Rightarrow> string" where
  "render_line reported whole elapsed finished width =
     (let copied = min reported whole;
          full = line_text copied whole elapsed finished;
          room = width - (1 + length full + 3);
          shown = trim_end full
      in if room < 10 then shown
         else ''['' @ bar_of (min room MAX_BAR) copied whole @ ''] '' @ shown)"

section \<open>The bar\<close>

record bar =
  b_enabled :: bool
  b_start :: nat
    \<comment> \<open>the monotonic clock, in nanoseconds\<close>
  b_last_draw :: "nat option"
  b_open_line :: bool
  b_last_len :: nat
  b_reported :: bool
  b_done :: u64
  b_total :: u64

definition new_bar :: "bool \<Rightarrow> nat \<Rightarrow> bar" where
  "new_bar terminal now = \<lparr>b_enabled = terminal, b_start = now, b_last_draw = None, b_open_line = False,
     b_last_len = 0, b_reported = False, b_done = 0, b_total = 0\<rparr>"

definition REDRAW_EVERY :: duration where "REDRAW_EVERY = 100000000"

text \<open>
  \<open>draw\<close>: the bytes it writes are a carriage return, the line and blanks over what a longer line
  before it leaves. \<open>now\<close> is the clock, \<open>width\<close> the terminal's width at that moment.
\<close>

definition draw_bar :: "nat \<Rightarrow> nat \<Rightarrow> bool \<Rightarrow> bar \<Rightarrow> string \<times> bar" where
  "draw_bar now width finished b =
     (let line = render_line (b_done b) (b_total b) (now - b_start b) finished width
      in (CR # line @ replicate (b_last_len b - length line) (CHR '' ''),
          b\<lparr>b_last_len := length line, b_open_line := True\<rparr>))"

definition update_bar :: "nat \<Rightarrow> nat \<Rightarrow> u64 \<Rightarrow> u64 \<Rightarrow> bar \<Rightarrow> string \<times> bar" where
  "update_bar now width copied whole b0 =
     (let b = b0\<lparr>b_done := copied, b_total := whole, b_reported := True\<rparr> in
      if \<not> b_enabled b then ([], b)
      else if (case b_last_draw b of None \<Rightarrow> False | Some t \<Rightarrow> now - t < REDRAW_EVERY) then ([], b)
      else draw_bar now width False (b\<lparr>b_last_draw := Some now\<rparr>))"

definition finish_bar :: "nat \<Rightarrow> nat \<Rightarrow> bar \<Rightarrow> string \<times> bar" where
  "finish_bar now width b =
     (if \<not> b_enabled b \<or> \<not> b_reported b then ([], b)
      else case draw_bar now width True b of (out, b') \<Rightarrow> (out @ [NL], b'\<lparr>b_open_line := False\<rparr>))"

text \<open>Dropping the bar: the newline an unfinished line still needs.\<close>

definition drop_bar :: "bar \<Rightarrow> string" where
  "drop_bar b = (if b_open_line b then [NL] else [])"

section \<open>The terminal\<close>

text \<open>
  One row of a terminal: its text and the cursor. A carriage return goes back to the first
  column, any other character overwrites what is under the cursor; a row that is full wraps,
  which is why a line has to stay below the width.
\<close>

fun type_chars :: "string \<Rightarrow> string \<times> nat \<Rightarrow> string \<times> nat" where
  "type_chars [] row = row"
| "type_chars (c # cs) (row, col) =
     type_chars cs (if c = CR then (row, 0) else (take col row @ [c] @ drop (Suc col) row, Suc col))"

end
