(* ===== verification/Progress_Props.thy ===== *)
theory Progress_Props
  imports Progress
begin

text \<open>
  Properties of the progress line: the bar it draws is as wide as it says and as full as the
  copy is done, a line with a bar stays below the terminal's width, and redrawing leaves
  nothing of the line before.
\<close>

lemma length_pads [simp]:
  "length (pad_left n s) = max n (length s)" "length (pad_right n s) = max n (length s)"
  by (simp_all add: pad_left_def pad_right_def)

lemma unat_bar:
  fixes copied whole :: u64
  assumes "copied \<le> whole" and "whole \<noteq> 0" and "w \<le> MAX_BAR" and "unat whole < 2 ^ 58"
  shows "unat (word_of_nat w * copied div whole) = w * unat copied div unat whole" and "w * unat copied div unat whole \<le> w"
proof -
  have c: "unat copied \<le> unat whole" using assms(1) by (simp add: word_le_nat_alt)
  then have "w * unat copied \<le> 40 * unat whole" using assms(3) by (intro mult_mono) (simp_all add: MAX_BAR_def)
  then have small: "w * unat copied < 2 ^ 64" using assms(4) by simp
  moreover have "unat (word_of_nat w :: u64) = w"
    using assms(3) by (simp add: MAX_BAR_def unat_of_nat take_bit_nat_eq_self_iff)
  ultimately have "unat (word_of_nat w * copied) = w * unat copied"
    by (simp add: unat_word_ariths)
  then show "unat (word_of_nat w * copied div whole) = w * unat copied div unat whole" by (simp add: unat_div)
  have "w * unat copied div unat whole \<le> w * unat whole div unat whole" using c by (intro div_le_mono) simp
  also have "\<dots> = w" using assms(2) by (simp add: unat_eq_0)
  finally show "w * unat copied div unat whole \<le> w" .
qed

lemma bar_length:
  assumes "copied \<le> whole" and "w \<le> MAX_BAR" and "unat whole < 2 ^ 58"
  shows "length (bar_of w copied whole) = w"
  using unat_bar [OF assms(1) _ assms(2,3)]
  by (cases "whole = 0") (simp_all add: bar_of_def Let_def)

lemma trim_end_length: "length (trim_end s) \<le> length s"
  by (rule prefix_length_le) (rule trim_end_prefix)

lemma count_replicate: "count_list (replicate n x) y = (if x = y then n else 0)"
  by (cases "x = y") (induction n, simp_all)+

lemma bar_filled:
  assumes "copied \<le> whole" and "w \<le> MAX_BAR" and "unat whole < 2 ^ 58"
  shows "count_list (bar_of w copied whole) (CHR ''='') =
    (if whole = 0 then w else w * unat copied div unat whole)"
  using unat_bar(1) [OF assms(1) _ assms(2,3)]
  by (cases "whole = 0") (simp_all add: bar_of_def Let_def pad_right_def count_replicate)

text \<open>
  The progress line. Either the terminal is too narrow for a bar of ten columns, and the
  line is the text alone, or the line stays below the width, with a bar of at most forty
  columns that is filled in proportion to what is copied.
\<close>

theorem progress_line_fits:
  assumes "unat whole < 2 ^ 58" and "line = render_line reported whole elapsed finished width"
    and "copied = min reported whole"
  shows "(width < length (line_text copied whole elapsed finished) + 14 \<and>
      line = trim_end (line_text copied whole elapsed finished)) \<or>
    (length line < width \<and> (\<exists>w bar. 10 \<le> w \<and> w \<le> MAX_BAR \<and> length bar = w \<and>
       line = ''['' @ bar @ ''] '' @ trim_end (line_text copied whole elapsed finished) \<and>
       count_list bar (CHR ''='') = (if whole = 0 then w else w * unat copied div unat whole)))"
proof -
  let ?full = "line_text copied whole elapsed finished"
  let ?room = "width - (1 + length ?full + 3)"
  have c: "copied \<le> whole" using assms(3) by simp
  show ?thesis
  proof (cases "?room < 10")
    case True
    then have "width < length ?full + 14" by simp
    with True assms(2,3) show ?thesis by (simp add: render_line_def Let_def)
  next
    case False
    let ?w = "min ?room MAX_BAR"
    have w: "10 \<le> ?w" "?w \<le> MAX_BAR" using False by (simp_all add: MAX_BAR_def)
    note bar = bar_length [OF c w(2) assms(1)] bar_filled [OF c w(2) assms(1)]
    have line: "line = ''['' @ bar_of ?w copied whole @ ''] '' @ trim_end ?full"
      using False assms(2,3) by (simp add: render_line_def Let_def)
    then have "length line = 3 + ?w + length (trim_end ?full)" using bar(1) by simp
    then have "length line < width" using trim_end_length [of ?full] False by (simp add: min_def split: if_splits)
    with w bar line show ?thesis by blast
  qed
qed


lemma scale_small: "m < 1024 \<Longrightarrow> scale_size (f64_of_nat m) 0 = (of_nat m, 0)"
  by (subst scale_size.simps) (simp add: f64_of_nat_def f64_round_nat)

lemma human_size_small: "unat n < 1024 \<Longrightarrow> human_size n = show_nat (unat n) @ '' B''"
  by (simp add: human_size_def scale_small)

lemma zero_rate: "rate n 0 = 0"
  by (simp add: rate_def as_secs_f64_def f64_of_nat_def f64_div_def f64_add_def f64_round_def)

lemma line_text_start: "line_text 0 0 0 True = ''100%  0 B / 0 B         0 B/s  0:00        ''"
proof -
  have n: "show_nat 0 = ''0''" "show_nat 100 = ''100''" "two_digits 0 = ''00''" by code_simp+
  have "human_size 0 = ''0 B''" by (simp add: human_size_small n)
  moreover have "percent 0 0 = 100" by (simp add: percent_def)
  moreover have "time_field 0 0 0 True = ''0:00''" by (simp add: time_field_def format_duration_def n)
  moreover have "f64_as_u64 (rate 0 0) = 0" by (simp add: zero_rate f64_as_u64_def)
  moreover have "pad_left 3 ''100'' @ ''%  '' @ pad_left (length ''0 B'') ''0 B'' @ '' / '' @ ''0 B'' @ ''  '' @
      pad_left 10 ''0 B'' @ ''/s  '' @ pad_right 12 ''0:00'' = ''100%  0 B / 0 B         0 B/s  0:00        ''" by code_simp
  ultimately show ?thesis by (simp only: line_text_def Let_def n) (simp add: n)
qed

theorem progress_line_fits_witness:
  "\<exists>bar. render_line 0 0 0 True 80 = ''['' @ bar @ ''] '' @ trim_end (line_text 0 0 0 True) \<and>
     length bar \<le> 40 \<and> count_list bar (CHR ''='') = length bar"
proof -
  have "unat (0 :: u64) < 2 ^ 58" "min 0 0 = (0 :: u64)" by simp_all
  from progress_line_fits [OF this(1) refl this(2) [symmetric], where elapsed = 0 and finished = True and width = 80]
  show ?thesis by (auto simp: line_text_start MAX_BAR_def)
qed

text \<open>Without room for a bar the text is not cut, so on a narrow terminal the line does not fit.\<close>

lemma narrow_terminal: "length (render_line 0 0 0 True 20) = 35"
proof -
  have "length (trim_end ''100%  0 B / 0 B         0 B/s  0:00        '') = 35" by code_simp
  then show ?thesis by (simp add: render_line_def line_text_start Let_def)
qed

section \<open>What is printed\<close>

lemma pads_no_CR [simp]:
  "CR \<notin> set (pad_left n s) \<longleftrightarrow> CR \<notin> set s" "CR \<notin> set (pad_right n s) \<longleftrightarrow> CR \<notin> set s"
  by (auto simp: pad_left_def pad_right_def)

lemma scale_size_unit: "u \<le> 4 \<Longrightarrow> snd (scale_size v u) \<le> 4"
proof (induction v u rule: scale_size.induct)
  case (1 v u)
  then show ?case by (subst scale_size.simps) (auto simp: size_units_def)
qed

lemma human_size_no_CR [simp]: "CR \<notin> set (human_size n)"
proof -
  obtain v u where s: "scale_size (f64_of_nat (unat n)) 0 = (v, u)" by (cases "scale_size (f64_of_nat (unat n)) 0")
  then have "u \<in> {0, 1, 2, 3, 4}" using scale_size_unit [of 0 "f64_of_nat (unat n)"] by auto
  then show ?thesis by (auto simp: human_size_def s one_decimal_def size_units_def Let_def)
qed

lemma format_duration_no_CR [simp]: "CR \<notin> set (format_duration n)"
  by (simp add: format_duration_def two_digits_def Let_def)

lemma line_no_CR: "CR \<notin> set (render_line reported whole elapsed finished width)"
proof -
  have "CR \<notin> set (line_text c whole elapsed finished)" for c
    by (simp add: line_text_def time_field_def Let_def)
  moreover have "set (trim_end s) \<subseteq> set s" for s
    using set_mono_prefix [OF trim_end_prefix] .
  ultimately have "CR \<notin> set (trim_end (line_text c whole elapsed finished))" for c by blast
  then show ?thesis by (simp add: render_line_def bar_of_def Let_def)
qed

section \<open>Redrawing\<close>

lemma type_plain:
  assumes "CR \<notin> set cs" and "col \<le> length row"
  shows "type_chars cs (row, col) = (take col row @ cs @ drop (col + length cs) row, col + length cs)"
  using assms
proof (induction cs arbitrary: row col)
  case (Cons c cs)
  then have "type_chars cs (take col row @ [c] @ drop (Suc col) row, Suc col) =
      (take (Suc col) (take col row @ [c] @ drop (Suc col) row) @ cs @
       drop (Suc col + length cs) (take col row @ [c] @ drop (Suc col) row), Suc col + length cs)"
    by (intro Cons.IH) simp_all
  with Cons.prems show ?case by (auto simp: min_absorb2 add.commute)
qed simp

definition blank :: "string \<Rightarrow> bool" where
  "blank s \<longleftrightarrow> set s \<subseteq> {CHR '' ''}"

text \<open>What stands on the row beyond the length of the last line is blank.\<close>

definition row_clean :: "bar \<Rightarrow> string \<Rightarrow> bool" where
  "row_clean b row \<longleftrightarrow> b_last_len b \<le> length row \<and> blank (drop (b_last_len b) row)"

lemma redraw:
  assumes "row_clean b row" and "draw_bar now width finished b = (out, b')"
  shows "\<exists>blanks. blank blanks \<and> fst (type_chars out (row, col)) =
      render_line (b_done b) (b_total b) (now - b_start b) finished width @ blanks \<and>
    row_clean b' (fst (type_chars out (row, col)))"
proof -
  let ?l = "render_line (b_done b) (b_total b) (now - b_start b) finished width"
  let ?pad = "replicate (b_last_len b - length ?l) (CHR '' '')"
  have out: "out = CR # ?l @ ?pad" and b': "b' = b\<lparr>b_last_len := length ?l, b_open_line := True\<rparr>"
    using assms(2) by (auto simp: draw_bar_def Let_def)
  have "CR \<notin> set (?l @ ?pad)" using line_no_CR by auto
  from type_plain [OF this, of 0 row]
  have row: "fst (type_chars out (row, col)) = ?l @ ?pad @ drop (length ?l + length ?pad) row"
    by (simp add: out)
  have "blank (drop (length ?l + length ?pad) row)"
    using assms(1) set_drop_subset_set_drop [of "b_last_len b" "length ?l + length ?pad" row]
    by (force simp: row_clean_def blank_def)
  then have "blank (?pad @ drop (length ?l + length ?pad) row)" by (auto simp: blank_def)
  with row b' show ?thesis by (auto simp: row_clean_def)
qed

text \<open>
  The row stays clean through any sequence of reports, and what stands on it after a report
  that was drawn is the line for that report.
\<close>

lemma update_clean:
  assumes "row_clean b row" and "update_bar now width copied whole b = (out, b')"
  shows "row_clean b' (fst (type_chars out (row, col)))"
  using assms redraw [of "b\<lparr>b_done := copied, b_total := whole, b_reported := True, b_last_draw := Some now\<rparr>" row now width False out b']
  by (auto simp: update_bar_def row_clean_def Let_def split: if_splits)

text \<open>Two lines are at least a tenth of a second apart.\<close>

lemma redraw_rate:
  assumes "update_bar now width copied whole b = (out, b')" and "out \<noteq> []" and "b_last_draw b = Some t"
  shows "t + REDRAW_EVERY \<le> now"
  using assms by (auto simp: update_bar_def Let_def REDRAW_EVERY_def split: if_splits)

text \<open>A bar that is finished or dropped leaves the cursor on a line of its own.\<close>

lemma closes_line:
  assumes "b_reported b" and "b_enabled b"
  shows "last (fst (finish_bar now width b)) = NL \<and> drop_bar (snd (finish_bar now width b)) = []"
  using assms by (auto simp: finish_bar_def drop_bar_def split: prod.split)

end
