(* ===== verification/Mounts.thy ===== *)
theory Mounts
  imports Cli
begin

text \<open>
  Unmounting (src/src/main.rs): the mount table as the kernel prints it, which of its entries
  are coffer's own, the commands an unmount tries, and the two watchers that act on an idle
  mount. The text of \<open>/proc/self/mountinfo\<close>, the programs there are and what they answer, and the
  resolution of symbolic links are arguments.
\<close>

section \<open>The mount table\<close>

definition octal_digit :: "char \<Rightarrow> bool" where
  "octal_digit c \<longleftrightarrow> 48 \<le> code c \<and> code c \<le> 55"

text \<open>The value of an escape is computed in \<open>u8\<close>, which wraps in a release build.\<close>

fun unescape_bytes :: "string \<Rightarrow> string" where
  "unescape_bytes (c # x # y # z # rest) =
     (if c = CHR 0x5C \<and> octal_digit x \<and> octal_digit y \<and> octal_digit z
      then char_of (((code x - 48) * 64 + (code y - 48) * 8 + (code z - 48)) mod 256) # unescape_bytes rest
      else c # unescape_bytes (x # y # z # rest))"
| "unescape_bytes (c # cs) = c # unescape_bytes cs"
| "unescape_bytes [] = []"

definition unescape_mountinfo :: "string \<Rightarrow> string" where
  "unescape_mountinfo f = from_utf8_lossy (unescape_bytes f)"

text \<open>\<open>str::split\<close> at a text: what stands before its first occurrence and after it.\<close>

fun split_text :: "string \<Rightarrow> string \<Rightarrow> (string \<times> string) option" where
  "split_text p [] = None"
| "split_text p (c # s) =
     (if prefix p (c # s) then Some ([], drop (length p) (c # s))
      else map_option (map_prod (Cons c) id) (split_text p s))"

definition second_part :: "string \<Rightarrow> string \<Rightarrow> string option" where
  "second_part p s =
     map_option (\<lambda>(_, rest). case split_text p rest of Some (x, _) \<Rightarrow> x | None \<Rightarrow> rest) (split_text p s)"

definition parse_u32 :: "string \<Rightarrow> u32 option" where
  "parse_u32 s = map_option word_of_nat (parse_uint 32 s)"

definition coffer_mount :: "string \<Rightarrow> (string \<times> u32) option" where
  "coffer_mount line =
     (case split (CHR '' '') line of
        _ # _ # devnum # _ # mp # _ \<Rightarrow>
          (case map_option (split (CHR '' '')) (second_part '' - '' line) of
             Some (fstype # source # _) \<Rightarrow>
               if (fstype = ''fuse'' \<or> prefix ''fuse.'' fstype) \<and> source = ''coffer'' then
                 (case split (CHR '':'') devnum of
                    _ # minor # _ \<Rightarrow> map_option (\<lambda>n. (unescape_mountinfo mp, n)) (parse_u32 minor)
                  | _ \<Rightarrow> None)
               else None
           | _ \<Rightarrow> None)
      | _ \<Rightarrow> None)"

text \<open>\<open>None\<close> is a mount table that cannot be read, or is not UTF-8.\<close>

definition coffer_mounts :: "string option \<Rightarrow> (string \<times> u32) list" where
  "coffer_mounts info = (case info of None \<Rightarrow> [] | Some t \<Rightarrow> List.map_filter coffer_mount (lines t))"

section \<open>The key of a mountpoint\<close>

text \<open>
  \<open>Path::components\<close>: empty parts and dots are skipped. \<open>parent_or_dot\<close> is the parent in the
  normal form of its components, which resolves to the same directory.
\<close>

definition path_parts :: "string \<Rightarrow> string list" where
  "path_parts s = filter (\<lambda>p. p \<noteq> [] \<and> p \<noteq> ''.'') (split (CHR ''/'') s)"

definition file_name :: "string \<Rightarrow> string option" where
  "file_name s =
     (let ps = path_parts s in if ps = [] \<or> last ps = ''..'' then None else Some (last ps))"

fun join_parts :: "string list \<Rightarrow> string" where
  "join_parts [] = []"
| "join_parts [p] = p"
| "join_parts (p # ps) = p @ ''/'' @ join_parts ps"

definition parent_or_dot :: "string \<Rightarrow> string" where
  "parent_or_dot s =
     (let ps = butlast (path_parts s) in
      if prefix ''/'' s then ''/'' @ join_parts ps else if ps = [] then ''.'' else join_parts ps)"

definition mount_key :: "(string \<Rightarrow> string option) \<Rightarrow> string \<Rightarrow> string option" where
  "mount_key canon mountpoint =
     Option.bind (file_name mountpoint) (\<lambda>name.
     Option.bind (canon (parent_or_dot mountpoint)) (\<lambda>parent. to_str (path_join parent name)))"

definition fuse_connection_id :: "(string \<Rightarrow> string option) \<Rightarrow> string option \<Rightarrow> string \<Rightarrow> u32 option" where
  "fuse_connection_id canon info mountpoint =
     Option.bind (mount_key canon mountpoint) (\<lambda>key.
       let ids = map snd (filter (\<lambda>(mp, _). mp = key) (coffer_mounts info))
       in if ids = [] then None else Some (last ids))"

definition is_mounted :: "(string \<Rightarrow> string option) \<Rightarrow> string \<Rightarrow> (string \<times> u32) list \<Rightarrow> bool" where
  "is_mounted canon mountpoint mounts =
     (case mount_key canon mountpoint of None \<Rightarrow> False | Some key \<Rightarrow> key \<in> fst ` set mounts)"

definition mount_field :: "string \<Rightarrow> string option" where
  "mount_field line = (case split (CHR '' '') line of _ # _ # _ # _ # mp # _ \<Rightarrow> Some mp | _ \<Rightarrow> None)"

definition is_mountpoint :: "(string \<Rightarrow> string option) \<Rightarrow> string option \<Rightarrow> string \<Rightarrow> bool" where
  "is_mountpoint canon info mountpoint =
     (case info of
        None \<Rightarrow> True
      | Some t \<Rightarrow>
          (case mount_key canon mountpoint of
             None \<Rightarrow> False
           | Some key \<Rightarrow> key \<in> unescape_mountinfo ` set (List.map_filter mount_field (lines t))))"

section \<open>Unmounting\<close>

text \<open>How a program ended: its exit code, none when a signal ended it, and its standard error.\<close>

record exit_status =
  x_code :: "nat option"
  x_stderr :: string

definition success :: "exit_status \<Rightarrow> bool" where
  "success x \<longleftrightarrow> x_code x = Some 0"

datatype action = Run string "string list" | AbortConnection u32 | SudoHint string

record host_env =
  path_var :: "string option"
    \<comment> \<open>the variable \<open>PATH\<close>\<close>
  program_file :: "string \<Rightarrow> bool"
  run_program :: "string \<Rightarrow> string list \<Rightarrow> exit_status option"
    \<comment> \<open>\<open>None\<close> when it does not start\<close>
  resolve :: "string \<Rightarrow> string option"
  mountinfo :: "string option"

definition which_program :: "host_env \<Rightarrow> string \<Rightarrow> string option" where
  "which_program h name =
     Option.bind (path_var h) (\<lambda>paths.
       find (program_file h) (map (\<lambda>dir. path_join dir name) (split (CHR '':'') paths)))"

definition unmount_tool :: "host_env \<Rightarrow> string \<times> string list \<times> string list" where
  "unmount_tool h =
     (case or_else (which_program h ''fusermount3'') (which_program h ''fusermount'') of
        Some f \<Rightarrow> (f, [''-u''], [''-u'', ''-z''])
      | None \<Rightarrow> (''umount'', [], [''-l'']))"

definition run_unmount :: "host_env \<Rightarrow> string \<Rightarrow> (cli_error + exit_status) \<times> action list" where
  "run_unmount h mountpoint =
     (let conn_id = fuse_connection_id (resolve h) (mountinfo h) mountpoint in
      case unmount_tool h of
        (tool, plain, lazy) \<Rightarrow>
          let first = Run tool (plain @ [mountpoint]); second = Run tool (lazy @ [mountpoint]) in
          case run_program h tool (plain @ [mountpoint]) of
            None \<Rightarrow> (Inl CannotRun, [first])
          | Some x \<Rightarrow>
              if success x then (Inr (x\<lparr>x_stderr := []\<rparr>), [first])
              else (case run_program h tool (lazy @ [mountpoint]) of
                      None \<Rightarrow> (Inl CannotRun, [first, second])
                    | Some y \<Rightarrow>
                        (Inr y, [first, second] @
                           (if success y then (case conn_id of Some i \<Rightarrow> [AbortConnection i] | None \<Rightarrow> [])
                            else []))))"

text \<open>\<open>str::contains\<close>.\<close>

definition contains :: "string \<Rightarrow> string \<Rightarrow> bool" where
  "contains pat s = list_ex (\<lambda>k. prefix pat (drop k s)) [0..<Suc (length s)]"

definition refused_permission :: "exit_status \<Rightarrow> bool" where
  "refused_permission x \<longleftrightarrow> \<not> success x \<and>
     (contains ''Permission denied'' (x_stderr x) \<or> contains ''Operation not permitted'' (x_stderr x))"

text \<open>\<open>cmd_umount\<close>: the mountpoint meant, and the code the process exits with.\<close>

definition umount_target ::
  "host_env \<Rightarrow> string option \<Rightarrow> config_error + config \<Rightarrow> bool \<Rightarrow> string list \<Rightarrow> string option \<Rightarrow>
     cli_error + string" where
  "umount_target h home reg terminal input target =
     (case target of
        Some t \<Rightarrow>
          if looks_like_path t then Inr t
          else sbind (config_err reg) (\<lambda>c.
               sbind (config_err (get home c t)) (\<lambda>found. case found of
                 Some v \<Rightarrow>
                   if is_mounted (resolve h) (v_mountpoint v) (coffer_mounts (mountinfo h))
                   then Inr (v_mountpoint v) else Inl NotMounted
               | None \<Rightarrow> if is_mountpoint (resolve h) (mountinfo h) t then Inr t else Inl NoSuchVault))
      | None \<Rightarrow>
          sbind (config_err reg) (\<lambda>c.
          sbind (config_err (vaults home c)) (\<lambda>vs.
          if vs = [] then Inl NoVaults
          else let mounted = filter (\<lambda>v. is_mounted (resolve h) (v_mountpoint v) (coffer_mounts (mountinfo h))) vs
               in if mounted = [] then Inl NoneMounted
                  else sbind (pick_vault terminal input mounted) (\<lambda>v. Inr (v_mountpoint v)))))"

definition cmd_umount ::
  "host_env \<Rightarrow> string option \<Rightarrow> config_error + config \<Rightarrow> bool \<Rightarrow> string list \<Rightarrow> string option \<Rightarrow>
     (cli_error + nat) \<times> action list" where
  "cmd_umount h home reg terminal input target =
     (case umount_target h home reg terminal input target of
        Inl e \<Rightarrow> (Inl e, [])
      | Inr mountpoint \<Rightarrow>
          if \<not> is_mountpoint (resolve h) (mountinfo h) mountpoint then (Inl NotMounted, [])
          else (case run_unmount h mountpoint of
                  (Inl e, acts) \<Rightarrow> (Inl e, acts)
                | (Inr x, acts) \<Rightarrow>
                    (Inr (case x_code x of Some n \<Rightarrow> n | None \<Rightarrow> 1),
                     acts @ (if refused_permission x then [SudoHint mountpoint] else []))))"

section \<open>Times for display\<close>

text \<open>\<open>local fmt secs\<close>: what \<open>strftime\<close> makes of the local time, \<open>None\<close> when \<open>localtime_r\<close> has none.\<close>

definition strftime_local :: "(string \<Rightarrow> int \<Rightarrow> string option) \<Rightarrow> systime \<Rightarrow> string \<Rightarrow> string" where
  "strftime_local local t fmt =
     (let secs = (case duration_since t UNIX_EPOCH of
                    Some d \<Rightarrow> sint (word_of_nat (d div nanos_per_sec) :: 64 word) | None \<Rightarrow> 0)
      in case local fmt secs of None \<Rightarrow> ''-'' | Some bytes \<Rightarrow> from_utf8_lossy bytes)"

definition format_local_time :: "(string \<Rightarrow> int \<Rightarrow> string option) \<Rightarrow> systime \<Rightarrow> string" where
  "format_local_time local t = strftime_local local t ''%Y-%m-%d %H:%M''"

section \<open>The watchers of an idle mount\<close>

definition poll_interval :: "duration \<Rightarrow> duration" where
  "poll_interval timeout = max (min timeout (30 * nanos_per_sec)) (1 * nanos_per_sec)"

definition idle_for :: "f64 \<Rightarrow> u64 \<Rightarrow> f64" where
  "idle_for now seen = f64_round (now - f64_of_nat (unat seen))"

definition idle_due :: "duration \<Rightarrow> f64 \<times> u64 \<Rightarrow> bool" where
  "idle_due timeout obs = (as_secs_f64 timeout \<le> idle_for (fst obs) (snd obs))"

text \<open>
  The watcher's loop over what it sees at each poll (the clock, the last activity): the poll at
  which it unmounts and ends, if it has come to that.
\<close>

fun idle_watch :: "duration \<Rightarrow> nat \<Rightarrow> (f64 \<times> u64) list \<Rightarrow> nat option" where
  "idle_watch timeout k [] = None"
| "idle_watch timeout k (obs # rest) =
     (if idle_due timeout obs then Some k else idle_watch timeout (Suc k) rest)"

text \<open>What the watchers write to the log; the reason of a failure is left out.\<close>

datatype log_entry =
    IdleUnmount u64 nat string | UnmountFailed string | Compacting nat string | CompactFailed

definition idle_unmount :: "host_env \<Rightarrow> string \<Rightarrow> duration \<Rightarrow> f64 \<times> u64 \<Rightarrow> log_entry list \<times> action list" where
  "idle_unmount h mountpoint timeout obs =
     (let entry = IdleUnmount (f64_as_u64 (idle_for (fst obs) (snd obs))) (timeout div nanos_per_sec) mountpoint in
      case run_unmount h mountpoint of
        (Inl e, acts) \<Rightarrow> ([entry, UnmountFailed mountpoint], acts)
      | (Inr x, acts) \<Rightarrow> (entry # (if success x then [] else [UnmountFailed mountpoint]), acts))"

definition idle_watcher ::
  "host_env \<Rightarrow> string \<Rightarrow> duration \<Rightarrow> (f64 \<times> u64) list \<Rightarrow> (log_entry list \<times> action list) option" where
  "idle_watcher h mountpoint timeout obs =
     map_option (\<lambda>k. idle_unmount h mountpoint timeout (obs ! k)) (idle_watch timeout 0 obs)"

definition MIN_RECLAIM_BYTES :: nat where "MIN_RECLAIM_BYTES = 64 * 1024 * 1024"

definition MIN_RECLAIM_FRACTION :: f64 where "MIN_RECLAIM_FRACTION = f64_round (1 / 10)"

text \<open>One round of the compaction watcher: what it sees before and after it took the lock.\<close>

record compact_round =
  r_before :: "f64 \<times> u64"
  r_on_disk :: "u64 option"
  r_locked :: "f64 \<times> u64"
  r_used :: "i64 option"
    \<comment> \<open>\<open>SELECT SUM(size)\<close>, \<open>None\<close> when it fails\<close>
  r_vacuum :: bool

definition compact_gap :: "u64 \<Rightarrow> i64 option \<Rightarrow> nat" where
  "compact_gap on_disk used =
     unat on_disk - unat ((case used of Some n \<Rightarrow> word_of_int n | None \<Rightarrow> 0) :: u64)"

definition compacts :: "duration \<Rightarrow> compact_round \<Rightarrow> nat option" where
  "compacts threshold r =
     (if \<not> idle_due threshold (r_before r) then None
      else case r_on_disk r of
        None \<Rightarrow> None
      | Some on_disk \<Rightarrow>
          let gap = compact_gap on_disk (r_used r) in
          if \<not> idle_due threshold (r_locked r) \<or> gap < MIN_RECLAIM_BYTES \<or>
             f64_of_nat gap < f64_round (f64_of_nat (unat on_disk) * MIN_RECLAIM_FRACTION)
          then None else Some gap)"

text \<open>The watcher's loop, which goes on as long as the mount does: what its rounds log.\<close>

definition compact_watcher :: "string \<Rightarrow> duration \<Rightarrow> compact_round list \<Rightarrow> log_entry list" where
  "compact_watcher path threshold rounds =
     concat (map (\<lambda>r. case compacts threshold r of
         None \<Rightarrow> []
       | Some gap \<Rightarrow> Compacting gap path # (if r_vacuum r then [] else [CompactFailed])) rounds)"

end
