(* ===== verification/Mount_Cmd.thy ===== *)
theory Mount_Cmd
  imports Mounts Container Ipc
begin

text \<open>
  \<open>coffer mount\<close> (\<open>cmd_mount\<close> of src/src/main.rs): the checks in their order, the two opens of the
  container, and the filesystem that is served. What the host answers - paths, locks, the
  mount itself, the engine's faults - is an argument, the container file is the state.
\<close>

datatype mount_error =
    Cli_Error cli_error | CompactReadOnly | NoSuchFile | LogUnwritable | NotLocked lock_error
  | MountpointUnusable | MountpointNotEmpty | OpenFailed open_error | OldFormat | MountFailed
  | ForkFailed | NoSession | NoDirectory | NoDevNull | NoRedirect | NoPlaceholder

datatype mount_option = FSName string | NoDev | NoSuid | RO | DefaultPermissions

section \<open>Into the background\<close>

text \<open>
  Where a standard stream of the process goes. A fork that works has two sides: the parent
  leaves at once with \<open>_exit(0)\<close>, what is modelled is the child, which goes on.
\<close>

datatype stream = Inherited | DevNull | LogFile string

record streams =
  fd_in :: stream
  fd_out :: stream
  fd_err :: stream

definition inherited :: streams where
  "inherited = \<lparr>fd_in = Inherited, fd_out = Inherited, fd_err = Inherited\<rparr>"

record daemon_host =
  f_fork :: bool
  f_setsid :: bool
  f_fork_again :: bool
  f_chdir :: bool
  f_devnull :: bool
  f_dup :: "nat \<Rightarrow> bool"
    \<comment> \<open>whether \<open>dup2\<close> onto a descriptor works\<close>

definition guard :: "'e \<Rightarrow> bool \<Rightarrow> 'e + unit" where
  "guard e b = (if b then Inr () else Inl e)"

definition redirect_std_to :: "(nat \<Rightarrow> bool) \<Rightarrow> stream \<Rightarrow> streams \<Rightarrow> mount_error + streams" where
  "redirect_std_to dup f fds =
     sbind (guard NoRedirect (dup 1)) (\<lambda>_.
     sbind (guard NoRedirect (dup 2)) (\<lambda>_. Inr (fds\<lparr>fd_out := f, fd_err := f\<rparr>)))"

definition daemonize :: "daemon_host \<Rightarrow> stream option \<Rightarrow> streams \<Rightarrow> mount_error + streams" where
  "daemonize d out fds =
     sbind (guard ForkFailed (f_fork d)) (\<lambda>_.
     sbind (guard NoSession (f_setsid d)) (\<lambda>_.
     sbind (guard ForkFailed (f_fork_again d)) (\<lambda>_.
     sbind (guard NoDirectory (f_chdir d)) (\<lambda>_.
     sbind (guard NoDevNull (f_devnull d)) (\<lambda>_.
     sbind (guard NoRedirect (f_dup d 0)) (\<lambda>_.
     redirect_std_to (f_dup d) (case out of Some f \<Rightarrow> f | None \<Rightarrow> DevNull) (fds\<lparr>fd_in := DevNull\<rparr>)))))))"

text \<open>A daemon holds on to nothing of the terminal it was started from.\<close>

lemma daemonize_detaches:
  assumes "daemonize d out fds = Inr fds'" and "out \<noteq> Some Inherited"
  shows "fd_in fds' = DevNull \<and> fd_out fds' = fd_err fds' \<and> fd_out fds' \<noteq> Inherited \<and>
    (\<forall>f. out = Some f \<longrightarrow> fd_err fds' = f)"
  using assms
  by (cases out) (auto simp: daemonize_def redirect_std_to_def guard_def sbind_def split: if_splits)

section \<open>The host\<close>

record mount_host =
  h_canon :: "string \<Rightarrow> string option"
  h_log :: "string \<Rightarrow> bool"
    \<comment> \<open>whether the log can be opened for appending\<close>
  h_writable :: "string \<Rightarrow> bool"
  h_flock :: "string \<Rightarrow> flock_answer"
    \<comment> \<open>whether the file can be opened for writing, and what \<open>flock\<close> on it answers\<close>
  h_make_dir :: "string \<Rightarrow> bool"
  h_entries :: "string \<Rightarrow> nat option"
    \<comment> \<open>the number of entries of a directory, once it exists\<close>
  h_statfs :: "string \<Rightarrow> i64 option"
  h_prompt :: "cli_error + string"
  h_sh :: "string \<Rightarrow> command_result"
  h_contents :: "string \<Rightarrow> string option"
  h_open_faults :: "nat \<Rightarrow> sql_error option"
  h_reopen_faults :: "nat \<Rightarrow> sql_error option"
  h_fallback_faults :: "nat \<Rightarrow> sql_error option"
  h_schema_ok :: bool
  h_max_size_ok :: bool
    \<comment> \<open>whether the two queries after the open succeed\<close>
  h_socket :: "string \<Rightarrow> bool"
  h_session :: bool
  h_daemon :: daemon_host
  h_memory :: bool
    \<comment> \<open>whether the in-memory connection that stands in meanwhile can be opened\<close>
  h_uid :: u32
  h_gid :: u32
  h_conn :: "db \<Rightarrow> conn"
    \<comment> \<open>a connection to given tables: the faults and the clock it will meet\<close>

definition mount_err :: "cli_error + 'a \<Rightarrow> mount_error + 'a" where
  "mount_err r = (case r of Inl e \<Rightarrow> Inl (Cli_Error e) | Inr a \<Rightarrow> Inr a)"

definition needs :: "'e \<Rightarrow> 'a option \<Rightarrow> 'e + 'a" where
  "needs e x = (case x of Some a \<Rightarrow> Inr a | None \<Rightarrow> Inl e)"

text \<open>Everything before the container is opened.\<close>

record mount_plan =
  p_idle :: "duration option"
  p_compact :: "duration option"
  p_container :: string
  p_mountpoint :: string
  p_exclusive :: bool
  p_password :: string

definition mount_checks :: "mount_host \<Rightarrow> string \<Rightarrow> string \<Rightarrow> mount_opts \<Rightarrow> mount_error + mount_plan" where
  "mount_checks h path mountpoint opts =
     sbind (mount_err (for_some (\<lambda>s. from_outcome (parse_duration s)) (o_idle_timeout opts))) (\<lambda>idle.
     sbind (mount_err (for_some (\<lambda>s. from_outcome (parse_duration s)) (o_compact_on_idle opts))) (\<lambda>compact.
     sbind (guard CompactReadOnly (\<not> (o_read_only opts \<and> compact \<noteq> None))) (\<lambda>_.
     sbind (needs NoSuchFile (h_canon h path)) (\<lambda>abs_file.
     sbind (guard LogUnwritable (pred_option (h_log h) (o_log opts))) (\<lambda>_.
     sbind (map_sum NotLocked id (lock_exclusive (h_writable h abs_file) (h_flock h abs_file))) (\<lambda>_.
     sbind (guard MountpointUnusable (h_make_dir h mountpoint)) (\<lambda>_.
     sbind (needs MountpointUnusable (h_entries h mountpoint)) (\<lambda>n.
     sbind (guard MountpointNotEmpty (n = 0)) (\<lambda>_.
     sbind (needs MountpointUnusable (h_canon h mountpoint)) (\<lambda>abs_mountpoint.
     let lock = (case o_locking opts of Some l \<Rightarrow> l | None \<Rightarrow> Auto);
         exclusive = (\<not> o_read_only opts \<and> exclusive_for (h_statfs h) lock abs_file) in
     sbind (mount_err (read_password_source (h_prompt h) (h_sh h) (h_contents h)
              (o_password_file opts) (o_password_command opts))) (\<lambda>password.
     Inr \<lparr>p_idle = idle, p_compact = compact, p_container = abs_file, p_mountpoint = abs_mountpoint,
          p_exclusive = exclusive, p_password = password\<rparr>)))))))))))"

text \<open>
  The connection the mount serves from, opened when the first one is not kept: exclusively, or
  normally when that fails, which also gives up the control socket.
\<close>

definition run_open ::
  "(session, open_error, unit) act \<Rightarrow> string \<Rightarrow> (nat \<Rightarrow> sql_error option) \<Rightarrow> container \<Rightarrow>
     (open_error + unit) \<times> container" where
  "run_open m password faults c =
     map_prod id box (m \<lparr>box = c, given_key = password, stmt = 0, stmt_fault = faults\<rparr>)"

definition reopen ::
  "mount_host \<Rightarrow> bool \<Rightarrow> bool \<Rightarrow> bool \<Rightarrow> string \<Rightarrow> container \<Rightarrow> (open_error + bool) \<times> container" where
  "reopen h exclusive foreground ro password c =
     (if exclusive then
        (case run_open (open_db_for_mount False True) password (h_reopen_faults h) c of
           (Inr _, c1) \<Rightarrow> (Inr True, c1)
         | (Inl _, c1) \<Rightarrow>
             (case run_open (open_db False) password (h_fallback_faults h) c1 of
                (Inr _, c2) \<Rightarrow> (Inr False, c2)
              | (Inl e, c2) \<Rightarrow> (Inl e, c2)))
      else if \<not> foreground then
        (case run_open (open_db ro) password (h_reopen_faults h) c of
           (Inr _, c1) \<Rightarrow> (Inr False, c1)
         | (Inl e, c1) \<Rightarrow> (Inl e, c1))
      else (Inr False, c))"

text \<open>What a mount logs about itself.\<close>

datatype mount_entry = MountedAt string string bool | ExclusiveFailed

record mounted =
  m_fs :: coffer_fs
  m_exclusive :: bool
  m_socket :: bool
  m_idle :: "duration option"
  m_compact :: "duration option"
  m_options :: "mount_option list"
  m_container :: string
  m_mountpoint :: string
  m_streams :: streams
  m_log :: "mount_entry list"

text \<open>Where the mount's own messages go.\<close>

definition settle :: "mount_host \<Rightarrow> mount_opts \<Rightarrow> mount_error + streams" where
  "settle h opts =
     (if \<not> o_foreground opts then daemonize (h_daemon h) (map_option LogFile (o_log opts)) inherited
      else case o_log opts of
        Some f \<Rightarrow> redirect_std_to (f_dup (h_daemon h)) (LogFile f) inherited
      | None \<Rightarrow> Inr inherited)"

definition mount_options_for :: "mount_opts \<Rightarrow> mount_option list" where
  "mount_options_for opts =
     [FSName ''coffer'', NoDev, NoSuid] @ (if o_read_only opts then [RO] else []) @
     (if o_enforce_permissions opts then [DefaultPermissions] else [])"

text \<open>\<open>CofferFS::new\<close> runs on the first connection; a second one takes its place afterwards.\<close>

definition served :: "mount_host \<Rightarrow> bool \<Rightarrow> u64 \<Rightarrow> bool \<Rightarrow> db \<Rightarrow> db \<Rightarrow> coffer_fs" where
  "served h ro msize swapped first second =
     (let self = coffer_new (h_conn h first) msize (h_uid h) (h_gid h) ro
      in if swapped then self\<lparr>con := h_conn h second\<rparr> else self)"

definition cmd_mount ::
  "mount_host \<Rightarrow> string \<Rightarrow> string \<Rightarrow> mount_opts \<Rightarrow> container option \<Rightarrow>
     (mount_error + mounted) \<times> container option" where
  "cmd_mount h path mountpoint opts disk =
     (case mount_checks h path mountpoint opts of
        Inl e \<Rightarrow> (Inl e, disk)
      | Inr p \<Rightarrow>
          (case open_container (o_read_only opts) (p_password p) (h_open_faults h) disk of
             (Inr _, Some c1) \<Rightarrow>
               (case c_body c1 of
                  Format2 first \<Rightarrow>
                    if \<not> h_schema_ok h \<or> schema_version (c_body c1) \<noteq> Some ''2'' then (Inl OldFormat, Some c1)
                    else if \<not> h_session h then (Inl MountFailed, Some c1)
                    else if isl (settle h opts) then (Inl (projl (settle h opts)), Some c1)
                    else if (p_exclusive p \<or> \<not> o_foreground opts) \<and> \<not> h_memory h then (Inl NoPlaceholder, Some c1)
                    else
                      (case reopen h (p_exclusive p) (o_foreground opts) (o_read_only opts) (p_password p) c1 of
                         (Inl e, c2) \<Rightarrow> (Inl (OpenFailed e), Some c2)
                       | (Inr held, c2) \<Rightarrow>
                           (case c_body c2 of
                              Format2 second \<Rightarrow>
                                (Inr \<lparr>m_fs = served h (o_read_only opts)
                                              (if h_max_size_ok h then read_max_size (c_body c1) else 0)
                                              (p_exclusive p \<or> \<not> o_foreground opts) first second,
                                      m_exclusive = held,
                                      m_socket = held \<and> h_socket h (p_container p),
                                      m_idle = p_idle p, m_compact = p_compact p,
                                      m_options = mount_options_for opts, m_container = p_container p,
                                      m_mountpoint = p_mountpoint p, m_streams = projr (settle h opts),
                                      m_log = (if o_log opts \<noteq> None
                                               then [MountedAt (p_container p) (p_mountpoint p) (o_read_only opts)] else []) @
                                              (if p_exclusive p \<and> \<not> held then [ExclusiveFailed] else [])\<rparr>, Some c2)
                            | _ \<Rightarrow> (Inl OldFormat, Some c2)))
                | _ \<Rightarrow> (Inl OldFormat, Some c1))
           | (Inl e, disk1) \<Rightarrow> (Inl (OpenFailed e), disk1)
           | (_, disk1) \<Rightarrow> (Inl NoSuchFile, disk1)))"

end
