(* ===== verification/Mount_Props.thy ===== *)
theory Mount_Props
  imports Mount_Cmd Mounts_Props Ipc_Props Container_Props Fs_Quota
begin

text \<open>
  A whole session: the command line, the container and the filesystem together. What is
  mounted is the tree of the container, in the mode that was asked for; whatever requests
  are served, the container that is left opens again and passes the check.
\<close>

section \<open>The two opens\<close>

definition ends :: "(session \<Rightarrow> bool) \<Rightarrow> (session, 'e, 'a) act \<Rightarrow> bool" where
  "ends P m \<longleftrightarrow> (\<forall>s a s'. m s = (Inr a, s') \<longrightarrow> P s')"

lemma ends_bind: "(\<And>a. ends P (k a)) \<Longrightarrow> ends P (bind m k)"
  by (auto simp: ends_def act_inv)

lemma ends_bind_keeps: "ends P m \<Longrightarrow> (\<And>a. keeps P (k a)) \<Longrightarrow> ends P (bind m k)"
  unfolding ends_def bind_Inr by (meson keepsD)

lemma ends_throw: "ends P (throw e)"
  by (auto simp: ends_def act_inv)

lemma ends_map_err: "ends P m \<Longrightarrow> ends P (map_err f m)"
  by (auto simp: ends_def act_inv)

definition upgraded_box :: "session \<Rightarrow> bool" where
  "upgraded_box s \<longleftrightarrow> (\<exists>d. c_body (box s) = Format2 (add_xattrs d))"

lemma ends_batch: "ends upgraded_box (on_box (on_format2 (\<lambda>d. Inr ((), add_xattrs d))))"
  by (auto simp: ends_def upgraded_box_def on_box_def on_format2_def Let_def
      split: option.splits if_splits sum.splits body.splits)

lemma keeps_upgraded: "keeps upgraded_box (or_sql pragma)"
  by (rule keeps_map_err) (simp add: keeps_def upgraded_box_def pragma_def)

lemma open_writable: "ends upgraded_box (open_db_with False excl)"
  unfolding open_db_with_def Let_def if_False
  by (intro ends_bind; (split sum.split sql_error.split)?; intro allI impI conjI;
      (rule ends_throw | (simp only: split: if_split sql_error.split, intro conjI impI;
         intro ends_throw ends_bind_keeps ends_bind ends_map_err ends_batch keeps_upgraded)))

lemma opens_from_ok:
  assumes "opens_from c c'" and "body_ok (c_body c)"
  shows "c_key c' = c_key c \<and> c_held c' = c_held c \<and> body_ok (c_body c') \<and> tree_of (c_body c') = tree_of (c_body c)"
  using assms opened_ok [of "c_body c" "c_body c'"] by (simp add: opens_from_def)

lemma run_open_ok:
  assumes "run_open (open_db_with ro excl) pw faults c = (r, c')" and "body_ok (c_body c)"
  shows "(c_key c' = c_key c \<and> c_held c' = c_held c \<and> body_ok (c_body c') \<and> tree_of (c_body c') = tree_of (c_body c)) \<and>
    (ro \<longrightarrow> c' = c) \<and> (\<not> ro \<and> r = Inr () \<longrightarrow> (\<exists>d. c_body c' = Format2 (add_xattrs d)))"
proof -
  obtain s' where run: "open_db_with ro excl \<lparr>box = c, given_key = pw, stmt = 0, stmt_fault = faults\<rparr> = (r, s')"
    and c': "c' = box s'"
    using assms(1)
    by (cases "open_db_with ro excl \<lparr>box = c, given_key = pw, stmt = 0, stmt_fault = faults\<rparr>") (auto simp: run_open_def)
  have "opens_from c (box s')" by (rule keepsD [OF keeps_open run]) simp
  moreover have "c' = c" if ro
    using keepsD [OF keeps_open_ro [of "\<lambda>x. x = c"] run [unfolded eqTrueI [OF that]]] c' by simp
  moreover have "\<exists>d. c_body c' = Format2 (add_xattrs d)" if "\<not> ro" "r = Inr ()"
    using open_writable [of excl] run that c' by (auto simp: ends_def upgraded_box_def)
  ultimately show ?thesis using opens_from_ok [OF _ assms(2)] c' by blast
qed

lemma reopen_ok:
  assumes "reopen h ex fg ro pw c = (Inr held, c')" and "body_ok (c_body c)" and "ex \<longrightarrow> \<not> ro"
    and "\<not> ro \<longrightarrow> (\<exists>d. c_body c = Format2 (add_xattrs d))"
  shows "(c_key c' = c_key c \<and> c_held c' = c_held c \<and> body_ok (c_body c') \<and> tree_of (c_body c') = tree_of (c_body c)) \<and>
    (ro \<longrightarrow> c' = c) \<and> (\<not> ro \<longrightarrow> (\<exists>d. c_body c' = Format2 (add_xattrs d))) \<and> (held \<longrightarrow> ex) \<and> (\<not> ex \<and> fg \<longrightarrow> c' = c)"
proof (cases ex)
  case True
  then have w: "\<not> ro" using assms(3) by simp
  obtain r1 c1 where o1: "run_open (open_db_with False True) pw (h_reopen_faults h) c = (r1, c1)"
    by (cases "run_open (open_db_with False True) pw (h_reopen_faults h) c")
  note ok1 = run_open_ok [OF o1 assms(2)]
  show ?thesis
  proof (cases r1)
    case (Inr u)
    with True assms(1) o1 ok1 w show ?thesis by (simp add: reopen_def open_db_for_mount_def)
  next
    case (Inl e)
    then obtain u where "run_open (open_db_with False False) pw (h_fallback_faults h) c1 = (Inr u, c')" "\<not> held"
      using True assms(1) o1 by (auto simp: reopen_def open_db_for_mount_def open_db_def split: prod.splits sum.splits)
    with run_open_ok [OF this(1)] ok1 w True show ?thesis by simp
  qed
next
  case False
  show ?thesis
  proof (cases fg)
    case True
    with False assms show ?thesis by (auto simp: reopen_def)
  next
    case fg: False
    with False assms(1) obtain u where "run_open (open_db_with ro False) pw (h_reopen_faults h) c = (Inr u, c')" "\<not> held"
      by (auto simp: reopen_def open_db_def split: prod.splits sum.splits)
    with run_open_ok [OF this(1) assms(2)] False fg show ?thesis by simp
  qed
qed

section \<open>What is served\<close>

lemma checks_modes:
  assumes "mount_checks h path mountpoint opts = Inr p"
  shows "(p_exclusive p \<longrightarrow> \<not> o_read_only opts) \<and> (p_compact p \<noteq> None \<longrightarrow> \<not> o_read_only opts)"
  using assms by (auto simp: mount_checks_def guard_def Let_def split: if_splits)

lemma served_ok:
  assumes "\<And>d. cdb (h_conn h d) = d" and "\<not> swapped \<longrightarrow> second = first"
  shows "tables (served h ro msize swapped first second) = second \<and>
    read_only (served h ro msize swapped first second) = ro \<and> max_size (served h ro msize swapped first second) = msize"
proof -
  have "cdb (snd (exec_sql (\<lambda>d. Inr (x d, d)) c)) = cdb c" for x :: "db \<Rightarrow> bool" and c
    by (simp add: exec_sql_def Let_def split: option.split)
  then show ?thesis using assms by (simp add: served_def coffer_new_def Let_def case_prod_beta)
qed

text \<open>The filesystem never touches the table \<open>meta\<close>: format and ceiling stay what they are.\<close>

lemma meta_unlink: "t_meta (db_unlink p n i now d) = t_meta d"
  by (simp add: db_unlink_def Let_def db_delete_inode_def delete_dentry_def)

lemma applied_meta:
  assumes "applied uid gid q d d'" and "wf_db d"
  shows "t_meta d' = t_meta d"
  using assms(1)
proof cases
  case (rename n nn p i f np now now')
  then show ?thesis
    by (simp add: db_rename_def db_touch_dirs_def db_move_def db_replace_def meta_unlink split: option.split)
next
  case (write_data i r off dat k now)
  have "t_meta (db_write_blocks i (unat off) dat d) = t_meta d"
    using data_frame_write [OF assms(2), of i "unat off" dat] unfolding data_frame_def by (metis db.select_convs(1) db.surjective db.update_convs(4))
  with write_data show ?thesis by (simp add: db_kill_if_def db_kill_priv_def Let_def)
next
  case (setattr i r sz ru mode u g atm mtm a m now' now)
  have "t_meta (db_truncate_blocks j k e) = t_meta e" for j k e
    by (simp add: truncate_blocks_def Let_def store_block_def delete_blocks_def upsert_block_def)
  with setattr show ?thesis
    by (simp add: db_kill_if_def db_kill_priv_def Let_def db_times_def db_size_def db_owner_def db_mode_def
        db_truncate_def split: option.split)
qed (simp_all add: meta_unlink db_insert_child_def db_link_def db_set_xattr_def db_remove_xattr_def)

interpretation meta_machine:
  invariant_machine "step h" kernel_ok "\<lambda>self. wf_db (tables self) \<and> t_meta (tables self) = mt" for h mt
proof
  fix self q
  assume inv: "wf_db (tables self) \<and> t_meta (tables self) = mt" and ok: "kernel_ok self q"
  then have "wf_db (tables (step h q self))" by (auto intro: wf_machine.step_inv)
  with inv show "wf_db (tables (step h q self)) \<and> t_meta (tables (step h q self)) = mt"
    by (cases rule: step_cases [of h q self]) (auto dest: applied_meta)
qed

section \<open>A session\<close>

lemma name_count_add_xattrs [simp]: "name_count (add_xattrs d) i = name_count d i"
  by (rule name_count_dentries) simp

lemma wf_db_add_xattrs: "wf_db d \<Longrightarrow> wf_db (add_xattrs d)"
proof -
  assume wf: "wf_db d"
  then obtain t where t: "t_xattrs d = Some t" by (cases "t_xattrs d") (auto simp: wf_db_def keys_ok_def)
  have same: "is_dir (add_xattrs d) i = is_dir d i" "size_at (add_xattrs d) i = size_at d i" for i
    by (simp_all add: is_dir_def size_at_def)
  have "keys_ok (add_xattrs d) = keys_ok d" "names_ok (add_xattrs d) = names_ok d"
      "linked_ok (add_xattrs d) = linked_ok d" "root_ok (add_xattrs d) = root_ok d"
      "storage_ok (add_xattrs d) = storage_ok d" "sizes_ok (add_xattrs d) = sizes_ok d"
      "attrs_ok (add_xattrs d) = attrs_ok d" "seq_ok (add_xattrs d) = seq_ok d"
    by (simp_all only: keys_ok_def names_ok_def linked_ok_def root_ok_def storage_ok_def sizes_ok_def attrs_ok_def
        seq_ok_def same name_count_add_xattrs add_xattrs_frame t option.case)
  with wf show ?thesis by (simp add: wf_db_def)
qed

lemma check_add_xattrs: "find_inconsistencies (add_xattrs d) = find_inconsistencies d"
  by (simp add: find_inconsistencies_def)

lemma cmd_mount_Inr:
  assumes "cmd_mount h path mountpoint opts (Some c) = (Inr m, Some c')"
  obtains p c1 first held second where "mount_checks h path mountpoint opts = Inr p"
    "open_container (o_read_only opts) (p_password p) (h_open_faults h) (Some c) = (Inr (), Some c1)"
    "c_body c1 = Format2 first"
    "reopen h (p_exclusive p) (o_foreground opts) (o_read_only opts) (p_password p) c1 = (Inr held, c')"
    "c_body c' = Format2 second"
    "m_fs m = served h (o_read_only opts) (if h_max_size_ok h then read_max_size (c_body c1) else 0)
       (p_exclusive p \<or> \<not> o_foreground opts) first second" "m_exclusive m = held" "m_compact m = p_compact p"
    "m_container m = p_container p"
proof -
  obtain p where p: "mount_checks h path mountpoint opts = Inr p"
    using assms by (cases "mount_checks h path mountpoint opts") (simp_all add: cmd_mount_def)
  note run = assms [unfolded cmd_mount_def p sum.case]
  obtain r disk1 where o: "open_container (o_read_only opts) (p_password p) (h_open_faults h) (Some c) = (r, disk1)"
    by (cases "open_container (o_read_only opts) (p_password p) (h_open_faults h) (Some c)")
  note run = run [unfolded o prod.case]
  obtain u where r: "r = Inr u" using run by (cases r) simp_all
  obtain c1 where c1: "disk1 = Some c1" using run r by (cases disk1) simp_all
  obtain first where f: "c_body c1 = Format2 first" using run r c1 by (cases "c_body c1") simp_all
  obtain x c2 where re: "reopen h (p_exclusive p) (o_foreground opts) (o_read_only opts) (p_password p) c1 = (x, c2)"
    by (cases "reopen h (p_exclusive p) (o_foreground opts) (o_read_only opts) (p_password p) c1")
  note run = run [unfolded r c1 sum.case option.case f body.case re prod.case]
  obtain held where x: "x = Inr held" using run by (cases x) (simp_all split: if_splits)
  obtain second where b: "c_body c2 = Format2 second"
    using run x by (cases "c_body c2") (simp_all split: if_splits)
  have "c2 = c'" using run x b by (simp split: if_splits)
  moreover have "m_fs m = served h (o_read_only opts) (if h_max_size_ok h then read_max_size (c_body c1) else 0)
       (p_exclusive p \<or> \<not> o_foreground opts) first second \<and> m_exclusive m = held \<and> m_compact m = p_compact p \<and> m_container m = p_container p"
    using run x b by (auto simp: f split: if_splits)
  ultimately show ?thesis using that [OF p _ f _ _] o r c1 re x b by simp
qed

lemma cmd_mount_ok:
  assumes "body_ok (c_body c)" and "\<And>d. cdb (h_conn h d) = d"
    and "cmd_mount h path mountpoint opts (Some c) = (Inr m, Some c')"
  shows "(c_key c' = c_key c \<and> c_held c' = c_held c \<and> body_ok (c_body c') \<and> tree_of (c_body c') = tree_of (c_body c)) \<and>
    c_body c' = Format2 (tables (m_fs m)) \<and> read_only (m_fs m) = o_read_only opts \<and>
    (o_read_only opts \<longrightarrow> c' = c) \<and> (\<not> o_read_only opts \<longrightarrow> (\<exists>d. tables (m_fs m) = add_xattrs d)) \<and>
    (m_exclusive m \<or> m_compact m \<noteq> None \<longrightarrow> \<not> o_read_only opts)"
proof -
  let ?ro = "o_read_only opts"
  obtain p c1 first held second where p: "mount_checks h path mountpoint opts = Inr p"
    and o: "open_container ?ro (p_password p) (h_open_faults h) (Some c) = (Inr (), Some c1)"
    and f: "c_body c1 = Format2 first"
    and re: "reopen h (p_exclusive p) (o_foreground opts) ?ro (p_password p) c1 = (Inr held, c')"
    and b: "c_body c' = Format2 second"
    and m: "m_fs m = served h ?ro (if h_max_size_ok h then read_max_size (c_body c1) else 0)
        (p_exclusive p \<or> \<not> o_foreground opts) first second" "m_exclusive m = held" "m_compact m = p_compact p"
    by (rule cmd_mount_Inr [OF assms(3)])
  have o1: "run_open (open_db_with ?ro False) (p_password p) (h_open_faults h) c = (Inr (), c1)"
    using o by (auto simp: open_container_def open_db_def run_open_def map_prod_def split: prod.splits)
  note ok1 = run_open_ok [OF o1 assms(1)]
  have modes: "p_exclusive p \<longrightarrow> \<not> ?ro" "p_compact p \<noteq> None \<longrightarrow> \<not> ?ro"
    using checks_modes [OF p] by blast+
  have "body_ok (c_body c1)" "\<not> ?ro \<longrightarrow> (\<exists>d. c_body c1 = Format2 (add_xattrs d))" using ok1 by blast+
  note ok2 = reopen_ok [OF re this(1) modes(1) this(2)]
  have "\<not> (p_exclusive p \<or> \<not> o_foreground opts) \<longrightarrow> second = first"
    using ok2 f b by (metis body.inject(2))
  from served_ok [OF assms(2) this] have sv: "tables (m_fs m) = second" "read_only (m_fs m) = ?ro"
    unfolding m(1) by blast+
  show ?thesis
  proof (intro conjI)
    show "c_key c' = c_key c" "c_held c' = c_held c" "body_ok (c_body c')" "tree_of (c_body c') = tree_of (c_body c)"
      "?ro \<longrightarrow> c' = c"
      using ok1 ok2 by metis+
    show "c_body c' = Format2 (tables (m_fs m))" "read_only (m_fs m) = ?ro" using b sv by simp_all
    show "\<not> ?ro \<longrightarrow> (\<exists>d. tables (m_fs m) = add_xattrs d)" using ok2 b sv(1) by (metis body.inject(2))
    show "m_exclusive m \<or> m_compact m \<noteq> None \<longrightarrow> \<not> ?ro" using ok2 modes m(2,3) by metis
  qed
qed

text \<open>What a run leaves on the disk: the container with the tables the filesystem ends with.\<close>

definition left_behind :: "'b host \<Rightarrow> request list \<Rightarrow> mounted \<Rightarrow> container \<Rightarrow> container" where
  "left_behind host qs m c = c\<lparr>c_body := Format2 (tables (run host qs (m_fs m)))\<rparr>"

text \<open>
  C30: a whole session. Whatever statements fail while the container is opened and served: if
  \<open>coffer mount\<close> gets to serving a container, what it serves is the container's tree, in the
  mode asked for; no compaction and no exclusive connection runs on a read-only mount. After
  any run of requests the kernel may send, the container is well-formed, the check finds no
  dangling name and no unreachable inode, it opens again with its password, and after a
  read-only session it is bit for bit the container that was mounted.
\<close>

theorem session_lifecycle:
  assumes "body_ok (c_body c)" and "\<And>d. cdb (h_conn h d) = d"
    and "cmd_mount h path mountpoint opts (Some c) = (Inr m, Some c')"
    and "admissible kernel_ok (step host) qs (m_fs m)"
  shows "tree_of (Format2 (tables (m_fs m))) = tree_of (c_body c) \<and> read_only (m_fs m) = o_read_only opts \<and>
    (m_exclusive m \<or> m_compact m \<noteq> None \<longrightarrow> \<not> o_read_only opts) \<and>
    (o_read_only opts \<longrightarrow> left_behind host qs m c' = c) \<and>
    body_ok (c_body (left_behind host qs m c')) \<and>
    find_inconsistencies (tables (run host qs (m_fs m))) = (0, 0) \<and>
    (\<not> c_held c \<longrightarrow> fst (open_container ro (c_key c) no_faults (Some (left_behind host qs m c'))) = Inr ())"
proof -
  let ?d = "tables (run host qs (m_fs m))"
  note mount = cmd_mount_ok [OF assms(1-3)]
  have start: "body_ok (Format2 (tables (m_fs m)))" using mount by metis
  have ok: "body_ok (Format2 ?d) \<and> find_inconsistencies ?d = (0, 0) \<and> (o_read_only opts \<longrightarrow> ?d = tables (m_fs m))"
  proof (cases "o_read_only opts")
    case True
    then have "?d = tables (m_fs m)"
      using ro_machine.run_inv [of "m_fs m" "tables (m_fs m)" host qs] mount by (simp add: run_def admissible_True)
    with start show ?thesis using wf_check_ok [of "add_xattrs ?d"] by (simp add: body_ok_def check_add_xattrs)
  next
    case False
    with mount obtain d where "tables (m_fs m) = add_xattrs d" by blast
    with start have wf: "wf_db (tables (m_fs m))" and v: "map_of (t_meta (tables (m_fs m))) ''schema_version'' = Some ''2''"
      by (simp_all add: body_ok_def)
    from meta_machine.run_inv [of "m_fs m" "t_meta (tables (m_fs m))" host qs] wf assms(4)
    have "wf_db ?d \<and> t_meta ?d = t_meta (tables (m_fs m))" by (simp add: run_def)
    with v False show ?thesis by (simp add: body_ok_def wf_db_add_xattrs wf_check_ok)
  qed
  have "fst (open_container ro (c_key c) no_faults (Some (left_behind host qs m c'))) = Inr ()" if "\<not> c_held c"
  proof -
    have "left_behind host qs m c' = \<lparr>c_key = c_key c, c_body = Format2 ?d, c_held = False\<rparr>"
      using mount that by (simp add: left_behind_def)
    then show ?thesis using open_ok [OF conjunct1 [OF ok], of ro "c_key c" "c_key c" False] by simp
  qed
  moreover have "left_behind host qs m c' = c" if "o_read_only opts"
  proof -
    from mount that have "c' = c" "c_body c' = Format2 (tables (m_fs m))" by blast+
    moreover have "?d = tables (m_fs m)" using ok that by blast
    ultimately have "c' = c" "c_body c' = Format2 ?d" by simp_all
    then show ?thesis by (simp add: left_behind_def flip: \<open>c_body c' = Format2 ?d\<close>)
  qed
  moreover have "tree_of (Format2 (tables (m_fs m))) = tree_of (c_body c)" using mount by metis
  ultimately show ?thesis using mount ok by (simp add: left_behind_def)
qed

definition plain_opts :: mount_opts where
  "plain_opts = \<lparr>o_foreground = True, o_idle_timeout = None, o_compact_on_idle = None, o_password_file = None,
     o_password_command = None, o_read_only = False, o_log = None, o_enforce_permissions = False, o_locking = None\<rparr>"

definition quiet_host :: mount_host where
  "quiet_host = \<lparr>h_canon = Some, h_log = (\<lambda>_. True), h_writable = (\<lambda>_. True), h_flock = (\<lambda>_. Granted), h_make_dir = (\<lambda>_. True),
     h_entries = (\<lambda>_. Some 0), h_statfs = (\<lambda>_. None), h_prompt = Inr ''pw'', h_sh = (\<lambda>_. NotRun), h_contents = (\<lambda>_. None),
     h_open_faults = no_faults, h_reopen_faults = no_faults, h_fallback_faults = no_faults, h_schema_ok = True,
     h_max_size_ok = True, h_socket = (\<lambda>_. True), h_session = True, h_daemon = \<lparr>f_fork = True, f_setsid = True, f_fork_again = True, f_chdir = True, f_devnull = True, f_dup = (\<lambda>_. True)\<rparr>,
     h_memory = True, h_uid = 0, h_gid = 0,
     h_conn = (\<lambda>d. \<lparr>cdb = d, tick = 0, fault = no_faults, clock = (\<lambda>_. 0)\<rparr>)\<rparr>"

lemma quiet_mount:
  "\<exists>m c'. cmd_mount quiet_host ''/c'' ''/m'' plain_opts (Some old_container) = (Inr m, Some c') \<and>
     m_container m = ''/c'' \<and> is_dir (tables (m_fs m)) 1"
proof -
  obtain p where p: "mount_checks quiet_host ''/c'' ''/m'' plain_opts = Inr p" "p_password p = ''pw''" "\<not> p_exclusive p"
    "p_container p = ''/c''"
    by (simp add: mount_checks_def quiet_host_def plain_opts_def for_some_def mount_err_def guard_def needs_def
        exclusive_for_def lock_exclusive_def on_network_fs_def read_password_source_def Let_def)
  obtain d where d: "migrate_to_v2 old_db = Inr d" "t_meta d = update_where (\<lambda>k. k = ''schema_version'') (\<lambda>_. ''2'') (v1_meta old_db)"
    using migrate_Inr [OF old_wf] by metis
  let ?c = "old_container\<lparr>c_body := Format2 (add_xattrs d)\<rparr>"
  have o: "open_container False ''pw'' no_faults (Some old_container) = (Inr (), Some ?c)"
    using open_ok [OF old_body_ok, of False "''pw''" "''pw''" False]
    by (simp add: old_container_def upgraded_def d Let_def)
  have v: "schema_version (Format2 (add_xattrs d)) = Some ''2''"
    by (simp add: schema_version_def meta_of_def d old_db_def)
  have host: "h_open_faults quiet_host = no_faults" "h_schema_ok quiet_host" "h_session quiet_host" "h_memory quiet_host"
      "settle quiet_host plain_opts = Inr inherited" "o_foreground plain_opts" "\<not> o_read_only plain_opts" "\<And>d. cdb (h_conn quiet_host d) = d"
    by (simp_all add: quiet_host_def plain_opts_def settle_def)
  obtain m where m: "cmd_mount quiet_host ''/c'' ''/m'' plain_opts (Some old_container) = (Inr m, Some ?c)"
    by (simp add: cmd_mount_def p o host v reopen_def)
  have "tree_of (Format2 (tables (m_fs m))) = tree_of (c_body old_container)"
    using cmd_mount_ok [OF old_body_ok host(8) m] by metis
  then have "inode_at (tables (m_fs m)) 1 = map_option inode.truncate (map_of (v1_inodes old_db) 1)"
    by (simp add: tree_of_def old_container_def fun_eq_iff)
  then have "is_dir (tables (m_fs m)) 1" by (simp add: is_dir_def old_db_def old_inode_def)
  moreover obtain p1 where "mount_checks quiet_host ''/c'' ''/m'' plain_opts = Inr p1" "m_container m = p_container p1"
    using cmd_mount_Inr [OF m] by metis
  then have "m_container m = ''/c''" using p(1,4) by simp
  ultimately show ?thesis using m by blast
qed

theorem session_lifecycle_witness:
  "\<exists>m c'. cmd_mount quiet_host ''/c'' ''/m'' plain_opts (Some old_container) = (Inr m, Some c') \<and>
     find_inconsistencies (tables (run demo_host [Mkdir 1 ''new'' 0x1ED] (m_fs m))) = (0, 0) \<and>
     tree_of (Format2 (tables (m_fs m))) = tree_of (c_body old_container)"
proof -
  have host: "\<And>d. cdb (h_conn quiet_host d) = d" by (simp add: quiet_host_def)
  obtain m c' where m: "cmd_mount quiet_host ''/c'' ''/m'' plain_opts (Some old_container) = (Inr m, Some c')"
    and "is_dir (tables (m_fs m)) 1" using quiet_mount by blast
  then have "admissible kernel_ok (step demo_host) [Mkdir 1 ''new'' 0x1ED] (m_fs m)" by simp
  moreover have "tree_of (Format2 (tables (m_fs m))) = tree_of (c_body old_container)"
    using cmd_mount_ok [OF old_body_ok host m] by metis
  ultimately show ?thesis using session_lifecycle [OF old_body_ok host m] m by blast
qed

end
