(* ===== verification/Console.thy ===== *)
theory Console
  imports Cli
begin

text \<open>
  Passwords that are typed (src/src/main.rs): from a terminal, where \<open>rpassword\<close> asks for them,
  or one line each from whatever standard input is connected to.
\<close>

text \<open>
  What standard input still holds: the answers \<open>prompt_password\<close> will give on a terminal
  (\<open>None\<close> when it fails), the bytes that are left otherwise.
\<close>

record console =
  is_tty :: bool
  typed :: "string option list"
  piped :: string

text \<open>\<open>read_line\<close>: through the newline, or to the end of the input.\<close>

fun take_line :: "string \<Rightarrow> string \<times> string" where
  "take_line [] = ([], [])"
| "take_line (c # s) = (if c = NL then ([NL], s) else map_prod (Cons c) id (take_line s))"

definition trim_end_eol :: "string \<Rightarrow> string" where
  "trim_end_eol s = rev (dropWhile (\<lambda>c. c \<in> {NL, CR}) (rev s))"

definition read_one :: "console \<Rightarrow> (cli_error + string) \<times> console" where
  "read_one c =
     (if is_tty c then
        (case typed c of
           Some s # rest \<Rightarrow> (Inr s, c\<lparr>typed := rest\<rparr>)
         | None # rest \<Rightarrow> (Inl PasswordUnreadable, c\<lparr>typed := rest\<rparr>)
         | [] \<Rightarrow> (Inl PasswordUnreadable, c))
      else
        (case take_line (piped c) of
           (line, rest) \<Rightarrow>
             (if utf8_valid line then Inr (trim_end_eol line) else Inl PasswordUnreadable, c\<lparr>piped := rest\<rparr>)))"

definition read_password :: "bool \<Rightarrow> console \<Rightarrow> (cli_error + string) \<times> console" where
  "read_password confirm c =
     (case read_one c of
        (Inl e, c1) \<Rightarrow> (Inl e, c1)
      | (Inr pw, c1) \<Rightarrow>
          if pw = [] then (Inl EmptyPassword, c1)
          else if confirm then
            (case read_one c1 of
               (Inl e, c2) \<Rightarrow> (Inl e, c2)
             | (Inr pw2, c2) \<Rightarrow> (if pw = pw2 then Inr pw else Inl PasswordsDiffer, c2))
          else (Inr pw, c1))"

text \<open>Where a command gets a password from, and what is left on standard input afterwards.\<close>

definition obtain_password ::
  "(string \<Rightarrow> command_result) \<Rightarrow> (string \<Rightarrow> string option) \<Rightarrow> string option \<Rightarrow> string option \<Rightarrow> bool \<Rightarrow>
     console \<Rightarrow> (cli_error + string) \<times> console" where
  "obtain_password sh contents password_file password_command confirm c =
     (read_password_source (fst (read_password confirm c)) sh contents password_file password_command,
      if password_file = None \<and> password_command = None then snd (read_password confirm c) else c)"

lemma read_one_piped:
  assumes "\<not> is_tty c" and "piped c = pw @ eol @ rest" and "eol \<in> {[NL], [CR, NL]}"
    and "NL \<notin> set pw" and "pw \<noteq> []" and "last pw \<noteq> CR" and "utf8_valid pw"
  shows "read_one c = (Inr pw, c\<lparr>piped := rest\<rparr>)"
proof -
  have line: "take_line (p @ NL # rest) = (p @ [NL], rest)" if "NL \<notin> set p" for p
    using that by (induction p) auto
  have cut: "trim_end_eol (pw @ eol) = pw"
    using assms(3,4,5,6) by (cases pw rule: rev_exhaust) (auto simp: trim_end_eol_def dest: sym)
  have "utf8_valid eol" using assms(3) by (auto intro: utf8_all_ascii simp: code_def)
  then have "utf8_valid (pw @ eol)" by (rule utf8_append [OF assms(7)])
  moreover have "take_line (piped c) = (pw @ eol, rest)"
    using line [of pw] line [of "pw @ [CR]"] assms(2,3,4) by auto
  ultimately show ?thesis using assms(1) by (simp add: read_one_def cut)
qed

text \<open>
  A confirmed password was given twice and is not empty; a source that is not standard input
  leaves standard input alone.
\<close>

lemma read_password_Inr:
  assumes "read_password confirm c = (Inr pw, c')"
  shows "pw \<noteq> [] \<and> fst (read_one c) = Inr pw \<and> (confirm \<longrightarrow> fst (read_one (snd (read_one c))) = Inr pw)"
  using assms by (auto simp: read_password_def split: prod.splits sum.splits if_splits)

end
