(* ===== verification/Commands.thy ===== *)
theory Commands
  imports Console Mount_Cmd
begin

text \<open>
  The commands on one container (src/src/main.rs): create, passwd, info, check, compact, backup.
  Each takes what is left on standard input and the container file, and returns both with its
  result. What the system answers - locks, file sizes, the engine's faults and the rows of its
  two integrity pragmas - is the record \<open>tools\<close>.
\<close>

datatype cmd_error =
    Cli_Failed cli_error | LockRefused lock_error | Database open_error | FileFailed | MountRefused mount_error
  | ThroughMount string | CopyFailed

record tools =
  t_sh :: "string \<Rightarrow> command_result"
  t_contents :: "string \<Rightarrow> string option"
  t_writable :: bool
  t_flock :: flock_answer
    \<comment> \<open>whether the file opens for writing, and what \<open>flock\<close> on it answers\<close>
  t_faults :: "nat \<Rightarrow> sql_error option"
  t_uid :: u32
  t_gid :: u32
  t_now :: f64
  t_created :: string
  t_partial :: "container option"
    \<comment> \<open>what a creation or a copy that fails midway leaves of the file\<close>
  t_size_before :: "u64 option"
  t_size_after :: "u64 option"
  t_page_size :: "sql_error + pragma_value"
  t_hmac :: "sql_error + (sql_error + string) list"
    \<comment> \<open>the rows of \<open>PRAGMA cipher_integrity_check\<close>\<close>
  t_integrity :: "sql_error + string list"
    \<comment> \<open>the rows of \<open>PRAGMA integrity_check\<close>, or the error's text\<close>
  t_error_text :: "sql_error \<Rightarrow> string"

section \<open>Opening for a command\<close>

definition locked :: "tools \<Rightarrow> lock_error + unit" where
  "locked t = lock_exclusive (t_writable t) (t_flock t)"

type_synonym place = "console \<times> container option"

definition cli_err :: "cli_error + 'a \<Rightarrow> cmd_error + 'a" where
  "cli_err r = (case r of Inl e \<Rightarrow> Inl (Cli_Failed e) | Inr a \<Rightarrow> Inr a)"

definition open_file ::
  "bool \<Rightarrow> string \<Rightarrow> (nat \<Rightarrow> sql_error option) \<Rightarrow> container option \<Rightarrow> (open_error + session) \<times> container option" where
  "open_file ro password faults disk =
     (case disk of
        None \<Rightarrow> (Inl NotFound, None)
      | Some c \<Rightarrow>
          (case open_db ro \<lparr>box = c, given_key = password, stmt = 0, stmt_fault = faults\<rparr> of
             (Inl e, s) \<Rightarrow> (Inl e, Some (box s))
           | (Inr _, s) \<Rightarrow> (Inr s, Some (box s))))"

text \<open>
  The frame the commands share: the password, the open connection, and what is done with it.
  The third part of the result of \<open>use\<close> is the container the connection ends with.
\<close>

definition with_container ::
  "tools \<Rightarrow> bool \<Rightarrow> string option \<Rightarrow> string option \<Rightarrow>
     (string \<Rightarrow> console \<Rightarrow> session \<Rightarrow> (cmd_error + 'a) \<times> console \<times> container) \<Rightarrow>
     place \<Rightarrow> (cmd_error + 'a) \<times> place" where
  "with_container t ro password_file password_command use place =
     (case obtain_password (t_sh t) (t_contents t) password_file password_command False (fst place) of
        (Inl e, con1) \<Rightarrow> (Inl (Cli_Failed e), con1, snd place)
      | (Inr pw, con1) \<Rightarrow>
          (case open_file ro pw (t_faults t) (snd place) of
             (Inl e, disk1) \<Rightarrow> (Inl (Database e), con1, disk1)
           | (Inr s, disk1) \<Rightarrow>
               (case use pw con1 s of (r, con2, c) \<Rightarrow> (r, con2, Some c))))"

definition run_queries ::
  "(session, open_error, 'a) act \<Rightarrow> string \<Rightarrow> console \<Rightarrow> session \<Rightarrow> (cmd_error + 'a) \<times> console \<times> container" where
  "run_queries m pw con1 s =
     (case m s of
        (Inl e, s1) \<Rightarrow> (Inl (Database e), con1, box s1)
      | (Inr a, s1) \<Rightarrow> (Inr a, con1, box s1))"

text \<open>A query changes nothing.\<close>

definition query :: "(body \<Rightarrow> sql_error + 'a) \<Rightarrow> (session, open_error, 'a) act" where
  "query f = or_sql (on_box (\<lambda>b. case f b of Inl e \<Rightarrow> Inl e | Inr a \<Rightarrow> Inr (a, b)))"

section \<open>create\<close>

definition cmd_create ::
  "tools \<Rightarrow> string option \<Rightarrow> string option \<Rightarrow> string option \<Rightarrow> place \<Rightarrow> (cmd_error + u64) \<times> place" where
  "cmd_create t size_text password_file password_command place =
     (case for_some (\<lambda>s. from_outcome (parse_size s)) size_text of
        Inl e \<Rightarrow> (Inl (Cli_Failed e), place)
      | Inr given \<Rightarrow>
          let msize = (case given of Some n \<Rightarrow> n | None \<Rightarrow> 0) in
          case obtain_password (t_sh t) (t_contents t) password_file password_command True (fst place) of
            (Inl e, con1) \<Rightarrow> (Inl (Cli_Failed e), con1, snd place)
          | (Inr pw, con1) \<Rightarrow>
              (case create_container (t_faults t) (t_uid t) (t_gid t) (t_now t) (t_created t) pw msize (snd place) of
                 Inl AlreadyExists \<Rightarrow> (Inl (Database AlreadyExists), con1, snd place)
               | Inl e \<Rightarrow> (Inl (Database e), con1, t_partial t)
               | Inr c \<Rightarrow> (Inr msize, con1, Some c)))"

section \<open>passwd\<close>

text \<open>
  \<open>PRAGMA rekey\<close>, with the password as its one literal (\<open>pragma_key_sql\<close>): one statement, which
  re-encrypts every page in a transaction.
\<close>

definition rekey :: "string \<Rightarrow> (session, sql_error, unit) act" where
  "rekey new = (\<lambda>s. let s' = s\<lparr>stmt := Suc (stmt s)\<rparr> in
     case stmt_fault s (stmt s) of
       Some e \<Rightarrow> (Inl e, s')
     | None \<Rightarrow>
         if c_held (box s) then (Inl DatabaseBusy, s')
         else if c_key (box s) \<noteq> given_key s then (Inl NotADatabase, s')
         else (Inr (), s'\<lparr>box := (box s)\<lparr>c_key := new\<rparr>, given_key := new\<rparr>))"

definition cmd_passwd ::
  "tools \<Rightarrow> string option \<Rightarrow> string option \<Rightarrow> string option \<Rightarrow> place \<Rightarrow> (cmd_error + unit) \<times> place" where
  "cmd_passwd t password_file password_command new_password_file place =
     (case locked t of
        Inl e \<Rightarrow> (Inl (LockRefused e), place)
      | Inr _ \<Rightarrow> with_container t False password_file password_command (\<lambda>_ con1 s.
        (case obtain_password (t_sh t) (t_contents t) new_password_file None True con1 of
           (Inl e, con2) \<Rightarrow> (Inl (Cli_Failed e), con2, box s)
         | (Inr new, con2) \<Rightarrow> run_queries (or_sql (rekey new)) new con2 s)) place)"

section \<open>info\<close>

record info =
  n_on_disk :: u64
  n_used :: i64
  n_ceiling :: u64
  n_dirs :: nat
  n_files :: nat
  n_links :: nat

definition body_inodes :: "body \<Rightarrow> (u64 \<times> inode) list" where
  "body_inodes b = (case b of Format1 d \<Rightarrow> v1_rows d | Format2 d \<Rightarrow> t_inodes d | OtherFormat _ \<Rightarrow> [])"

definition count_kind :: "i64 \<Rightarrow> body \<Rightarrow> sql_error + nat" where
  "count_kind k b = Inr (length (filter (\<lambda>(i, r). i_kind r = k) (body_inodes b)))"

definition body_sum :: "body \<Rightarrow> sql_error + i64" where
  "body_sum b =
     (let n = sum_list (map (\<lambda>(i, r). i_size r) (body_inodes b)) in
      if - (2 ^ 63) \<le> n \<and> n < 2 ^ 63 then Inr n else Inl IntegerOverflow)"

definition info_queries :: "(session, open_error, i64 \<times> u64 \<times> nat \<times> nat \<times> nat) act" where
  "info_queries =
     bind (query (count_kind KIND_FILE)) (\<lambda>files.
     bind (query (count_kind KIND_DIR)) (\<lambda>dirs.
     bind (query (count_kind KIND_SYMLINK)) (\<lambda>links.
     bind (query body_sum) (\<lambda>used.
     bind (attempt (query (\<lambda>b. Inr (read_max_size b)))) (\<lambda>limit.
     ret (used, (case limit of Inr n \<Rightarrow> n | Inl _ \<Rightarrow> 0), dirs, files, links))))))"

definition cmd_info ::
  "tools \<Rightarrow> string option \<Rightarrow> string option \<Rightarrow> place \<Rightarrow> (cmd_error + info) \<times> place" where
  "cmd_info t password_file password_command place =
     with_container t True password_file password_command (\<lambda>pw con1 s.
       (case run_queries info_queries pw con1 s of
          (Inl e, con2, c) \<Rightarrow> (Inl e, con2, c)
        | (Inr (used, limit, dirs, files, links), con2, c) \<Rightarrow>
            (case t_size_after t of
               None \<Rightarrow> (Inl FileFailed, con2, c)
             | Some n \<Rightarrow>
                 (Inr \<lparr>n_on_disk = n, n_used = used, n_ceiling = limit, n_dirs = dirs, n_files = files,
                       n_links = links\<rparr>, con2, c)))) place"

definition show_int :: "int \<Rightarrow> string" where
  "show_int n = (if n < 0 then ''-'' else []) @ show_nat (nat \<bar>n\<bar>)"

definition info_lines :: "string \<Rightarrow> info \<Rightarrow> string list" where
  "info_lines shown i =
     [''File:              '' @ shown,
      ''On-disk size:      '' @ show_nat (unat (n_on_disk i)) @ '' bytes'',
      ''Logical data used: '' @ show_int (n_used i) @ '' bytes'',
      ''Ceiling:           '' @
        (if 0 < n_ceiling i then show_nat (unat (n_ceiling i)) @ '' bytes''
         else ''none (grows until host disk is full)''),
      ''Directories:       '' @ show_nat (n_dirs i),
      ''Files:             '' @ show_nat (n_files i),
      ''Symlinks:          '' @ show_nat (n_links i)]"

section \<open>check\<close>

text \<open>\<open>str::split_whitespace\<close>.\<close>

fun tokens :: "string \<Rightarrow> string \<Rightarrow> string list" where
  "tokens word [] = (if word = [] then [] else [word])"
| "tokens word (c # s) =
     (case find (\<lambda>w. prefix w (c # s)) white_space of
        Some w \<Rightarrow> (if word = [] then [] else [word]) @ tokens [] (drop (length w - 1) s)
      | None \<Rightarrow> tokens (word @ [c]) s)"

definition named_page :: "string \<Rightarrow> u64 option" where
  "named_page msg = (case tokens [] msg of [] \<Rightarrow> None | ts \<Rightarrow> parse_u64 (last ts))"

definition past_boundary :: "u64 \<Rightarrow> string \<Rightarrow> bool" where
  "past_boundary boundary msg = (case named_page msg of Some p \<Rightarrow> boundary < p | None \<Rightarrow> False)"

definition row_texts :: "('e + 'a) list \<Rightarrow> 'a list" where
  "row_texts = List.map_filter (\<lambda>r. case r of Inr a \<Rightarrow> Some a | Inl _ \<Rightarrow> None)"

datatype logical = Skipped | Counted nat nat | NotCounted open_error

record check_report =
  k_corrupt :: "string list"
  k_known_limitation :: nat
  k_structure :: "string list"
  k_logical :: logical

definition structurally_ok :: "check_report \<Rightarrow> bool" where
  "structurally_ok k \<longleftrightarrow> k_structure k = [''ok'']"

definition exit_code :: "check_report \<Rightarrow> nat" where
  "exit_code k =
     (if k_corrupt k \<noteq> [] \<or> \<not> structurally_ok k \<or> k_logical k \<notin> {Skipped, Counted 0 0} then 1 else 0)"

definition logical_check :: "(session, open_error, logical) act" where
  "logical_check =
     bind (attempt (query (\<lambda>b. case schema_version b of Some v \<Rightarrow> Inr v | None \<Rightarrow> Inl OtherError))) (\<lambda>v.
     if v = Inr ''2'' then
       bind (attempt (query (\<lambda>b. case b of Format2 d \<Rightarrow> Inr (find_inconsistencies d) | _ \<Rightarrow> Inl NoSuchTable))) (\<lambda>n.
       ret (case n of Inr (dangling, unreachable) \<Rightarrow> Counted dangling unreachable | Inl e \<Rightarrow> NotCounted e))
     else ret Skipped)"

text \<open>\<open>or_else\<close> of the two forms of \<open>PRAGMA page_size\<close>; a page size of 0 divides by zero.\<close>

definition cmd_check ::
  "tools \<Rightarrow> string option \<Rightarrow> string option \<Rightarrow> place \<Rightarrow> (cmd_error + check_report) \<times> place" where
  "cmd_check t password_file password_command place =
     with_container t True password_file password_command (\<lambda>pw con1 s.
       (case page_size (t_page_size t) of
          Inl e \<Rightarrow> (Inl (Database (Sql e)), con1, box s)
        | Inr ps \<Rightarrow>
            if ps = 0 then (Inl (Cli_Failed Panicked), con1, box s)
            else (case t_hmac t of
                    Inl e \<Rightarrow> (Inl (Database (Sql e)), con1, box s)
                  | Inr rows \<Rightarrow>
                      let boundary = 4 * 1024 * 1024 * 1024 div ps;
                          msgs = row_texts rows;
                          structure = (case t_integrity t of
                                         Inr ls \<Rightarrow> ls | Inl e \<Rightarrow> [''error: '' @ t_error_text t e])
                      in run_queries (bind logical_check (\<lambda>l.
                           ret \<lparr>k_corrupt = filter (\<lambda>m. \<not> past_boundary boundary m) msgs,
                                k_known_limitation = length (filter (past_boundary boundary) msgs),
                                k_structure = structure, k_logical = l\<rparr>)) pw con1 s))) place"

section \<open>compact\<close>

text \<open>\<open>vacuum\<close> rewrites the file page by page and leaves the tables as they are.\<close>

definition vacuum :: "(session, open_error, unit) act" where
  "vacuum = query (\<lambda>_. Inr ())"

definition cmd_compact ::
  "tools \<Rightarrow> string option \<Rightarrow> string option \<Rightarrow> place \<Rightarrow> (cmd_error + u64 \<times> u64 \<times> u64) \<times> place" where
  "cmd_compact t password_file password_command place =
     (case locked t of
        Inl e \<Rightarrow> (Inl (LockRefused e), place)
      | Inr _ \<Rightarrow>
        (case obtain_password (t_sh t) (t_contents t) password_file password_command False (fst place) of
           (Inl e, con1) \<Rightarrow> (Inl (Cli_Failed e), con1, snd place)
         | (Inr pw, con1) \<Rightarrow>
             (case t_size_before t of
                None \<Rightarrow> (Inl FileFailed, con1, snd place)
              | Some before \<Rightarrow>
                  (case open_file False pw (t_faults t) (snd place) of
                     (Inl e, disk1) \<Rightarrow> (Inl (Database e), con1, disk1)
                   | (Inr s, disk1) \<Rightarrow>
                       (case run_queries vacuum pw con1 s of
                          (Inl e, con2, c) \<Rightarrow> (Inl e, con2, Some c)
                        | (Inr _, con2, c) \<Rightarrow>
                            (case t_size_after t of
                               None \<Rightarrow> (Inl FileFailed, con2, Some c)
                             | Some after \<Rightarrow>
                                 (Inr (before, after, if after \<le> before then before - after else 0), con2, Some c)))))))"

end
