(* ===== verification/Commands_Props.thy ===== *)
theory Commands_Props
  imports Commands Mount_Props
begin

text \<open>
  What the commands on one container come to: which of them leave it as it is, when it opens
  with which password, and what the verdict of \<open>coffer check\<close> says about its tables.
\<close>

section \<open>An open connection\<close>

definition keyed :: "session \<Rightarrow> bool" where
  "keyed s \<longleftrightarrow> c_key (box s) = given_key s \<and> \<not> c_held (box s)"

lemma keeps_keyed [keeps_intros]: "keeps keyed pragma" "keeps keyed (on_box f)"
  by (auto simp: keeps_def keyed_def pragma_def on_box_def Let_def split: option.splits sum.splits)

lemma keeps_given [keeps_intros]:
  "keeps (\<lambda>s. given_key s = pw \<and> stmt_fault s = faults) pragma"
  "keeps (\<lambda>s. given_key s = pw \<and> stmt_fault s = faults) (on_box f)"
  by (auto simp: keeps_def pragma_def on_box_def Let_def split: option.splits sum.splits)

lemma ends_keyed: "on_box f s = (Inr a, s') \<Longrightarrow> keyed s'"
  by (auto simp: keyed_def on_box_def Let_def split: option.splits sum.splits if_splits)

lemma ends_bind_attempt:
  assumes "\<And>s a s'. m s = (Inr a, s') \<Longrightarrow> P s'" and "\<And>a. keeps P (k (Inr a))" and "\<And>e. ends P (k (Inl e))"
  shows "ends P (bind (attempt m) k)"
  unfolding ends_def
proof clarify
  fix s a s'
  assume "bind (attempt m) k s = (Inr a, s')"
  then obtain r s1 where r: "m s = (r, s1)" "k r s1 = (Inr a, s')" by (auto simp: act_inv)
  show "P s'"
  proof (cases r)
    case (Inl e)
    with r(2) assms(3) show ?thesis by (auto simp: ends_def)
  next
    case (Inr b)
    with r have "P s1" "k (Inr b) s1 = (Inr a, s')" using assms(1) by auto
    then show ?thesis using keepsD [OF assms(2)] by blast
  qed
qed

lemma open_keyed: "ends keyed (open_db_with ro excl)"
  unfolding open_db_with_def Let_def
proof (rule ends_bind, rule ends_bind, rule ends_bind, rule ends_bind, rule ends_bind_attempt, goal_cases)
  case 1
  then show ?case by (rule ends_keyed)
next
  case 2
  then show ?case
    by simp (intro conjI impI keeps_intros; (intro keeps_intros)?; simp; intro conjI impI keeps_intros)
next
  case 3
  then show ?case by (auto intro: ends_throw split: sql_error.split)
qed

lemma keeps_open_given: "keeps (\<lambda>s. given_key s = pw \<and> stmt_fault s = faults) (open_db_with ro excl)"
  unfolding open_db_with_def Let_def
  by (intro keeps_intros; (intro keeps_intros)?; simp split: sum.split sql_error.split; intro allI impI conjI keeps_intros)

lemma open_file_container: "map_prod (map_sum id (\<lambda>_. ())) id (open_file ro pw f disk) = open_container ro pw f disk"
  by (auto simp: open_file_def open_container_def split: option.split prod.split sum.split)

text \<open>What a command may do to a container: nothing but migrate it or give it its attribute table.\<close>

definition undamaged :: "container \<Rightarrow> container \<Rightarrow> bool" where
  "undamaged c c1 \<longleftrightarrow> c_held c1 = c_held c \<and> body_ok (c_body c1) \<and> tree_of (c_body c1) = tree_of (c_body c) \<and>
     (\<forall>m. c_body c1 = OtherFormat m \<longrightarrow> c_body c = OtherFormat m)"

lemma undamaged_refl: "body_ok (c_body c) \<Longrightarrow> undamaged c c"
  by (simp add: undamaged_def)

lemma undamaged_opened:
  assumes "opens_from c c1" and "body_ok (c_body c)"
  shows "undamaged c c1 \<and> c_key c1 = c_key c"
  using assms opened_ok [of "c_body c" "c_body c1"]
  by (auto simp: opens_from_def undamaged_def opened_def)

lemma open_file_ok:
  assumes "open_file ro pw faults (Some c) = (r, disk1)" and "body_ok (c_body c)"
  shows "\<exists>c1. disk1 = Some c1 \<and> c_key c1 = c_key c \<and> undamaged c c1 \<and> (ro \<longrightarrow> c1 = c) \<and>
    (\<forall>s. r = Inr s \<longrightarrow> box s = c1 \<and> keyed s \<and> given_key s = pw \<and> stmt_fault s = faults)"
proof -
  let ?s = "\<lparr>box = c, given_key = pw, stmt = 0, stmt_fault = faults\<rparr>"
  obtain x s' where run: "open_db_with ro False ?s = (x, s')" by (cases "open_db_with ro False ?s")
  have disk: "disk1 = Some (box s')" "r = (case x of Inl e \<Rightarrow> Inl e | Inr _ \<Rightarrow> Inr s')"
    using assms(1) run by (auto simp: open_file_def open_db_def split: sum.splits)
  have "opens_from c (box s')" by (rule keepsD [OF keeps_open run]) simp
  from undamaged_opened [OF this assms(2)] have c1: "undamaged c (box s') \<and> c_key (box s') = c_key c" .
  have "box s' = c" if ro
    using keepsD [OF keeps_open_ro [of "\<lambda>x. x = c"] run [unfolded eqTrueI [OF that]]] by simp
  moreover
  have "keyed s'" if "x = Inr ()" using open_keyed run that unfolding ends_def by blast
  moreover have "given_key s' = pw \<and> stmt_fault s' = faults" by (rule keepsD [OF keeps_open_given run]) simp
  ultimately show ?thesis using c1 disk by (auto split: sum.splits)
qed

lemma with_container_ok:
  assumes "with_container t ro pwf pwc use (con1, Some c) = (r, con2, disk)" and "body_ok (c_body c)"
  obtains e c1 where "r = Inl e" "disk = Some c1" "undamaged c c1" "c_key c1 = c_key c" "ro \<longrightarrow> c1 = c"
  | pw con3 s c2 where "obtain_password (t_sh t) (t_contents t) pwf pwc False con1 = (Inr pw, con3)"
      "undamaged c (box s)" "c_key (box s) = c_key c" "ro \<longrightarrow> box s = c" "pw = c_key c" "\<not> c_held c"
      "given_key s = pw" "stmt_fault s = t_faults t" "use pw con3 s = (r, con2, c2)" "disk = Some c2"
proof (cases "obtain_password (t_sh t) (t_contents t) pwf pwc False con1")
  case (Pair q con3)
  note run = assms(1) [unfolded with_container_def fst_conv snd_conv Pair prod.case]
  show ?thesis
  proof (cases q)
    case (Inl e)
    with run that(1) [of "Cli_Failed e" c] undamaged_refl [OF assms(2)] show ?thesis by auto
  next
    case (Inr pw)
    obtain x disk1 where o: "open_file ro pw (t_faults t) (Some c) = (x, disk1)"
      by (cases "open_file ro pw (t_faults t) (Some c)")
    note run = run [unfolded Inr sum.case o prod.case]
    from open_file_ok [OF o assms(2)] obtain c1 where c1: "disk1 = Some c1" "c_key c1 = c_key c" "undamaged c c1"
        "ro \<longrightarrow> c1 = c" "\<forall>s. x = Inr s \<longrightarrow> box s = c1 \<and> keyed s \<and> given_key s = pw \<and> stmt_fault s = t_faults t"
      by auto
    show ?thesis
    proof (cases x)
      case (Inl e)
      with run that(1) [of "Database e" c1] c1 show ?thesis by simp
    next
      case (Inr s)
      with c1 have "keyed s" "box s = c1" "given_key s = pw" "stmt_fault s = t_faults t" by auto
      with c1 have "pw = c_key c" "\<not> c_held c" by (auto simp: keyed_def undamaged_def)
      moreover obtain c2 where "use pw con3 s = (r, con2, c2)" "disk = Some c2"
        using run Inr by (auto split: prod.splits)
      ultimately show ?thesis
        using that(2) [of pw con3 s c2] Pair \<open>q = Inr pw\<close> c1 \<open>box s = c1\<close> \<open>given_key s = pw\<close> \<open>stmt_fault s = t_faults t\<close>
        by simp
    qed
  qed
qed

section \<open>passwd\<close>

lemma rekey_cases:
  assumes "keyed s" and "rekey new s = (r, s')"
  shows "if r = Inr () then box s' = (box s)\<lparr>c_key := new\<rparr> else box s' = box s"
  using assms by (auto simp: rekey_def keyed_def Let_def split: option.splits)

lemma opens_with_its_key:
  assumes "body_ok (c_body c)" and "\<not> c_held c" and "\<not> (\<exists>m. c_body c = OtherFormat m)"
  shows "fst (open_container ro pw no_faults (Some c)) = (if pw = c_key c then Inr () else Inl WrongPassword)"
proof -
  obtain key b where c: "c = \<lparr>c_key = key, c_body = b, c_held = False\<rparr>" using assms(2) by (cases c) simp
  with assms(1,3) open_ok [of b ro pw key False] show ?thesis by (cases b) (auto simp: Let_def)
qed

text \<open>What \<open>coffer passwd\<close> does to the container, whatever it is and whatever fails.\<close>

lemma passwd_ok:
  assumes "body_ok (c_body c)" and "cmd_passwd t pwf pwc new_file (con1, Some c) = (r, con2, disk)"
  shows "\<exists>c'. disk = Some c' \<and> undamaged c c' \<and> (r \<noteq> Inr () \<longrightarrow> c_key c' = c_key c) \<and>
    (r = Inr () \<longrightarrow> (\<exists>con3. obtain_password (t_sh t) (t_contents t) pwf pwc False con1 = (Inr (c_key c), con3) \<and>
       fst (obtain_password (t_sh t) (t_contents t) new_file None True con3) = Inr (c_key c')))"
proof (cases "locked t")
  case (Inl e)
  then have "disk = Some c" "r \<noteq> Inr ()" using assms(2) by (auto simp: cmd_passwd_def)
  with assms(1) show ?thesis by (simp add: undamaged_refl)
next
  case locked: (Inr u)
  define use where "use = (\<lambda>(_ :: string) con1 s.
    (case obtain_password (t_sh t) (t_contents t) new_file None True con1 of
       (Inl e, con2) \<Rightarrow> (Inl (Cli_Failed e), con2, box s)
     | (Inr new, con2) \<Rightarrow> run_queries (or_sql (rekey new)) new con2 s))"
  have "with_container t False pwf pwc use (con1, Some c) = (r, con2, disk)"
    using assms(2) locked by (simp add: cmd_passwd_def use_def)
  then show ?thesis
  proof (cases rule: with_container_ok [OF _ assms(1), consumes 1])
    case (1 e c1)
    then show ?thesis by simp
  next
    case (2 pw con3 s c2)
    obtain q con4 where new: "obtain_password (t_sh t) (t_contents t) new_file None True con3 = (q, con4)"
      by (cases "obtain_password (t_sh t) (t_contents t) new_file None True con3")
    have k: "keyed s" using 2 by (simp add: keyed_def undamaged_def)
    show ?thesis
    proof (cases q)
      case (Inl e)
      with 2 new have "r \<noteq> Inr ()" "c2 = box s" by (auto simp: use_def)
      with 2 show ?thesis by simp
    next
      case (Inr pw2)
      obtain y s' where y: "rekey pw2 s = (y, s')" by (cases "rekey pw2 s")
      with 2(9) new Inr have r: "r = Inr () \<longleftrightarrow> y = Inr ()" "c2 = box s'"
        by (auto simp: use_def run_queries_def map_err_def split: sum.splits)
      have "undamaged c c2 \<and> c_key c2 = (if r = Inr () then pw2 else c_key c)"
        using rekey_cases [OF k y] 2(2,3) r by (auto simp: undamaged_def split: if_splits)
      with 2 new Inr show ?thesis by auto
    qed
  qed
qed

text \<open>
  C34: changing the password. Whatever fails on the way - the lock, a password, any statement -
  the container keeps its tree, and exactly one password opens it: after an error the one it
  had, and after success the new one, which was not empty and, where it was typed, was typed
  twice. The change only goes through for somebody who gave the old one.
\<close>

theorem passwd_changes_the_key:
  assumes "body_ok (c_body c)" and "\<And>m. c_body c \<noteq> OtherFormat m" and "\<not> c_held c"
    and "cmd_passwd t pwf pwc new_file (con1, Some c) = (r, con2, disk)"
  shows "\<exists>c'. disk = Some c' \<and> undamaged c c' \<and>
    (\<forall>ro pw. fst (open_container ro pw no_faults disk) = (if pw = c_key c' then Inr () else Inl WrongPassword)) \<and>
    (r \<noteq> Inr () \<longrightarrow> c_key c' = c_key c) \<and>
    (r = Inr () \<longrightarrow> (\<exists>con3. obtain_password (t_sh t) (t_contents t) pwf pwc False con1 = (Inr (c_key c), con3) \<and>
       fst (obtain_password (t_sh t) (t_contents t) new_file None True con3) = Inr (c_key c')))"
proof -
  have "fst (open_container ro pw no_faults (Some c')) = (if pw = c_key c' then Inr () else Inl WrongPassword)"
    if "undamaged c c'" for c' ro pw
    using that assms(2,3) by (intro opens_with_its_key) (auto simp: undamaged_def)
  with passwd_ok [OF assms(1,4)] show ?thesis by auto
qed

definition demo_tools :: tools where
  "demo_tools = \<lparr>t_sh = (\<lambda>_. NotRun), t_contents = [''o'' \<mapsto> ''pw'', ''n'' \<mapsto> ''new''], t_writable = True, t_flock = Granted,
     t_faults = no_faults, t_uid = 0, t_gid = 0, t_now = 0, t_created = ''0'', t_partial = None,
     t_size_before = Some 8192, t_size_after = Some 8192, t_page_size = Inr (TextRow ''4096''),
     t_hmac = Inr [Inr ''HMAC verification failed for page 2''], t_integrity = Inr [''ok''],
     t_error_text = (\<lambda>_. [])\<rparr>"

lemma demo_locked: "locked demo_tools = Inr ()"
  by (simp add: locked_def demo_tools_def)

definition no_input :: console where
  "no_input = \<lparr>is_tty = False, typed = [], piped = []\<rparr>"

lemma password_from_file:
  assumes "contents f = Some pw" and "plain_line pw" and "pw \<noteq> []" and "utf8_valid pw"
  shows "obtain_password sh contents (Some f) None confirm con1 = (Inr pw, con1)"
proof -
  have "lines pw = [pw]"
  proof -
    have "\<forall>x \<in> set pw. x \<noteq> NL" using assms(2) by (auto simp: plain_line_def)
    then have "dropWhile (\<lambda>c. c \<noteq> NL) pw = []" by (simp only: dropWhile_eq_Nil_conv)
    with assms(3) show ?thesis by (subst lines.simps) (simp del: dropWhile_eq_Nil_conv)
  qed
  with assms show ?thesis by (simp add: obtain_password_def read_password_source_def to_str_def)
qed

lemma demo_passwords:
  "obtain_password sh (t_contents demo_tools) (Some ''o'') None confirm con1 = (Inr ''pw'', con1)"
  "obtain_password sh (t_contents demo_tools) (Some ''n'') None confirm con1 = (Inr ''new'', con1)"
proof -
  have "utf8_valid ''pw''" "utf8_valid ''new''" "plain_line ''pw''" "plain_line ''new''" by code_simp+
  then show "obtain_password sh (t_contents demo_tools) (Some ''o'') None confirm con1 = (Inr ''pw'', con1)"
    "obtain_password sh (t_contents demo_tools) (Some ''n'') None confirm con1 = (Inr ''new'', con1)"
    by (auto intro: password_from_file simp: demo_tools_def)
qed

theorem passwd_changes_the_key_witness:
  "\<exists>con2 c'. cmd_passwd demo_tools (Some ''o'') None (Some ''n'') (no_input, Some old_container) = (Inr (), con2, Some c') \<and>
     fst (open_container False ''new'' no_faults (Some c')) = Inr () \<and>
     fst (open_container False ''pw'' no_faults (Some c')) = Inl WrongPassword"
proof -
  have old: "c_body old_container \<noteq> OtherFormat m" "\<not> c_held old_container" for m
    by (simp_all add: old_container_def)
  have "fst (open_container False ''pw'' no_faults (Some old_container)) = Inr ()"
    using opens_with_its_key [OF old_body_ok old(2)] old(1) by (simp add: old_container_def)
  then obtain s disk1 where o: "open_file False ''pw'' no_faults (Some old_container) = (Inr s, disk1)"
    unfolding open_file_container [symmetric]
    by (cases "open_file False ''pw'' no_faults (Some old_container)", cases "fst (open_file False ''pw'' no_faults (Some old_container))") auto
  from open_file_ok [OF o old_body_ok] have k: "keyed s" "stmt_fault s = no_faults" by auto
  then obtain s2 where "rekey ''new'' s = (Inr (), s2)" by (simp add: rekey_def keyed_def Let_def)
  then have run: "cmd_passwd demo_tools (Some ''o'') None (Some ''n'') (no_input, Some old_container) =
      (Inr (), no_input, Some (box s2))"
    using o by (simp add: cmd_passwd_def demo_locked with_container_def demo_passwords run_queries_def map_err_def)
      (simp add: demo_tools_def)
  from passwd_changes_the_key [OF old_body_ok old this] have "c_key (box s2) = ''new''"
    "\<And>pw. fst (open_container False pw no_faults (Some (box s2))) = (if pw = c_key (box s2) then Inr () else Inl WrongPassword)"
    by (auto simp: demo_passwords)
  with run show ?thesis by simp
qed

section \<open>check\<close>

lemma query_run:
  assumes "keyed s" and "stmt_fault s = no_faults"
  shows "query f s = (map_sum Sql id (f (c_body (box s))), s\<lparr>stmt := Suc (stmt s)\<rparr>)"
  using assms
  by (auto simp: query_def map_err_def on_box_def keyed_def Let_def split: sum.splits)

lemma keyed_stmt [simp]: "keyed (s\<lparr>stmt := n\<rparr>) = keyed s"
  by (simp add: keyed_def)

lemma white_tail: "w \<in> set white_space \<Longrightarrow> CHR '' '' \<notin> set (tl w)"
  by (auto simp: white_space_def)

lemma no_white: "c \<notin> set ws_heads \<Longrightarrow> find (\<lambda>w. prefix w (c # s)) white_space = None"
  unfolding find_None_iff
proof clarify
  fix w
  assume c: "c \<notin> set ws_heads" and w: "w \<in> set white_space" "prefix w (c # s)"
  have "w \<noteq> []" using w(1) by (auto simp: white_space_def)
  then have "hd w = c" using w(2) by (cases w) auto
  moreover have "hd w \<in> set ws_heads" using w(1) by (simp add: ws_heads_def)
  ultimately show False using c by simp
qed

lemma tokens_word: "set s \<inter> set ws_heads = {} \<Longrightarrow> tokens w s = (if w @ s = [] then [] else [w @ s])"
  by (induction s arbitrary: w) (auto simp: no_white)

lemma tokens_last:
  assumes "set d \<inter> set ws_heads = {}" and "d \<noteq> []"
  shows "tokens w (pre @ CHR '' '' # d) \<noteq> [] \<and> last (tokens w (pre @ CHR '' '' # d)) = d"
proof (induction w "pre @ CHR '' '' # d" arbitrary: pre rule: tokens.induct)
  case (2 w c s)
  show ?case
  proof (cases pre)
    case Nil
    have "find (\<lambda>w. prefix w (CHR '' '' # d)) white_space = Some '' ''" by (simp add: white_space_def)
    moreover have "last (u @ [d]) = d \<and> u @ [d] \<noteq> []" for u by simp
    ultimately show ?thesis using Nil tokens_word [OF assms(1), of "[]"] assms(2) by auto
  next
    case (Cons c' pre')
    with 2(3) have s: "s = pre' @ CHR '' '' # d" "pre = c # pre'" by simp_all
    show ?thesis
    proof (cases "find (\<lambda>w. prefix w (c # s)) white_space")
      case None
      with 2(1) [OF None s(1)] s show ?thesis by simp
    next
      case (Some v)
      then have v: "v \<in> set white_space" "prefix v (c # s)" by (auto simp: find_Some_iff)
      have "length v - 1 \<le> length pre'"
      proof (rule ccontr)
        assume "\<not> ?thesis"
        moreover have "prefix (tl v) s" using v(2) by (cases v) auto
        ultimately have "tl v ! length pre' = CHR '' ''" "length pre' < length (tl v)"
          by (auto simp: s(1) prefix_def nth_append dest!: arg_cong [where f = "\<lambda>x. x ! length pre'"])
        then have "CHR '' '' \<in> set (tl v)" by (metis nth_mem)
        with white_tail [OF v(1)] show False by simp
      qed
      then have "drop (length v - 1) s = drop (length v - 1) pre' @ CHR '' '' # d" by (simp add: s(1))
      with 2(2) [OF Some this] Some s show ?thesis by simp
    qed
  qed
qed simp

text \<open>The last word of a message that ends in a number after a blank is that number.\<close>

lemma named_page_message: "named_page (pre @ CHR '' '' # show_nat (unat (p :: u64))) = Some p"
proof -
  have "c \<notin> set ws_heads" if "c \<in> set (show_nat n)" for c n
  proof -
    have "ascii_digit c" using that show_nat_digits [of n] by (auto simp: list_all_iff)
    then show ?thesis by (auto simp: ascii_digit_def ws_heads_def white_space_def code_def)
  qed
  then have "set (show_nat (unat p)) \<inter> set ws_heads = {}" by blast
  moreover have "show_nat (unat p) \<noteq> []" by (metis list.distinct(1) show_nat_hd)
  ultimately show ?thesis
    using tokens_last [of "show_nat (unat p)" "[]" pre] decimal.dec_enc [of p]
    by (auto simp: named_page_def split: list.split)
qed

lemma open_file_run:
  assumes "c_body c = Format2 d" and "map_of (t_meta d) ''schema_version'' = Some ''2''" and "\<not> c_held c"
  obtains s where "open_file True (c_key c) no_faults (Some c) = (Inr s, Some c)" "box s = c" "keyed s"
    "stmt_fault s = no_faults"
proof -
  obtain key where c: "c = \<lparr>c_key = key, c_body = Format2 d, c_held = False\<rparr>" using assms(1,3) by (cases c) simp
  have "\<exists>s. open_file True key no_faults (Some c) = (Inr s, Some c) \<and> box s = c \<and> keyed s \<and> stmt_fault s = no_faults"
    by (simp add: c open_file_def open_run meta_of_def assms(2) keyed_def)
  moreover have "c_key c = key" by (simp add: c)
  ultimately show ?thesis using that by blast
qed

text \<open>What the check reports, on a connection on which no statement fails.\<close>

lemma logical_check_run:
  assumes "keyed s" and "stmt_fault s = no_faults" and "c_body (box s) = Format2 d"
    and "map_of (t_meta d) ''schema_version'' = Some ''2''"
  shows "\<exists>n. logical_check s =
     (Inr (Counted (fst (find_inconsistencies d)) (snd (find_inconsistencies d))), s\<lparr>stmt := n\<rparr>)"
  using assms
  by (intro exI [of _ "Suc (Suc (stmt s))"])
    (simp add: logical_check_def bind_def attempt_def ret_def query_run schema_version_def meta_of_def case_prod_beta)

lemma past_boundary_iff: "past_boundary b m \<longleftrightarrow> (\<exists>p. named_page m = Some p \<and> b < p)"
  by (simp add: past_boundary_def split: option.split)

lemma in_row_texts: "m \<in> set (row_texts rows) \<longleftrightarrow> Inr m \<in> set rows"
  by (force simp: row_texts_def map_filter_def split: sum.splits)

text \<open>
  C35: the verdict of \<open>coffer check\<close>. On a container that opens it exits with 0 if and only if the
  structural check says \<open>ok\<close>, every message of the page check names a page past the first 4 GiB
  (where that check is known to be wrong), every name of the tree resolves to an inode and
  every inode but the root has a name. It changes nothing.
\<close>

theorem check_verdict:
  assumes "c_body c = Format2 d" and "map_of (t_meta d) ''schema_version'' = Some ''2''" and "\<not> c_held c"
    and "t_faults t = no_faults" and "page_size (t_page_size t) = Inr ps" and "ps \<noteq> 0" and "t_hmac t = Inr rows"
    and "obtain_password (t_sh t) (t_contents t) pwf pwc False con1 = (Inr (c_key c), con2)"
  shows "\<exists>k. cmd_check t pwf pwc (con1, Some c) = (Inr k, con2, Some c) \<and>
    (exit_code k = 0 \<longleftrightarrow>
       t_integrity t = Inr [''ok''] \<and>
       (\<forall>m. Inr m \<in> set rows \<longrightarrow> (\<exists>p. named_page m = Some p \<and> 4 * 1024 * 1024 * 1024 div ps < p)) \<and>
       (\<forall>(k, i) \<in> set (t_dentries d). inode_at d i \<noteq> None) \<and>
       (\<forall>(i, r) \<in> set (t_inodes d). i \<noteq> ROOT_INO \<longrightarrow> 0 < name_count d i))"
proof -
  obtain s where o: "open_file True (c_key c) no_faults (Some c) = (Inr s, Some c)" and s: "box s = c" "keyed s"
    "stmt_fault s = no_faults"
    using open_file_run [OF assms(1-3)] by metis
  let ?b = "4 * 1024 * 1024 * 1024 div ps" and ?n = "find_inconsistencies d"
  define k where "k = \<lparr>k_corrupt = filter (\<lambda>m. \<not> past_boundary ?b m) (row_texts rows),
    k_known_limitation = length (filter (past_boundary ?b) (row_texts rows)),
    k_structure = (case t_integrity t of Inr ls \<Rightarrow> ls | Inl e \<Rightarrow> [''error: '' @ t_error_text t e]),
    k_logical = Counted (fst ?n) (snd ?n)\<rparr>"
  have body: "c_body (box s) = Format2 d" by (simp add: s assms(1))
  from logical_check_run [OF s(2,3) body assms(2)] have run: "cmd_check t pwf pwc (con1, Some c) = (Inr k, con2, Some c)"
    by (auto simp: cmd_check_def with_container_def assms o run_queries_def bind_def ret_def k_def s Let_def)
  have "k_corrupt k = [] \<longleftrightarrow> (\<forall>m. Inr m \<in> set rows \<longrightarrow> (\<exists>p. named_page m = Some p \<and> ?b < p))"
    by (auto simp: k_def filter_empty_conv in_row_texts past_boundary_iff)
  moreover have "structurally_ok k \<longleftrightarrow> t_integrity t = Inr [''ok'']"
    by (auto simp: structurally_ok_def k_def split: sum.splits)
  moreover have "k_logical k \<in> {Skipped, Counted 0 0} \<longleftrightarrow> ?n = (0, 0)"
    by (auto simp: k_def prod_eq_iff)
  ultimately show ?thesis using run by (auto simp: exit_code_def check_ok_iff split: if_splits)
qed

definition fresh_box :: container where
  "fresh_box = \<lparr>c_key = ''pw'', c_body = Format2 (fresh_db 0 0 0 ''0'' 0), c_held = False\<rparr>"

lemma fresh_box_simps:
  "c_body fresh_box = Format2 (fresh_db 0 0 0 ''0'' 0)" "\<not> c_held fresh_box" "c_key fresh_box = ''pw''"
  "map_of (t_meta (fresh_db 0 0 0 ''0'' 0)) ''schema_version'' = Some ''2''"
  by (simp_all add: fresh_box_def fresh_db_def)

theorem check_verdict_witness:
  "\<exists>k. cmd_check demo_tools (Some ''o'') None (no_input, Some fresh_box) = (Inr k, no_input, Some fresh_box) \<and>
     exit_code k \<noteq> 0"
proof -
  have "show_nat 4096 = ''4096''" "show_nat 2 = ''2''" by (simp_all add: show_nat.simps) code_simp+
  then have n: "parse_u64 ''4096'' = Some 4096" "named_page ''HMAC verification failed for page 2'' = Some 2"
    using decimal.dec_enc [of 4096] named_page_message [of "''HMAC verification failed for page''" 2] by simp_all
  have t: "t_faults demo_tools = no_faults" "page_size (t_page_size demo_tools) = Inr 4096"
      "t_hmac demo_tools = Inr [Inr ''HMAC verification failed for page 2'']"
    using n(1) by (simp_all add: demo_tools_def page_size_def)
  have "obtain_password (t_sh demo_tools) (t_contents demo_tools) (Some ''o'') None False no_input =
      (Inr (c_key fresh_box), no_input)"
    unfolding fresh_box_simps(3) by (rule demo_passwords(1))
  note verdict = check_verdict [OF fresh_box_simps(1,4,2) t(1,2) _ t(3) this]
  have small: "\<not> 4 * 1024 * 1024 * 1024 div (4096 :: u64) < 2" by (simp add: word_less_nat_alt unat_div)
  have "(4096 :: u64) \<noteq> 0" by simp
  from verdict [OF this] obtain k where
    k: "cmd_check demo_tools (Some ''o'') None (no_input, Some fresh_box) = (Inr k, no_input, Some fresh_box)" and
    "exit_code k = 0 \<longrightarrow> (\<exists>p. named_page ''HMAC verification failed for page 2'' = Some p \<and> 4 * 1024 * 1024 * 1024 div (4096 :: u64) < p)"
    by (meson list.set_intros(1))
  with n(2) small have "exit_code k \<noteq> 0" by (simp only: option.inject) blast
  with k show ?thesis by blast
qed

end
