(* ===== verification/Completions.thy ===== *)
theory Completions
  imports Rust_Str "HOL-Library.Char_ord" "HOL-Library.List_Lexorder"
begin

text \<open>
  Shell completions (src/src/completions.rs): what is added to the scripts clap generates. The
  command line clap describes and its scripts are arguments; the texts that are added are
  written out line by line.
\<close>

abbreviation BACKSLASH :: char where "BACKSLASH \<equiv> CHR 0x5C"
abbreviation DQUOTE :: char where "DQUOTE \<equiv> CHR 0x22"
abbreviation SQUOTE :: char where "SQUOTE \<equiv> CHR 0x27"

definition ALIAS_FIRST :: "(string \<times> string) list" where
  "ALIAS_FIRST =
     [(''mount'', ''files''), (''check'', ''files''), (''backup'', ''files''), (''passwd'', ''files''),
      (''info'', ''files''), (''compact'', ''files''), (''umount'', ''dirs''), (''remove'', [])]"

section \<open>Options with a value\<close>

record argument =
  a_long :: "string option"
  a_short :: "string option"
  a_positional :: bool
  a_takes_values :: bool

text \<open>The subcommands with their arguments.\<close>

type_synonym subcommands = "(string \<times> argument list) list"

definition flags_of :: "argument \<Rightarrow> string list" where
  "flags_of a =
     (case a_long a of Some l \<Rightarrow> [''--'' @ l] | None \<Rightarrow> []) @ (case a_short a of Some c \<Rightarrow> [''-'' @ c] | None \<Rightarrow> [])"

definition valued_options :: "subcommands \<Rightarrow> string list" where
  "valued_options cmd =
     remdups_adj (sort (concat (map flags_of
       (filter (\<lambda>a. \<not> a_positional a \<and> a_takes_values a) (concat (map snd cmd))))))"

fun join_with :: "string \<Rightarrow> string list \<Rightarrow> string" where
  "join_with sep [] = []"
| "join_with sep [s] = s"
| "join_with sep (s # ss) = s @ sep @ join_with sep ss"

text \<open>
  The arguments of coffer itself, in the order of the enum: \<open>clap\<close> turns a field into a
  positional argument, an option with a value (\<open>long\<close>), or a flag (a \<open>bool\<close>). The help options
  it adds take no value.
\<close>

definition positional :: argument where
  "positional = \<lparr>a_long = None, a_short = None, a_positional = True, a_takes_values = True\<rparr>"

definition valued :: "string \<Rightarrow> argument" where
  "valued name = \<lparr>a_long = Some name, a_short = None, a_positional = False, a_takes_values = True\<rparr>"

definition flag :: "string \<Rightarrow> argument" where
  "flag name = \<lparr>a_long = Some name, a_short = None, a_positional = False, a_takes_values = False\<rparr>"

definition password_arguments :: "argument list" where
  "password_arguments = [valued ''password-file'', valued ''password-command'']"

definition create_arguments :: "argument list" where
  "create_arguments =
     [positional, valued ''max-size''] @ password_arguments @
     [valued ''save'', valued ''mountpoint'', flag ''enforce-permissions'']"

definition mount_arguments :: "argument list" where
  "mount_arguments =
     [positional, positional, valued ''save'', flag ''foreground'', valued ''idle-timeout'',
      valued ''compact-on-idle''] @ password_arguments @
     [(flag ''read-only'')\<lparr>a_short := Some ''r''\<rparr>, (valued ''log'')\<lparr>a_short := Some ''l''\<rparr>,
      flag ''enforce-permissions'', valued ''locking'']"

definition add_arguments :: "argument list" where
  "add_arguments =
     [positional, positional, positional, valued ''idle-timeout'', valued ''compact-on-idle''] @
     password_arguments @
     [valued ''log-file'', flag ''read-only'', flag ''enforce-permissions'', valued ''locking'']"

definition coffer_subcommands :: subcommands where
  "coffer_subcommands =
     [(''create'', create_arguments), (''mount'', mount_arguments), (''umount'', [positional]),
      (''add'', add_arguments), (''remove'', [positional]), (''list'', []),
      (''check'', positional # password_arguments), (''backup'', [positional, positional] @ password_arguments),
      (''passwd'', [positional] @ password_arguments @ [valued ''new-password-file'']),
      (''info'', positional # password_arguments), (''compact'', positional # password_arguments),
      (''completions'', [positional])]"

section \<open>bash\<close>

definition subcommands_of :: "string \<Rightarrow> string list" where
  "subcommands_of kind = map fst (filter (\<lambda>(s, k). k = kind) ALIAS_FIRST)"

definition bash_arm :: "string \<Rightarrow> string" where
  "bash_arm kind =
     ''        '' @ join_with ''|'' (subcommands_of kind) @ '') also='' @ [DQUOTE] @ kind @ [DQUOTE] @ '' ;;'' @ [NL]"

definition bash_head :: "string list" where
  "bash_head =
     [[],
      ''# Vault aliases wherever one is accepted, on top of _coffer above'',
      ''# (added by `coffer completions bash`).'',
      ''_coffer_vaults() {'',
      ''    local cur='' @ [DQUOTE] @ ''${COMP_WORDS[COMP_CWORD]}'' @ [DQUOTE] @ '' sub='' @ [DQUOTE] @ [DQUOTE] @ '' pos=0 skip=0 i w also'',
      ''    for (( i = 1; i < COMP_CWORD; i++ )); do'',
      ''        w='' @ [DQUOTE] @ ''${COMP_WORDS[i]}'' @ [DQUOTE],
      ''        if (( skip )); then'',
      ''            # --opt=value arrives as three words: --opt, =, value'',
      ''            [[ $w == '' @ [DQUOTE] @ ''='' @ [DQUOTE] @ '' ]] || skip=0'',
      ''            continue'',
      ''        fi'',
      ''        case '' @ [DQUOTE] @ ''$w'' @ [DQUOTE] @ '' in'']"

definition bash_middle :: "string list" where
  "bash_middle =
     [''            -*) ;;'',
      ''            *) if [[ -z $sub ]]; then sub=$w; else (( pos++ )); fi ;;'',
      ''        esac'',
      ''    done'',
      ''    if (( skip || pos > 0 )) || [[ $cur == -* ]]; then'',
      ''        _coffer '' @ [DQUOTE] @ ''$@'' @ [DQUOTE],
      ''        return'',
      ''    fi'',
      ''    case '' @ [DQUOTE] @ ''$sub'' @ [DQUOTE] @ '' in'']"

definition bash_tail :: "string list" where
  "bash_tail =
     [''        *) _coffer '' @ [DQUOTE] @ ''$@'' @ [DQUOTE] @ ''; return ;;'',
      ''    esac'',
      ''    # compgen rather than bash-completion'' @ [SQUOTE] @ ''s _filedir, which completes an'',
      ''    # empty word to nothing - bash'' @ [SQUOTE] @ ''s own file fallback would make up for'',
      ''    # that, but it only steps in when there are no aliases either.'',
      ''    local IFS=$'' @ [SQUOTE] @ [BACKSLASH] @ ''n'' @ [SQUOTE],
      ''    local aliases=($(compgen -W '' @ [DQUOTE] @ ''$('' @ [DQUOTE] @ ''$1'' @ [DQUOTE] @ '' __complete-aliases 2>/dev/null)'' @ [DQUOTE] @ '' -- '' @ [DQUOTE] @ ''$cur'' @ [DQUOTE] @ '')) files=()'',
      ''    case '' @ [DQUOTE] @ ''$also'' @ [DQUOTE] @ '' in'',
      ''        files) files=($(compgen -f -- '' @ [DQUOTE] @ ''$cur'' @ [DQUOTE] @ '')) ;;'',
      ''        dirs) files=($(compgen -d -- '' @ [DQUOTE] @ ''$cur'' @ [DQUOTE] @ '')) ;;'',
      ''    esac'',
      ''    # Quote what needs it and give directories their slash.'',
      ''    (( ${#files[@]} )) && compopt -o filenames 2>/dev/null'',
      ''    COMPREPLY=('' @ [DQUOTE] @ ''${aliases[@]}'' @ [DQUOTE] @ '' '' @ [DQUOTE] @ ''${files[@]}'' @ [DQUOTE] @ '')'',
      ''}'',
      [],
      ''if [[ '' @ [DQUOTE] @ ''${BASH_VERSINFO[0]}'' @ [DQUOTE] @ '' -eq 4 && '' @ [DQUOTE] @ ''${BASH_VERSINFO[1]}'' @ [DQUOTE] @ '' -ge 4 || '' @ [DQUOTE] @ ''${BASH_VERSINFO[0]}'' @ [DQUOTE] @ '' -gt 4 ]]; then'',
      ''    complete -F _coffer_vaults -o nosort -o bashdefault -o default coffer'',
      ''else'',
      ''    complete -F _coffer_vaults -o bashdefault -o default coffer'',
      ''fi'']"

definition bash :: "subcommands \<Rightarrow> string" where
  "bash cmd =
     unlines bash_head @ ''            '' @ join_with ''|'' (valued_options cmd) @ '') skip=1 ;;'' @ [NL] @
     unlines bash_middle @ concat (map bash_arm [''files'', ''dirs'', []]) @ unlines bash_tail"

section \<open>fish\<close>

definition fish_head :: "string list" where
  "fish_head =
     [[],
      ''# Vault aliases wherever one is accepted (added by `coffer completions fish`).'',
      ''function __fish_coffer_no_argument_yet'',
      ''    set -l tokens (commandline -opc)'',
      ''    set -e tokens[1..2]'',
      ''    set -l skip 0'',
      ''    for t in $tokens'',
      ''        if test $skip = 1'',
      ''            set skip 0'',
      ''            continue'',
      ''        end'',
      ''        switch $t'']"

definition fish_middle :: "string list" where
  "fish_middle =
     [''                set skip 1'',
      ''            case '' @ [SQUOTE] @ ''-*'' @ [SQUOTE],
      ''            case '' @ [SQUOTE] @ ''*'' @ [SQUOTE],
      ''                return 1'',
      ''        end'',
      ''    end'',
      ''    test $skip = 0'',
      ''end'',
      []]"

definition fish :: "subcommands \<Rightarrow> string" where
  "fish cmd =
     unlines fish_head @ ''            case '' @ join_with '' '' (valued_options cmd) @ [NL] @ unlines fish_middle @
     ''complete -c coffer -n '' @ [DQUOTE] @ ''__fish_coffer_using_subcommand '' @
     join_with '' '' (map fst (filter (\<lambda>(s, k). k \<noteq> []) ALIAS_FIRST)) @
     ''; and __fish_coffer_no_argument_yet'' @ [DQUOTE] @ '' -a '' @ [DQUOTE] @ ''(coffer __complete-aliases 2>/dev/null)'' @ [DQUOTE] @ '' -d '' @ [SQUOTE] @ ''registered vault'' @ [SQUOTE] @ [NL] @
     ''complete -c coffer -n '' @ [DQUOTE] @ ''__fish_coffer_using_subcommand '' @
     join_with '' '' (map fst (filter (\<lambda>(s, k). k = []) ALIAS_FIRST)) @
     ''; and __fish_coffer_no_argument_yet'' @ [DQUOTE] @ '' -f -a '' @ [DQUOTE] @ ''(coffer __complete-aliases 2>/dev/null)'' @ [DQUOTE] @ '' -d '' @ [SQUOTE] @ ''registered vault'' @ [SQUOTE] @ [NL]"

section \<open>zsh\<close>

definition zsh_helper_lines :: "string list" where
  "zsh_helper_lines =
     [''(( $+functions[_coffer__vaults] )) ||'',
      ''_coffer__vaults() {'',
      ''    local -a aliases alts'',
      ''    aliases=(${(f)'' @ [DQUOTE] @ ''$(_call_program vaults $words[1] __complete-aliases 2>/dev/null)'' @ [DQUOTE] @ ''})'',
      ''    alts=('' @ [SQUOTE] @ ''vaults:registered vault:compadd -a aliases'' @ [SQUOTE] @ '')'',
      ''    case $1 in'',
      ''        files) alts+=('' @ [SQUOTE] @ ''files:container file:_files'' @ [SQUOTE] @ '') ;;'',
      ''        dirs) alts+=('' @ [SQUOTE] @ ''directories:mountpoint:_files -/'' @ [SQUOTE] @ '') ;;'',
      ''    esac'',
      ''    _alternative $alts'',
      ''}'',
      []]"

definition ZSH_HELPER :: string where
  "ZSH_HELPER = unlines zsh_helper_lines"

definition if_line :: string where
  "if_line = ''if [ '' @ [DQUOTE] @ ''$funcstack[1]'' @ [DQUOTE] @ '' = '' @ [DQUOTE] @ ''_coffer'' @ [DQUOTE] @ '' ]''"

text \<open>
  The action of a spec: what follows its last colon, up to the first quote after it. \<open>None\<close>: there
  is no colon, or no quote after the last one.
\<close>

definition replace_action :: "string \<Rightarrow> string \<Rightarrow> string" where
  "replace_action kind line =
     (if CHR '':'' \<notin> set line then line
      else let action = rev (takeWhile (\<lambda>c. c \<noteq> CHR '':'') (rev line));
               front = take (length line - length action) line
           in if SQUOTE \<notin> set action then line
              else front @ trim_end (''_coffer__vaults '' @ kind) @ dropWhile (\<lambda>c. c \<noteq> SQUOTE) action)"

record zsh_state =
  z_out :: string
  z_placed :: bool
  z_pending :: "string option"

definition block_label :: "string \<Rightarrow> string option" where
  "block_label trimmed = Option.bind (strip_prefix ''('' trimmed) (strip_suffix '')'')"

definition zsh_line :: "string \<Rightarrow> zsh_state \<Rightarrow> zsh_state" where
  "zsh_line line z =
     (let trimmed = trim line;
          pending = (case block_label trimmed of
                       Some label \<Rightarrow> map_of ALIAS_FIRST label
                     | None \<Rightarrow> z_pending z);
          helps = (\<not> z_placed z \<and> prefix if_line trimmed);
          out = z_out z @ (if helps then ZSH_HELPER else []);
          placed = (z_placed z \<or> helps)
      in case pending of
           Some kind \<Rightarrow>
             if prefix [SQUOTE, CHR '':''] line
             then \<lparr>z_out = out @ replace_action kind line @ [NL], z_placed = placed, z_pending = None\<rparr>
             else \<lparr>z_out = out @ line @ [NL], z_placed = placed, z_pending = pending\<rparr>
         | None \<Rightarrow> \<lparr>z_out = out @ line @ [NL], z_placed = placed, z_pending = pending\<rparr>)"

definition zsh :: "string \<Rightarrow> string" where
  "zsh script =
     (let z = fold zsh_line (lines script) \<lparr>z_out = [], z_placed = False, z_pending = None\<rparr>
      in z_out z @ (if z_placed z then [] else ZSH_HELPER))"

section \<open>The script of a shell\<close>

datatype shell = Bash | Zsh | Fish | OtherShell

text \<open>\<open>generated\<close> is what \<open>clap_complete\<close> writes for the shell.\<close>

definition generate :: "(shell \<Rightarrow> string) \<Rightarrow> shell \<Rightarrow> subcommands \<Rightarrow> string" where
  "generate generated sh cmd =
     (let script = from_utf8_lossy (generated sh) in
      case sh of Bash \<Rightarrow> script @ bash cmd | Zsh \<Rightarrow> zsh script | Fish \<Rightarrow> script @ fish cmd | OtherShell \<Rightarrow> script)"

end
