(* ===== verification/Completions_Props.thy ===== *)
theory Completions_Props
  imports Completions
begin

text \<open>
  What the patch of the zsh script does, against a description that looks at the whole script:
  which lines change, how, and where the helper function stands.
\<close>

section \<open>The options that take a value\<close>

lemma valued_options_exact:
  "set (valued_options cmd) =
     {f. \<exists>as \<in> snd ` set cmd. \<exists>a \<in> set as. \<not> a_positional a \<and> a_takes_values a \<and> f \<in> set (flags_of a)} \<and>
   sorted (valued_options cmd) \<and> distinct (valued_options cmd)"
proof -
  have "sorted xs \<Longrightarrow> distinct (remdups_adj xs)" for xs :: "string list"
    by (induction xs rule: remdups_adj.induct) (auto simp: order.antisym)
  then have "sorted (valued_options cmd) \<and> distinct (valued_options cmd)"
    by (simp add: valued_options_def sorted_remdups_adj)
  moreover have "f \<in> set (valued_options cmd) \<longleftrightarrow>
      (\<exists>as \<in> snd ` set cmd. \<exists>a \<in> set as. \<not> a_positional a \<and> a_takes_values a \<and> f \<in> set (flags_of a))" for f
    by (auto simp: valued_options_def)
  ultimately show ?thesis by blast
qed

lemma coffer_valued_options:
  "valued_options coffer_subcommands =
     [''--compact-on-idle'', ''--idle-timeout'', ''--locking'', ''--log'', ''--log-file'', ''--max-size'',
      ''--mountpoint'', ''--new-password-file'', ''--password-command'', ''--password-file'', ''--save'', ''-l'']"
  by code_simp

text \<open>Every subcommand that is offered aliases exists and starts with a positional argument.\<close>

lemma alias_first_are_subcommands:
  "list_all (\<lambda>(sub, kind). \<exists>as. map_of coffer_subcommands sub = Some (positional # as)) ALIAS_FIRST"
  by (simp add: ALIAS_FIRST_def coffer_subcommands_def mount_arguments_def)

section \<open>The patch of the zsh script\<close>

definition spec_line :: "string \<Rightarrow> bool" where
  "spec_line l \<longleftrightarrow> prefix [SQUOTE, CHR '':''] l"

text \<open>
  The subcommand whose first argument is still to come after these lines: the last label among
  them, if it takes an alias and no argument's line stands after it.
\<close>

definition open_kind :: "string list \<Rightarrow> string option" where
  "open_kind ls =
     (let unlabelled = takeWhile (\<lambda>l. block_label (trim l) = None) (rev ls)
      in case drop (length unlabelled) (rev ls) of
           [] \<Rightarrow> None
         | l # _ \<Rightarrow>
             if \<exists>x \<in> set (l # unlabelled). spec_line x then None
             else Option.bind (block_label (trim l)) (map_of ALIAS_FIRST))"

definition patched_line :: "string list \<Rightarrow> nat \<Rightarrow> string" where
  "patched_line ls i =
     (case open_kind (take i ls) of
        Some kind \<Rightarrow> if spec_line (ls ! i) then replace_action kind (ls ! i) else ls ! i
      | None \<Rightarrow> ls ! i)"

definition patched :: "string list \<Rightarrow> string list" where
  "patched ls = map (patched_line ls) [0..<length ls]"

definition helper_place :: "string list \<Rightarrow> nat" where
  "helper_place ls = length (takeWhile (\<lambda>l. \<not> prefix if_line (trim l)) ls)"

lemma open_kind_snoc:
  "open_kind (ls @ [x]) =
     (if spec_line x then None
      else case block_label (trim x) of Some label \<Rightarrow> map_of ALIAS_FIRST label | None \<Rightarrow> open_kind ls)"
  by (auto simp: open_kind_def Let_def split: option.split list.split)

lemma spec_no_label: "spec_line l \<Longrightarrow> block_label (trim l) = None"
proof -
  assume "spec_line l"
  then obtain s where l: "l = SQUOTE # CHR '':'' # s" by (auto simp: spec_line_def prefix_def)
  have "SQUOTE \<notin> set ws_heads" by (simp add: ws_heads_def white_space_def)
  then have "trim_start l = l" by (intro trim_start_id) (simp add: l)
  then have "prefix (trim l) l" unfolding trim_def using trim_end_prefix by metis
  then have "\<not> prefix ''('' (trim l)" by (cases "trim l") (auto simp: l)
  then show ?thesis by (simp add: block_label_def strip_prefix_def)
qed

lemma patched_snoc: "patched (ls @ [x]) = patched ls @ [patched_line (ls @ [x]) (length ls)]"
proof -
  have "patched_line (ls @ [x]) i = patched_line ls i" if "i < length ls" for i
    using that by (simp add: patched_line_def nth_append split: option.split)
  then show ?thesis by (simp add: patched_def)
qed

lemma length_patched [simp]: "length (patched ls) = length ls"
  by (simp add: patched_def)

text \<open>What the loop has written and knows after some of the lines.\<close>

definition written :: "string list \<Rightarrow> string" where
  "written ls =
     (let k = helper_place ls in
      unlines (take k (patched ls)) @ (if k < length ls then ZSH_HELPER @ unlines (drop k (patched ls)) else []))"

lemma unlines_append [simp]: "unlines (as @ bs) = unlines as @ unlines bs"
  by (induction as) simp_all

lemma helper_place_le: "helper_place ls \<le> length ls"
  by (simp add: helper_place_def length_takeWhile_le)

lemma helper_place_snoc:
  "helper_place (ls @ [x]) =
     (if helper_place ls < length ls then helper_place ls
      else if prefix if_line (trim x) then length ls else Suc (length ls))"
proof (cases "\<forall>l \<in> set ls. \<not> prefix if_line (trim l)")
  case True
  then have tw: "takeWhile (\<lambda>l. \<not> prefix if_line (trim l)) ls = ls"
      "takeWhile (\<lambda>l. \<not> prefix if_line (trim l)) (ls @ [x]) = ls @ takeWhile (\<lambda>l. \<not> prefix if_line (trim l)) [x]"
    by (simp_all add: takeWhile_eq_all_conv)
  show ?thesis unfolding helper_place_def tw by simp
next
  case False
  then obtain l where l: "l \<in> set ls" "prefix if_line (trim l)" by blast
  then have "takeWhile (\<lambda>l. \<not> prefix if_line (trim l)) (ls @ [x]) = takeWhile (\<lambda>l. \<not> prefix if_line (trim l)) ls"
    by (intro takeWhile_append1) auto
  moreover have "helper_place ls \<noteq> length ls"
  proof
    assume "helper_place ls = length ls"
    then have "takeWhile (\<lambda>l. \<not> prefix if_line (trim l)) ls = ls"
      unfolding helper_place_def by (metis takeWhile_eq_take take_all_iff order_refl)
    then show False using l unfolding takeWhile_eq_all_conv by blast
  qed
  ultimately show ?thesis using helper_place_le [of ls] by (simp add: helper_place_def)
qed

lemma written_snoc:
  "written (ls @ [x]) =
     written ls @ (if helper_place ls = length ls \<and> prefix if_line (trim x) then ZSH_HELPER else []) @
     patched_line (ls @ [x]) (length ls) @ [NL]"
  using helper_place_le [of ls]
  by (auto simp: written_def Let_def helper_place_snoc patched_snoc)

lemma zsh_loop:
  "fold zsh_line ls \<lparr>z_out = [], z_placed = False, z_pending = None\<rparr> =
     \<lparr>z_out = written ls, z_placed = (helper_place ls < length ls), z_pending = open_kind ls\<rparr>"
proof (induction ls rule: rev_induct)
  case Nil
  show ?case by (simp add: written_def helper_place_def open_kind_def patched_def)
next
  case (snoc x ls)
  let ?pending = "case block_label (trim x) of Some label \<Rightarrow> map_of ALIAS_FIRST label | None \<Rightarrow> open_kind ls"
  have line: "patched_line (ls @ [x]) (length ls) =
      (case ?pending of Some kind \<Rightarrow> if spec_line x then replace_action kind x else x | None \<Rightarrow> x)"
    using spec_no_label [of x] by (auto simp: patched_line_def split: option.split)
  have run: "fold zsh_line (ls @ [x]) z = zsh_line x (fold zsh_line ls z)" for z by simp
  show ?case
    unfolding run snoc
    using helper_place_le [of ls]
    by (simp add: zsh_line_def Let_def written_snoc line open_kind_snoc helper_place_snoc
        spec_line_def [symmetric] split: option.split)
qed

lemma zsh_written:
  assumes "\<forall>l \<in> set ls. plain_line l"
  shows "zsh (unlines ls) =
    unlines (take (helper_place ls) (patched ls)) @ ZSH_HELPER @ unlines (drop (helper_place ls) (patched ls))"
  using helper_place_le [of ls]
  by (simp add: zsh_def lines_unlines [OF assms] zsh_loop written_def Let_def)

lemma replace_action_spec:
  assumes "CHR '':'' \<notin> set action" and "CHR '':'' \<notin> set rest" and "SQUOTE \<notin> set action"
  shows "replace_action kind (front @ CHR '':'' # action @ SQUOTE # rest) =
    front @ CHR '':'' # trim_end (''_coffer__vaults '' @ kind) @ SQUOTE # rest"
proof -
  have "takeWhile (\<lambda>c. c \<noteq> CHR '':'') (rev (action @ SQUOTE # rest) @ CHR '':'' # rev front) = rev (action @ SQUOTE # rest)"
    using assms(1,2) by (subst takeWhile_append2) auto
  moreover have "dropWhile (\<lambda>c. c \<noteq> SQUOTE) (action @ SQUOTE # rest) = SQUOTE # rest"
    using assms(3) by (subst dropWhile_append2) auto
  ultimately show ?thesis by (simp add: replace_action_def Let_def)
qed

text \<open>
  C40: the patch of the zsh script. Whatever script clap generates, line by line: the first line
  that describes an argument in the block of a subcommand that takes an alias has its action
  replaced, every other line is kept, and the helper function is defined exactly once, before
  the line that calls the completion or else at the end. Replacing the action keeps everything
  up to the last colon and from the quote after it.
\<close>

theorem zsh_patches:
  assumes "\<forall>l \<in> set ls. plain_line l"
  shows "zsh (unlines ls) =
      unlines (take (helper_place ls) (patched ls)) @ ZSH_HELPER @ unlines (drop (helper_place ls) (patched ls)) \<and>
    (\<forall>kind front action rest. CHR '':'' \<notin> set (action @ rest) \<and> SQUOTE \<notin> set action \<longrightarrow>
       replace_action kind (front @ CHR '':'' # action @ SQUOTE # rest) =
         front @ CHR '':'' # trim_end (''_coffer__vaults '' @ kind) @ SQUOTE # rest)"
  using zsh_written [OF assms] replace_action_spec by simp

definition small_script :: "string list" where
  "small_script =
     [''(info)'', ''_arguments'', [SQUOTE, CHR '':''] @ ''file:_default'' @ [SQUOTE], [SQUOTE, CHR '':''] @ ''x:_default'' @ [SQUOTE]]"

theorem zsh_patches_witness:
  "zsh (unlines small_script) =
     unlines [''(info)'', ''_arguments'', [SQUOTE, CHR '':''] @ ''file:_coffer__vaults files'' @ [SQUOTE],
       [SQUOTE, CHR '':''] @ ''x:_default'' @ [SQUOTE]] @ ZSH_HELPER"
proof -
  have "patched small_script = [''(info)'', ''_arguments'', [SQUOTE, CHR '':''] @ ''file:_coffer__vaults files'' @ [SQUOTE],
       [SQUOTE, CHR '':''] @ ''x:_default'' @ [SQUOTE]]"
    and "helper_place small_script = 4" and "\<forall>l \<in> set small_script. plain_line l"
    by code_simp+
  with zsh_patches [of small_script] show ?thesis by simp
qed

end
