(* ===== verification/Backup_Cmd.thy ===== *)
theory Backup_Cmd
  imports Commands
begin

text \<open>
  \<open>coffer backup\<close> (\<open>cmd_backup\<close> of src/src/main.rs): through the running mount when one answers,
  and otherwise a copy of its own, step by step. The steps' answers are the engine's; a copy
  that came to its end is the source under the password the destination was keyed with.
\<close>

record backup_host =
  u_source :: "string option"
    \<comment> \<open>\<open>canonicalize\<close> of the container's path\<close>
  u_dest :: "string option"
    \<comment> \<open>the destination's path made absolute\<close>
  u_first :: "connection option"
  u_second :: "connection option"
    \<comment> \<open>what the two calls of \<open>connect\<close> to the daemon's socket come to\<close>
  u_by_daemon :: "container option"
    \<comment> \<open>the destination after the daemon has worked on it\<close>
  u_opened :: bool
    \<comment> \<open>whether the destination can be opened and keyed\<close>
  u_started :: bool
  u_steps :: "step list"
  u_chmod :: bool

text \<open>Every step is reported, the one that ends the copy as well; an error ends it unreported.\<close>

fun direct_loop :: "(u64 \<times> u64 \<Rightarrow> 's \<Rightarrow> 's) \<Rightarrow> u64 \<Rightarrow> step list \<Rightarrow> 's \<Rightarrow> (bool \<times> 's) option" where
  "direct_loop report ps [] s = None"
| "direct_loop report ps (a # as) s =
     (if s_code a = StepError then Some (False, s)
      else let s1 = report (in_bytes ps (pages_done a), in_bytes ps (pages_total a)) s in
           if s_code a = StepDone then Some (True, s1) else direct_loop report ps as s1)"

text \<open>The three queries before the copy: \<open>BEGIN\<close>, the page size, and one that takes the snapshot.\<close>

definition snapshot :: "tools \<Rightarrow> (session, open_error, u64) act" where
  "snapshot t =
     bind (or_sql pragma) (\<lambda>_.
     bind (case page_size (t_page_size t) of Inl e \<Rightarrow> throw (Sql e) | Inr ps \<Rightarrow> ret ps) (\<lambda>ps.
     bind (query (\<lambda>_. Inr ())) (\<lambda>_. ret ps)))"

definition direct_copy ::
  "tools \<Rightarrow> backup_host \<Rightarrow> (u64 \<times> u64 \<Rightarrow> 's \<Rightarrow> 's) \<Rightarrow> string \<Rightarrow> session \<Rightarrow> 's \<Rightarrow> container option \<Rightarrow>
     ((cmd_error + unit) \<times> 's \<times> container option) option" where
  "direct_copy t u report pw s bar dest =
     (if \<not> u_opened u then Some (Inl FileFailed, bar, t_partial t)
      else
        (case snapshot t s of
           (Inl e, _) \<Rightarrow> Some (Inl (Database e), bar, t_partial t)
         | (Inr ps, s1) \<Rightarrow>
             if \<not> u_started u then Some (Inl CopyFailed, bar, t_partial t)
             else
               (case direct_loop report ps (u_steps u) bar of
                  None \<Rightarrow> None
                | Some (False, bar1) \<Rightarrow> Some (Inl CopyFailed, bar1, t_partial t)
                | Some (True, bar1) \<Rightarrow>
                    Some (if u_chmod u then Inr () else Inl FileFailed, bar1,
                          Some \<lparr>c_key = pw, c_body = c_body (box s1), c_held = False\<rparr>))))"

text \<open>The result says whether the running mount has made the copy. \<open>None\<close>: the copy goes on.\<close>

definition cmd_backup ::
  "tools \<Rightarrow> backup_host \<Rightarrow> (u64 \<times> u64 \<Rightarrow> 's \<Rightarrow> 's) \<Rightarrow> string option \<Rightarrow> string option \<Rightarrow> place \<Rightarrow> 's \<Rightarrow>
     container option \<Rightarrow> ((cmd_error + bool) \<times> 's \<times> container option \<times> place) option" where
  "cmd_backup t u report password_file password_command place bar dest =
     (case obtain_password (t_sh t) (t_contents t) password_file password_command False (fst place) of
        (Inl e, con1) \<Rightarrow> Some (Inl (Cli_Failed e), bar, dest, con1, snd place)
      | (Inr pw, con1) \<Rightarrow>
          (case (u_source u, u_dest u) of
             (Some _, Some to) \<Rightarrow>
               (case request_backup (u_first u) (u_second u) to pw of
                  Some (r, reports) \<Rightarrow>
                    Some (case r of Inl e \<Rightarrow> Inl (ThroughMount e) | Inr _ \<Rightarrow> Inr True, fold report reports bar,
                          u_by_daemon u, con1, snd place)
                | None \<Rightarrow>
                    (case open_file True pw (t_faults t) (snd place) of
                       (Inl e, disk1) \<Rightarrow> Some (Inl (Database e), bar, dest, con1, disk1)
                     | (Inr s, disk1) \<Rightarrow>
                         map_option (\<lambda>(r, bar1, dest1). (map_sum id (\<lambda>_. False) r, bar1, dest1, con1, disk1))
                           (direct_copy t u report pw s bar dest)))
           | _ \<Rightarrow> Some (Inl FileFailed, bar, dest, con1, snd place)))"

end
