(* ===== verification/Listing.thy ===== *)
theory Listing
  imports Mounts Progress
begin

text \<open>
  The table of the registered vaults (\<open>coffer list\<close> and the menus of src/src/main.rs), and how
  paths and times are shown in it. The size and the time of a container file, the clock of the
  C library and the mount table are arguments.
\<close>

section \<open>Paths for display\<close>

text \<open>
  \<open>Path::strip_prefix\<close> goes by components: it takes those of the base off the front of the path
  and returns what is left of its text, without the separators and dots around it.
\<close>

fun skip_dots :: "string \<Rightarrow> string" where
  "skip_dots s = (case s of
      CHR ''/'' # r \<Rightarrow> skip_dots r
    | [CHR ''.''] \<Rightarrow> []
    | CHR ''.'' # CHR ''/'' # r \<Rightarrow> skip_dots r
    | _ \<Rightarrow> s)"

text \<open>The root, or a leading dot, is a component of its own.\<close>

definition path_start :: "string \<Rightarrow> string \<times> string" where
  "path_start p =
     (if prefix ''/'' p then (''/'', tl p) else if p = ''.'' \<or> prefix ''./'' p then (''.'', tl p) else ([], p))"

fun drop_parts :: "string list \<Rightarrow> string \<Rightarrow> string option" where
  "drop_parts [] s = Some s"
| "drop_parts (y # ys) s =
     (let t = skip_dots s in
      if takeWhile (\<lambda>c. c \<noteq> CHR ''/'') t = y then drop_parts ys (dropWhile (\<lambda>c. c \<noteq> CHR ''/'') t) else None)"

definition path_strip_prefix :: "string \<Rightarrow> string \<Rightarrow> string option" where
  "path_strip_prefix base p =
     (if fst (path_start base) \<noteq> fst (path_start p) then None
      else map_option (\<lambda>rest. rev (skip_dots (rev (skip_dots rest))))
             (drop_parts (path_parts (snd (path_start base))) (snd (path_start p))))"

definition abbreviate_home :: "string option \<Rightarrow> string \<Rightarrow> string" where
  "abbreviate_home env_home p =
     (case home_dir env_home of
        Inl _ \<Rightarrow> from_utf8_lossy p
      | Inr home \<Rightarrow>
          (case path_strip_prefix home p of
             None \<Rightarrow> from_utf8_lossy p
           | Some rest \<Rightarrow> if rest = [] then ''~'' else ''~/'' @ from_utf8_lossy rest))"

section \<open>The table\<close>

text \<open>\<open>chars().count()\<close> of a UTF-8 text: its bytes without the continuation bytes.\<close>

definition char_count :: "string \<Rightarrow> nat" where
  "char_count s = length (filter (\<lambda>c. \<not> cont c) s)"

definition pad_chars :: "nat \<Rightarrow> string \<Rightarrow> string" where
  "pad_chars w s = s @ replicate (w - char_count s) (CHR '' '')"

fun widen :: "nat list \<Rightarrow> string list \<Rightarrow> nat list" where
  "widen (w # ws) (cell # row) = max w (char_count cell) # widen ws row"
| "widen ws row = ws"

definition col_widths :: "string list \<Rightarrow> string list list \<Rightarrow> nat list" where
  "col_widths header rows = foldl widen (replicate (length header) 0) (header # rows)"

fun join_cells :: "string list \<Rightarrow> string" where
  "join_cells [] = []"
| "join_cells [c] = c"
| "join_cells (c # cs) = c @ ''  '' @ join_cells cs"

definition table_line :: "nat list \<Rightarrow> string list \<Rightarrow> string" where
  "table_line ws row = join_cells (map (\<lambda>(w, c). pad_chars w c) (zip ws row))"

definition print_table :: "string list \<Rightarrow> string list list \<Rightarrow> string list" where
  "print_table header rows = map (\<lambda>row. trim_end (table_line (col_widths header rows) row)) (header # rows)"

definition vault_status :: "bool \<Rightarrow> bool \<Rightarrow> string" where
  "vault_status there missing =
     (if there then ''mounted'' else if missing then ''file missing'' else ''-'')"

text \<open>\<open>meta\<close>: the length of a file and its time of modification, where it has them.\<close>

record clock_and_files =
  e_local :: "string \<Rightarrow> int \<Rightarrow> string option"
  e_meta :: "string \<Rightarrow> (u64 \<times> systime option) option"

definition vault_row :: "clock_and_files \<Rightarrow> string option \<Rightarrow> (string \<Rightarrow> string option) \<Rightarrow> (string \<times> u32) list \<Rightarrow> vault \<Rightarrow> string list" where
  "vault_row env home canon mounts v =
     (let (size_text, modified, missing) =
        (case e_meta env (v_path v) of
           Some (n, t) \<Rightarrow>
             (human_size n, (case t of Some s \<Rightarrow> format_local_time (e_local env) s | None \<Rightarrow> ''-''), False)
         | None \<Rightarrow> (''-'', ''-'', True))
      in [v_alias v, abbreviate_home home (v_mountpoint v), abbreviate_home home (v_path v),
          size_text, modified, vault_status (is_mounted canon (v_mountpoint v) mounts) missing])"

definition print_vault_table :: "clock_and_files \<Rightarrow> string option \<Rightarrow> (string \<Rightarrow> string option) \<Rightarrow> vault list \<Rightarrow> (string \<times> u32) list \<Rightarrow> bool \<Rightarrow> string list" where
  "print_vault_table env home canon vs mounts numbered =
     (let header = [''ALIAS'', ''MOUNTPOINT'', ''FILE'', ''SIZE'', ''MODIFIED'', ''STATUS''];
          rows = map (vault_row env home canon mounts) vs
      in print_table (if numbered then [] # header else header)
           (if numbered then map2 (\<lambda>i row. (show_nat (i + 1) @ '')'') # row) [0..<length rows] rows else rows))"

definition cmd_list :: "clock_and_files \<Rightarrow> string option \<Rightarrow> (string \<Rightarrow> string option) \<Rightarrow> string option \<Rightarrow> config \<Rightarrow> cli_error + string list" where
  "cmd_list env home canon info c =
     sbind (config_err (vaults home c)) (\<lambda>vs.
     Inr (if vs = []
          then [''coffer: no vaults registered in '' @ abbreviate_home home (cfg_path c),
                ''Register one with:'', ''    coffer add <alias> <file> <mountpoint>'', ''or while mounting:'',
                ''    coffer mount <file> <mountpoint> --save <alias>'']
          else print_vault_table env home canon vs (coffer_mounts info) False))"

section \<open>The columns line up\<close>

lemma char_count_append [simp]: "char_count (s @ t) = char_count s + char_count t"
  by (simp add: char_count_def)

lemma char_count_pad: "char_count s \<le> w \<Longrightarrow> char_count (pad_chars w s) = w"
proof -
  have "\<not> cont (CHR '' '')" by code_simp
  then show "char_count s \<le> w \<Longrightarrow> char_count (pad_chars w s) = w"
    by (simp add: pad_chars_def) (simp add: char_count_def)
qed

lemma length_widen [simp]: "length (widen ws row) = length ws"
  by (induction ws row rule: widen.induct) simp_all

lemma widen_nth:
  "i < length ws \<Longrightarrow> widen ws row ! i = (if i < length row then max (ws ! i) (char_count (row ! i)) else ws ! i)"
  by (induction ws row arbitrary: i rule: widen.induct) (auto simp: nth_Cons split: nat.split)

lemma foldl_widen:
  assumes "i < length ws"
  shows "length (foldl widen ws rows) = length ws \<and> ws ! i \<le> foldl widen ws rows ! i \<and>
    (\<forall>row \<in> set rows. i < length row \<longrightarrow> char_count (row ! i) \<le> foldl widen ws rows ! i)"
  using assms
proof (induction rows arbitrary: ws)
  case (Cons row rows)
  from Cons.IH [of "widen ws row"] Cons.prems show ?case
    by (auto simp: widen_nth split: if_splits intro: le_trans)
qed simp

lemma widths_enough:
  assumes "row \<in> set (header # rows)" and "i < length row" and "i < length header"
  shows "char_count (row ! i) \<le> col_widths header rows ! i"
  using foldl_widen [of i "replicate (length header) 0" "header # rows"] assms unfolding col_widths_def by auto

lemma line_columns:
  assumes "i < length row" and "length ws = length row" and "\<And>j. j < length row \<Longrightarrow> char_count (row ! j) \<le> ws ! j"
  shows "\<exists>pre post. table_line ws row = pre @ row ! i @ post \<and> char_count pre = (\<Sum>j < i. ws ! j + 2)"
  using assms
proof (induction row arbitrary: i ws)
  case (Cons c row)
  obtain w ws' where ws: "ws = w # ws'" using Cons.prems(2) by (cases ws) auto
  show ?case
  proof (cases i)
    case 0
    have "\<exists>post. table_line ws (c # row) = c @ post"
      by (cases "zip ws' row") (auto simp: table_line_def ws pad_chars_def)
    then obtain post where "table_line ws (c # row) = [] @ c @ post" by auto
    moreover have "char_count [] = 0" by (simp add: char_count_def)
    ultimately show ?thesis using 0 by (intro exI conjI) auto
  next
    case (Suc k)
    have le: "char_count (row ! j) \<le> ws' ! j" if "j < length row" for j
      using Cons.prems(3) [of "Suc j"] that ws by simp
    from Cons.IH [of k ws'] Cons.prems Suc ws le obtain pre post where
      IH: "table_line ws' row = pre @ row ! k @ post" "char_count pre = (\<Sum>j < k. ws' ! j + 2)" by auto
    have "zip ws' row \<noteq> []" using Cons.prems Suc ws by (cases row; cases ws') auto
    then have "table_line ws (c # row) = pad_chars w c @ ''  '' @ table_line ws' row"
      by (cases "zip ws' row") (auto simp: table_line_def ws)
    then have line: "table_line ws (c # row) = (pad_chars w c @ ''  '' @ pre) @ row ! k @ post" by (simp add: IH)
    have "char_count (pad_chars w c) = w" using Cons.prems(3) [of 0] ws by (simp add: char_count_pad)
    moreover have "char_count ''  '' = 2" by code_simp
    moreover have "(\<Sum>j < Suc k. ws ! j + 2) = (w + 2) + (\<Sum>j < k. ws' ! j + 2)"
      unfolding sum.lessThan_Suc_shift by (simp add: ws)
    ultimately have "char_count (pad_chars w c @ ''  '' @ pre) = (\<Sum>j < Suc k. ws ! j + 2)"
      unfolding char_count_append IH(2) by simp
    with line Suc show ?thesis by (intro exI [of _ "pad_chars w c @ ''  '' @ pre"] exI [of _ post]) simp
  qed
qed simp

text \<open>
  In every line the i-th cell starts in the same column; what \<open>trim_end\<close> takes away is blank.
\<close>

lemma columns_line_up:
  assumes "\<forall>row \<in> set rows. length row = length header" and "row \<in> set (header # rows)" and "i < length header"
  shows "\<exists>line pre post. trim_end line \<in> set (print_table header rows) \<and> line = pre @ row ! i @ post \<and>
    char_count pre = (\<Sum>j < i. col_widths header rows ! j + 2)"
proof -
  have len: "length row = length header" using assms by auto
  have "length (col_widths header rows) = length header"
    using foldl_widen [of i "replicate (length header) 0" "header # rows"] assms(3) unfolding col_widths_def by simp
  then have "\<exists>pre post. table_line (col_widths header rows) row = pre @ row ! i @ post \<and>
      char_count pre = (\<Sum>j < i. col_widths header rows ! j + 2)"
    using len assms(3) widths_enough [OF assms(2)] by (intro line_columns) auto
  moreover have "trim_end (table_line (col_widths header rows) row) \<in> set (print_table header rows)"
    using assms(2) by (auto simp: print_table_def)
  ultimately show ?thesis by blast
qed

end
