(* ===== verification/Dispatch.thy ===== *)
theory Dispatch
  imports Backup_Cmd Listing Completions
begin

text \<open>
  The program (\<open>main\<close> of src/src/main.rs): the commands clap has parsed, and what each comes to in
  a world of containers, text files and what is left on standard input. The environment - the
  variables, the working directory, the host's answers - is the record \<open>system\<close>.
\<close>

datatype command =
    CreateCmd string "string option" "string option" "string option" "string option" "string option" bool
  | MountCmd "string option" "string option" "string option" mount_opts
  | UmountCmd "string option"
  | AddCmd vault
  | RemoveCmd string
  | ListCmd
  | CheckCmd string "string option" "string option"
  | BackupCmd string string "string option" "string option"
  | PasswdCmd string "string option" "string option" "string option"
  | InfoCmd string "string option" "string option"
  | CompactCmd string "string option" "string option"
  | CompletionsCmd shell
  | CompleteAliases

datatype answer =
    Finished | Serving mounted | ExitWith nat | Printed "string list" | StillCopying

record world =
  w_console :: console
  w_disk :: "string \<Rightarrow> container option"
    \<comment> \<open>by the file a path leads to\<close>
  w_files :: files

record system =
  y_coffer_config :: "string option"
  y_home :: "string option"
  y_config_dir :: string
  y_config_dir_exists :: bool
  y_stops :: "nat \<Rightarrow> nat option"
  y_node :: "string \<Rightarrow> string"
    \<comment> \<open>the file a path leads to, through links and from the working directory\<close>
  y_flock :: "string \<Rightarrow> flock_answer"
    \<comment> \<open>what \<open>flock\<close> on a file answers: it is refused while another process holds it\<close>
  y_absolute :: "string \<Rightarrow> string option"
  y_exists :: "string \<Rightarrow> bool"
  y_tools :: tools
  y_mount :: mount_host
  y_umount :: host_env
  y_backup :: backup_host
  y_menu :: "string list"
    \<comment> \<open>what is typed at a menu\<close>
  y_table :: clock_and_files
  y_generated :: "shell \<Rightarrow> string"

definition load_registry :: "system \<Rightarrow> world \<Rightarrow> config_error + config" where
  "load_registry y w =
     (case config_path (y_coffer_config y) (y_home y) of Inl e \<Rightarrow> Inl e | Inr p \<Rightarrow> load_file p (w_files w))"

definition container_at :: "system \<Rightarrow> world \<Rightarrow> string \<Rightarrow> container option" where
  "container_at y w p = w_disk w (y_node y p)"

definition is_file :: "system \<Rightarrow> world \<Rightarrow> string \<Rightarrow> bool" where
  "is_file y w p \<longleftrightarrow> container_at y w p \<noteq> None \<or> w_files w p \<noteq> None"

definition put_container :: "system \<Rightarrow> string \<Rightarrow> container option \<Rightarrow> world \<Rightarrow> world" where
  "put_container y p c w = w\<lparr>w_disk := (w_disk w)(y_node y p := c)\<rparr>"

text \<open>The commands that write to a container take its lock.\<close>

definition tools_at :: "system \<Rightarrow> string \<Rightarrow> tools" where
  "tools_at y p = (y_tools y)\<lparr>t_flock := y_flock y (y_node y p)\<rparr>"

definition mount_host_at :: "system \<Rightarrow> world \<Rightarrow> mount_host" where
  "mount_host_at y w =
     (y_mount y)\<lparr>h_prompt := fst (read_password False (w_console w)), h_flock := \<lambda>p. y_flock y (y_node y p)\<rparr>"

text \<open>Running a command on one container.\<close>

definition at_container ::
  "system \<Rightarrow> string \<Rightarrow> (place \<Rightarrow> (cmd_error + 'a) \<times> place) \<Rightarrow> ('a \<Rightarrow> answer) \<Rightarrow> world \<Rightarrow> (cmd_error + answer) \<times> world" where
  "at_container y p m result w =
     (case m (w_console w, container_at y w p) of
        (r, con1, c) \<Rightarrow> (map_sum id result r, put_container y p c (w\<lparr>w_console := con1\<rparr>)))"

definition with_target ::
  "system \<Rightarrow> world \<Rightarrow> string \<Rightarrow> (string \<Rightarrow> (cmd_error + answer) \<times> world) \<Rightarrow> (cmd_error + answer) \<times> world" where
  "with_target y w arg k =
     (case resolve_container (y_home y) (load_registry y w) (y_exists y) arg of
        Inl e \<Rightarrow> (Inl (Cli_Failed e), w)
      | Inr p \<Rightarrow> k p)"

definition register :: "system \<Rightarrow> vault \<Rightarrow> config \<Rightarrow> world \<Rightarrow> (cmd_error + answer) \<times> world" where
  "register y v c w =
     (case cmd_add (is_file y w) (y_absolute y) (y_stops y) (y_config_dir y) (y_config_dir_exists y) v c (w_files w) of
        (r, fs) \<Rightarrow> (map_sum Cli_Failed (\<lambda>_. Finished) r, w\<lparr>w_files := fs\<rparr>))"

definition loading ::
  "system \<Rightarrow> world \<Rightarrow> (config \<Rightarrow> (cmd_error + answer) \<times> world) \<Rightarrow> (cmd_error + answer) \<times> world" where
  "loading y w k =
     (case config_err (load_registry y w) of Inl e \<Rightarrow> (Inl (Cli_Failed e), w) | Inr c \<Rightarrow> k c)"

section \<open>create\<close>

definition new_vault :: "string \<Rightarrow> string \<Rightarrow> string \<Rightarrow> bool \<Rightarrow> vault" where
  "new_vault alias path mountpoint enforce =
     \<lparr>v_alias = alias, v_path = path, v_mountpoint = mountpoint, v_idle_timeout = None, v_compact_on_idle = None,
      v_password_file = None, v_password_command = None, v_log_file = None, v_read_only = False,
      v_enforce_permissions = enforce, v_locking = None\<rparr>"

definition main_create ::
  "system \<Rightarrow> string \<Rightarrow> string option \<Rightarrow> string option \<Rightarrow> string option \<Rightarrow> string option \<Rightarrow> string option \<Rightarrow> bool \<Rightarrow>
     world \<Rightarrow> (cmd_error + answer) \<times> world" where
  "main_create y path size_text pwf pwc save_as mountpoint enforce w =
     (case (case save_as of
              None \<Rightarrow> Inr None
            | Some a \<Rightarrow>
                sbind (config_err (validate_alias a)) (\<lambda>_.
                sbind (config_err (load_registry y w)) (\<lambda>c. Inr (Some (a, c))))) of
        Inl e \<Rightarrow> (Inl (Cli_Failed e), w)
      | Inr saving \<Rightarrow>
          (case at_container y path (cmd_create (y_tools y) size_text pwf pwc) (\<lambda>_. Finished) w of
             (Inl e, w1) \<Rightarrow> (Inl e, w1)
           | (Inr r, w1) \<Rightarrow>
               (case saving of
                  None \<Rightarrow> (Inr r, w1)
                | Some (a, c) \<Rightarrow>
                    (case mountpoint of
                       None \<Rightarrow> (Inl (Cli_Failed Panicked), w1)
                     | Some m \<Rightarrow> register y (new_vault a path m enforce) c w1))))"

section \<open>mount\<close>

definition vault_of :: "string \<Rightarrow> string \<Rightarrow> string \<Rightarrow> mount_opts \<Rightarrow> vault" where
  "vault_of alias path mountpoint opts =
     \<lparr>v_alias = alias, v_path = path, v_mountpoint = mountpoint, v_idle_timeout = o_idle_timeout opts,
      v_compact_on_idle = o_compact_on_idle opts, v_password_file = o_password_file opts,
      v_password_command = o_password_command opts, v_log_file = o_log opts, v_read_only = o_read_only opts,
      v_enforce_permissions = o_enforce_permissions opts, v_locking = o_locking opts\<rparr>"

text \<open>The mount is the last to read a password; what it leaves on standard input is not kept.\<close>

definition main_mount ::
  "system \<Rightarrow> string option \<Rightarrow> string option \<Rightarrow> string option \<Rightarrow> mount_opts \<Rightarrow> world \<Rightarrow> (cmd_error + answer) \<times> world" where
  "main_mount y target mountpoint save_as opts w =
     (case plan_mount (y_home y) (load_registry y w) (is_tty (w_console w)) (y_menu y) target mountpoint opts of
        Inl e \<Rightarrow> (Inl (Cli_Failed e), w)
      | Inr (path, m, opts1) \<Rightarrow>
          (case (case save_as of
                   None \<Rightarrow> (Inr Finished, w)
                 | Some a \<Rightarrow> loading y w (\<lambda>c. register y (vault_of a path m opts1) c w)) of
             (Inl e, w1) \<Rightarrow> (Inl e, w1)
           | (Inr _, w1) \<Rightarrow>
               (case cmd_mount (mount_host_at y w1) path m opts1
                       (container_at y w1 path) of
                  (r, c) \<Rightarrow> (map_sum MountRefused Serving r, put_container y path c w1))))"

section \<open>The other commands\<close>

definition main_backup ::
  "system \<Rightarrow> string \<Rightarrow> string \<Rightarrow> string option \<Rightarrow> string option \<Rightarrow> world \<Rightarrow> (cmd_error + answer) \<times> world" where
  "main_backup y path dest pwf pwc w =
     (case cmd_backup (y_tools y) (y_backup y) (\<lambda>_ _. ()) pwf pwc (w_console w, container_at y w path) ()
             (container_at y w dest) of
        None \<Rightarrow> (Inr StillCopying, w)
      | Some (r, _, dest1, con1, c) \<Rightarrow>
          (map_sum id (\<lambda>_. Finished) r, put_container y dest dest1 (put_container y path c (w\<lparr>w_console := con1\<rparr>))))"

definition alias_lines :: "string option \<Rightarrow> config_error + config \<Rightarrow> string list" where
  "alias_lines home reg =
     (case reg of
        Inl _ \<Rightarrow> []
      | Inr c \<Rightarrow> (case vaults home c of Inl _ \<Rightarrow> [] | Inr vs \<Rightarrow> map v_alias vs))"

fun run_command :: "system \<Rightarrow> command \<Rightarrow> world \<Rightarrow> (cmd_error + answer) \<times> world" where
  "run_command y (CreateCmd path size_text pwf pwc save_as m enforce) w =
     main_create y path size_text pwf pwc save_as m enforce w"
| "run_command y (MountCmd target m save_as opts) w = main_mount y target m save_as opts w"
| "run_command y (UmountCmd target) w =
     (map_sum Cli_Failed ExitWith
        (fst (cmd_umount (y_umount y) (y_home y) (load_registry y w) (is_tty (w_console w)) (y_menu y) target)), w)"
| "run_command y (AddCmd v) w = loading y w (\<lambda>c. register y v c w)"
| "run_command y (RemoveCmd alias) w =
     loading y w (\<lambda>c.
       case cmd_remove (y_stops y) (y_config_dir y) (y_config_dir_exists y) alias c (w_files w) of
         (r, fs) \<Rightarrow> (map_sum Cli_Failed (\<lambda>_. Finished) r, w\<lparr>w_files := fs\<rparr>))"
| "run_command y ListCmd w =
     loading y w (\<lambda>c.
       (map_sum Cli_Failed Printed
          (cmd_list (y_table y) (y_home y) (resolve (y_umount y)) (mountinfo (y_umount y)) c), w))"
| "run_command y (CheckCmd arg pwf pwc) w =
     with_target y w arg (\<lambda>p. at_container y p (cmd_check (y_tools y) pwf pwc) (\<lambda>k. ExitWith (exit_code k)) w)"
| "run_command y (BackupCmd arg dest pwf pwc) w = with_target y w arg (\<lambda>p. main_backup y p dest pwf pwc w)"
| "run_command y (PasswdCmd arg pwf pwc new_file) w =
     with_target y w arg (\<lambda>p. at_container y p (cmd_passwd (tools_at y p) pwf pwc new_file) (\<lambda>_. Finished) w)"
| "run_command y (InfoCmd arg pwf pwc) w =
     with_target y w arg (\<lambda>p.
       at_container y p (cmd_info (y_tools y) pwf pwc) (\<lambda>i. Printed (info_lines (from_utf8_lossy p) i)) w)"
| "run_command y (CompactCmd arg pwf pwc) w =
     with_target y w arg (\<lambda>p. at_container y p (cmd_compact (tools_at y p) pwf pwc) (\<lambda>_. Finished) w)"
| "run_command y (CompletionsCmd sh) w = (Inr (Printed [generate (y_generated y) sh coffer_subcommands]), w)"
| "run_command y CompleteAliases w = (Inr (Printed (alias_lines (y_home y) (load_registry y w))), w)"

end
