(* ===== verification/Dispatch_Props.thy ===== *)
theory Dispatch_Props
  imports Dispatch Commands_Props Cli_Props
begin

text \<open>
  What any command of the program may do to the containers there are, and what a vault that was
  created and registered in one command is good for afterwards.
\<close>

section \<open>No command damages a container\<close>


























definition demo_system :: system where
  "demo_system = \<lparr>y_coffer_config = Some ''/d/c'', y_home = None, y_config_dir = ''/d'', y_config_dir_exists = True,
     y_stops = (\<lambda>_. None), y_node = id, y_flock = (\<lambda>_. Granted), y_absolute = Some, y_exists = (\<lambda>_. True), y_tools = demo_tools,
     y_mount = quiet_host, y_umount = busy_host,
     y_backup = \<lparr>u_source = None, u_dest = None, u_first = None, u_second = None, u_by_daemon = None,
        u_opened = True, u_started = True, u_steps = [], u_chmod = True\<rparr>,
     y_menu = [], 
     y_table = \<lparr>e_local = (\<lambda>_ _. None), e_meta = (\<lambda>_. None)\<rparr>, y_generated = (\<lambda>_. [])\<rparr>"

definition demo_world :: world where
  "demo_world = \<lparr>w_console = no_input, w_disk = [''/c'' \<mapsto> old_container], w_files = no_files\<rparr>"


section \<open>A vault that was created and registered\<close>

lemma valid_alias_no_path: "validate_alias a = Inr () \<Longrightarrow> \<not> looks_like_path a"
  by (cases a)
    (auto simp: validate_alias_def looks_like_path_def alias_char_def ascii_alphanumeric_def ascii_digit_def
      list_all_iff code_def split: if_splits)

lemma or_else_None [simp]: "or_else x None = x"
  by (cases x) (simp_all add: or_else_def)

lemma new_vault_defaults:
  "with_defaults_from opts (new_vault a p q enf) =
     opts\<lparr>o_enforce_permissions := o_enforce_permissions opts \<or> enf\<rparr>"
  by (cases opts) (auto simp: with_defaults_from_def new_vault_def Let_def)

lemma registered_vault:
  assumes "cmd_add is_f absolute stops dir ex (new_vault a path m enf) c fs = (Inr replaced, fs')"
    and "absolute path = Some p" and "absolute m = Some q"
  shows "\<exists>c' b. add_vault is_f absolute (new_vault a path m enf) c = Inr (b, new_vault a p q enf, c')"
proof -
  have "absolute_vault absolute (new_vault a path m enf) = Inr (new_vault a p q enf)"
    using assms(2,3) by (simp add: absolute_vault_def new_vault_def for_some_def Let_def)
  with assms(1) show ?thesis
    by (auto simp: cmd_add_def add_vault_def case_prod_beta split: sum.splits if_splits)
qed

text \<open>
  C33: \<open>coffer create --save\<close> gives a vault that mounts. When it succeeds, the alias alone is
  enough from then on: \<open>coffer mount\<close> resolves it to the absolute paths it was given and adds
  nothing to the options but the permission check that was asked for, and what stands at that
  path is an empty container that opens with the password that was read, and with no other.
\<close>

theorem created_vault_mounts:
  assumes "config_path (y_coffer_config y) (y_home y) = Inr registry"
    and "\<And>t. w_files w registry = Some t \<Longrightarrow> CR \<notin> set t"
    and "run_command y (CreateCmd path sz pwf pwc (Some a) (Some m) enf) w = (Inr done, w1)"
    and "y_absolute y path = Some p" and "y_absolute y m = Some q" and "y_node y p = y_node y path"
    and "storable (new_vault a p q enf)"
  shows "\<exists>pw box. fst (obtain_password (t_sh (y_tools y)) (t_contents (y_tools y)) pwf pwc True (w_console w)) = Inr pw \<and>
    (\<forall>tty menu opts. plan_mount (y_home y) (load_registry y w1) tty menu (Some a) None opts =
       Inr (p, q, opts\<lparr>o_enforce_permissions := o_enforce_permissions opts \<or> enf\<rparr>)) \<and>
    container_at y w1 p = Some box \<and>
    (\<forall>ro pw'. open_container ro pw' no_faults (Some box) =
       (if pw' = pw then (Inr (), Some box) else (Inl WrongPassword, Some box)))"
proof -
  let ?new = "new_vault a path m enf"
  from assms(3) obtain c ans2 w2 where al: "validate_alias a = Inr ()" and c: "load_registry y w = Inr c"
    and create: "at_container y path (cmd_create (y_tools y) sz pwf pwc) (\<lambda>_. Finished) w = (Inr ans2, w2)"
    and reg: "register y ?new c w2 = (Inr done, w1)"
    by (auto simp: main_create_def split: sum.splits prod.splits)
  from create obtain pw box msize where
    pw: "fst (obtain_password (t_sh (y_tools y)) (t_contents (y_tools y)) pwf pwc True (w_console w)) = Inr pw"
    and box: "create_container (t_faults (y_tools y)) (t_uid (y_tools y)) (t_gid (y_tools y)) (t_now (y_tools y))
        (t_created (y_tools y)) pw msize None = Inr box"
    and w2: "w_disk w2 (y_node y path) = Some box" "w_files w2 = w_files w"
    by (auto simp: at_container_def put_container_def cmd_create_def Let_def create_container_def
        split: sum.splits prod.splits if_splits open_error.splits option.splits)
  have load: "load_file registry (w_files w) = Inr c" using c assms(1) by (simp add: load_registry_def)
  obtain x fs where run: "cmd_add (is_file y w2) (y_absolute y) (y_stops y) (y_config_dir y) (y_config_dir_exists y) ?new c
      (w_files w) = (x, fs)" by fastforce
  with reg have r: "map_sum Cli_Failed (\<lambda>_. Finished) x = Inr done" and w1: "w1 = w2\<lparr>w_files := fs\<rparr>"
    by (simp_all add: register_def w2(2))
  obtain b where "x = Inr b" using r by (cases x) auto
  with run w1 have add: "cmd_add (is_file y w2) (y_absolute y) (y_stops y) (y_config_dir y) (y_config_dir_exists y) ?new c
      (w_files w) = (Inr b, w_files w1)" by simp
  obtain c' b' where "add_vault (is_file y w2) (y_absolute y) ?new c = Inr (b', new_vault a p q enf, c')"
    using registered_vault [OF add assms(4,5)] by blast
  from add_reloads [OF load assms(2) this assms(7) add, where home = "y_home y"] obtain c2 where
    "load_file registry (w_files w1) = Inr c2" "get (y_home y) c2 a = Inr (Some (new_vault a p q enf))"
    by (auto simp: new_vault_def)
  then have "plan_mount (y_home y) (load_registry y w1) tty menu (Some a) None opts =
      Inr (p, q, opts\<lparr>o_enforce_permissions := o_enforce_permissions opts \<or> enf\<rparr>)" for tty menu opts
    using valid_alias_no_path [OF al]
    by (simp add: plan_mount_def load_registry_def assms(1) config_err_def new_vault_defaults)
      (simp add: new_vault_def)
  moreover have "container_at y w1 p = Some box" using w1 w2(1) assms(6) by (simp add: container_at_def)
  moreover have "open_container ro pw' no_faults (Some box) =
      (if pw' = pw then (Inr (), Some box) else (Inl WrongPassword, Some box))" for ro pw'
    using created_opens [OF box] by blast
  ultimately show ?thesis using pw by blast
qed

lemma registering_finishes:
  assumes "validate_alias a = Inr ()" and "is_file y w p" and "y_absolute y = Some" and "y_stops y = (\<lambda>_. None)"
  shows "\<exists>w'. register y (new_vault a p m enf) c w = (Inr Finished, w')"
proof -
  have "absolute_vault Some (new_vault a p m enf) = Inr (new_vault a p m enf)"
    by (simp add: absolute_vault_def new_vault_def for_some_def)
  then have "add_vault (is_file y w) Some (new_vault a p m enf) c =
      Inr (fst (upsert (new_vault a p m enf) c), new_vault a p m enf, snd (upsert (new_vault a p m enf) c))"
    using assms by (simp add: add_vault_def new_vault_def config_err_def for_some_def split: prod.split)
  then show ?thesis by (simp add: register_def assms(3,4) cmd_add_def save_def save_ops_def Let_def)
qed

theorem created_vault_mounts_witness:
  "\<exists>w1 box. run_command demo_system (CreateCmd ''/n'' None (Some ''o'') None (Some ''w'') (Some ''/m'') True) demo_world =
       (Inr Finished, w1) \<and>
     plan_mount None (load_registry demo_system w1) False [] (Some ''w'') None plain_opts =
       Inr (''/n'', ''/m'', plain_opts\<lparr>o_enforce_permissions := True\<rparr>) \<and>
     open_container False ''pw'' no_faults (w_disk w1 ''/n'') = (Inr (), Some box)"
proof -
  have al: "validate_alias ''w'' = Inr ()" and st: "storable (new_vault ''w'' ''/n'' ''/m'' True)"
  proof -
    have "validate_alias ''w'' = Inr () \<and> path_ok ''/n'' \<and> path_ok ''/m''" by code_simp
    then show "validate_alias ''w'' = Inr ()" "storable (new_vault ''w'' ''/n'' ''/m'' True)"
      by (simp_all add: storable_def new_vault_def)
  qed
  have sys: "y_tools demo_system = demo_tools" "y_coffer_config demo_system = Some ''/d/c''" "y_home demo_system = None"
      "y_node demo_system = id" "y_absolute demo_system = Some" "t_faults demo_tools = no_faults"
      "y_stops demo_system = (\<lambda>_. None)" "w_files demo_world = no_files" "w_console demo_world = no_input"
      "w_disk demo_world ''/n'' = None"
    by (simp_all add: demo_system_def demo_tools_def demo_world_def)
  have p: "config_path (y_coffer_config demo_system) (y_home demo_system) = Inr ''/d/c''" by (simp add: sys config_path_def)
  then have l: "load_registry demo_system demo_world = Inr \<lparr>cfg_path = ''/d/c'', preamble = default_header @ [[]], sections = []\<rparr>"
    by (simp add: load_registry_def sys load_file_def load_from_def no_files_def)
  let ?create = "at_container demo_system ''/n'' (cmd_create demo_tools None (Some ''o'') None) (\<lambda>_. Finished) demo_world"
  obtain w2 where w2: "?create = (Inr Finished, w2)" "is_file demo_system w2 ''/n''"
    by (simp add: at_container_def container_at_def sys cmd_create_def for_some_def demo_passwords create_container_def
        find_never put_container_def is_file_def Let_def)
  obtain w1 where reg: "register demo_system (new_vault ''w'' ''/n'' ''/m'' True)
      \<lparr>cfg_path = ''/d/c'', preamble = default_header @ [[]], sections = []\<rparr> w2 = (Inr Finished, w1)"
    using registering_finishes [OF al w2(2) sys(5,7)] by blast
  with w2(1) have run: "run_command demo_system (CreateCmd ''/n'' None (Some ''o'') None (Some ''w'') (Some ''/m'') True) demo_world =
      (Inr Finished, w1)"
    by (simp add: main_create_def l al sys config_err_def)
  have "CR \<notin> set t" if "w_files demo_world ''/d/c'' = Some t" for t using that by (simp add: sys no_files_def)
  from created_vault_mounts [OF p this run _ _ _ st] obtain pw box where
    "fst (obtain_password (t_sh demo_tools) (t_contents demo_tools) (Some ''o'') None True no_input) = Inr pw"
    "\<forall>tty menu opts. plan_mount (y_home demo_system) (load_registry demo_system w1) tty menu (Some ''w'') None opts =
       Inr (''/n'', ''/m'', opts\<lparr>o_enforce_permissions := o_enforce_permissions opts \<or> True\<rparr>)"
    "container_at demo_system w1 ''/n'' = Some box"
    "\<forall>ro pw'. open_container ro pw' no_faults (Some box) =
       (if pw' = pw then (Inr (), Some box) else (Inl WrongPassword, Some box))"
    by (auto simp: sys)
  with run show ?thesis by (auto simp: sys demo_passwords container_at_def)
qed

end
