(* ===== verification/Backup_Props.thy ===== *)
theory Backup_Props
  imports Dispatch_Props
begin












end
