(* ===== verification/Sessions.thy ===== *)
theory Sessions
  imports Dispatch_Props
begin

text \<open>
  Several processes on one machine: commands that come and go, mounts that stay, and requests to
  them, in any order. A mount holds the lock of its container file until it ends; what another
  process asking for the lock is answered follows from that.
\<close>

section \<open>Sites\<close>





definition on_disk :: "string \<Rightarrow> (container \<Rightarrow> container) \<Rightarrow> world \<Rightarrow> world" where
  "on_disk n f w = w\<lparr>w_disk := (w_disk w)(n := map_option f (w_disk w n))\<rparr>"








section \<open>A container whose lock is held\<close>









section \<open>What is served is what is on disk\<close>




lemma on_disk_simps [simp]:
  "w_disk (on_disk k f w) n = (if n = k then map_option f (w_disk w n) else w_disk w n)"
  by (simp add: on_disk_def)










section \<open>A mount and the rest of the machine\<close>






end
