(* ===== verification/Build.thy ===== *)
theory Build
  imports Cli
begin

text \<open>
  The build script (\<open>build.rs\<close>): the commit that \<open>coffer --version\<close> shows. Three places
  are asked, and all three before the first answer is taken, so cutting \<open>GITHUB_SHA\<close> at its
  seventh byte can stop the build even where another place answers.
\<close>

section \<open>The three sources\<close>

text \<open>\<open>std::env::var\<close>: a variable that is not set or not UTF-8 is an error.\<close>

definition env_var :: "string option \<Rightarrow> string option" where
  "env_var v = Option.bind v to_str"

definition not_blank :: "string \<Rightarrow> string option" where
  "not_blank s = (let t = trim s in if t = [] then None else Some t)"

definition from_env :: "string option \<Rightarrow> string option" where
  "from_env v = Option.bind (env_var v) not_blank"

definition from_git :: "command_result \<Rightarrow> string option" where
  "from_git r = (case r of Output stdout \<Rightarrow> Option.bind (to_str stdout) not_blank | _ \<Rightarrow> None)"

text \<open>\<open>s[..7]\<close> panics where byte 7 is not the start of a character.\<close>

datatype build_error = NotACharBoundary

definition from_ci :: "string option \<Rightarrow> build_error + string option" where
  "from_ci v =
     (case env_var v of
        None \<Rightarrow> Inr None
      | Some s \<Rightarrow>
          if length s < 7 then Inr None
          else if length s \<noteq> 7 \<and> cont (s ! 7) then Inl NotACharBoundary
          else Inr (Some (take 7 s)))"

fun or_else :: "'a option \<Rightarrow> 'a option \<Rightarrow> 'a option" where
  "or_else None b = b"
| "or_else (Some a) b = Some a"

definition git_hash :: "string option \<Rightarrow> command_result \<Rightarrow> string option \<Rightarrow> build_error + string" where
  "git_hash env git ci =
     (case from_ci ci of
        Inl e \<Rightarrow> Inl e
      | Inr c \<Rightarrow>
          Inr (case or_else (or_else (from_env env) (from_git git)) c of None \<Rightarrow> ''unknown'' | Some h \<Rightarrow> h))"

text \<open>What cargo is told, a line each.\<close>

definition build_main :: "string option \<Rightarrow> command_result \<Rightarrow> string option \<Rightarrow> build_error + string list" where
  "build_main env git ci =
     map_sum id (\<lambda>hash.
       [''cargo:rustc-env=COFFER_GIT_HASH='' @ hash,
        ''cargo:rerun-if-changed=.git/HEAD'', ''cargo:rerun-if-changed=.git/refs'',
        ''cargo:rerun-if-env-changed=GITHUB_SHA'', ''cargo:rerun-if-env-changed=COFFER_GIT_HASH''])
       (git_hash env git ci)"

text \<open>The version \<open>coffer --version\<close> prints.\<close>

definition version :: "string \<Rightarrow> string \<Rightarrow> string" where
  "version package hash = package @ '' ('' @ hash @ '')''"

section \<open>What a build shows\<close>

lemma not_blank_Some: "not_blank s = Some t \<Longrightarrow> t \<noteq> [] \<and> t = trim s"
  by (simp add: not_blank_def Let_def split: if_splits)

text \<open>There is always something between the parentheses of the version.\<close>

lemma git_hash_not_empty:
  assumes "git_hash env git ci = Inr h"
  shows "h \<noteq> []"
proof -
  have sources: "from_env env \<noteq> Some []" "from_git git \<noteq> Some []" "from_ci ci \<noteq> Inr (Some [])"
    by (auto simp: from_env_def from_git_def from_ci_def bind_eq_Some_conv dest: not_blank_Some
        split: option.splits command_result.splits if_splits)
  obtain c where c: "from_ci ci = Inr c" using assms by (cases "from_ci ci") (auto simp: git_hash_def)
  with assms sources show ?thesis
    by (cases "from_env env"; cases "from_git git"; cases c) (auto simp: git_hash_def)
qed

text \<open>A commit id is ASCII, so the build inside the release workflow never stops here.\<close>

lemma from_ci_ascii:
  assumes "\<And>c. c \<in> set s \<Longrightarrow> code c < 128" and "7 \<le> length s"
  shows "from_ci (Some s) = Inr (Some (take 7 s))"
proof -
  have "\<not> cont (s ! 7)" if "7 < length s" using assms(1) [of "s ! 7"] that by (simp add: cont_def)
  moreover have "utf8_valid s" using assms(1) by (intro utf8_all_ascii) simp
  ultimately show ?thesis using assms(2) by (auto simp: from_ci_def env_var_def to_str_def)
qed

end
