(* ===== verification/Host_Calls.thy ===== *)
theory Host_Calls
  imports Mounts Progress
begin

text \<open>
  The small functions around one call of the system or of the engine: where the temporary copy
  of a compaction goes, the first page of an open container, the log file, the warnings about
  permissions, the width of the terminal. What the call answers is an argument.
\<close>

section \<open>The directory of temporary files\<close>

text \<open>\<open>Path::parent\<close>, in the normal form of its components.\<close>

definition dir_of :: "string \<Rightarrow> string option" where
  "dir_of s =
     (let ps = path_parts s; dir = join_parts (butlast ps) in
      if prefix ''/'' s then (if ps = [] then None else Some (''/'' @ dir))
      else if s = [] then None
      else if ps \<noteq> [] \<and> dir = [] \<and> prefix ''./'' s then Some ''.''
      else Some dir)"

definition set_temp_dir_beside :: "string \<Rightarrow> (string \<Rightarrow> string option) \<Rightarrow> (string \<Rightarrow> string option)" where
  "set_temp_dir_beside container env =
     (case dir_of container of
        None \<Rightarrow> env
      | Some dir \<Rightarrow> if dir = [] then env else env(''SQLITE_TMPDIR'' \<mapsto> dir))"

text \<open>The path of a container is absolute where this is called: there is always a directory beside it.\<close>

lemma temp_dir_is_set:
  assumes "prefix ''/'' p" and "file_name p \<noteq> None"
  shows "\<exists>dir. set_temp_dir_beside p env ''SQLITE_TMPDIR'' = Some dir \<and> prefix ''/'' dir"
  using assms by (auto simp: set_temp_dir_beside_def dir_of_def file_name_def Let_def split: if_splits)

section \<open>The first page of an open container\<close>

text \<open>
  The file handle SQLite has open. It may be missing, or have no methods, or none to read;
  \<open>xRead\<close> takes the number of bytes and the offset, and answers a result code and the buffer.
\<close>

type_synonym x_read = "nat \<Rightarrow> nat \<Rightarrow> int \<times> string"

record sqlite_file =
  f_methods :: "x_read option option"

datatype page_error = NoFileHandle int | CannotRead | PageNotRead int

definition read_first_page :: "int \<Rightarrow> sqlite_file option \<Rightarrow> page_error + string" where
  "read_first_page rc file =
     (if rc \<noteq> 0 then Inl (NoFileHandle rc)
      else case Option.bind file f_methods of
        None \<Rightarrow> Inl (NoFileHandle rc)
      | Some None \<Rightarrow> Inl CannotRead
      | Some (Some x_read) \<Rightarrow>
          (case x_read 4096 0 of
             (rc1, page) \<Rightarrow> if rc1 \<noteq> 0 then Inl (PageNotRead rc1) else Inr page))"

lemma read_first_page_Inr:
  "read_first_page rc file = Inr page \<longleftrightarrow>
     rc = 0 \<and> (\<exists>f r. file = Some f \<and> f_methods f = Some (Some r) \<and> r 4096 0 = (0, page))"
  by (auto simp: read_first_page_def bind_eq_Some_conv bind_eq_None_conv split: option.splits prod.splits)

definition errmsg :: "string option \<Rightarrow> string" where
  "errmsg p = (case p of None \<Rightarrow> ''unknown error'' | Some s \<Rightarrow> from_utf8_lossy s)"

section \<open>Log and permissions\<close>

text \<open>Files with their permission bits. The log is appended to; a new one is created with mode 0600.\<close>

type_synonym mode_files = "string \<Rightarrow> (u32 \<times> string) option"

definition open_log :: "(string \<Rightarrow> bool) \<Rightarrow> u32 \<Rightarrow> string \<Rightarrow> mode_files \<Rightarrow> string + mode_files" where
  "open_log opens umask path files =
     (if \<not> opens path then Inl (''opening log file '' @ from_utf8_lossy path)
      else Inr (if files path = None then files(path \<mapsto> (0x180 AND NOT umask, [])) else files))"

definition log_line :: "(string \<Rightarrow> int \<Rightarrow> string option) \<Rightarrow> systime \<Rightarrow> string \<Rightarrow> string" where
  "log_line local now msg = strftime_local local now ''%Y-%m-%d %H:%M:%S'' @ '' coffer: '' @ msg @ [NL]"

definition warn_if_world_readable :: "string \<Rightarrow> u32 option \<Rightarrow> string list" where
  "warn_if_world_readable path mode =
     (case mode of
        None \<Rightarrow> []
      | Some m \<Rightarrow>
          if m AND 0x3F = 0 then []
          else [''warning: '' @ from_utf8_lossy path @ '' is readable by others - consider: chmod 600 '' @
                from_utf8_lossy path])"

lemma private_mode: "(0x180 AND NOT umask) AND 0x3F = (0 :: u32)"
proof -
  have "(0x180 AND NOT umask) AND 0x3F = (0x180 AND 0x3F) AND NOT umask" by (simp only: ac_simps)
  then show ?thesis by simp
qed

text \<open>A log that was there keeps its lines; one that is new is the user's alone.\<close>

lemma log_is_appended_to:
  assumes "open_log opens umask path files = Inr files1"
  shows "\<exists>m old. files1 path = Some (m, old) \<and>
    (case files path of None \<Rightarrow> old = [] \<and> warn_if_world_readable path (Some m) = [] | Some f \<Rightarrow> f = (m, old))"
  using assms by (auto simp: open_log_def warn_if_world_readable_def private_mode split: if_splits)

section \<open>Unmounting by force\<close>

datatype abort_answer = Aborted | NoConnection | AbortFailed string

definition abort_path :: "u32 \<Rightarrow> string" where
  "abort_path conn = ''/sys/fs/fuse/connections/'' @ show_nat (unat conn) @ ''/abort''"

text \<open>The file that is written, what is written to it, and what the user is told.\<close>

definition abort_fuse_connection :: "abort_answer \<Rightarrow> u32 \<Rightarrow> string \<Rightarrow> (string \<times> string) \<times> string list" where
  "abort_fuse_connection answer conn mountpoint =
     (let abort = abort_path conn; shown = from_utf8_lossy mountpoint in
      ((abort, ''1''),
       case answer of
         Aborted \<Rightarrow>
           [''coffer: '' @ shown @ '' was still in use by another process - detached it and aborted the '' @
            ''FUSE connection, so the coffer daemon exits and releases the container now. Anything that '' @
            ''still had files open there gets I/O errors from here on.'']
       | NoConnection \<Rightarrow> []
       | AbortFailed e \<Rightarrow>
           [''coffer: '' @ shown @ '' was still in use by another process - detached it, but could not abort '' @
            ''the FUSE connection ('' @ abort @ '': '' @ e @ ''). Until whatever holds it lets go, the coffer daemon keeps '' @
            ''running and keeps the container locked (also for mounts from other hosts, if it lives on a '' @
            ''network filesystem). To force it:'' @ [NL] @ ''    echo 1 > '' @ abort]))"

definition hint_sudo_umount :: "string \<Rightarrow> string list" where
  "hint_sudo_umount mountpoint =
     [''If that failed with a permission error even though you'' @ [CHR 0x27] @ ''re the one who '' @
      ''mounted it, try:'' @ [NL] @ ''    sudo umount '' @ from_utf8_lossy mountpoint]"

text \<open>No two connections share the file that ends them.\<close>

lemma abort_path_inj: "abort_path a = abort_path b \<Longrightarrow> a = b"
  by (metis abort_path_def append_same_eq same_append_eq show_nat_digits word_unat_eq_iff)

section \<open>Terminal and socket\<close>

definition term_width :: "16 word option \<Rightarrow> nat" where
  "term_width ws_col = (case ws_col of Some cols \<Rightarrow> if cols > 0 then unat cols else 80 | None \<Rightarrow> 80)"

lemma term_width_pos: "0 < term_width ws_col"
  by (auto simp: term_width_def unat_gt_0 split: option.split)

text \<open>Where the daemon keeps the scratch copy of a page: beside its socket.\<close>

definition scratch_dir :: "string \<Rightarrow> string \<Rightarrow> string" where
  "scratch_dir temp_dir socket = (case dir_of socket of None \<Rightarrow> temp_dir | Some dir \<Rightarrow> dir)"

definition drop_socket_guard :: "string \<Rightarrow> (string \<Rightarrow> 'a option) \<Rightarrow> (string \<Rightarrow> 'a option)" where
  "drop_socket_guard path files = files(path := None)"

section \<open>The handshake with the kernel\<close>

text \<open>\<open>init\<close> asks for one capability and does not mind a kernel that lacks it.\<close>

definition fs_init :: "('flag \<Rightarrow> 'config \<Rightarrow> ('flag + unit) \<times> 'config) \<Rightarrow> 'flag \<Rightarrow> 'config \<Rightarrow> (string + unit) \<times> 'config" where
  "fs_init add_capabilities handle_killpriv_v2 config =
     (case add_capabilities handle_killpriv_v2 config of (_, config1) \<Rightarrow> (Inr (), config1))"

end
