(* ===== verification/Fs_Types.thy ===== *)
theory Fs_Types
  imports Fs_Machine
begin

text \<open>
  What an inode is never changes: its type, the type bits of its mode and the target of a
  symbolic link stay what they were made as, whatever is done to it.
\<close>

definition FMT :: int where "FMT = 0xF000"

definition type_bits :: "i64 \<Rightarrow> int" where
  "type_bits k = (if k = KIND_DIR then 0x4000 else if k = KIND_SYMLINK then 0xA000 else 0x8000)"

definition typed :: "inode \<Rightarrow> bool" where
  "typed r \<longleftrightarrow> i_kind r \<in> {KIND_DIR, KIND_FILE, KIND_SYMLINK} \<and> i_mode r AND FMT = type_bits (i_kind r) \<and>
     (i_target r \<noteq> None \<longleftrightarrow> i_kind r = KIND_SYMLINK)"

definition types_ok :: "db \<Rightarrow> bool" where
  "types_ok d \<longleftrightarrow> (\<forall>i r. inode_at d i = Some r \<longrightarrow> typed r)"

definition same_type :: "inode \<Rightarrow> inode \<Rightarrow> bool" where
  "same_type r r' \<longleftrightarrow> i_kind r' = i_kind r \<and> i_target r' = i_target r \<and> i_mode r' AND FMT = i_mode r AND FMT"

definition type_frame :: "db \<Rightarrow> db \<Rightarrow> bool" where
  "type_frame d d' \<longleftrightarrow> (\<forall>i r'. inode_at d' i = Some r' \<longrightarrow> (\<exists>r. inode_at d i = Some r \<and> same_type r r'))"

lemma same_type_refl [simp]: "same_type r r"
  by (simp add: same_type_def)

lemma same_type_trans: "same_type a b \<Longrightarrow> same_type b c \<Longrightarrow> same_type a c"
  by (simp add: same_type_def)

lemma same_typed: "same_type r r' \<Longrightarrow> typed r \<Longrightarrow> typed r'"
  by (simp add: same_type_def typed_def)

section \<open>Effects that keep the types\<close>

named_theorems type_frames \<open>effects that keep the type of every inode\<close>

lemma type_frame_refl [type_frames]: "type_frame d d"
  by (auto simp: type_frame_def)

lemma type_frame_trans: "type_frame a b \<Longrightarrow> type_frame b c \<Longrightarrow> type_frame a c"
  unfolding type_frame_def by (meson same_type_trans)

lemma type_frame_inodes: "t_inodes d' = t_inodes e \<Longrightarrow> type_frame d e \<Longrightarrow> type_frame d d'"
  by (simp add: type_frame_def)

lemma type_frame_update:
  assumes "\<And>r. inode_at e i = Some r \<Longrightarrow> same_type r (f r)" and "type_frame d e"
  shows "type_frame d (update_inode i f e)"
  using assms unfolding type_frame_def
  by (auto simp: update_inode_other split: if_splits) (metis same_type_trans)

lemma stamps_type [simp]: "same_type r (set_mc now r)" "same_type r (set_c now r)" "same_type r (set_size n now r)"
  by (simp_all add: same_type_def set_mc_def set_c_def set_size_def)

lemma mask_other_bits: "NOT m AND FMT = FMT \<Longrightarrow> (x AND NOT m) AND FMT = x AND (FMT :: int)"
  by (simp add: and.assoc)

lemma drops_type [simp]: "same_type r (drop_suid r)" "same_type r (drop_sgid r)"
  by (simp_all add: same_type_def drop_suid_def drop_sgid_def and.assoc FMT_def)

lemma chmod_type: "((old AND - 4096) OR (x AND PERM_BITS)) AND FMT = old AND (FMT :: int)"
  by (simp add: bit.conj_disj_distrib2 and.assoc FMT_def)

lemma type_frame_delete: "type_frame d e \<Longrightarrow> type_frame d (db_delete_inode i e)"
  by (auto simp: type_frame_def db_delete_inode_def split: if_splits)

lemma type_frame_unlink: "type_frame d (db_unlink p n i now d)"
proof -
  have e: "type_frame d (delete_dentry p n d)"
    by (auto simp: type_frame_def delete_dentry_def)
  show ?thesis
    unfolding db_unlink_def Let_def
    by (rule type_frame_update) (auto intro: type_frame_delete type_frame_update e)
qed

lemma type_frame_rename: "type_frame d (db_rename p n np nn i now now' d)"
proof -
  have r: "type_frame d (db_replace i np nn now d)"
    by (auto simp: db_replace_def type_frame_unlink type_frame_refl split: option.split)
  have m: "type_frame e (db_move p n np nn e)" for e
    by (simp add: db_move_def type_frame_def)
  have t: "type_frame e (db_touch_dirs p np now' e)" for e
    by (auto simp: db_touch_dirs_def type_frame_def split: if_splits)
  show ?thesis
    unfolding db_rename_def by (rule type_frame_trans [OF type_frame_trans [OF r m]]) (rule t)
qed

lemma type_frame_xattrs: "type_frame d (db_set_xattr i n v d)" "type_frame d (db_remove_xattr i n d)"
  by (simp_all add: type_frame_def db_set_xattr_def db_remove_xattr_def)

lemma type_frame_kill:
  assumes "type_frame d e"
  shows "type_frame d (db_kill_if b i e)"
proof -
  have "same_type r ((drop_sgid \<circ> drop_suid) r)" for r
    using drops_type same_type_trans by (metis comp_apply)
  then have "type_frame d (update_inode i (drop_sgid \<circ> drop_suid) e)"
    using assms by (rule type_frame_update)
  then have "type_frame d (db_kill_priv i e)"
    by (auto simp: db_kill_priv_def Let_def intro: type_frame_inodes [rotated])
  with assms show ?thesis by (simp add: db_kill_if_def)
qed

lemma type_frame_setattr:
  assumes "inode_at d i = Some r"
  shows "type_frame d (db_times i b a m (db_size i sz now' (db_owner i (map_row d i r) now u g (db_mode i (i_mode r) now mode d))))"
proof -
  have 1: "type_frame d (db_mode i (i_mode r) now mode d)"
    using assms by (auto simp: db_mode_def same_type_def chmod_type intro!: type_frame_update type_frame_refl split: option.split)
  have 2: "type_frame e (db_owner i row now u g e)" for e row
    by (auto simp: db_owner_def same_type_def intro!: type_frame_update type_frame_refl)
  have 3: "type_frame e (db_size i sz now' e)" for e
    by (auto simp: db_size_def db_truncate_def same_type_def intro!: type_frame_update type_frame_inodes [OF truncate_frame(1)]
        type_frame_refl split: option.split)
  have 4: "type_frame e (db_times i b a m e)" for e
    by (auto simp: db_times_def same_type_def intro!: type_frame_update type_frame_refl)
  show ?thesis using 1 2 3 4 by (meson type_frame_trans)
qed

section \<open>New inodes\<close>

lemma new_types:
  "typed (new_inode KIND_DIR (uint (S_IFDIR OR (mode AND 0xFFF))) u g None now)"
  "typed (new_inode KIND_FILE (uint (S_IFREG OR (mode AND 0xFFF))) u g None now)"
  "typed (new_inode KIND_SYMLINK (uint (S_IFLNK OR 0x1FF :: u32)) u g (Some t) now)"
  by (simp_all add: typed_def new_inode_def type_bits_def FMT_def uint_or uint_and bit.conj_disj_distrib2 and.assoc)

lemma child_types:
  assumes "wf_db d" and "next_rowid d < 2 ^ 63" and "inode_at (db_insert_child p n r now d) i = Some r'"
  shows "(\<exists>r0. inode_at d i = Some r0 \<and> same_type r0 r') \<or> inode_at d i = None \<and> same_type r r'"
proof -
  have at: "inode_at (db_insert_child p n r now d) i = (if i = p then map_option (set_mc now) else (\<lambda>x. x))
      (map_of (t_inodes d @ [(word_of_nat (next_rowid d), r)]) i)"
    by (simp add: db_insert_child_def db_link_def update_inode_other)
  have "inode_at d (word_of_nat (next_rowid d)) = None"
    by (rule fresh_number(2)) (use assms in auto)
  with at assms(3) show ?thesis
    by (auto simp: map_add_def split: option.splits if_splits)
qed

lemma applied_types:
  assumes "applied uid gid q d d'" and "wf_db d" and "inode_at d' i = Some r'"
  shows "(\<exists>r. inode_at d i = Some r \<and> same_type r r') \<or> inode_at d i = None \<and> typed r'"
proof -
  have keep: "type_frame d d' \<Longrightarrow> ?thesis" using assms(3) by (auto simp: type_frame_def)
  show ?thesis
    using assms(1)
  proof cases
    case (mkdir n p mode now)
    then show ?thesis using child_types [OF assms(2)] assms(3) same_typed [OF _ new_types(1)] by metis
  next
    case (create n p mode now)
    then show ?thesis using child_types [OF assms(2)] assms(3) same_typed [OF _ new_types(2)] by metis
  next
    case (symlink n t p now)
    then show ?thesis using child_types [OF assms(2)] assms(3) same_typed [OF _ new_types(3)] by metis
  next
    case (write_data j r off dat k now)
    have "type_frame d (db_write_blocks j (unat off) dat d)"
      by (rule type_frame_inodes [OF write_frame(1) [OF assms(2)] type_frame_refl])
    with write_data show ?thesis by (intro keep) (auto intro!: type_frame_kill type_frame_update)
  next
    case setattr
    then show ?thesis by (auto intro!: keep type_frame_kill type_frame_setattr)
  next
    case link
    then show ?thesis
      by (auto intro!: keep type_frame_update type_frame_refl simp: db_link_def) (simp add: type_frame_def)
  qed (auto intro!: keep type_frame_unlink type_frame_rename type_frame_update type_frame_xattrs)
qed

lemma applied_seq:
  assumes "applied uid gid q d d'" and "wf_db d"
  shows "inode_seq d \<le> inode_seq d'"
  using assms(1)
proof cases
  case (write_data i r off dat k now)
  then show ?thesis
    using db_write_blocks_seq [OF assms(2)] by (simp add: db_kill_if_def db_kill_priv_def Let_def)
next
  case (setattr i r sz ru mode u g atm mtm a m now' now)
  then show ?thesis
    by (simp add: db_kill_if_def db_kill_priv_def Let_def db_times_def db_size_def db_owner_def db_mode_def
        db_truncate_def truncate_frame split: option.split)
qed (simp_all add: assms(2) db_insert_child_seq db_unlink_seq db_rename_seq db_link_def db_set_xattr_def db_remove_xattr_def)

section \<open>The invariant\<close>

definition type_inv :: "u64 \<Rightarrow> inode \<Rightarrow> db \<Rightarrow> bool" where
  "type_inv i r d \<longleftrightarrow> wf_db d \<and> types_ok d \<and> unat i \<le> inode_seq d \<and>
     (\<forall>r'. inode_at d i = Some r' \<longrightarrow> same_type r r')"

lemma type_inv_applied:
  assumes "type_inv i r d" and "applied uid gid q d d'" and "wf_db d'"
  shows "type_inv i r d'"
proof -
  have wf: "wf_db d" and types: "types_ok d" and seq: "unat i \<le> inode_seq d"
    and same: "inode_at d i = Some r' \<Longrightarrow> same_type r r'" for r'
    using assms(1) by (auto simp: type_inv_def)
  have "typed r'" if "inode_at d' j = Some r'" for j r'
    using applied_types [OF assms(2) wf that] types same_typed by (auto simp: types_ok_def)
  moreover have "same_type r r'" if r': "inode_at d' i = Some r'" for r'
    using applied_types [OF assms(2) wf r'] applied_fresh [OF assms(2) wf, of i] seq same r'
    by (auto intro: same_type_trans)
  ultimately show ?thesis
    using assms(3) seq applied_seq [OF assms(2) wf] by (auto simp: type_inv_def types_ok_def)
qed

interpretation type_machine: invariant_machine "step h" kernel_ok "\<lambda>self. type_inv i r (tables self)" for h i r
proof
  fix self q
  assume inv: "type_inv i r (tables self)" and ok: "kernel_ok self q"
  then have "wf_db (tables (step h q self))"
    by (auto simp: type_inv_def intro: wf_machine.step_inv)
  with inv show "type_inv i r (tables (step h q self))"
    by (cases rule: step_cases [of h q self]) (auto intro: type_inv_applied)
qed

text \<open>
  C10: what an inode is never changes. After any sequence of requests the type bits of every
  stored mode agree with the kind of the inode and only symbolic links have a target, and an
  inode number that stood for a directory, a file or a link with some target still stands for
  it as long as it exists: no chmod, rename, truncation or failing statement turns one into
  another, and no number is given to something else.
\<close>

theorem inode_types_are_stable:
  assumes "wf_db (tables self)" and "types_ok (tables self)" and "inode_at (tables self) i = Some r"
    and "admissible kernel_ok (step h) qs self" and "k \<le> length qs"
  defines "d \<equiv> tables (run h (take k qs) self)"
  shows "types_ok d \<and> (\<forall>r'. inode_at d i = Some r' \<longrightarrow>
    i_kind r' = i_kind r \<and> i_target r' = i_target r \<and> i_mode r' AND FMT = i_mode r AND FMT)"
proof -
  have "type_inv i r (tables self)"
    using assms(1-3) wf_seq [OF assms(1,3)] by (simp add: type_inv_def)
  then have "type_inv i r d"
    unfolding d_def run_def by (rule type_machine.always_inv) (rule assms(4,5))+
  then show ?thesis unfolding type_inv_def same_type_def by blast
qed

theorem inode_types_are_stable_witness:
  "types_ok (tables (run demo_host [Mkdir 1 ''new'' 0x1ED, Setattr 0 2 (Some 0x41ED) None None None None None] demo_fs)) \<and>
   map_option i_kind (inode_at (tables (run demo_host
     [Mkdir 1 ''new'' 0x1ED, Setattr 0 2 (Some 0x41ED) None None None None None] demo_fs)) 2) \<in> {None, Some KIND_FILE}"
proof -
  have "types_ok demo_db"
    by (auto simp: types_ok_def typed_def type_bits_def FMT_def demo_defs split: if_splits)
  with inode_types_are_stable [of demo_fs 2 "the (inode_at demo_db 2)" demo_host
      "[Mkdir 1 ''new'' 0x1ED, Setattr 0 2 (Some 0x41ED) None None None None None]" 2]
  show ?thesis by (auto simp add: demo_is_dir demo_inode_at demo_inode_def)
qed

end
